(* ===== verification/Wcwidth.thy ===== *)
theory Wcwidth
  imports Width_Tables
begin

text \<open>
  \<open>musl-ctype/wcwidth.c\<close> and \<open>musl-ctype/wcswidth.c\<close>: the binary search over an
  interval table, the column width of a wide character and of a wide string. A \<open>wchar_t\<close> is a
  32-bit word; whether it is signed (x86, MIPS) or not (ARM) is the argument \<open>sg\<close> of the
  definitions that compare it. A table access outside its table is \<open>None\<close>, and so is an \<open>int\<close> that
  leaves its range.
\<close>

section \<open>Definitions\<close>

text \<open>
  The loop of \<open>intable\<close>; \<open>bot'\<close> and \<open>top'\<close> are its C variables \<open>bot\<close> and \<open>top\<close>. Their sum is less than
  twice the number of entries and stays in the range of \<open>int\<close> for tables of up to \<open>2 ^ 30\<close> entries;
  the two tables have 440 together.
\<close>

function intable_loop :: "width_interval list \<Rightarrow> int \<Rightarrow> int \<Rightarrow> int \<Rightarrow> bool option" where
  "intable_loop table c bot' top' =
     (if top' \<ge> bot' then
        let mid = (bot' + top') div 2 in
        case rd table (nat mid) of
          None \<Rightarrow> None
        | Some e \<Rightarrow>
            if wi_end e < c then intable_loop table c (mid + 1) top'
            else if wi_start e > c then intable_loop table c bot' (mid - 1)
            else Some True
      else Some False)"
  by pat_completeness auto
termination
  by (relation "measure (\<lambda>(table, c, bot', top'). nat (top' - bot' + 1))") auto

declare intable_loop.simps [simp del]

definition intable :: "width_interval list \<Rightarrow> int \<Rightarrow> int \<Rightarrow> bool option" where
  "intable table table_length c =
     (case rd table 0 of
        None \<Rightarrow> None
      | Some e \<Rightarrow> if c < wi_start e then Some False
                  else intable_loop table c 0 (table_length - 1))"

text \<open>The value of a \<open>wchar_t\<close>, and its conversion to the parameter \<open>int c\<close> of \<open>intable\<close>.\<close>

definition wchar_value :: "bool \<Rightarrow> u32 \<Rightarrow> int" where
  "wchar_value sg w = (if sg then sint w else uint w)"

definition wcwidth :: "bool \<Rightarrow> u32 \<Rightarrow> int option" where
  "wcwidth sg w =
     (let ucs = wchar_value sg w; c = sint w in
      if ucs = 0 \<or> ucs = 0x034F \<or> (0x200B \<le> ucs \<and> ucs \<le> 0x200F) \<or> ucs = 0x2028 \<or>
         ucs = 0x2029 \<or> (0x202A \<le> ucs \<and> ucs \<le> 0x202E) \<or> (0x2060 \<le> ucs \<and> ucs \<le> 0x2063)
      then Some 0
      else if ucs < 32 \<or> (0x07F \<le> ucs \<and> ucs < 0x0A0) then Some (-1)
      else case intable ZERO_WIDTH (int (length ZERO_WIDTH)) c of
          None \<Rightarrow> None
        | Some True \<Rightarrow> Some 0
        | Some False \<Rightarrow>
           (case intable WIDE_EASTASIAN (int (length WIDE_EASTASIAN)) c of
              None \<Rightarrow> None
            | Some w \<Rightarrow> Some (if w then 2 else 1)))"

text \<open>
  The \<open>for\<close> loop of \<open>wcswidth\<close> with its variables \<open>n\<close>, \<open>l\<close>, \<open>k\<close>; the list is the
  memory from the pointer \<open>wcs\<close> on. The tests run in the source's order: \<open>n--\<close>, then
  \<open>*wcs\<close>, then \<open>wcwidth\<close>. The result is the pair of \<open>l\<close> and \<open>k\<close> when the loop ends; a sum \<open>l\<close> beyond
  \<open>INT_MAX\<close> is undefined.
\<close>

fun wcswidth_loop :: "bool \<Rightarrow> u32 list \<Rightarrow> nat \<Rightarrow> int \<Rightarrow> int \<Rightarrow> (int \<times> int) option" where
  "wcswidth_loop sg wcs 0 l k = Some (l, k)"
| "wcswidth_loop sg [] (Suc n) l k = None"
| "wcswidth_loop sg (w # wcs) (Suc n) l k =
     (if w = 0 then Some (l, k)
      else case wcwidth sg w of
          None \<Rightarrow> None
        | Some k' \<Rightarrow>
            if k' \<ge> 0 then
              if l + k' < 2 ^ 31 then wcswidth_loop sg wcs n (l + k') k' else None
            else Some (l, k'))"

definition wcswidth :: "bool \<Rightarrow> u32 list \<Rightarrow> nat \<Rightarrow> int option" where
  "wcswidth sg wcs n =
     map_option (\<lambda>(l, k). if k < 0 then k else l) (wcswidth_loop sg wcs n 0 0)"

section \<open>Binary search over a table of disjoint intervals\<close>

text \<open>The specification of a table: membership of \<open>c\<close> in one of its intervals.\<close>

definition covered :: "width_interval list \<Rightarrow> int \<Rightarrow> bool" where
  "covered table c \<longleftrightarrow> (\<exists>e \<in> set table. wi_start e \<le> c \<and> c \<le> wi_end e)"

text \<open>Ascending, disjoint, non-empty intervals: checked pair by pair.\<close>

fun ascending :: "width_interval list \<Rightarrow> bool" where
  "ascending [] = True"
| "ascending [e] = (wi_start e \<le> wi_end e)"
| "ascending (e # f # es) =
     (wi_start e \<le> wi_end e \<and> wi_end e < wi_start f \<and> ascending (f # es))"

lemma ascending_valid: "ascending es \<Longrightarrow> e \<in> set es \<Longrightarrow> wi_start e \<le> wi_end e"
  by (induction es rule: ascending.induct) auto

lemma ascending_head:
  "ascending (e # es) \<Longrightarrow> f \<in> set es \<Longrightarrow> wi_end e < wi_start f"
proof (induction es arbitrary: e)
  case (Cons a es)
  then have "wi_end e < wi_start a" "ascending (a # es)" by auto
  moreover from this have "wi_start a \<le> wi_end a" by (auto intro: ascending_valid)
  ultimately show ?case using Cons by fastforce
qed simp

lemma ascending_tl: "ascending (e # es) \<Longrightarrow> ascending es"
  by (cases es) auto

lemma ascending_nth:
  "ascending es \<Longrightarrow> i < j \<Longrightarrow> j < length es \<Longrightarrow> wi_end (es ! i) < wi_start (es ! j)"
proof (induction es arbitrary: i j)
  case Nil
  then show ?case by simp
next
  case (Cons e es)
  obtain j' where j': "j = Suc j'" using Cons.prems(2) by (cases j) auto
  show ?case
  proof (cases i)
    case 0
    with Cons.prems j' show ?thesis by (auto intro: ascending_head)
  next
    case (Suc i')
    with Cons j' show ?thesis by (auto dest: ascending_tl)
  qed
qed

text \<open>
  The contract of a width table and the correctness of the search, proved once for any
  table that keeps the contract.
\<close>

locale interval_table =
  fixes table :: "width_interval list"
  assumes table_nonempty: "table \<noteq> []"
    and table_ascending: "ascending table"
begin

lemma entry_below:
  assumes "i \<le> mid" "mid < length table" "wi_end (table ! mid) < c"
  shows "\<not> (wi_start (table ! i) \<le> c \<and> c \<le> wi_end (table ! i))"
proof (cases "i = mid")
  case False
  with assms have "wi_end (table ! i) < wi_start (table ! mid)"
    by (intro ascending_nth [OF table_ascending]) auto
  moreover have "wi_start (table ! mid) \<le> wi_end (table ! mid)"
    using assms by (intro ascending_valid [OF table_ascending]) simp
  ultimately show ?thesis using assms by linarith
qed (use assms in simp)

lemma entry_above:
  assumes "mid \<le> i" "i < length table" "c < wi_start (table ! mid)"
  shows "\<not> (wi_start (table ! i) \<le> c \<and> c \<le> wi_end (table ! i))"
proof (cases "i = mid")
  case False
  with assms have "wi_end (table ! mid) < wi_start (table ! i)"
    by (intro ascending_nth [OF table_ascending]) auto
  moreover have "wi_start (table ! mid) \<le> wi_end (table ! mid)"
    using assms by (intro ascending_valid [OF table_ascending]) simp
  ultimately show ?thesis using assms by linarith
qed (use assms in simp)

lemma loop_correct:
  assumes "0 \<le> bot'" and "top' < int (length table)"
  shows "intable_loop table c bot' top' =
    Some (\<exists>i. bot' \<le> int i \<and> int i \<le> top' \<and> wi_start (table ! i) \<le> c \<and> c \<le> wi_end (table ! i))"
  using assms
proof (induction "nat (top' - bot' + 1)" arbitrary: bot' top' rule: less_induct)
  case less
  let ?in = "\<lambda>i. wi_start (table ! i) \<le> c \<and> c \<le> wi_end (table ! i)"
  define mid where "mid = (bot' + top') div 2"
  show ?case
  proof (cases "bot' \<le> top'")
    case False
    then show ?thesis by (auto simp: intable_loop.simps [of table c bot' top'])
  next
    case True
    with less.prems have mid: "bot' \<le> mid" "mid \<le> top'" "nat mid < length table" "0 \<le> mid"
      by (auto simp: mid_def)
    have unfold: "intable_loop table c bot' top' =
        (if wi_end (table ! nat mid) < c then intable_loop table c (mid + 1) top'
         else if wi_start (table ! nat mid) > c then intable_loop table c bot' (mid - 1)
         else Some True)"
      using True mid by (simp add: intable_loop.simps [of table c bot' top'] mid_def rd_inside)
    consider "wi_end (table ! nat mid) < c" | "c < wi_start (table ! nat mid)" | "?in (nat mid)"
      by linarith
    then show ?thesis
    proof cases
      case 1
      have above: "mid + 1 \<le> int i" if "?in i" for i
        using entry_below [of i "nat mid" c] 1 mid that by linarith
      have "intable_loop table c (mid + 1) top' =
          Some (\<exists>i. mid + 1 \<le> int i \<and> int i \<le> top' \<and> ?in i)"
        using mid less.prems by (intro less.hyps) auto
      moreover have "(\<exists>i. mid + 1 \<le> int i \<and> int i \<le> top' \<and> ?in i) \<longleftrightarrow>
          (\<exists>i. bot' \<le> int i \<and> int i \<le> top' \<and> ?in i)"
        using above mid(1) by (smt (verit))
      ultimately show ?thesis using 1 unfold by simp
    next
      case 2
      have "intable_loop table c bot' (mid - 1) =
          Some (\<exists>i. bot' \<le> int i \<and> int i \<le> mid - 1 \<and> ?in i)"
        using mid less.prems by (intro less.hyps) auto
      moreover have "(\<exists>i. bot' \<le> int i \<and> int i \<le> mid - 1 \<and> ?in i) \<longleftrightarrow>
          (\<exists>i. bot' \<le> int i \<and> int i \<le> top' \<and> ?in i)"
        using entry_above [of "nat mid" _ c] 2 mid less.prems by (smt (verit) nat_le_iff nat_int zless_nat_conj)
      moreover have "\<not> wi_end (table ! nat mid) < c"
        using 2 mid ascending_valid [OF table_ascending, of "table ! nat mid"] by force
      ultimately show ?thesis using 2 unfold by simp
    next
      case 3
      with mid have "\<exists>i. bot' \<le> int i \<and> int i \<le> top' \<and> ?in i"
        by (intro exI [of _ "nat mid"]) auto
      with 3 unfold show ?thesis by simp
    qed
  qed
qed

lemma below_first: "c < wi_start (table ! 0) \<Longrightarrow> \<not> covered table c"
  using entry_above [of 0 _ c] by (auto simp: covered_def in_set_conv_nth)

lemma search_correct: "intable table (int (length table)) c = Some (covered table c)"
proof -
  have "(\<exists>i. 0 \<le> int i \<and> int i \<le> int (length table) - 1 \<and>
      wi_start (table ! i) \<le> c \<and> c \<le> wi_end (table ! i)) \<longleftrightarrow> covered table c"
    by (fastforce simp: covered_def in_set_conv_nth)
  then show ?thesis
    using table_nonempty below_first [of c]
    by (auto simp: intable_def rd_inside loop_correct)
qed

end

section \<open>The two tables keep the contract\<close>

lemma ascending_ZERO_WIDTH: "ascending ZERO_WIDTH"
  by (simp add: ZERO_WIDTH_def ZERO_WIDTH_0_def ZERO_WIDTH_1_def ZERO_WIDTH_2_def)

lemma ascending_WIDE_EASTASIAN: "ascending WIDE_EASTASIAN"
  by (simp add: WIDE_EASTASIAN_def WIDE_EASTASIAN_0_def)

interpretation zero_width: interval_table ZERO_WIDTH
  by unfold_locales
    (simp_all add: ascending_ZERO_WIDTH, simp add: ZERO_WIDTH_def ZERO_WIDTH_0_def)

interpretation wide_eastasian: interval_table WIDE_EASTASIAN
  by unfold_locales
    (simp_all add: ascending_WIDE_EASTASIAN, simp add: WIDE_EASTASIAN_def WIDE_EASTASIAN_0_def)

section \<open>The width of a character\<close>

text \<open>
  The specification the comments of the source describe, on the value of the character: a hand-made
  list of characters of width 0, the C0/C1 controls, the combining characters, the wide East Asian
  characters. A negative value, which only a signed \<open>wchar_t\<close> has, is no character.
\<close>

definition zero_by_hand :: "int \<Rightarrow> bool" where
  "zero_by_hand u \<longleftrightarrow> u \<in> {0, 0x034F, 0x2028, 0x2029} \<union> {0x200B..0x200F} \<union> {0x202A..0x202E} \<union> {0x2060..0x2063}"

definition control_char :: "int \<Rightarrow> bool" where
  "control_char u \<longleftrightarrow> u \<in> {0..0x1F} \<union> {0x7F..0x9F}"

definition width_spec :: "int \<Rightarrow> int" where
  "width_spec u =
     (if zero_by_hand u then 0
      else if u < 0 \<or> control_char u then -1
      else if covered ZERO_WIDTH u then 0
      else if covered WIDE_EASTASIAN u then 2 else 1)"

lemma zero_by_hand_iff:
  "zero_by_hand u \<longleftrightarrow> u = 0 \<or> u = 0x034F \<or> (0x200B \<le> u \<and> u \<le> 0x200F) \<or> u = 0x2028 \<or>
     u = 0x2029 \<or> (0x202A \<le> u \<and> u \<le> 0x202E) \<or> (0x2060 \<le> u \<and> u \<le> 0x2063)"
  by (auto simp: zero_by_hand_def)

lemma control_iff: "u < 0 \<or> control_char u \<longleftrightarrow> u < 32 \<or> (0x07F \<le> u \<and> u < 0x0A0)"
  by (auto simp: control_char_def)

text \<open>No interval of the tables reaches beyond \<open>INT_MAX\<close>, where the two readings of a word differ.\<close>

lemma tables_below:
  "list_all (\<lambda>e. 0 \<le> wi_start e \<and> wi_end e < 2 ^ 31) ZERO_WIDTH"
  "list_all (\<lambda>e. 0 \<le> wi_start e \<and> wi_end e < 2 ^ 31) WIDE_EASTASIAN"
  by code_simp+

lemma sint_uint_32: "sint w = (if uint w < 2 ^ 31 then uint w else uint w - 2 ^ 32)" for w :: u32
proof -
  have range: "- (2 ^ 31) \<le> sint w" "sint w < 2 ^ 31" using sint_ge [of w] sint_lt [of w] by simp_all
  have "uint w = sint w mod 2 ^ 32" by (simp add: uint_sint take_bit_eq_mod)
  also have "\<dots> = (if 0 \<le> sint w then sint w else sint w + 2 ^ 32)"
    using range mod_pos_pos_trivial [of "sint w + 2 ^ 32" "2 ^ 32"] by (auto simp: mod_pos_pos_trivial)
  finally show ?thesis using range by (auto split: if_splits)
qed

lemma covered_sint:
  fixes w :: u32
  assumes "list_all (\<lambda>e. 0 \<le> wi_start e \<and> wi_end e < 2 ^ 31) table"
  shows "covered table (sint w) \<longleftrightarrow> covered table (wchar_value sg w)"
  using assms uint_lt2p [of w] by (force simp: covered_def wchar_value_def sint_uint_32 list_all_iff)

lemma wcwidth_refines: "wcwidth sg w = Some (width_spec (wchar_value sg w))"
  unfolding wcwidth_def Let_def zero_by_hand_iff [symmetric] control_iff [symmetric] width_spec_def
  by (simp add: zero_width.search_correct wide_eastasian.search_correct
      covered_sint [OF tables_below(1), of w sg] covered_sint [OF tables_below(2), of w sg])

lemma width_spec_range: "width_spec u \<in> {-1, 0, 1, 2}"
  by (simp add: width_spec_def)

lemma width_spec_neg_iff: "width_spec u < 0 \<longleftrightarrow> u < 0 \<or> control_char u \<and> u \<noteq> 0"
proof -
  have "zero_by_hand u \<and> (u < 0 \<or> control_char u) \<longleftrightarrow> u = 0"
    by (auto simp: zero_by_hand_def control_char_def)
  then show ?thesis by (auto simp: width_spec_def)
qed

section \<open>The width of a string\<close>

text \<open>
  The characters \<open>wcswidth\<close> looks at: at most \<open>n\<close>, up to the terminator; and the columns of those
  before the first without a width.
\<close>

definition visible :: "u32 list \<Rightarrow> nat \<Rightarrow> u32 list" where
  "visible wcs n = takeWhile (\<lambda>w. w \<noteq> 0) (take n wcs)"

definition readable :: "u32 list \<Rightarrow> nat \<Rightarrow> bool" where
  "readable wcs n \<longleftrightarrow> n \<le> length wcs \<or> 0 \<in> set wcs"

definition widths :: "bool \<Rightarrow> u32 list \<Rightarrow> nat \<Rightarrow> int list" where
  "widths sg wcs n = map (\<lambda>w. width_spec (wchar_value sg w)) (visible wcs n)"

definition columns :: "int list \<Rightarrow> int" where
  "columns ks = sum_list (takeWhile (\<lambda>k. 0 \<le> k) ks)"

lemma columns_nonneg: "0 \<le> columns ks"
  unfolding columns_def by (induction ks) auto

lemma columns_all: "\<forall>k \<in> set ks. 0 \<le> k \<Longrightarrow> columns ks = sum_list ks"
  by (simp add: columns_def takeWhile_eq_all_conv [THEN iffD2])

lemma wcswidth_loop_result:
  assumes "readable wcs n" and "0 \<le> k" and "l + columns (widths sg wcs n) < 2 ^ 31"
  shows "\<exists>l' k'. wcswidth_loop sg wcs n l k = Some (l', k') \<and>
     (if \<exists>k \<in> set (widths sg wcs n). k < 0 then k' = -1
      else 0 \<le> k' \<and> l' = l + columns (widths sg wcs n))"
  using assms
proof (induction sg wcs n l k rule: wcswidth_loop.induct)
  case (3 sg w wcs n l k)
  define v where "v = width_spec (wchar_value sg w)"
  have ws: "widths sg (w # wcs) (Suc n) = (if w = 0 then [] else v # widths sg wcs n)"
    by (simp add: widths_def visible_def v_def)
  have wc: "wcwidth sg w = Some v" by (simp add: wcwidth_refines v_def)
  show ?case
  proof (cases "w = 0 \<or> v < 0")
    case True
    have "v \<in> {-1, 0, 1, 2}" using width_spec_range by (simp add: v_def)
    then show ?thesis
      using True 3(3) unfolding ws by (cases "w = 0") (auto simp: wc columns_def)
  next
    case False
    then have cols: "columns (widths sg (w # wcs) (Suc n)) = v + columns (widths sg wcs n)"
      by (simp add: ws columns_def)
    have r: "readable wcs n" using 3(2) False by (auto simp: readable_def)
    have "l + v < 2 ^ 31" "l + v + columns (widths sg wcs n) < 2 ^ 31"
      using 3(4) columns_nonneg [of "widths sg wcs n"] unfolding cols by linarith+
    then obtain l' k' where rest: "wcswidth_loop sg wcs n (l + v) v = Some (l', k')"
        "if \<exists>k \<in> set (widths sg wcs n). k < 0 then k' = -1 else 0 \<le> k' \<and> l' = l + v + columns (widths sg wcs n)"
      using 3(1) [OF _ wc] False r by auto
    have "(\<exists>k \<in> set (widths sg (w # wcs) (Suc n)). k < 0) \<longleftrightarrow> (\<exists>k \<in> set (widths sg wcs n). k < 0)"
      using False by (simp add: ws)
    moreover have "wcswidth_loop sg (w # wcs) (Suc n) l k = Some (l', k')"
      using False rest(1) \<open>l + v < 2 ^ 31\<close> by (simp add: wc)
    ultimately show ?thesis using rest(2) unfolding cols by (intro exI [of _ l'] exI [of _ k']) (simp add: add.assoc)
  qed
qed (auto simp: widths_def visible_def readable_def columns_def)

section \<open>Properties\<close>

text \<open>
  C13: on any non-empty table of ascending disjoint intervals, and for any character, the
  binary search of \<open>intable\<close> ends, stays inside the table and answers whether the character
  lies in one of the intervals.
\<close>

theorem intable_correct:
  assumes "table \<noteq> []" and "ascending table"
  shows "intable table (int (length table)) c = Some (covered table c)"
  using assms by (intro interval_table.search_correct interval_table.intro)

theorem intable_correct_witness:
  "intable [wi 3 5, wi 7 7, wi 9 20] (int (length [wi 3 5, wi 7 7, wi 9 20])) 8 =
     Some (covered [wi 3 5, wi 7 7, wi 9 20] 8) \<and> \<not> covered [wi 3 5, wi 7 7, wi 9 20] 8"
  using intable_correct [of "[wi 3 5, wi 7 7, wi 9 20]" 8] by (simp add: covered_def)

text \<open>
  C12: for every \<open>wchar_t\<close>, signed or not, \<open>wcwidth\<close> returns, with no access outside its tables, the
  width the tables and the hand-made list define for its value; the width is one of -1, 0, 1, 2,
  and it is -1 exactly for the C0/C1 control characters other than NUL and for negative values.
\<close>

theorem wcwidth_correct:
  "wcwidth sg w = Some (width_spec (wchar_value sg w)) \<and> wcwidth sg w \<in> Some ` {-1, 0, 1, 2} \<and>
   (wcwidth sg w = Some (-1) \<longleftrightarrow>
      wchar_value sg w < 0 \<or> control_char (wchar_value sg w) \<and> wchar_value sg w \<noteq> 0)"
  using width_spec_range [of "wchar_value sg w"] width_spec_neg_iff [of "wchar_value sg w"]
  by (auto simp: wcwidth_refines)

text \<open>
  C14: \<open>wcswidth\<close> of a string that has a terminator or at least \<open>n\<close> characters is -1 when one of
  the characters it looks at has the width -1 (\<open>wcwidth_correct\<close> says which), and the sum of their widths
  otherwise, provided that the columns before the first such character do not exceed \<open>INT_MAX\<close>, the
  range of the counter; it never reads past the terminator or the \<open>n\<close>-th character.
\<close>

theorem wcswidth_correct:
  assumes "readable wcs n" and "columns (widths sg wcs n) < 2 ^ 31"
  shows "wcswidth sg wcs n =
    Some (if \<exists>k \<in> set (widths sg wcs n). k < 0 then -1 else sum_list (widths sg wcs n))"
proof -
  obtain l k where lk: "wcswidth_loop sg wcs n 0 0 = Some (l, k)"
    and k: "if \<exists>k \<in> set (widths sg wcs n). k < 0 then k = -1 else 0 \<le> k \<and> l = columns (widths sg wcs n)"
    using wcswidth_loop_result [of wcs n 0 0 sg] assms by auto
  show ?thesis using k columns_all [of "widths sg wcs n"]
    by (auto simp: wcswidth_def lk not_less split: if_splits)
qed

theorem wcswidth_correct_witness:
  "readable [0x41, 0x1100, 0x301, 0, 7] 9 \<and> columns (widths True [0x41, 0x1100, 0x301, 0, 7] 9) < 2 ^ 31 \<and>
   wcswidth True [0x41, 0x1100, 0x301, 0, 7] 9 =
     Some (if \<exists>k \<in> set (widths True [0x41, 0x1100, 0x301, 0, 7] 9). k < 0 then -1
           else sum_list (widths True [0x41, 0x1100, 0x301, 0, 7] 9))"
proof -
  have three: "length ks \<le> 3 \<Longrightarrow> \<forall>k \<in> set ks. k \<le> 2 \<Longrightarrow> columns ks < 2 ^ 31" for ks
    by (cases ks; cases "tl ks"; cases "tl (tl ks)") (auto simp: columns_def)
  have two: "width_spec u \<le> 2" for u using width_spec_range [of u] by auto
  have "length (widths True [0x41, 0x1100, 0x301, 0, 7] 9) \<le> 3" by (simp add: widths_def visible_def)
  moreover have "\<forall>k \<in> set (widths True [0x41, 0x1100, 0x301, 0, 7] 9). k \<le> 2"
    by (auto simp: widths_def two)
  ultimately have "columns (widths True [0x41, 0x1100, 0x301, 0, 7] 9) < 2 ^ 31" by (rule three)
  then show ?thesis
    using wcswidth_correct [of "[0x41, 0x1100, 0x301, 0, 7]" 9 True] by (simp add: readable_def)
qed

end
