(* ===== verification/Utf8.thy ===== *)
theory Utf8
  imports Prelude
begin

text \<open>
  The reference for the multibyte and conversion components: UTF-8 as Unicode defines it, over
  natural numbers and without bit tricks. \<open>utf8_enc\<close> is the encoder, \<open>utf8_dec lim\<close> the decoder of
  one character: shortest form only, no surrogates, and only code points below \<open>lim\<close>
  (\<open>0x110000\<close> for Unicode).
\<close>

definition surrogate :: "nat \<Rightarrow> bool" where
  "surrogate n \<longleftrightarrow> 0xd800 \<le> n \<and> n < 0xe000"

definition scalar_below :: "nat \<Rightarrow> nat \<Rightarrow> bool" where
  "scalar_below lim n \<longleftrightarrow> n < lim \<and> \<not> surrogate n"

abbreviation scalar :: "nat \<Rightarrow> bool" where
  "scalar n \<equiv> scalar_below 0x110000 n"

definition cont :: "byte \<Rightarrow> bool" where
  "cont b \<longleftrightarrow> 0x80 \<le> unat b \<and> unat b < 0xc0"

definition low6 :: "byte \<Rightarrow> nat" where
  "low6 b = unat b - 0x80"

text \<open>The byte of value \<open>n\<close> (modulo 256), kept folded in proofs.\<close>

definition byte_of :: "nat \<Rightarrow> byte" where
  "byte_of n = of_nat n"

definition utf8_enc :: "nat \<Rightarrow> byte list" where
  "utf8_enc n = map byte_of
     (if n < 0x80 then [n]
      else if n < 0x800 then [0xc0 + n div 64, 0x80 + n mod 64]
      else if n < 0x10000 then [0xe0 + n div 4096, 0x80 + n div 64 mod 64, 0x80 + n mod 64]
      else [0xf0 + n div 262144, 0x80 + n div 4096 mod 64, 0x80 + n div 64 mod 64, 0x80 + n mod 64])"

text \<open>The three multi-byte forms, given the lead byte's value.\<close>

fun dec2 :: "nat \<Rightarrow> byte list \<Rightarrow> (nat \<times> nat) option" where
  "dec2 L (b1 # _) = (if cont b1 then Some ((L - 0xc0) * 64 + low6 b1, 2) else None)"
| "dec2 L _ = None"

fun dec3 :: "nat \<Rightarrow> byte list \<Rightarrow> (nat \<times> nat) option" where
  "dec3 L (b1 # b2 # _) =
     (let n = ((L - 0xe0) * 64 + low6 b1) * 64 + low6 b2 in
      if cont b1 \<and> cont b2 \<and> 0x800 \<le> n \<and> \<not> surrogate n then Some (n, 3) else None)"
| "dec3 L _ = None"

fun dec4 :: "nat \<Rightarrow> nat \<Rightarrow> byte list \<Rightarrow> (nat \<times> nat) option" where
  "dec4 lim L (b1 # b2 # b3 # _) =
     (let n = (((L - 0xf0) * 64 + low6 b1) * 64 + low6 b2) * 64 + low6 b3 in
      if cont b1 \<and> cont b2 \<and> cont b3 \<and> 0x10000 \<le> n \<and> n < lim then Some (n, 4) else None)"
| "dec4 lim L _ = None"

definition utf8_multi :: "nat \<Rightarrow> nat \<Rightarrow> byte list \<Rightarrow> (nat \<times> nat) option" where
  "utf8_multi lim L bs =
     (if 0xc2 \<le> L \<and> L \<le> 0xdf then dec2 L bs
      else if 0xe0 \<le> L \<and> L \<le> 0xef then dec3 L bs
      else if 0xf0 \<le> L \<and> L \<le> 0xf4 then dec4 lim L bs
      else None)"

fun utf8_dec :: "nat \<Rightarrow> byte list \<Rightarrow> (nat \<times> nat) option" where
  "utf8_dec lim [] = None"
| "utf8_dec lim (b # bs) = (if unat b < 0x80 then Some (unat b, 1) else utf8_multi lim (unat b) bs)"

section \<open>Round trips\<close>

lemma unat_byte_of [simp]: "n < 256 \<Longrightarrow> unat (byte_of n) = n"
  by (simp add: unat_of_nat byte_of_def)

lemma byte_of_unat [simp]: "byte_of (unat b) = b"
  by (simp add: byte_of_def)

lemma cont_byte_of [simp]: "n < 64 \<Longrightarrow> cont (byte_of (0x80 + n))"
  by (simp add: cont_def)

lemma low6_byte_of [simp]: "n < 64 \<Longrightarrow> low6 (byte_of (0x80 + n)) = n"
  by (simp add: low6_def)

lemma low6_less: "cont b \<Longrightarrow> low6 b < 64"
  by (auto simp: cont_def low6_def)

lemma cont_low6: "cont b \<Longrightarrow> b = byte_of (0x80 + low6 b)"
  by (simp add: cont_def low6_def)

lemma utf8_enc_nonempty [simp]: "utf8_enc n \<noteq> []"
  by (simp add: utf8_enc_def)

lemma length_utf8_enc:
  "length (utf8_enc n) = (if n < 0x80 then 1 else if n < 0x800 then 2 else if n < 0x10000 then 3 else 4)"
  by (simp add: utf8_enc_def)

lemma digits64: "n div 64 * 64 + n mod 64 = (n::nat)"
  by simp

lemma b64_div: "r < 64 \<Longrightarrow> (a * 64 + r) div 64 = (a::nat)"
  by simp

lemma b64_mod: "r < 64 \<Longrightarrow> (a * 64 + r) mod 64 = (r::nat)"
  by (metis add.commute mod_mult_self1 mod_less)

lemma div_4096: "n div 4096 = n div 64 div (64::nat)"
  by (simp flip: div_mult2_eq)

lemma div_262144: "n div 262144 = n div 64 div 64 div (64::nat)"
  by (simp flip: div_mult2_eq)

lemma dec2_enc:
  assumes "0x80 \<le> n" "n < 0x800"
  shows "utf8_dec lim (utf8_enc n @ rest) = Some (n, 2)"
proof -
  define q r where "q = n div 64" and "r = n mod 64"
  then have "q < 32" "2 \<le> q" "r < 64" "q * 64 + r = n" using assms by auto
  then show ?thesis using assms
    by (simp add: utf8_enc_def utf8_multi_def flip: q_def r_def)
qed

lemma dec3_enc:
  assumes "0x800 \<le> n" "n < 0x10000" "\<not> surrogate n"
  shows "utf8_dec lim (utf8_enc n @ rest) = Some (n, 3)"
proof -
  have "n div 4096 < 16" "n div 64 mod 64 < 64" "n mod 64 < 64" using assms by auto
  moreover have "(n div 4096 * 64 + n div 64 mod 64) * 64 + n mod 64 = n"
    using digits64 [of n] digits64 [of "n div 64"] by (simp add: div_mult2_eq [symmetric])
  ultimately show ?thesis using assms
    by (simp add: utf8_enc_def utf8_multi_def Let_def)
qed

lemma dec4_enc:
  assumes "0x10000 \<le> n" "n < lim" "lim \<le> 0x140000"
  shows "utf8_dec lim (utf8_enc n @ rest) = Some (n, 4)"
proof -
  have "n div 262144 < 5" "n div 4096 mod 64 < 64" "n div 64 mod 64 < 64" "n mod 64 < 64"
    using assms by auto
  moreover have "((n div 262144 * 64 + n div 4096 mod 64) * 64 + n div 64 mod 64) * 64 + n mod 64 = n"
    using digits64 [of n] digits64 [of "n div 64"] digits64 [of "n div 4096"]
    by (simp add: div_mult2_eq [symmetric])
  ultimately show ?thesis using assms
    by (simp add: utf8_enc_def utf8_multi_def Let_def)
qed

lemma utf8_dec_enc:
  assumes "scalar_below lim n" "lim \<le> 0x140000"
  shows "utf8_dec lim (utf8_enc n @ rest) = Some (n, length (utf8_enc n))"
proof -
  consider "n < 0x80" | "0x80 \<le> n" "n < 0x800" | "0x800 \<le> n" "n < 0x10000" | "0x10000 \<le> n"
    by linarith
  then show ?thesis
  proof cases
    case 1
    then show ?thesis by (simp add: utf8_enc_def)
  next
    case 2
    with dec2_enc [of n lim rest] show ?thesis by (simp add: length_utf8_enc)
  next
    case 3
    with assms dec3_enc [of n lim rest] show ?thesis by (simp add: length_utf8_enc scalar_below_def)
  next
    case 4
    with assms dec4_enc [of n lim rest] show ?thesis by (simp add: length_utf8_enc scalar_below_def)
  qed
qed

lemma dec2_inv:
  assumes "dec2 (unat b) bs = Some (n, l)" "0xc2 \<le> unat b" "unat b \<le> 0xdf"
  shows "n < 0x800 \<and> 0x80 \<le> n \<and> take l (b # bs) = utf8_enc n"
proof -
  obtain b1 bs' where bs: "bs = b1 # bs'" "cont b1" "n = (unat b - 0xc0) * 64 + low6 b1" "l = 2"
    using assms(1) by (cases bs) (auto split: if_splits)
  define q where "q = unat b - 0xc0"
  have q: "unat b = 0xc0 + q" "2 \<le> q" "q < 32" using assms by (auto simp: q_def)
  have r: "low6 b1 < 64" using bs by (simp add: low6_less)
  have "b = byte_of (0xc0 + q)" using q(1) by (metis byte_of_unat)
  moreover have "b1 = byte_of (0x80 + low6 b1)" using bs(2) by (rule cont_low6)
  moreover have "n = q * 64 + low6 b1" using bs by (simp add: q_def)
  ultimately show ?thesis using q r bs by (simp add: utf8_enc_def)
qed

lemma dec3_inv:
  assumes "dec3 (unat b) bs = Some (n, l)" "0xe0 \<le> unat b" "unat b \<le> 0xef"
  shows "0x800 \<le> n \<and> n < 0x10000 \<and> \<not> surrogate n \<and> take l (b # bs) = utf8_enc n"
proof -
  obtain b1 b2 bs' where bs: "bs = b1 # b2 # bs'" "cont b1" "cont b2" "l = 3" "0x800 \<le> n"
      "\<not> surrogate n" "n = ((unat b - 0xe0) * 64 + low6 b1) * 64 + low6 b2"
    using assms(1) by (cases "(unat b, bs)" rule: dec3.cases) (auto simp: Let_def split: if_splits)
  define q where "q = unat b - 0xe0"
  have q: "unat b = 0xe0 + q" "q < 16" using assms by (auto simp: q_def)
  have r: "low6 b1 < 64" "low6 b2 < 64" using bs by (simp_all add: low6_less)
  have n: "n = (q * 64 + low6 b1) * 64 + low6 b2" using bs by (simp add: q_def)
  have "b = byte_of (0xe0 + q)" using q(1) by (metis byte_of_unat)
  moreover have "b1 = byte_of (0x80 + low6 b1)" "b2 = byte_of (0x80 + low6 b2)"
    using bs(2,3) by (auto intro: cont_low6)
  moreover have "n div 4096 = q" "n div 64 mod 64 = low6 b1" "n mod 64 = low6 b2"
    using r by (simp_all only: n div_4096 b64_div b64_mod)
  moreover have "n < 0x10000" using n r q by simp
  ultimately show ?thesis using q r bs(1,4-6) by (simp add: utf8_enc_def)
qed

lemma dec4_inv:
  assumes "dec4 lim (unat b) bs = Some (n, l)" "0xf0 \<le> unat b" "unat b \<le> 0xf4"
  shows "0x10000 \<le> n \<and> n < lim \<and> take l (b # bs) = utf8_enc n"
proof -
  obtain b1 b2 b3 bs' where bs: "bs = b1 # b2 # b3 # bs'" "cont b1" "cont b2" "cont b3" "l = 4"
      "0x10000 \<le> n" "n < lim" "n = (((unat b - 0xf0) * 64 + low6 b1) * 64 + low6 b2) * 64 + low6 b3"
    using assms(1) by (cases "(lim, unat b, bs)" rule: dec4.cases) (auto simp: Let_def split: if_splits)
  define q where "q = unat b - 0xf0"
  have q: "unat b = 0xf0 + q" "q < 5" using assms by (auto simp: q_def)
  have r: "low6 b1 < 64" "low6 b2 < 64" "low6 b3 < 64" using bs by (simp_all add: low6_less)
  have n: "n = ((q * 64 + low6 b1) * 64 + low6 b2) * 64 + low6 b3" using bs by (simp add: q_def)
  have "b = byte_of (0xf0 + q)" using q(1) by (metis byte_of_unat)
  moreover have "b1 = byte_of (0x80 + low6 b1)" "b2 = byte_of (0x80 + low6 b2)"
      "b3 = byte_of (0x80 + low6 b3)"
    using bs(2-4) by (auto intro: cont_low6)
  moreover have "n div 262144 = q" "n div 4096 mod 64 = low6 b1" "n div 64 mod 64 = low6 b2"
      "n mod 64 = low6 b3"
    using r by (simp_all only: n div_262144 div_4096 b64_div b64_mod)
  ultimately show ?thesis using q r bs(1,5-7) by (simp add: utf8_enc_def)
qed

lemma utf8_multi_inv:
  assumes "utf8_multi lim (unat b) bs = Some (n, l)" "0x10000 \<le> lim"
  shows "0x80 \<le> n \<and> scalar_below lim n \<and> take l (b # bs) = utf8_enc n"
  using assms dec2_inv [of b bs n l] dec3_inv [of b bs n l] dec4_inv [of lim b bs n l]
  by (auto simp: utf8_multi_def scalar_below_def surrogate_def split: if_splits)

lemma utf8_multi_length:
  "utf8_multi lim L bs = Some (n, l) \<Longrightarrow> 2 \<le> l \<and> l \<le> Suc (length bs)"
  by (cases "(lim, L, bs)" rule: dec4.cases)
    (auto simp: utf8_multi_def Let_def split: if_splits)

lemma utf8_dec_pos: "utf8_dec lim bs = Some (n, l) \<Longrightarrow> 0 < l \<and> l \<le> length bs"
  by (cases bs) (auto dest!: utf8_multi_length split: if_splits)

lemma utf8_dec_inv:
  assumes "utf8_dec lim bs = Some (n, l)" "0x10000 \<le> lim"
  shows "scalar_below lim n \<and> take l bs = utf8_enc n \<and> l = length (utf8_enc n)"
proof -
  obtain b bs' where bs: "bs = b # bs'" using assms by (cases bs) auto
  have "scalar_below lim n \<and> take l bs = utf8_enc n"
    using assms bs utf8_multi_inv [of lim b bs' n l]
    by (auto simp: scalar_below_def surrogate_def utf8_enc_def split: if_splits)
  then show ?thesis using utf8_dec_pos [OF assms(1)] by (metis length_take min.absorb2)
qed

section \<open>Strings\<close>

text \<open>How decoding a string ends: the limit is reached, a NUL is met, a sequence is ill formed.\<close>

datatype run_end = Filled | Terminated | Illegal

text \<open>
  \<open>utf8_run lim wn bs\<close>: at most \<open>wn\<close> characters from the bytes \<open>bs\<close>, the number of bytes they
  take, and how it ended.
\<close>

fun utf8_run :: "nat \<Rightarrow> nat \<Rightarrow> byte list \<Rightarrow> nat list \<times> nat \<times> run_end" where
  "utf8_run lim 0 bs = ([], 0, Filled)"
| "utf8_run lim (Suc wn) bs =
     (if bs \<noteq> [] \<and> hd bs = 0 then ([], 0, Terminated)
      else case utf8_dec lim bs of
          None \<Rightarrow> ([], 0, Illegal)
        | Some (n, l) \<Rightarrow>
           (case utf8_run lim wn (drop l bs) of (ns, k, e) \<Rightarrow> (n # ns, l + k, e)))"

lemma utf8_run_numeral [simp]:
  "utf8_run lim (numeral w) bs =
     (if bs \<noteq> [] \<and> hd bs = 0 then ([], 0, Terminated)
      else case utf8_dec lim bs of
          None \<Rightarrow> ([], 0, Illegal)
        | Some (n, l) \<Rightarrow>
           (case utf8_run lim (pred_numeral w) (drop l bs) of (ns, k, e) \<Rightarrow> (n # ns, l + k, e)))"
  by (simp only: numeral_eq_Suc utf8_run.simps)

text \<open>The characters of a run are scalar values, and their encodings are exactly the bytes taken.\<close>

lemma utf8_run_sound:
  assumes "utf8_run lim w bs = (ns, k, e)" "0x10000 \<le> lim"
  shows "take k bs = concat (map utf8_enc ns) \<and> k \<le> length bs \<and> (\<forall>n \<in> set ns. n \<noteq> 0 \<and> scalar_below lim n)"
  using assms
proof (induction lim w bs arbitrary: ns k e rule: utf8_run.induct)
  case (2 lim w bs)
  show ?case
  proof (cases "bs \<noteq> [] \<and> hd bs = 0")
    case False
    show ?thesis
    proof (cases "utf8_dec lim bs")
      case None
      with False 2(2) show ?thesis by auto
    next
      case (Some p)
      obtain n l where p: "p = (n, l)" by force
      obtain ns' k' where r: "utf8_run lim w (drop l bs) = (ns', k', e)" "ns = n # ns'" "k = l + k'"
        using False Some p 2(2) by (auto split: prod.splits)
      have d: "scalar_below lim n" "take l bs = utf8_enc n" "0 < l" "l \<le> length bs"
        using utf8_dec_inv [of lim bs n l] utf8_dec_pos [of lim bs n l] Some p 2(3) by auto
      have "n \<noteq> 0"
      proof
        assume "n = 0"
        with d have "take l bs = [0]" by (simp add: utf8_enc_def byte_of_def)
        with d(3) False show False by (cases bs) (auto simp: take_Cons')
      qed
      with d r 2(1) [OF False Some p [symmetric] r(1) 2(3)] show ?thesis by (auto simp: take_add)
    qed
  qed (use 2(2) in auto)
qed auto

lemma utf8_run_length: "utf8_run lim w bs = (ns, k, e) \<Longrightarrow> length ns \<le> w \<and> (length ns = w \<longleftrightarrow> e = Filled)"
  by (induction lim w bs arbitrary: ns k e rule: utf8_run.induct)
    (auto split: if_splits option.splits prod.splits)

lemma byte_of_0: "n < 256 \<Longrightarrow> byte_of n = 0 \<longleftrightarrow> n = 0"
  by (metis unat_0 unat_byte_of byte_of_unat)

lemma utf8_enc_no_nul: "0 < n \<Longrightarrow> n < 0x140000 \<Longrightarrow> 0 \<notin> set (utf8_enc n)"
proof -
  assume n: "0 < n" "n < 0x140000"
  have "byte_of (0x80 + k mod 64) \<noteq> 0" for k
    by (subst byte_of_0) (simp_all add: less_trans [OF mod_less_divisor [of 64 k]])
  moreover have "byte_of (0xf0 + n div 262144) \<noteq> 0" "n < 0x80 \<Longrightarrow> byte_of n \<noteq> 0"
      "n < 0x10000 \<Longrightarrow> byte_of (0xe0 + n div 4096) \<noteq> 0" "n < 0x800 \<Longrightarrow> byte_of (0xc0 + n div 64) \<noteq> 0"
    using n by (subst byte_of_0; simp)+
  ultimately show ?thesis by (auto simp: utf8_enc_def dest: sym)
qed

lemma utf8_run_enc:
  assumes "\<forall>n \<in> set ns. n \<noteq> 0 \<and> scalar_below lim n" "lim \<le> 0x140000" "length ns < w"
  shows "utf8_run lim w (concat (map utf8_enc ns) @ 0 # rest) = (ns, length (concat (map utf8_enc ns)), Terminated)"
  using assms
proof (induction ns arbitrary: w)
  case Nil
  then show ?case by (cases w) auto
next
  case (Cons n ns)
  then obtain w' where w: "w = Suc w'" by (cases w) auto
  have n: "n \<noteq> 0" "scalar_below lim n" "0 \<notin> set (utf8_enc n)"
    using Cons.prems utf8_enc_no_nul [of n] by (auto simp: scalar_below_def)
  then have "hd (utf8_enc n) \<noteq> 0" by (metis hd_in_set utf8_enc_nonempty)
  with n Cons w show ?case by (simp add: utf8_dec_enc)
qed

lemma utf8_run_fill:
  assumes "\<forall>n \<in> set ns. n \<noteq> 0 \<and> scalar_below lim n" "lim \<le> 0x140000"
  shows "utf8_run lim (length ns) (concat (map utf8_enc ns) @ rest) = (ns, length (concat (map utf8_enc ns)), Filled)"
  using assms(1)
proof (induction ns)
  case (Cons n ns)
  have n: "n \<noteq> 0" "scalar_below lim n" "0 \<notin> set (utf8_enc n)"
    using Cons.prems assms(2) utf8_enc_no_nul [of n] by (auto simp: scalar_below_def)
  then have "hd (utf8_enc n) \<noteq> 0" by (metis hd_in_set utf8_enc_nonempty)
  with n Cons assms(2) show ?case by (simp add: utf8_dec_enc)
qed simp

end
