(* ===== verification/Multibyte.thy ===== *)
theory Multibyte
  imports Utf8
begin

text \<open>
  \<open>musl-multibyte\<close>: the table-driven UTF-8 decoder (\<open>internal.h\<close>, \<open>internal.c\<close>), the string
  conversions \<open>mbsrtowcs\<close> and \<open>mbsnrtowcs\<close>, and \<open>mblen\<close>.

  The memory behind \<open>*src\<close> is the byte list \<open>buf\<close>, which starts at the address \<open>base\<close>; a
  pointer into it is an index, and a read outside it is \<open>None\<close>. \<open>size_t\<close> and \<open>uintptr_t\<close> are 64 bits
  wide, \<open>wchar_t\<close> is a 32-bit word.
\<close>

section \<open>The state table\<close>

text \<open>\<open>internal.h\<close>: the interval \<open>[a,b)\<close> of the next byte, in the upper bits of the state.\<close>

definition R_macro :: "u32 \<Rightarrow> u32 \<Rightarrow> u32" where
  "R_macro a b = push_bit 23 (if a = 0x80 then 0x40 - b else - a)"

definition OOB :: "u32 \<Rightarrow> byte \<Rightarrow> bool" where
  "OOB c b \<longleftrightarrow>
     ((drop_bit 3 (ucast b) - 0x10) OR (drop_bit 3 (ucast b) + signed_drop_bit 26 c)) AND NOT 7 \<noteq> (0::u32)"

definition SA :: u32 where "SA = 0xc2"

definition SB :: u32 where "SB = 0xf4"

text \<open>\<open>internal.c\<close>\<close>

definition C_macro :: "u32 \<Rightarrow> u32" where
  "C_macro x = (if x < 2 then -1 else R_macro 0x80 0xc0 OR x)"

definition D_macro :: "u32 \<Rightarrow> u32" where
  "D_macro x = C_macro (x + 16)"

definition E_macro :: "u32 \<Rightarrow> u32" where
  "E_macro x =
     (if x = 0 then R_macro 0xa0 0xc0 else if x = 0xd then R_macro 0x80 0xa0 else R_macro 0x80 0xc0)
     OR drop_bit 6 (R_macro 0x80 0xc0) OR x"

definition F_macro :: "u32 \<Rightarrow> u32" where
  "F_macro x =
     (if x \<ge> 5 then 0 else if x = 0 then R_macro 0x90 0xc0
      else if x = 4 then R_macro 0x80 0xa0 else R_macro 0x80 0xc0)
     OR drop_bit 6 (R_macro 0x80 0xc0) OR drop_bit 12 (R_macro 0x80 0xc0) OR x"

definition bittab :: "u32 list" where
  "bittab =
     [                    C_macro 0x2, C_macro 0x3, C_macro 0x4, C_macro 0x5, C_macro 0x6, C_macro 0x7,
      C_macro 0x8, C_macro 0x9, C_macro 0xa, C_macro 0xb, C_macro 0xc, C_macro 0xd, C_macro 0xe, C_macro 0xf,
      D_macro 0x0, D_macro 0x1, D_macro 0x2, D_macro 0x3, D_macro 0x4, D_macro 0x5, D_macro 0x6, D_macro 0x7,
      D_macro 0x8, D_macro 0x9, D_macro 0xa, D_macro 0xb, D_macro 0xc, D_macro 0xd, D_macro 0xe, D_macro 0xf,
      E_macro 0x0, E_macro 0x1, E_macro 0x2, E_macro 0x3, E_macro 0x4, E_macro 0x5, E_macro 0x6, E_macro 0x7,
      E_macro 0x8, E_macro 0x9, E_macro 0xa, E_macro 0xb, E_macro 0xc, E_macro 0xd, E_macro 0xe, E_macro 0xf,
      F_macro 0x0, F_macro 0x1, F_macro 0x2, F_macro 0x3, F_macro 0x4]"

section \<open>mbsrtowcs\<close>

text \<open>
  One multibyte character after its lead byte: from the label \<open>resume\<close> (conversion) and from the
  label \<open>resume0\<close> (counting) to the end of the loop body. \<open>ChBreak\<close> is the \<open>break\<close>, with the
  pointer after its decrement and the value of \<open>c\<close>; \<open>ChNext\<close> falls out of the body with the
  pointer and the character; \<open>ChFault\<close> is a read outside the memory.
\<close>

datatype ch = ChFault | ChBreak int u32 | ChNext nat u32

definition resume_third :: "byte list \<Rightarrow> nat \<Rightarrow> u32 \<Rightarrow> ch" where
  "resume_third buf s c =
     (if c AND push_bit 31 1 \<noteq> 0 then
        (case rd buf s of None \<Rightarrow> ChFault | Some b \<Rightarrow>
           if ucast b - 0x80 \<ge> (0x40 :: u32) then ChBreak (int s - 3) c
           else ChNext (s + 1) (push_bit 6 c OR (ucast b - 0x80)))
      else ChNext s c)"

definition resume_second :: "byte list \<Rightarrow> nat \<Rightarrow> u32 \<Rightarrow> ch" where
  "resume_second buf s c =
     (if c AND push_bit 31 1 \<noteq> 0 then
        (case rd buf s of None \<Rightarrow> ChFault | Some b \<Rightarrow>
           if ucast b - 0x80 \<ge> (0x40 :: u32) then ChBreak (int s - 2) c
           else resume_third buf (s + 1) (push_bit 6 c OR (ucast b - 0x80)))
      else ChNext s c)"

definition resume :: "byte list \<Rightarrow> nat \<Rightarrow> u32 \<Rightarrow> ch" where
  "resume buf s c =
     (case rd buf s of None \<Rightarrow> ChFault | Some b \<Rightarrow>
        if OOB c b then ChBreak (int s - 1) c
        else resume_second buf (s + 1) (push_bit 6 c OR (ucast b - 0x80)))"

definition resume0_third :: "byte list \<Rightarrow> nat \<Rightarrow> u32 \<Rightarrow> ch" where
  "resume0_third buf s c =
     (if c AND push_bit 19 1 \<noteq> 0 then
        (case rd buf s of None \<Rightarrow> ChFault | Some b \<Rightarrow>
           if ucast b - 0x80 \<ge> (0x40 :: u32) then ChBreak (int s - 3) c
           else ChNext (s + 1) c)
      else ChNext s c)"

definition resume0_second :: "byte list \<Rightarrow> nat \<Rightarrow> u32 \<Rightarrow> ch" where
  "resume0_second buf s c =
     (if c AND push_bit 25 1 \<noteq> 0 then
        (case rd buf s of None \<Rightarrow> ChFault | Some b \<Rightarrow>
           if ucast b - 0x80 \<ge> (0x40 :: u32) then ChBreak (int s - 2) c
           else resume0_third buf (s + 1) c)
      else ChNext s c)"

definition resume0 :: "byte list \<Rightarrow> nat \<Rightarrow> u32 \<Rightarrow> ch" where
  "resume0 buf s c =
     (case rd buf s of None \<Rightarrow> ChFault | Some b \<Rightarrow>
        if OOB c b then ChBreak (int s - 1) c else resume0_second buf (s + 1) c)"

lemmas resume_defs = resume_def resume_second_def resume_third_def
lemmas resume0_defs = resume0_def resume0_second_def resume0_third_def

text \<open>The little-endian word at \<open>s\<close> and the test of the word-at-a-time loops.\<close>

definition word_at :: "byte list \<Rightarrow> nat \<Rightarrow> u32 option" where
  "word_at buf s =
     (case (rd buf s, rd buf (s + 1), rd buf (s + 2), rd buf (s + 3)) of
        (Some b0, Some b1, Some b2, Some b3) \<Rightarrow>
          Some (ucast b0 OR push_bit 8 (ucast b1) OR push_bit 16 (ucast b2) OR push_bit 24 (ucast b3))
      | _ \<Rightarrow> None)"

definition ascii4 :: "u32 \<Rightarrow> bool" where
  "ascii4 w \<longleftrightarrow> (w OR (w - 0x01010101)) AND 0x80808080 = 0"

lemma word_at_inside: "word_at buf s = Some w \<Longrightarrow> s + 3 < length buf"
  by (auto simp: word_at_def rd_def split: if_splits)

function skip4 :: "byte list \<Rightarrow> nat \<Rightarrow> u64 \<Rightarrow> (nat \<times> u64) option" where
  "skip4 buf s wn =
     (case word_at buf s of None \<Rightarrow> None | Some w \<Rightarrow>
        if ascii4 w then skip4 buf (s + 4) (wn - 4) else Some (s, wn))"
  by pat_completeness auto
termination
  by (relation "measure (\<lambda>(buf, s, wn). length buf - s)") (auto dest: word_at_inside)

function copy4 :: "byte list \<Rightarrow> nat \<Rightarrow> u64 \<Rightarrow> u32 list \<Rightarrow> (nat \<times> u64 \<times> u32 list) option" where
  "copy4 buf s wn ws =
     (if wn \<ge> 5 then
        case word_at buf s of None \<Rightarrow> None | Some w \<Rightarrow>
          if ascii4 w then
            copy4 buf (s + 4) (wn - 4)
              (ws @ [ucast (buf ! s), ucast (buf ! (s + 1)), ucast (buf ! (s + 2)), ucast (buf ! (s + 3))])
          else Some (s, wn, ws)
      else Some (s, wn, ws))"
  by pat_completeness auto
termination
  by (relation "measure (\<lambda>(buf, s, wn, ws). length buf - s)") (auto dest: word_at_inside)

declare skip4.simps [simp del] copy4.simps [simp del]

lemma skip4_mono: "skip4 buf s wn = Some (s', wn') \<Longrightarrow> s \<le> s'"
  by (induction buf s wn rule: skip4.induct, subst (asm) skip4.simps)
    (fastforce split: option.splits if_splits)

lemma copy4_mono: "copy4 buf s wn ws = Some (s', wn', ws') \<Longrightarrow> s \<le> s'"
  by (induction buf s wn ws rule: copy4.induct, subst (asm) copy4.simps)
    (fastforce split: option.splits if_splits)

lemma resume_Next: "resume buf s c = ChNext s' c' \<Longrightarrow> s < s' \<and> s < length buf"
  by (auto simp: resume_defs rd_def split: if_splits)

lemma resume0_Next: "resume0 buf s c = ChNext s' c' \<Longrightarrow> s < s' \<and> s < length buf"
  by (auto simp: resume0_defs rd_def split: if_splits)

text \<open>
  How a loop ends: by the \<open>return wn0\<close> of the conversion (\<open>Full\<close>), or by a \<open>break\<close> with \<open>s\<close>, \<open>c\<close>,
  \<open>wn\<close> and the wide characters stored so far.
\<close>

datatype mb_exit = Full nat "u32 list" | Break int u32 u64 "u32 list"

text \<open>The loop with \<open>ws = NULL\<close>\<close>

function count_loop :: "nat \<Rightarrow> byte list \<Rightarrow> nat \<Rightarrow> u64 \<Rightarrow> mb_exit option" where
  "count_loop base buf s wn =
     (case rd buf s of None \<Rightarrow> None | Some b \<Rightarrow>
        (case (if ucast b - 1 < (0x7f :: u32) \<and> (base + s) mod 4 = 0 then skip4 buf s wn else Some (s, wn)) of
           None \<Rightarrow> None
         | Some (s, wn) \<Rightarrow>
             (case rd buf s of None \<Rightarrow> None | Some b \<Rightarrow>
                if ucast b - 1 < (0x7f :: u32) then count_loop base buf (s + 1) (wn - 1)
                else if ucast b - SA > SB - SA then Some (Break (int s) 0 wn [])
                else (case rd bittab (unat (ucast b - SA)) of None \<Rightarrow> None | Some c \<Rightarrow>
                  (case resume0 buf (s + 1) c of
                    ChFault \<Rightarrow> None
                  | ChBreak s c \<Rightarrow> Some (Break s c wn [])
                  | ChNext s _ \<Rightarrow> count_loop base buf s (wn - 1))))))"
  by pat_completeness auto
termination
  by (relation "measure (\<lambda>(base, buf, s, wn). length buf - s)")
    (auto simp: rd_Some_iff split: if_splits dest!: skip4_mono resume0_Next)

text \<open>The loop with \<open>ws \<noteq> NULL\<close>\<close>

function conv_loop :: "nat \<Rightarrow> byte list \<Rightarrow> nat \<Rightarrow> u64 \<Rightarrow> u32 list \<Rightarrow> mb_exit option" where
  "conv_loop base buf s wn ws =
     (if wn = 0 then Some (Full s ws)
      else case rd buf s of None \<Rightarrow> None | Some b \<Rightarrow>
        (case (if ucast b - 1 < (0x7f :: u32) \<and> (base + s) mod 4 = 0 then copy4 buf s wn ws else Some (s, wn, ws)) of
           None \<Rightarrow> None
         | Some (s, wn, ws) \<Rightarrow>
             (case rd buf s of None \<Rightarrow> None | Some b \<Rightarrow>
                if ucast b - 1 < (0x7f :: u32) then conv_loop base buf (s + 1) (wn - 1) (ws @ [ucast b])
                else if ucast b - SA > SB - SA then Some (Break (int s) 0 wn ws)
                else (case rd bittab (unat (ucast b - SA)) of None \<Rightarrow> None | Some c \<Rightarrow>
                  (case resume buf (s + 1) c of
                    ChFault \<Rightarrow> None
                  | ChBreak s c \<Rightarrow> Some (Break s c wn ws)
                  | ChNext s c \<Rightarrow> conv_loop base buf s (wn - 1) (ws @ [c]))))))"
  by pat_completeness auto
termination
  by (relation "measure (\<lambda>(base, buf, s, wn, ws). length buf - s)")
    (auto simp: rd_Some_iff split: if_splits dest!: copy4_mono resume_Next)

declare count_loop.simps [simp del] conv_loop.simps [simp del]

text \<open>
  What the caller sees: the return value, the new \<open>*src\<close> (\<open>None\<close> is the null pointer, an index may
  lie before the start), the wide characters stored at \<open>ws\<close>, the state word and whether
  \<open>errno\<close> was set to \<open>EILSEQ\<close>.
\<close>

record mbs_result =
  ret :: u64
  src :: "int option"
  stored :: "u32 list"
  state :: "u32 option"
  eilseq :: bool

text \<open>The code after the two loops\<close>

definition mbs_finish :: "byte list \<Rightarrow> bool \<Rightarrow> nat \<Rightarrow> u64 \<Rightarrow> u32 option \<Rightarrow> mb_exit \<Rightarrow> mbs_result option" where
  "mbs_finish buf has_ws s0 wn0 st x =
     (case x of
        Full s ws \<Rightarrow>
          Some \<lparr>ret = wn0, src = Some (int s), stored = ws, state = st, eilseq = False\<rparr>
      | Break s c wn ws \<Rightarrow>
          let illegal = Some \<lparr>ret = -1, src = Some (if has_ws then s else int s0), stored = ws,
                state = st, eilseq = True\<rparr> in
          if c \<noteq> 0 then illegal
          else (case rd buf (nat s) of
              None \<Rightarrow> None
            | Some b \<Rightarrow>
                if b = 0 then
                  Some \<lparr>ret = wn0 - wn, src = (if has_ws then None else Some (int s0)),
                    stored = (if has_ws then ws @ [0] else ws), state = st, eilseq = False\<rparr>
                else illegal))"

definition mbsrtowcs :: "nat \<Rightarrow> byte list \<Rightarrow> bool \<Rightarrow> nat \<Rightarrow> u64 \<Rightarrow> u32 option \<Rightarrow> mbs_result option" where
  "mbsrtowcs base buf has_ws s0 wn0 st =
     (let c = (case st of None \<Rightarrow> 0 | Some c \<Rightarrow> c) in
      if c \<noteq> 0 then
        if has_ws then
          (case resume buf s0 c of
             ChFault \<Rightarrow> None
           | ChBreak s c \<Rightarrow> mbs_finish buf has_ws s0 wn0 (Some 0) (Break s c wn0 [])
           | ChNext s c \<Rightarrow>
               Option.bind (conv_loop base buf s (wn0 - 1) [c]) (mbs_finish buf has_ws s0 wn0 (Some 0)))
        else
          (case resume0 buf s0 c of
             ChFault \<Rightarrow> None
           | ChBreak s c \<Rightarrow> mbs_finish buf has_ws s0 wn0 st (Break s c wn0 [])
           | ChNext s c \<Rightarrow>
               Option.bind (count_loop base buf s (wn0 - 1)) (mbs_finish buf has_ws s0 wn0 st))
      else if has_ws then
        Option.bind (conv_loop base buf s0 wn0 []) (mbs_finish buf has_ws s0 wn0 st)
      else
        Option.bind (count_loop base buf s0 wn0) (mbs_finish buf has_ws s0 wn0 st))"

section \<open>mbsnrtowcs and mblen\<close>

text \<open>
  \<open>mbrtowc\<close> and \<open>mbtowc\<close> belong to the C library: \<open>mbrtowc bs st\<close> is the return value, the wide
  character and the new state for the bytes \<open>bs\<close> it may look at.
\<close>

type_synonym mbrtowc_fun = "byte list \<Rightarrow> u32 option \<Rightarrow> u64 \<times> u32 \<times> u32 option"

text \<open>The local variables: \<open>s\<close>, \<open>n\<close>, \<open>wn\<close>, \<open>cnt\<close>, the state word, the characters stored at \<open>wcs\<close>.\<close>

record mbsn =
  mn_s :: "int option"
  mn_n :: u64
  mn_wn :: u64
  mn_cnt :: u64
  mn_st :: "u32 option"
  mn_out :: "u32 list"

lemma unat_sub_less: "k \<noteq> 0 \<Longrightarrow> k \<le> n \<Longrightarrow> unat (n - k) < unat n" for n k :: u64
  by (metis diff_less unat_gt_0 unat_sub word_le_nat_alt order_less_le_trans)

lemma quarter_le: "n div 4 \<le> n" for n :: u64
  by (simp add: word_le_nat_alt unat_div)

lemma quarter_pos: "32 < n div 4 \<Longrightarrow> n div 4 \<noteq> 0" for n :: u64
  by (metis word_not_simps(1))

text \<open>The first loop, which calls \<open>mbsrtowcs\<close>\<close>

function mbsn_bulk :: "nat \<Rightarrow> byte list \<Rightarrow> bool \<Rightarrow> mbsn \<Rightarrow> mbsn option" where
  "mbsn_bulk base buf has_wcs v =
     (let n2 = mn_n v div 4 in
      if mn_s v \<noteq> None \<and> mn_wn v \<noteq> 0 \<and> (n2 \<ge> mn_wn v \<or> n2 > 32) then
        let n2 = (if n2 \<ge> mn_wn v then mn_wn v else n2);
            n = mn_n v - n2 in
        (case mbsrtowcs base buf True (nat (the (mn_s v))) n2 (mn_st v) of
           None \<Rightarrow> None
         | Some r \<Rightarrow>
             let out = (if has_wcs then mn_out v @ stored r else mn_out v) in
             if ret r + 1 = 0 then
               Some (v\<lparr>mn_s := src r, mn_n := n, mn_wn := 0, mn_cnt := ret r, mn_st := state r, mn_out := out\<rparr>)
             else
               mbsn_bulk base buf has_wcs
                 (v\<lparr>mn_s := src r, mn_n := n,
                    mn_wn := (if has_wcs then mn_wn v - ret r else mn_wn v),
                    mn_cnt := mn_cnt v + ret r, mn_st := state r, mn_out := out\<rparr>))
      else Some v)"
  by pat_completeness auto
termination
  by (relation "measure (\<lambda>(base, buf, has_wcs, v). unat (mn_n v))")
    (auto simp: Let_def intro!: unat_sub_less quarter_le dest: quarter_pos order_trans [OF _ quarter_le])

declare mbsn_bulk.simps [simp del]

text \<open>
  The second loop, which calls \<open>mbrtowc\<close>. With a null \<open>st\<close> the roll back of a partial character
  dereferences a null pointer: \<open>None\<close>.
\<close>

function mbsn_tail :: "mbrtowc_fun \<Rightarrow> byte list \<Rightarrow> bool \<Rightarrow> mbsn \<Rightarrow> mbsn option" where
  "mbsn_tail mbrtowc buf has_wcs v =
     (if mn_wn v \<noteq> 0 \<and> mn_n v \<noteq> 0 then
        let (l, wc, st) = mbrtowc (take (unat (mn_n v)) (drop (nat (the (mn_s v))) buf)) (mn_st v) in
        if l + 2 \<le> 2 then
          if l + 1 = 0 then Some (v\<lparr>mn_cnt := l, mn_st := st\<rparr>)
          else if l = 0 then
            Some (v\<lparr>mn_s := None, mn_st := st, mn_out := (if has_wcs then mn_out v @ [wc] else mn_out v)\<rparr>)
          else (case mn_st v of None \<Rightarrow> None | Some _ \<Rightarrow> Some (v\<lparr>mn_st := Some 0\<rparr>))
        else
          mbsn_tail mbrtowc buf has_wcs
            (v\<lparr>mn_s := map_option (\<lambda>s. s + int (unat l)) (mn_s v), mn_n := mn_n v - l,
               mn_wn := mn_wn v - 1, mn_cnt := mn_cnt v + 1, mn_st := st,
               mn_out := (if has_wcs then mn_out v @ [wc] else mn_out v)\<rparr>)
      else Some v)"
  by pat_completeness auto
termination
  by (relation "measure (\<lambda>(f, buf, has_wcs, v). unat (mn_wn v))") (auto intro: measure_unat)

declare mbsn_tail.simps [simp del]

text \<open>The return value, the new \<open>*src\<close>, the stored characters and the state.\<close>

definition mbsnrtowcs ::
  "mbrtowc_fun \<Rightarrow> nat \<Rightarrow> byte list \<Rightarrow> bool \<Rightarrow> nat \<Rightarrow> u64 \<Rightarrow> u64 \<Rightarrow> u32 option \<Rightarrow>
     (u64 \<times> int option \<times> u32 list \<times> u32 option) option" where
  "mbsnrtowcs mbrtowc base buf has_wcs s0 n wn st =
     (let wn = (if has_wcs then wn else 256) in
      case mbsn_bulk base buf has_wcs
          \<lparr>mn_s = Some (int s0), mn_n = n, mn_wn = wn, mn_cnt = 0, mn_st = st, mn_out = []\<rparr> of
        None \<Rightarrow> None
      | Some v \<Rightarrow>
          (case (if mn_s v \<noteq> None then mbsn_tail mbrtowc buf has_wcs v else Some v) of
             None \<Rightarrow> None
           | Some v \<Rightarrow>
               Some (mn_cnt v, (if has_wcs then mn_s v else Some (int s0)), mn_out v, mn_st v)))"

definition mblen :: "(u32 option \<Rightarrow> 's \<Rightarrow> u64 \<Rightarrow> int) \<Rightarrow> 's \<Rightarrow> u64 \<Rightarrow> int" where
  "mblen mbtowc s n = mbtowc None s n"

section \<open>The state table and the byte ranges of UTF-8\<close>

text \<open>
  The bound of the code points that the table of the source admits: it lets a lead byte F4 be followed
  by 80 to 9F, where Unicode ends at 8F. The loops are compared with this decoder first, and with the one
  of Unicode in \<open>Mbsrtowcs\<close>.
\<close>

abbreviation mb_lim :: nat where
  "mb_lim \<equiv> 0x120000"

text \<open>The word of value \<open>n\<close> (modulo \<open>2 ^ 32\<close>), kept folded in proofs.\<close>

definition w32 :: "nat \<Rightarrow> u32" where
  "w32 n = of_nat n"

lemma unat_w32 [simp]: "n < 0x100000000 \<Longrightarrow> unat (w32 n) = n"
  by (simp add: w32_def unat_of_nat)

lemma w32_eq_0 [simp]: "n < 0x100000000 \<Longrightarrow> w32 n = 0 \<longleftrightarrow> n = 0"
  by (metis unat_w32 unat_0 unat_eq_zero)

text \<open>The upper bits of an entry, by lead byte.\<close>

definition lead_top :: "nat \<Rightarrow> nat" where
  "lead_top L = (if L = 0xe0 then 0xB0000000 else if L = 0xed \<or> L = 0xf4 then 0xD0000000
     else if L = 0xf0 then 0xB8000000 else 0xC0000000)"

definition lead_code :: "nat \<Rightarrow> nat" where
  "lead_code L =
     (if L < 0xe0 then lead_top L + (L - 0xc0)
      else if L < 0xf0 then lead_top L + 0x03000000 + (L - 0xe0)
      else lead_top L + 0x030C0000 + (L - 0xf0))"

lemmas macro_defs = C_macro_def D_macro_def E_macro_def F_macro_def R_macro_def

lemma bittab_eq: "bittab = map (\<lambda>i. w32 (lead_code (0xc2 + i))) [0..<51]"
  by (simp add: w32_def bittab_def macro_defs lead_code_def lead_top_def word_le_nat_alt upt_rec)


lemma length_bittab [simp]: "length bittab = 51"
  by (simp add: bittab_eq)

lemma bittab_nth:
  fixes b :: byte
  assumes "0xc2 \<le> unat b" "unat b \<le> 0xf4"
  shows "rd bittab (unat (ucast b - SA)) = Some (w32 (lead_code (unat b)))"
proof -
  have "unat (ucast b - SA) = unat b - 0xc2"
    using assms by (simp add: SA_def unat_sub word_le_nat_alt)
  with assms show ?thesis by (simp add: rd_inside bittab_eq) (subst nth_upt; simp)
qed

lemma ucast_b_ge: "(ucast b - SA > SB - SA) \<longleftrightarrow> \<not> (0xc2 \<le> unat b \<and> unat b \<le> 0xf4)" for b :: byte
  by (auto simp: SA_def SB_def word_less_nat_alt unat_sub_if' unat_word_ariths)

lemma sdb26:
  assumes "2^31 \<le> N" "N < 2^32"
  shows "signed_drop_bit 26 (of_nat N :: u32) = of_nat (N div 2^26) - 64"
proof -
  have small: "sint (of_int k :: u32) = k" if "- (2^31) \<le> k" "k < 2^31" for k
    using that by (simp add: signed_of_int signed_take_bit_int_eq_self)
  have "(of_int (int N - 2^32) :: u32) = of_nat N - 0x100000000"
    by simp
  also have "(0x100000000 :: u32) = 0" by simp
  finally have "(of_int (int N - 2^32) :: u32) = of_nat N" by simp
  moreover have "sint (of_int (int N - 2^32) :: u32) = int N - 2^32"
    using assms by (intro small) auto
  ultimately have *: "sint (of_nat N :: u32) = int N - 2^32" by metis
  have "signed_drop_bit 26 (of_nat N :: u32) = of_int (sint (signed_drop_bit 26 (of_nat N :: u32)))"
    by simp
  also have "sint (signed_drop_bit 26 (of_nat N :: u32)) = sint (of_nat N :: u32) div 2^26"
    by (simp only: sint_signed_drop_bit_eq drop_bit_eq_div)
  also have "sint (of_nat N :: u32) div 2^26 = int (N div 2^26) - 64"
    unfolding * by (simp add: zdiv_int; linarith)
  finally show ?thesis by simp
qed

lemma unat_diff_less_8: "unat (of_nat k - of_nat m :: u32) < 8 \<longleftrightarrow> m \<le> k \<and> k < m + 8" if "k < 1000" "m < 1000"
  using that by (auto simp: unat_sub_if' unat_of_nat)

lemma OOB_w32:
  assumes "2^31 \<le> N" "N < 2^32"
  shows "OOB (w32 N) b \<longleftrightarrow> \<not> (16 \<le> unat b div 8 \<and> unat b div 8 < 24 \<and>
     64 - N div 2^26 \<le> unat b div 8 \<and> unat b div 8 < 72 - N div 2^26)"
proof -
  define k t where "k = unat b div 8" and "t = N div 2^26"
  have kt: "k < 32" "32 \<le> t" "t < 64"
    using assms unat_byte_less [of b] by (auto simp: k_def t_def)
  have x: "drop_bit 3 (ucast b) = (of_nat k :: u32)"
    using unat_byte_less [of b]
    by (simp add: k_def word_unat_eq_iff drop_bit_eq_div unat_of_nat unat_div)
  have "(of_nat k + (of_nat t - 64) :: u32) = of_nat k - of_nat (64 - t)"
    using kt by (simp add: of_nat_diff)
  then have "OOB (w32 N) b \<longleftrightarrow> \<not> (unat (of_nat k - of_nat 16 :: u32) < 8 \<and> unat (of_nat k - of_nat (64 - t) :: u32) < 8)"
    unfolding OOB_def w32_def x sdb26 [OF assms] t_def [symmetric]
    by (simp add: bit.conj_disj_distrib2 or_eq_0_iff and_not_7_eq_0 [simplified])
  then show ?thesis
    using kt unfolding k_def [symmetric] t_def [symmetric]
    by (subst (asm) (1 2) unat_diff_less_8) auto
qed


lemma cont_iff_sub: "ucast b - 0x80 \<ge> (0x40 :: u32) \<longleftrightarrow> \<not> cont b" for b :: byte
  using unat_byte_less [of b] by (auto simp: cont_def word_le_nat_alt unat_sub_if')

lemma cont_payload: "cont b \<Longrightarrow> ucast b - 0x80 = (of_nat (low6 b) :: u32)"
  using unat_byte_less [of b]
  by (simp add: cont_def low6_def word_unat_eq_iff unat_sub_if' unat_of_nat)

lemma or_low6:
  assumes "k < 64"
  shows "push_bit 6 w OR of_nat k = w * 64 + (of_nat k :: u32)"
proof -
  have k: "of_nat k = take_bit 6 (of_nat k :: u32)"
    using assms by (simp add: word_unat_eq_iff unsigned_take_bit_eq unat_of_nat take_bit_nat_eq_self)
  have "push_bit 6 w AND take_bit 6 (of_nat k) = (0 :: u32)"
    by (auto simp: bit_eq_iff bit_simps)
  then have "push_bit 6 w + take_bit 6 (of_nat k) = push_bit 6 w OR take_bit 6 (of_nat k :: u32)"
    by (rule disjunctive_add_eq_or)
  with k show ?thesis by (simp add: push_bit_eq_mult)
qed

lemma shift_in:
  assumes "cont b"
  shows "push_bit 6 (w32 (0x8000000 * t + m)) OR (ucast b - 0x80) = w32 (64 * m + low6 b)"
proof -
  have "(of_nat (0x8000000 * t + m) * 64 :: u32) = of_nat t * (0x8000000 * 64) + of_nat m * 64"
    by (simp add: algebra_simps)
  also have "(0x8000000 * 64 :: u32) = 0" by simp
  finally have "(of_nat (0x8000000 * t + m) * 64 :: u32) = of_nat (64 * m)" by simp
  then show ?thesis
    using assms by (simp only: w32_def cont_payload or_low6 low6_less of_nat_add)
qed

lemma top_bit: "M < 2 ^ 32 \<Longrightarrow> w32 M AND push_bit 31 1 \<noteq> 0 \<longleftrightarrow> 2 ^ 31 \<le> M"
proof -
  assume M: "M < 2 ^ 32"
  have "w32 M AND push_bit 31 1 \<noteq> 0 \<longleftrightarrow> bit (w32 M) 31"
    by (simp only: push_bit_of_1 and_exp_eq_0_iff_not_bit not_not)
  also have "\<dots> \<longleftrightarrow> bit (unat (w32 M)) 31"
    by (simp add: bit_unsigned_iff)
  also have "\<dots> \<longleftrightarrow> odd (M div 2 ^ 31)"
    using M by (simp add: bit_iff_odd)
  also have "\<dots> \<longleftrightarrow> 2 ^ 31 \<le> M"
  proof -
    have "M div 2 ^ 31 < 2" using M by (simp add: less_mult_imp_div_less)
    then show ?thesis by (cases "M div 2 ^ 31 = 0") (auto simp: div_eq_0_iff less_2_cases_iff)
  qed
  finally show ?thesis .
qed

definition second_ok :: "nat \<Rightarrow> byte \<Rightarrow> bool" where
  "second_ok L b \<longleftrightarrow> cont b \<and> (L = 0xe0 \<longrightarrow> 0xa0 \<le> unat b) \<and> (L = 0xed \<or> L = 0xf4 \<longrightarrow> unat b < 0xa0) \<and>
     (L = 0xf0 \<longrightarrow> 0x90 \<le> unat b)"

lemma lead_code_range: "0xc2 \<le> L \<Longrightarrow> L \<le> 0xf4 \<Longrightarrow> 2^31 \<le> lead_code L \<and> lead_code L < 2^32"
  by (auto simp: lead_code_def lead_top_def)

lemma lead_code_top: "0xc2 \<le> L \<Longrightarrow> L \<le> 0xf4 \<Longrightarrow> lead_code L div 2^26 = lead_top L div 2^26"
  by (auto simp: lead_code_def lead_top_def)

lemma OOB_lead:
  assumes "0xc2 \<le> L" "L \<le> 0xf4"
  shows "OOB (w32 (lead_code L)) b \<longleftrightarrow> \<not> second_ok L b"
  using lead_code_range [OF assms] lead_code_top [OF assms]
  by (auto simp: OOB_w32 second_ok_def cont_def lead_top_def)

lemma dec3_alt: "dec3 L (b1 # b2 # bs) =
    (if second_ok L b1 \<and> cont b2 then Some (((L - 0xe0) * 64 + low6 b1) * 64 + low6 b2, 3) else None)"
  if "0xe0 \<le> L" "L \<le> 0xef"
proof -
  define x where "x = L - 0xe0"
  have x: "L = 0xe0 + x" "x < 16" using that by (auto simp: x_def)
  have "second_ok L b1 \<longleftrightarrow> 0x800 \<le> ((L - 0xe0) * 64 + low6 b1) * 64 + low6 b2 \<and>
      \<not> surrogate (((L - 0xe0) * 64 + low6 b1) * 64 + low6 b2)" if c: "cont b1" "cont b2"
  proof -
    have r: "low6 b1 < 64" "low6 b2 < 64" "unat b1 = 0x80 + low6 b1"
      using c by (auto simp: low6_def cont_def)
    consider "x = 0" | "x = 13" | "x \<noteq> 0" "x \<noteq> 13" by blast
    then show ?thesis
    proof cases
      case 3
      with x have "x \<le> 12 \<or> 14 \<le> x" "1 \<le> x" by auto
      with 3 r x c show ?thesis by (auto simp: second_ok_def surrogate_def)
    qed (use r x c in \<open>auto simp: second_ok_def surrogate_def\<close>)
  qed
  then show ?thesis by (auto simp: Let_def second_ok_def)
qed

lemma dec4_alt: "dec4 mb_lim L (b1 # b2 # b3 # bs) =
    (if second_ok L b1 \<and> cont b2 \<and> cont b3
     then Some ((((L - 0xf0) * 64 + low6 b1) * 64 + low6 b2) * 64 + low6 b3, 4) else None)"
  if "0xf0 \<le> L" "L \<le> 0xf4"
proof -
  define x where "x = L - 0xf0"
  have x: "L = 0xf0 + x" "x < 5" using that by (auto simp: x_def)
  have "second_ok L b1 \<longleftrightarrow> 0x10000 \<le> (((L - 0xf0) * 64 + low6 b1) * 64 + low6 b2) * 64 + low6 b3 \<and>
      (((L - 0xf0) * 64 + low6 b1) * 64 + low6 b2) * 64 + low6 b3 < mb_lim" if c: "cont b1" "cont b2" "cont b3"
  proof -
    have r: "low6 b1 < 64" "low6 b2 < 64" "low6 b3 < 64" "unat b1 = 0x80 + low6 b1"
      using c by (auto simp: low6_def cont_def)
    consider "x = 0" | "x = 4" | "1 \<le> x" "x \<le> 3" using x by linarith
    then show ?thesis
      by cases (use r x c in \<open>auto simp: second_ok_def\<close>)
  qed
  then show ?thesis by (auto simp: Let_def second_ok_def)
qed


lemma dec4_bad:
  assumes "0xf0 \<le> L" "L \<le> 0xf4" "\<not> second_ok L b1 \<or> \<not> cont (hd r)" "r \<noteq> []"
  shows "dec4 mb_lim L (b1 # r) = None"
proof (cases "tl r")
  case Nil
  with assms(4) show ?thesis by (cases r) auto
next
  case (Cons b3 t)
  with assms(4) have "r = hd r # b3 # t" by (cases r) auto
  then show ?thesis using assms(3) dec4_alt [OF assms(1,2), of b1 "hd r" b3 t] by (metis (full_types))
qed

section \<open>One character\<close>

lemma lead_top_mult: "\<exists>t. lead_top L = 0x8000000 * t"
proof -
  have "lead_top L = 0x8000000 * (lead_top L div 0x8000000)" by (simp add: lead_top_def)
  then show ?thesis ..
qed

lemma third_done: "M < 2 ^ 31 \<Longrightarrow> resume_third buf s (w32 M) = ChNext s (w32 M)"
  unfolding resume_third_def by (subst top_bit) auto

lemma second_done: "M < 2 ^ 31 \<Longrightarrow> resume_second buf s (w32 M) = ChNext s (w32 M)"
  unfolding resume_second_def by (subst top_bit) auto

lemma third_more:
  assumes "2 ^ 31 \<le> M" "M < 2 ^ 32" "M = 0x8000000 * t + m"
  shows "resume_third buf s (w32 M) =
    (case rd buf s of None \<Rightarrow> ChFault
     | Some b \<Rightarrow> if cont b then ChNext (s + 1) (w32 (64 * m + low6 b)) else ChBreak (int s - 3) (w32 M))"
  unfolding resume_third_def cont_iff_sub using assms
  by (subst top_bit) (auto simp: shift_in split: option.split)

lemma second_more:
  assumes "2 ^ 31 \<le> M" "M < 2 ^ 32" "M = 0x8000000 * t + m"
  shows "resume_second buf s (w32 M) =
    (case rd buf s of None \<Rightarrow> ChFault
     | Some b \<Rightarrow> if cont b then resume_third buf (s + 1) (w32 (64 * m + low6 b))
                  else ChBreak (int s - 2) (w32 M))"
  unfolding resume_second_def cont_iff_sub using assms
  by (subst top_bit) (auto simp: shift_in split: option.split)

lemma first_more:
  assumes "0xc2 \<le> L" "L \<le> 0xf4" "lead_code L = 0x8000000 * t + m"
  shows "resume buf s (w32 (lead_code L)) =
    (case rd buf s of None \<Rightarrow> ChFault
     | Some b \<Rightarrow> if second_ok L b then resume_second buf (s + 1) (w32 (64 * m + low6 b))
                  else ChBreak (int s - 1) (w32 (lead_code L)))"
  unfolding resume_def using OOB_lead [OF assms(1,2)] shift_in [of _ t m]
  by (auto simp: assms(3) second_ok_def split: option.split)

lemma resume_2:
  assumes "0xc2 \<le> L" "L \<le> 0xdf"
  shows "resume buf s (w32 (lead_code L)) =
    (case rd buf s of None \<Rightarrow> ChFault
     | Some b1 \<Rightarrow> if second_ok L b1 then ChNext (s + 1) (w32 ((L - 0xc0) * 64 + low6 b1))
                   else ChBreak (int s - 1) (w32 (lead_code L)))"
proof -
  obtain t where "lead_top L = 0x8000000 * t" using lead_top_mult by blast
  then have code: "lead_code L = 0x8000000 * t + (L - 0xc0)" using assms by (simp add: lead_code_def)
  have "64 * (L - 0xc0) + low6 b < 2 ^ 31" if "second_ok L b" for b
    using that assms low6_less [of b] by (auto simp: second_ok_def)
  then show ?thesis
    using assms by (subst first_more [OF _ _ code]) (auto simp: second_done mult.commute split: option.split)
qed

text \<open>Two continuation bytes are left: \<open>x\<close> is the value so far.\<close>

lemma third_last:
  assumes "x < 0x10000"
  shows "resume_third buf s (w32 (0xC0000000 + x)) =
    (case rd buf s of None \<Rightarrow> ChFault
     | Some b \<Rightarrow> if cont b then ChNext (s + 1) (w32 (x * 64 + low6 b))
                  else ChBreak (int s - 3) (w32 (0xC0000000 + x)))"
  using assms by (subst third_more [of _ 24 x]) (auto simp: mult.commute split: option.split)

lemma second_last:
  assumes "x < 0x10000"
  shows "resume_second buf s (w32 (0xC0000000 + x)) =
    (case rd buf s of None \<Rightarrow> ChFault
     | Some b \<Rightarrow> if cont b then ChNext (s + 1) (w32 (x * 64 + low6 b))
                  else ChBreak (int s - 2) (w32 (0xC0000000 + x)))"
proof -
  have "64 * x + low6 b < 2 ^ 31" if "cont b" for b
    using assms low6_less [OF that] by simp
  then show ?thesis
    using assms by (subst second_more [of _ 24 x]) (auto simp: third_done mult.commute split: option.split)
qed

lemma second_two:
  assumes "x < 0x400"
  shows "resume_second buf s (w32 (0xC3000000 + x)) =
    (case rd buf s of None \<Rightarrow> ChFault
     | Some b \<Rightarrow> if cont b then resume_third buf (s + 1) (w32 (0xC0000000 + (x * 64 + low6 b)))
                  else ChBreak (int s - 2) (w32 (0xC3000000 + x)))"
proof -
  have "64 * (0x3000000 + x) + k = 0xC0000000 + (x * 64 + k)" for k by simp
  then show ?thesis
    using assms by (subst second_more [of _ 24 "0x3000000 + x"]) (auto simp: algebra_simps split: option.split)
qed

lemma resume_3:
  assumes "0xe0 \<le> L" "L \<le> 0xef"
  shows "resume buf s (w32 (lead_code L)) =
    (case rd buf s of None \<Rightarrow> ChFault
     | Some b1 \<Rightarrow> if second_ok L b1
                   then resume_second buf (s + 1) (w32 (0xC0000000 + ((L - 0xe0) * 64 + low6 b1)))
                   else ChBreak (int s - 1) (w32 (lead_code L)))"
proof -
  obtain t where "lead_top L = 0x8000000 * t" using lead_top_mult by blast
  then have code: "lead_code L = 0x8000000 * t + (0x3000000 + (L - 0xe0))" using assms by (simp add: lead_code_def)
  have "64 * (0x3000000 + (L - 0xe0)) + k = 0xC0000000 + ((L - 0xe0) * 64 + k)" for k by simp
  then show ?thesis
    using assms by (subst first_more [OF _ _ code]) (auto simp: add.assoc split: option.split)
qed

lemma resume_4:
  assumes "0xf0 \<le> L" "L \<le> 0xf4"
  shows "resume buf s (w32 (lead_code L)) =
    (case rd buf s of None \<Rightarrow> ChFault
     | Some b1 \<Rightarrow> if second_ok L b1
                   then resume_second buf (s + 1) (w32 (0xC3000000 + ((L - 0xf0) * 64 + low6 b1)))
                   else ChBreak (int s - 1) (w32 (lead_code L)))"
proof -
  obtain t where "lead_top L = 0x8000000 * t" using lead_top_mult by blast
  then have code: "lead_code L = 0x8000000 * t + (0x30C0000 + (L - 0xf0))" using assms by (simp add: lead_code_def)
  have "64 * (0x30C0000 + (L - 0xf0)) + k = 0xC3000000 + ((L - 0xf0) * 64 + k)" for k by simp
  then show ?thesis
    using assms by (subst first_more [OF _ _ code]) (auto simp: add.assoc split: option.split)
qed

text \<open>
  The table decoder and the reference: after a lead byte \<open>L\<close>, in memory that holds a NUL further on,
  a well-formed sequence is decoded and anything else breaks back to the lead byte with a
  non-zero \<open>c\<close>.
\<close>

definition decodes :: "byte list \<Rightarrow> nat \<Rightarrow> nat \<Rightarrow> (u32 \<Rightarrow> nat \<Rightarrow> bool) \<Rightarrow> ch \<Rightarrow> bool" where
  "decodes buf s L ok x \<longleftrightarrow>
     (case utf8_multi mb_lim L (drop s buf) of
        Some (n, l) \<Rightarrow> \<exists>c. x = ChNext (s + l - 1) c \<and> ok c n
      | None \<Rightarrow> \<exists>c. x = ChBreak (int s - 1) c \<and> c \<noteq> 0)"

lemma not_cont_0 [simp]: "\<not> cont 0"
  by (simp add: cont_def)

lemma not_second_ok_0 [simp]: "\<not> second_ok L 0"
  by (simp add: second_ok_def)

lemma rd_suffix:
  "rd buf s = rd (drop s buf) 0" "rd buf (s + 1) = rd (drop s buf) 1" "rd buf (s + 2) = rd (drop s buf) 2"
  by (simp_all add: rd_drop)

lemma lead_code_nonzero: "0xc2 \<le> L \<Longrightarrow> L \<le> 0xf4 \<Longrightarrow> w32 (lead_code L) \<noteq> 0"
  using lead_code_range [of L] by (subst w32_eq_0) auto

lemma payload_bound: "second_ok L b \<Longrightarrow> low6 b < 64"
  by (simp add: second_ok_def low6_less)

lemma resume_lead:
  assumes L: "0xc2 \<le> L" "L \<le> 0xf4" and z: "0 \<in> set (drop s buf)"
  shows "decodes buf s L (\<lambda>c n. c = w32 n) (resume buf s (w32 (lead_code L)))"
proof -
  define bs where "bs = drop s buf"
  have nz: "w32 (lead_code L) \<noteq> 0" using L by (rule lead_code_nonzero)
  have nzx: "w32 (0xC0000000 + x) \<noteq> 0" "w32 (0xC3000000 + x) \<noteq> 0" if "x < 0x10000" for x
    using that by (subst w32_eq_0; simp)+
  obtain b1 r where bs1: "bs = b1 # r" using z by (cases bs) (auto simp: bs_def)
  have rd1: "rd buf s = Some b1" using bs1 rd_suffix(1) [of buf s] by (simp flip: bs_def)
  consider "L \<le> 0xdf" | "0xe0 \<le> L" "L \<le> 0xef" | "0xf0 \<le> L" using L by linarith
  then show ?thesis
  proof cases
    case 1
    then have "utf8_multi mb_lim L bs = dec2 L bs" using L by (simp add: utf8_multi_def)
    with 1 L nz rd1 bs1 show ?thesis
      by (simp add: decodes_def resume_2 second_ok_def flip: bs_def)
  next
    case 2
    then have m: "utf8_multi mb_lim L bs = dec3 L bs" using L by (simp add: utf8_multi_def)
    show ?thesis
    proof (cases r)
      case Nil
      with z bs1 have "b1 = 0" by (simp flip: bs_def)
      with 2 L nz rd1 bs1 m Nil show ?thesis by (simp add: decodes_def resume_3 flip: bs_def)
    next
      case (Cons b2 r')
      have rd2: "rd buf (Suc s) = Some b2" using bs1 Cons rd_suffix(2) [of buf s] by (simp flip: bs_def)
      have m: "utf8_multi mb_lim L bs = (if second_ok L b1 \<and> cont b2
          then Some (((L - 0xe0) * 64 + low6 b1) * 64 + low6 b2, 3) else None)"
        using 2 m bs1 Cons by (simp only: dec3_alt)
      show ?thesis
      proof (cases "second_ok L b1")
        case True
        then have x: "(L - 0xe0) * 64 + low6 b1 < 0x10000" using 2 payload_bound [of L b1] by simp
        from True 2 rd1 rd2 nzx(1) [OF x] show ?thesis
          by (simp add: decodes_def resume_3 second_last [OF x] m flip: bs_def)
      qed (use 2 nz rd1 in \<open>simp add: decodes_def resume_3 m flip: bs_def\<close>)
    qed
  next
    case 3
    then have m: "utf8_multi mb_lim L bs = dec4 mb_lim L bs" using L by (simp add: utf8_multi_def)
    show ?thesis
    proof (cases "second_ok L b1")
      case False
      have "dec4 mb_lim L bs = None"
        using False 3 L bs1 dec4_bad [of L b1 r] by (cases "r = []") auto
      with False 3 L nz rd1 m show ?thesis by (simp add: decodes_def resume_4 flip: bs_def)
    next
      case True
      then have x: "(L - 0xf0) * 64 + low6 b1 < 0x400" using 3 L payload_bound [of L b1] by simp
      obtain b2 r2 where r: "r = b2 # r2" using True z bs1 by (cases r) (auto simp flip: bs_def)
      have rd2: "rd buf (Suc s) = Some b2" using bs1 r rd_suffix(2) [of buf s] by (simp flip: bs_def)
      show ?thesis
      proof (cases "cont b2")
        case False
        have "dec4 mb_lim L bs = None"
          using False 3 L bs1 r dec4_bad [of L b1 r] by simp
        with False True 3 L rd1 m rd2 x nzx(2) show ?thesis
          by (simp add: decodes_def resume_4 second_two flip: bs_def)
      next
        case c2: True
        define y where "y = ((L - 0xf0) * 64 + low6 b1) * 64 + low6 b2"
        then have y: "y < 0x10000" using x low6_less [OF c2] by simp
        obtain b3 r3 where r2: "r2 = b3 # r3" using True c2 z bs1 r by (cases r2) (auto simp flip: bs_def)
        have rd3: "rd buf (Suc (Suc s)) = Some b3"
          using bs1 r r2 rd_suffix(3) [of buf s] by (simp flip: bs_def add: numeral_2_eq_2)
        have "resume buf s (w32 (lead_code L)) = resume_third buf (s + 2) (w32 (0xC0000000 + y))"
          unfolding y_def using 3 L True c2 rd1 rd2 x by (simp add: resume_4 second_two)
        then have "resume buf s (w32 (lead_code L)) =
            (if cont b3 then ChNext (s + 3) (w32 (y * 64 + low6 b3)) else ChBreak (int s - 1) (w32 (0xC0000000 + y)))"
          using rd3 by (simp add: third_last [OF y])
        moreover have "dec4 mb_lim L bs = (if cont b3 then Some (y * 64 + low6 b3, 4) else None)"
          using 3 L True c2 bs1 r r2 by (simp only: dec4_alt y_def) simp
        ultimately show ?thesis using m nzx(1) [OF y] by (simp add: decodes_def flip: bs_def)
      qed
    qed
  qed
qed

text \<open>The counting loop tests two bits of the table entry in place of the shifted value.\<close>

lemma lead_bits:
  "\<forall>L \<in> set [0xc2..<0xf5]. (odd (lead_code L div 2 ^ 25) \<longleftrightarrow> 0xe0 \<le> L) \<and> (odd (lead_code L div 2 ^ 19) \<longleftrightarrow> 0xf0 \<le> L)"
  by (simp add: lead_code_def lead_top_def upt_rec)

lemma w32_and_bit: "M < 2 ^ 32 \<Longrightarrow> n < 32 \<Longrightarrow> w32 M AND push_bit n 1 \<noteq> 0 \<longleftrightarrow> odd (M div 2 ^ n)"
proof -
  assume M: "M < 2 ^ 32" and n: "n < 32"
  have "w32 M AND push_bit n 1 \<noteq> 0 \<longleftrightarrow> bit (w32 M) n"
    by (simp only: push_bit_of_1 and_exp_eq_0_iff_not_bit not_not)
  also have "\<dots> \<longleftrightarrow> bit (unat (w32 M)) n"
    using n by (simp add: bit_unsigned_iff)
  also have "\<dots> \<longleftrightarrow> odd (M div 2 ^ n)"
    using M by (simp add: bit_iff_odd)
  finally show ?thesis .
qed

lemma lead_flags:
  assumes "0xc2 \<le> L" "L \<le> 0xf4"
  shows "w32 (lead_code L) AND push_bit 25 1 \<noteq> 0 \<longleftrightarrow> 0xe0 \<le> L"
    and "w32 (lead_code L) AND push_bit 19 1 \<noteq> 0 \<longleftrightarrow> 0xf0 \<le> L"
proof -
  have L: "L \<in> set [0xc2..<0xf5]" unfolding set_upt using assms by simp
  have M: "lead_code L < 2 ^ 32" using lead_code_range [OF assms] by blast
  show "w32 (lead_code L) AND push_bit 25 1 \<noteq> 0 \<longleftrightarrow> 0xe0 \<le> L"
    using w32_and_bit [OF M, of 25] bspec [OF lead_bits L] by simp
  show "w32 (lead_code L) AND push_bit 19 1 \<noteq> 0 \<longleftrightarrow> 0xf0 \<le> L"
    using w32_and_bit [OF M, of 19] bspec [OF lead_bits L] by simp
qed

lemma resume0_eq:
  assumes "0xc2 \<le> L" "L \<le> 0xf4"
  shows "resume0 buf s (w32 (lead_code L)) =
    (case rd buf s of None \<Rightarrow> ChFault | Some b1 \<Rightarrow>
       if \<not> second_ok L b1 then ChBreak (int s - 1) (w32 (lead_code L))
       else if \<not> 0xe0 \<le> L then ChNext (s + 1) (w32 (lead_code L))
       else case rd buf (s + 1) of None \<Rightarrow> ChFault | Some b2 \<Rightarrow>
         if \<not> cont b2 then ChBreak (int s - 1) (w32 (lead_code L))
         else if \<not> 0xf0 \<le> L then ChNext (s + 2) (w32 (lead_code L))
         else case rd buf (s + 2) of None \<Rightarrow> ChFault | Some b3 \<Rightarrow>
           if \<not> cont b3 then ChBreak (int s - 1) (w32 (lead_code L))
           else ChNext (s + 3) (w32 (lead_code L)))"
  unfolding resume0_defs lead_flags [OF assms] cont_iff_sub OOB_lead [OF assms]
  by (simp split: option.split add: numeral_2_eq_2 numeral_3_eq_3)

lemma resume0_lead:
  assumes L: "0xc2 \<le> L" "L \<le> 0xf4" and z: "0 \<in> set (drop s buf)"
  shows "decodes buf s L (\<lambda>c n. True) (resume0 buf s (w32 (lead_code L)))"
proof -
  have nz: "w32 (lead_code L) \<noteq> 0" using L by (rule lead_code_nonzero)
  have same: "case resume buf s (w32 (lead_code L)) of ChFault \<Rightarrow> True
     | ChBreak p c \<Rightarrow> resume0 buf s (w32 (lead_code L)) = ChBreak p (w32 (lead_code L))
     | ChNext p c \<Rightarrow> resume0 buf s (w32 (lead_code L)) = ChNext p (w32 (lead_code L))"
  proof -
    consider "L \<le> 0xdf" | "0xe0 \<le> L" "L \<le> 0xef" | "0xf0 \<le> L" using L by linarith
    then show ?thesis
    proof cases
      case 1
      with L show ?thesis by (simp add: resume0_eq resume_2 split: option.split)
    next
      case 2
      have "second_ok L b \<Longrightarrow> (L - 0xe0) * 64 + low6 b < 0x10000" for b
        using 2 payload_bound [of L b] by simp
      with L 2 show ?thesis by (simp add: resume0_eq resume_3 second_last split: option.split)
    next
      case 3
      have x: "second_ok L b \<Longrightarrow> (L - 0xf0) * 64 + low6 b < 0x400" for b
        using 3 L payload_bound [of L b] by simp
      then have "second_ok L b \<Longrightarrow> cont b' \<Longrightarrow> ((L - 0xf0) * 64 + low6 b) * 64 + low6 b' < 0x10000" for b b'
        using low6_less [of b'] by fastforce
      with x L 3 show ?thesis
        by (simp add: resume0_eq resume_4 second_two third_last split: option.split)
    qed
  qed
  show ?thesis
    using resume_lead [OF L z] same nz by (auto simp: decodes_def split: option.splits)
qed

end
