(* ===== verification/Multibyte_Ascii.thy ===== *)
theory Multibyte_Ascii
  imports Multibyte
begin

text \<open>
  The word-at-a-time paths of \<open>mbsrtowcs\<close>: the bit trick \<open>ascii4\<close> accepts only words of four bytes
  in 1..0x7f, so the loops \<open>skip4\<close> and \<open>copy4\<close> advance over plain ASCII and stop before the NUL,
  without leaving the aligned words up to the one that holds it.
\<close>

section \<open>The word test\<close>

lemma or_shift:
  fixes x y :: u32
  assumes "unat x < 2 ^ n"
  shows "x OR push_bit n y = x + y * 2 ^ n"
proof -
  have x: "x = take_bit n x"
    using assms by (simp add: word_unat_eq_iff unsigned_take_bit_eq take_bit_nat_eq_self)
  have "take_bit n x AND push_bit n y = 0"
    by (auto simp: bit_eq_iff bit_simps)
  then have "take_bit n x + push_bit n y = take_bit n x OR push_bit n y"
    by (rule disjunctive_add_eq_or)
  with x show ?thesis by (simp add: push_bit_eq_mult)
qed

lemma div_128: "(a + 256 * r) div 128 = 2 * r + a div (128::int)"
  using div_mult_self2 [of 128 a "2 * r"] by simp

lemma borrow_step: "- 1 \<le> a \<Longrightarrow> a < 128 \<Longrightarrow> even ((a + 256 * r) div 128) \<Longrightarrow> 0 \<le> (a::int)"
  unfolding div_128 by (cases "a = -1") auto

lemma low_step:
  assumes "0 \<le> a" "a < 256" "even ((a + 256 * r) div 128)"
  shows "a < (128::int)"
proof (rule ccontr)
  assume "\<not> a < 128"
  with assms(1,2) have "a div 128 = 1" by linarith
  with assms(3) show False unfolding div_128 by simp
qed

lemma carry_step: "0 \<le> a \<Longrightarrow> a < 256 \<Longrightarrow> 0 \<le> m \<Longrightarrow> (a + 256 * r) div (256 * m) = r div (m::int)"
  by (simp add: zdiv_zmult2_eq div_mult_self2)

lemma bit_of_int_word: "n < 32 \<Longrightarrow> bit (of_int k :: u32) n \<longleftrightarrow> odd (k div 2 ^ n)"
  by (simp only: bit_word_of_int_iff) (simp add: bit_iff_odd)

lemma mask_bits: "x AND 0x80808080 = 0 \<Longrightarrow> \<not> bit x 7 \<and> \<not> bit x 15 \<and> \<not> bit x 23 \<and> \<not> bit x 31" for x :: u32
proof -
  assume "x AND 0x80808080 = 0"
  then have "\<not> (bit x n \<and> bit (0x80808080 :: u32) n)" for n
    by (metis bit_0_eq bit_and_iff bot_apply bot_bool_def)
  from this [of 7] this [of 15] this [of 23] this [of 31] show ?thesis by simp
qed

text \<open>The four sign positions of the little-endian bytes of \<open>k\<close> are clear.\<close>

definition even_at :: "int \<Rightarrow> bool" where
  "even_at k \<longleftrightarrow> even (k div 2 ^ 7) \<and> even (k div 2 ^ 15) \<and> even (k div 2 ^ 23) \<and> even (k div 2 ^ 31)"

lemma digits_low:
  assumes "even_at (a + 256 * (b + 256 * (c + 256 * d)))"
    and "0 \<le> a" "a < 256" "0 \<le> b" "b < 256" "0 \<le> c" "c < 256" "0 \<le> d" "d < 256"
  shows "a < 128 \<and> b < 128 \<and> c < 128 \<and> d < 128"
proof -
  define r2 where "r2 = c + 256 * d"
  define r where "r = b + 256 * r2"
  define k where "k = a + 256 * r"
  have ev: "even (k div 128)" "even (k div (256 * 128))" "even (k div (256 * 32768))" "even (k div (256 * 8388608))"
    using assms(1) by (simp_all add: even_at_def k_def r_def r2_def)
  have k: "k div (256 * m) = r div m" "r div (256 * m) = r2 div m" "r2 div (256 * m) = d div m" if "0 \<le> m" for m
    unfolding k_def r_def r2_def by (rule carry_step; use assms(2-7) that in simp)+
  have a: "a < 128" using low_step [of a r] assms(2,3) ev(1) by (simp add: k_def)
  have b: "b < 128" using low_step [of b r2] assms(4,5) ev(2) k(1) [of 128] by (simp add: r_def)
  have "k div (256 * 32768) = r2 div 128" using k(1) [of 32768] k(2) [of 128] by simp
  then have c: "c < 128" using low_step [of c d] assms(6,7) ev(3) by (simp add: r2_def)
  have "k div (256 * 8388608) = d div 128" using k(1) [of 8388608] k(2) [of 32768] k(3) [of 128] by simp
  then have "d < 128" using low_step [of d 0] assms(8,9) ev(4) by simp
  with a b c show ?thesis by simp
qed

lemma digits_nonneg:
  assumes "even_at (a + 256 * (b + 256 * (c + 256 * d)))"
    and "-1 \<le> a" "a < 128" "-1 \<le> b" "b < 128" "-1 \<le> c" "c < 128" "-1 \<le> d" "d < 128"
  shows "0 \<le> a \<and> 0 \<le> b \<and> 0 \<le> c \<and> 0 \<le> d"
proof -
  let ?r = "b + 256 * (c + 256 * d)"
  have a: "0 \<le> a" using assms by (intro borrow_step [of a ?r]) (auto simp: even_at_def)
  have "(a + 256 * ?r) div (256 * 128) = ?r div 128" "(a + 256 * ?r) div (256 * 32768) = ?r div (256 * 128)"
     "(a + 256 * ?r) div (256 * 8388608) = ?r div (256 * 32768)"
    using assms a by (subst carry_step; simp)+
  then have r: "even (?r div 128)" "even (?r div (256 * 128))" "even (?r div (256 * 32768))"
    using assms(1) by (simp_all add: even_at_def)
  have b: "0 \<le> b" using assms r by (intro borrow_step [of b "c + 256 * d"]) auto
  have "?r div (256 * 128) = (c + 256 * d) div 128" "?r div (256 * 32768) = (c + 256 * d) div (256 * 128)"
    using assms b by (subst carry_step; simp)+
  with r have r2: "even ((c + 256 * d) div 128)" "even ((c + 256 * d) div (256 * 128))" by simp_all
  have c: "0 \<le> c" using assms r2 by (intro borrow_step [of c d]) auto
  have "(c + 256 * d) div (256 * 128) = d div 128"
    using assms c by (subst carry_step; simp)
  with r2 have "0 \<le> d" using assms by (intro borrow_step [of d 0]) auto
  with a b c show ?thesis by simp
qed


lemma word_at_digits:
  assumes "word_at buf s = Some w"
  shows "w = of_int (uint (buf ! s) + 256 * (uint (buf ! (s + 1)) + 256 * (uint (buf ! (s + 2)) + 256 * uint (buf ! (s + 3)))))"
proof -
  define b where "b i = (ucast (buf ! (s + i)) :: u32)" for i
  have small: "unat (b i) < 2 ^ 8" for i using unat_byte_less [of "buf ! (s + i)"] by (simp add: b_def)
  have "w = b 0 OR push_bit 8 (b 1 OR push_bit 8 (b 2 OR push_bit 8 (b 3)))"
    using assms by (auto simp: word_at_def b_def rd_def push_bit_or or.assoc split: if_splits)
  also have "\<dots> = b 0 + (b 1 + (b 2 + b 3 * 2 ^ 8) * 2 ^ 8) * 2 ^ 8"
    by (simp only: or_shift [OF small])
  also have "\<dots> = of_int (uint (buf ! s) + 256 * (uint (buf ! (s + 1)) + 256 * (uint (buf ! (s + 2)) + 256 * uint (buf ! (s + 3)))))"
    by (simp only: b_def of_int_add of_int_mult of_int_numeral unsigned_of_int) (simp add: algebra_simps)
  finally show ?thesis .
qed

lemma ascii4_even:
  assumes "ascii4 w" "w = of_int W" "w - 0x01010101 = of_int V"
  shows "even_at W" "even_at V"
proof -
  have m: "\<not> bit (of_int k :: u32) 7 \<and> \<not> bit (of_int k :: u32) 15 \<and> \<not> bit (of_int k :: u32) 23 \<and> \<not> bit (of_int k :: u32) 31"
    if "k = W \<or> k = V" for k
    using mask_bits [of "w OR (w - 0x01010101)"] assms(1) that unfolding ascii4_def bit_or_iff assms(3) unfolding assms(2)
    by blast
  have "even_at k" if "k = W \<or> k = V" for k
    using m [OF that] bit_of_int_word [of 7 k] bit_of_int_word [of 15 k] bit_of_int_word [of 23 k] bit_of_int_word [of 31 k]
    unfolding even_at_def by linarith
  then show "even_at W" "even_at V" by blast+
qed

lemma ascii4_bytes:
  assumes "word_at buf s = Some w" "ascii4 w" "i < 4"
  shows "1 \<le> unat (buf ! (s + i)) \<and> unat (buf ! (s + i)) < 0x80"
proof -
  define d where "d i = uint (buf ! (s + i))" for i
  have d: "0 \<le> d i" "d i < 256" for i
    using uint_lt2p [of "buf ! (s + i)"] by (simp_all add: d_def)
  define W where "W = d 0 + 256 * (d 1 + 256 * (d 2 + 256 * d 3))"
  define V where "V = (d 0 - 1) + 256 * ((d 1 - 1) + 256 * ((d 2 - 1) + 256 * (d 3 - 1)))"
  have w: "w = of_int W" using word_at_digits [OF assms(1)] by (simp add: d_def W_def)
  have "V = W - 0x01010101" by (simp add: V_def W_def)
  then have v: "w - 0x01010101 = of_int V" by (simp add: w)
  have ev: "even_at W" "even_at V" using ascii4_even [OF assms(2) w v] by blast+
  have low: "d 0 < 128 \<and> d 1 < 128 \<and> d 2 < 128 \<and> d 3 < 128"
    by (rule digits_low [OF ev(1) [unfolded W_def]]) (rule d)+
  have "0 \<le> d 0 - 1 \<and> 0 \<le> d 1 - 1 \<and> 0 \<le> d 2 - 1 \<and> 0 \<le> d 3 - 1"
    using low d [of 0] d [of 1] d [of 2] d [of 3] by (intro digits_nonneg [OF ev(2) [unfolded V_def]]) linarith+
  moreover have "i = 0 \<or> i = 1 \<or> i = 2 \<or> i = 3" using assms(3) by auto
  ultimately have "1 \<le> d i \<and> d i < 128" using low by auto
  then show ?thesis unfolding d_def unat_eq_nat_uint by linarith
qed

section \<open>The loops over words\<close>

definition nul_at :: "nat \<Rightarrow> byte list \<Rightarrow> nat \<Rightarrow> nat \<Rightarrow> bool" where
  "nul_at base buf s z \<longleftrightarrow> s \<le> z \<and> z < length buf \<and> buf ! z = 0 \<and> (base + z) div 4 * 4 + 4 \<le> base + length buf"

definition ascii_block :: "byte list \<Rightarrow> nat \<Rightarrow> nat \<Rightarrow> bool" where
  "ascii_block buf s m \<longleftrightarrow> s + m \<le> length buf \<and> (\<forall>i<m. 1 \<le> unat (buf ! (s + i)) \<and> unat (buf ! (s + i)) < 0x80)"

lemma ascii_block_0 [simp]: "nul_at base buf s z \<Longrightarrow> ascii_block buf s 0"
  by (simp add: ascii_block_def nul_at_def)

lemma ascii_block_add:
  assumes "ascii_block buf s m" "ascii_block buf (s + m) n"
  shows "ascii_block buf s (m + n)"
proof -
  have "1 \<le> unat (buf ! (s + i)) \<and> unat (buf ! (s + i)) < 0x80" if "i < m + n" for i
    using assms that unfolding ascii_block_def
    by (cases "i < m") (auto dest!: spec [of _ "i - m"])
  with assms show ?thesis by (auto simp: ascii_block_def)
qed

lemma nul_at_word:
  assumes "nul_at base buf s z" "(base + s) mod 4 = 0"
  obtains w where "word_at buf s = Some w"
proof -
  have "(base + s) div 4 * 4 = base + s" using assms(2) by presburger
  moreover have "(base + s) div 4 \<le> (base + z) div 4" using assms(1) by (simp add: nul_at_def div_le_mono)
  ultimately have "s + 4 \<le> length buf" using assms(1) unfolding nul_at_def by linarith
  then show ?thesis using that by (simp add: word_at_def rd_def)
qed

lemma ascii4_block:
  assumes "word_at buf s = Some w" "ascii4 w"
  shows "ascii_block buf s 4"
  using ascii4_bytes [OF assms] word_at_inside [OF assms(1)] by (simp add: ascii_block_def)

lemma nul_at_skip:
  assumes "nul_at base buf s z" "ascii_block buf s m"
  shows "nul_at base buf (s + m) z"
proof -
  have "\<not> z - s < m" using assms unfolding nul_at_def ascii_block_def
    by (metis le_add_diff_inverse not_one_le_zero unat_0)
  with assms show ?thesis by (auto simp: nul_at_def)
qed

lemma aligned_4: "(base + s) mod 4 = 0 \<Longrightarrow> (base + (s + 4)) mod 4 = (0::nat)"
  by presburger

lemma skip4_spec:
  assumes "nul_at base buf s z" "(base + s) mod 4 = 0"
  shows "\<exists>m. skip4 buf s wn = Some (s + m, wn - of_nat m) \<and> ascii_block buf s m"
  using assms
proof (induction buf s wn rule: skip4.induct)
  case (1 buf s wn)
  obtain w where w: "word_at buf s = Some w" using nul_at_word [OF 1(2,3)] .
  show ?case
  proof (cases "ascii4 w")
    case True
    note blk = ascii4_block [OF w True]
    obtain m where m: "skip4 buf (s + 4) (wn - 4) = Some (s + 4 + m, wn - 4 - of_nat m)" "ascii_block buf (s + 4) m"
      using 1(1) [OF w True nul_at_skip [OF 1(2) blk] aligned_4 [OF 1(3)]] by blast
    then have "skip4 buf s wn = Some (s + (4 + m), wn - of_nat (4 + m))"
      using w True by (subst skip4.simps) (simp add: algebra_simps)
    with ascii_block_add [OF blk m(2)] show ?thesis by blast
  next
    case False
    then show ?thesis using w 1(2) by (subst skip4.simps) (auto intro: exI [of _ 0])
  qed
qed

lemma copy4_spec:
  assumes "nul_at base buf s z" "(base + s) mod 4 = 0" "wn \<noteq> 0"
  shows "\<exists>m. copy4 buf s wn ws = Some (s + m, wn - of_nat m, ws @ map ucast (take m (drop s buf)))
             \<and> ascii_block buf s m \<and> m < unat wn"
  using assms
proof (induction buf s wn ws rule: copy4.induct)
  case (1 buf s wn ws)
  obtain w where w: "word_at buf s = Some w" using nul_at_word [OF 1(2,3)] .
  show ?case
  proof (cases "wn \<ge> 5 \<and> ascii4 w")
    case True
    then have n: "5 \<le> unat wn" by (simp add: word_le_nat_alt)
    then have n4: "unat (wn - 4) = unat wn - 4" by (simp add: unat_sub word_le_nat_alt)
    then have "unat (wn - 4) \<noteq> 0" using n by linarith
    then have nz: "wn - 4 \<noteq> 0" by (metis unat_0)
    have a: "ascii4 w" "wn \<ge> 5" using True by auto
    note blk = ascii4_block [OF w a(1)]
    let ?four = "map ucast (take 4 (drop s buf)) :: u32 list"
    have len: "s + 3 < length buf" using word_at_inside [OF w] .
    then have four: "[ucast (buf ! s), ucast (buf ! (s + 1)), ucast (buf ! (s + 2)), ucast (buf ! (s + 3))] = ?four"
      by (simp add: list_eq_iff_nth_eq less_Suc_eq numeral_eq_Suc nth_Cons split: nat.split)
    obtain m where m: "copy4 buf (s + 4) (wn - 4) (ws @ ?four) =
          Some (s + 4 + m, wn - 4 - of_nat m, (ws @ ?four) @ map ucast (take m (drop (s + 4) buf)))"
        "ascii_block buf (s + 4) m" "m < unat (wn - 4)"
      using 1(1) [OF a(2) w a(1) nul_at_skip [OF 1(2) blk] aligned_4 [OF 1(3)] nz] unfolding four by blast
    have "take (4 + m) (drop s buf) = take 4 (drop s buf) @ take m (drop (s + 4) buf)"
      by (simp only: take_add drop_drop add.commute [of 4 s])
    moreover have "copy4 buf s wn ws = copy4 buf (s + 4) (wn - 4) (ws @ ?four)"
      using w a by (subst copy4.simps) (simp only: four option.case if_True)
    ultimately have "copy4 buf s wn ws = Some (s + (4 + m), wn - of_nat (4 + m), ws @ map ucast (take (4 + m) (drop s buf)))"
      using m(1) by (simp add: algebra_simps)
    with ascii_block_add [OF blk m(2)] m(3) n4 show ?thesis by (intro exI [of _ "4 + m"]) simp
  next
    case False
    then show ?thesis using w 1(2,4) by (subst copy4.simps) (auto intro!: exI [of _ 0] simp: unat_gt_0)
  qed
qed

section \<open>ASCII in the reference\<close>

lemma utf8_run_ascii:
  assumes "ascii_block buf s m"
  shows "utf8_run lim (m + n) (drop s buf) =
    (case utf8_run lim n (drop (s + m) buf) of (ns, k, e) \<Rightarrow> (map unat (take m (drop s buf)) @ ns, m + k, e))"
  using assms
proof (induction m arbitrary: s)
  case (Suc m)
  have s: "s < length buf" "1 \<le> unat (buf ! s)" "unat (buf ! s) < 0x80"
    using Suc.prems by (auto simp: ascii_block_def dest: spec [of _ 0])
  have d: "drop s buf = buf ! s # drop (Suc s) buf" using s by (simp add: Cons_nth_drop_Suc)
  have "ascii_block buf (Suc s) m"
    using Suc.prems by (auto simp: ascii_block_def dest!: spec [of _ "Suc _"])
  from Suc.IH [OF this] s show ?case unfolding d
    by (auto simp: d split: prod.split)
qed (simp split: prod.split)

end
