(* ===== verification/Mbsrtowcs.thy ===== *)
theory Mbsrtowcs
  imports Multibyte_Ascii
begin

text \<open>
  The conversions of whole strings against the reference \<open>utf8_run\<close>.
\<close>

section \<open>The loops\<close>

text \<open>
  What a loop must return for the reference outcome \<open>(ns, k, e)\<close> at \<open>s\<close>: \<open>Full\<close> when \<open>wn\<close>
  characters are stored, else a \<open>Break\<close> at the first byte not converted, with \<open>c = 0\<close> and a NUL
  there exactly when the string has ended.
\<close>

definition exit_ok :: "byte list \<Rightarrow> nat \<Rightarrow> u64 \<Rightarrow> u32 list \<Rightarrow> nat \<Rightarrow> nat \<times> run_end \<Rightarrow> mb_exit option \<Rightarrow> bool" where
  "exit_ok buf s wn out len x r \<longleftrightarrow>
     (case x of (k, e) \<Rightarrow>
       if e = Filled then r = Some (Full (s + k) out)
       else (\<exists>c. r = Some (Break (int (s + k)) c (wn - of_nat len) out) \<and> s + k < length buf
              \<and> (e = Terminated \<longleftrightarrow> c = 0 \<and> buf ! (s + k) = 0)))"

lemma byte_1_7f: "ucast b - 1 < (0x7f :: u32) \<longleftrightarrow> 1 \<le> unat b \<and> unat b < 0x80" for b :: byte
proof (cases "b = 0")
  case False
  then have "1 \<le> unat b" by (simp add: Suc_leI unat_gt_0)
  then have "unat (ucast b - 1 :: u32) = unat b - 1"
    by (subst unat_sub) (simp_all add: word_le_nat_alt)
  then show ?thesis using \<open>1 \<le> unat b\<close> by (auto simp: word_less_nat_alt)
qed simp

lemma byte_lead: "ucast b - SA > SB - SA \<longleftrightarrow> \<not> (0xc2 \<le> unat b \<and> unat b \<le> 0xf4)" for b :: byte
proof -
  have "unat (ucast b - 0xc2 :: u32) = (if 0xc2 \<le> unat b then unat b - 0xc2 else 2 ^ 32 + unat b - 0xc2)"
    by (subst unat_sub_if') (simp add: word_le_nat_alt)
  then show ?thesis
    using unat_byte_less [of b] by (auto simp: SA_def SB_def word_less_nat_alt)
qed

lemma utf8_multi_bad: "L < 0xc2 \<or> 0xf4 < L \<Longrightarrow> utf8_multi lim L bs = None"
  by (auto simp: utf8_multi_def)

lemma nul_at_multi:
  assumes "nul_at base buf s z" "utf8_multi mb_lim (unat (buf ! s)) (drop (Suc s) buf) = Some (n, l)"
  shows "nul_at base buf (s + l) z"
proof -
  have s: "s < length buf" using assms(1) by (simp add: nul_at_def)
  have lim: "0x10000 \<le> mb_lim" by (simp add: )
  have enc: "0x80 \<le> n" "scalar_below mb_lim n" "take l (drop s buf) = utf8_enc n"
    using utf8_multi_inv [OF assms(2) lim] s by (auto simp: Cons_nth_drop_Suc)
  then have z: "0 \<notin> set (take l (drop s buf))"
    by (simp add: utf8_enc_no_nul scalar_below_def )
  have "\<not> z < s + l"
  proof
    assume "z < s + l"
    then have "z - s < length (take l (drop s buf))" "take l (drop s buf) ! (z - s) = buf ! z"
      using assms(1) by (auto simp: nul_at_def)
    with z assms(1) show False unfolding nul_at_def by (metis nth_mem)
  qed
  with assms(1) show ?thesis by (simp add: nul_at_def)
qed

lemma exit_ok_shift:
  assumes "exit_ok buf (s + m) (wn - of_nat c) out len (k, e) r"
  shows "exit_ok buf s wn out (c + len) (m + k, e) r"
  using assms by (auto simp: exit_ok_def add.assoc algebra_simps split: if_splits)

text \<open>The bodies of the loops after their word-at-a-time prefix.\<close>

definition conv_char :: "nat \<Rightarrow> byte list \<Rightarrow> nat \<Rightarrow> u64 \<Rightarrow> u32 list \<Rightarrow> mb_exit option" where
  "conv_char base buf s wn ws =
     (case rd buf s of None \<Rightarrow> None | Some b \<Rightarrow>
        if ucast b - 1 < (0x7f :: u32) then conv_loop base buf (s + 1) (wn - 1) (ws @ [ucast b])
        else if ucast b - SA > SB - SA then Some (Break (int s) 0 wn ws)
        else (case rd bittab (unat (ucast b - SA)) of None \<Rightarrow> None | Some c \<Rightarrow>
          (case resume buf (s + 1) c of
            ChFault \<Rightarrow> None
          | ChBreak s c \<Rightarrow> Some (Break s c wn ws)
          | ChNext s c \<Rightarrow> conv_loop base buf s (wn - 1) (ws @ [c]))))"

definition count_char :: "nat \<Rightarrow> byte list \<Rightarrow> nat \<Rightarrow> u64 \<Rightarrow> mb_exit option" where
  "count_char base buf s wn =
     (case rd buf s of None \<Rightarrow> None | Some b \<Rightarrow>
        if ucast b - 1 < (0x7f :: u32) then count_loop base buf (s + 1) (wn - 1)
        else if ucast b - SA > SB - SA then Some (Break (int s) 0 wn [])
        else (case rd bittab (unat (ucast b - SA)) of None \<Rightarrow> None | Some c \<Rightarrow>
          (case resume0 buf (s + 1) c of
            ChFault \<Rightarrow> None
          | ChBreak s c \<Rightarrow> Some (Break s c wn [])
          | ChNext s _ \<Rightarrow> count_loop base buf s (wn - 1))))"

lemma conv_loop_head:
  assumes "wn \<noteq> 0" "s < length buf"
  shows "conv_loop base buf s wn ws =
      (case (if ucast (buf ! s) - 1 < (0x7f :: u32) \<and> (base + s) mod 4 = 0 then copy4 buf s wn ws else Some (s, wn, ws)) of
         None \<Rightarrow> None | Some (s, wn, ws) \<Rightarrow> conv_char base buf s wn ws)"
  unfolding conv_char_def using assms(1) by (subst conv_loop.simps) (simp only: rd_inside [OF assms(2)] option.case if_False)

lemma conv_loop_prefix:
  assumes "nul_at base buf s z" "wn \<noteq> 0"
  obtains m where "ascii_block buf s m" "m < unat wn"
    "conv_loop base buf s wn ws = conv_char base buf (s + m) (wn - of_nat m) (ws @ map ucast (take m (drop s buf)))"
proof -
  have "s < length buf" using assms(1) by (simp add: nul_at_def)
  note conv_loop_head [OF assms(2) this]
  then show ?thesis
    using that [of 0] that copy4_spec [OF assms(1) _ assms(2), of ws] assms
    by (cases "ucast (buf ! s) - 1 < (0x7f :: u32) \<and> (base + s) mod 4 = 0") (auto simp: unat_gt_0)
qed

lemma count_loop_prefix:
  assumes "nul_at base buf s z"
  obtains m where "ascii_block buf s m"
    "count_loop base buf s wn = count_char base buf (s + m) (wn - of_nat m)"
proof -
  have s: "rd buf s = Some (buf ! s)" using assms(1) by (simp add: nul_at_def rd_inside)
  have "count_loop base buf s wn =
      (case (if ucast (buf ! s) - 1 < (0x7f :: u32) \<and> (base + s) mod 4 = 0 then skip4 buf s wn else Some (s, wn)) of
         None \<Rightarrow> None | Some (s, wn) \<Rightarrow> count_char base buf s wn)"
    unfolding count_char_def by (subst count_loop.simps) (simp only: s option.case)
  then show ?thesis
    using that [of 0] that skip4_spec [OF assms(1), of wn] assms
    by (cases "ucast (buf ! s) - 1 < (0x7f :: u32) \<and> (base + s) mod 4 = 0") auto
qed

lemma ucast_w32: "ucast b = w32 (unat b)" for b :: byte
  by (simp add: w32_def)

lemma map_ucast_w32: "map ucast bs = map w32 (map unat bs)" for bs :: "byte list"
  by (simp add: ucast_w32)

lemma run_split:
  assumes "ascii_block buf s m" "m \<le> w" "utf8_run lim w (drop s buf) = (ns, k, e)"
  obtains ns' k' where "utf8_run lim (w - m) (drop (s + m) buf) = (ns', k', e)"
    "ns = map unat (take m (drop s buf)) @ ns'" "k = m + k'"
  using assms utf8_run_ascii [of buf s m lim "w - m"] that by (auto split: prod.splits)

lemma length_block: "ascii_block buf s m \<Longrightarrow> length (take m (drop s buf)) = m"
  by (auto simp: ascii_block_def)

text \<open>
  The byte at \<open>s\<close> and the reference: the five ways one character can go.
\<close>

lemma nul_at_drop:
  assumes "nul_at base buf s z"
  shows "drop s buf = buf ! s # drop (Suc s) buf" "rd buf s = Some (buf ! s)" "buf ! s \<noteq> 0 \<Longrightarrow> 0 \<in> set (drop (Suc s) buf)"
proof -
  show d: "drop s buf = buf ! s # drop (Suc s) buf" "rd buf s = Some (buf ! s)"
    using assms by (auto simp: nul_at_def Cons_nth_drop_Suc rd_inside)
  have "drop s buf ! (z - s) = 0" "z - s < length (drop s buf)" using assms by (auto simp: nul_at_def)
  then have "0 \<in> set (drop s buf)" by (metis nth_mem)
  then show "0 \<in> set (drop (Suc s) buf)" if "buf ! s \<noteq> 0" using d(1) that by auto
qed

lemma run_step:
  assumes "nul_at base buf s z" "utf8_run mb_lim (Suc w) (drop s buf) = (ns, k, e)"
  obtains
    (nul) "buf ! s = 0" "ns = []" "k = 0" "e = Terminated"
  | (ascii) ns' k' where "1 \<le> unat (buf ! s)" "unat (buf ! s) < 0x80" "nul_at base buf (s + 1) z"
      "utf8_run mb_lim w (drop (s + 1) buf) = (ns', k', e)" "ns = unat (buf ! s) # ns'" "k = 1 + k'"
  | (bad) "0x80 \<le> unat (buf ! s)" "unat (buf ! s) < 0xc2 \<or> 0xf4 < unat (buf ! s)" "ns = []" "k = 0" "e = Illegal"
  | (ill) "0xc2 \<le> unat (buf ! s)" "unat (buf ! s) \<le> 0xf4" "0 \<in> set (drop (s + 1) buf)"
      "utf8_multi mb_lim (unat (buf ! s)) (drop (s + 1) buf) = None" "ns = []" "k = 0" "e = Illegal"
  | (multi) n l ns' k' where "0xc2 \<le> unat (buf ! s)" "unat (buf ! s) \<le> 0xf4" "0 \<in> set (drop (s + 1) buf)" "2 \<le> l"
      "utf8_multi mb_lim (unat (buf ! s)) (drop (s + 1) buf) = Some (n, l)" "nul_at base buf (s + l) z"
      "utf8_run mb_lim w (drop (s + l) buf) = (ns', k', e)" "ns = n # ns'" "k = l + k'"
proof -
  note d = nul_at_drop [OF assms(1)]
  have run: "(if buf ! s = 0 then ([], 0, Terminated)
      else case utf8_dec mb_lim (buf ! s # drop (Suc s) buf) of None \<Rightarrow> ([], 0, Illegal)
        | Some (n, l) \<Rightarrow> (case utf8_run mb_lim w (drop (s + l) buf) of (ns, k, e) \<Rightarrow> (n # ns, l + k, e))) = (ns, k, e)"
    using assms(2) unfolding utf8_run.simps(2) drop_drop add.commute [of _ s] unfolding d(1)
    by (simp only: list.sel list.distinct not_False_eq_True simp_thms)
  consider "buf ! s = 0" | "1 \<le> unat (buf ! s)" "unat (buf ! s) < 0x80"
    | "0x80 \<le> unat (buf ! s)" "unat (buf ! s) < 0xc2 \<or> 0xf4 < unat (buf ! s)"
    | "0xc2 \<le> unat (buf ! s)" "unat (buf ! s) \<le> 0xf4"
    by (metis One_nat_def Suc_leI not_le unat_gt_0)
  then show ?thesis
  proof cases
    case 1
    with run nul show ?thesis by simp
  next
    case 2
    then have "ascii_block buf s 1" "buf ! s \<noteq> 0" using assms(1) by (auto simp: ascii_block_def nul_at_def)
    from nul_at_skip [OF assms(1) this(1)] this(2) 2 run ascii show ?thesis by (auto split: prod.splits)
  next
    case 3
    then have "buf ! s \<noteq> 0" "utf8_multi mb_lim (unat (buf ! s)) (drop (Suc s) buf) = None"
      by (auto intro: utf8_multi_bad)
    with 3 run bad show ?thesis by auto
  next
    case 4
    then have nz: "buf ! s \<noteq> 0" by auto
    show ?thesis
    proof (cases "utf8_multi mb_lim (unat (buf ! s)) (drop (Suc s) buf)")
      case None
      with 4 run nz ill d(3) show ?thesis by simp
    next
      case (Some p)
      obtain n l where p: "p = (n, l)" by force
      from Some have "nul_at base buf (s + l) z" "2 \<le> l"
        using nul_at_multi [OF assms(1)] utf8_multi_length p by blast+
      with 4 run nz multi d(3) Some p show ?thesis by (auto split: prod.splits)
    qed
  qed
qed

lemma exit_ok_cons:
  assumes "exit_ok buf (s + l) (wn - 1) ((ws @ [x]) @ map w32 ns') (length ns') (k', e) r"
    and "ns = n # ns'" "k = l + k'" "x = w32 n"
  shows "exit_ok buf s wn (ws @ map w32 ns) (length ns) (k, e) r"
  using exit_ok_shift [of buf s l wn 1] assms by simp

lemma conv_char_spec:
  assumes z: "nul_at base buf s z" and wn: "wn \<noteq> 0" and run: "utf8_run mb_lim (unat wn) (drop s buf) = (ns, k, e)"
    and later: "\<And>s' wn' ws' ns' k' e'. s < s' \<Longrightarrow> nul_at base buf s' z \<Longrightarrow> utf8_run mb_lim (unat wn') (drop s' buf) = (ns', k', e') \<Longrightarrow>
      exit_ok buf s' wn' (ws' @ map w32 ns') (length ns') (k', e') (conv_loop base buf s' wn' ws')"
  shows "exit_ok buf s wn (ws @ map w32 ns) (length ns) (k, e) (conv_char base buf s wn ws)"
proof -
  have s: "s < length buf" using z by (simp add: nul_at_def)
  obtain w where w: "unat wn = Suc w" using wn by (metis not0_implies_Suc unat_eq_0)
  then have w1: "unat (wn - 1) = w" using wn by (simp add: unat_minus_one)
  have step: "conv_char base buf s wn ws =
     (if 1 \<le> unat (buf ! s) \<and> unat (buf ! s) < 0x80 then conv_loop base buf (s + 1) (wn - 1) (ws @ [ucast (buf ! s)])
      else if \<not> (0xc2 \<le> unat (buf ! s) \<and> unat (buf ! s) \<le> 0xf4) then Some (Break (int s) 0 wn ws)
      else case resume buf (s + 1) (w32 (lead_code (unat (buf ! s)))) of
            ChFault \<Rightarrow> None
          | ChBreak s c \<Rightarrow> Some (Break s c wn ws)
          | ChNext s c \<Rightarrow> conv_loop base buf s (wn - 1) (ws @ [c]))"
    unfolding conv_char_def nul_at_drop(2) [OF z] option.case byte_1_7f byte_lead
    by (auto simp: bittab_nth)
  note dec = resume_lead [of "unat (buf ! s)" "s + 1" buf, unfolded decodes_def]
  show ?thesis
  proof (cases rule: run_step [OF z run [unfolded w], case_names nul ascii bad ill multi])
    case nul
    then show ?thesis using s by (simp add: step exit_ok_def)
  next
    case (ascii ns' k')
    have "conv_char base buf s wn ws = conv_loop base buf (s + 1) (wn - 1) (ws @ [ucast (buf ! s)])"
      using ascii(1,2) by (simp add: step)
    with later [of "s + 1" "wn - 1" ns' k' e "ws @ [ucast (buf ! s)]"] ascii(3,4) w1 show ?thesis
      by (intro exit_ok_cons [OF _ ascii(5,6) ucast_w32]) simp
  next
    case bad
    then show ?thesis using s by (auto simp: step exit_ok_def)
  next
    case ill
    then show ?thesis using s dec by (auto simp: step exit_ok_def)
  next
    case (multi n l ns' k')
    then have "conv_char base buf s wn ws = conv_loop base buf (s + l) (wn - 1) (ws @ [w32 n])"
      using dec by (auto simp: step)
    with later [of "s + l" "wn - 1" ns' k' e "ws @ [w32 n]"] multi(4,6,7) w1 show ?thesis
      by (intro exit_ok_cons [OF _ multi(8,9) refl]) simp
  qed
qed

lemma conv_loop_spec:
  assumes "nul_at base buf s z" "utf8_run mb_lim (unat wn) (drop s buf) = (ns, k, e)"
  shows "exit_ok buf s wn (ws @ map w32 ns) (length ns) (k, e) (conv_loop base buf s wn ws)"
  using assms
proof (induction "length buf - s" arbitrary: s wn ws ns k e rule: less_induct)
  case less
  show ?case
  proof (cases "wn = 0")
    case True
    then show ?thesis using less.prems(2) by (subst conv_loop.simps) (simp add: exit_ok_def)
  next
    case False
    obtain m where m: "ascii_block buf s m" "m < unat wn"
        "conv_loop base buf s wn ws = conv_char base buf (s + m) (wn - of_nat m) (ws @ map ucast (take m (drop s buf)))"
      using conv_loop_prefix [OF less.prems(1) False] .
    have u: "unat (wn - of_nat m) = unat wn - m"
      using m(2) unsigned_less [of wn, where ?'a = nat] by (simp add: unat_sub word_le_nat_alt unat_of_nat)
    obtain ns' k' where r: "utf8_run mb_lim (unat (wn - of_nat m)) (drop (s + m) buf) = (ns', k', e)"
        "ns = map unat (take m (drop s buf)) @ ns'" "k = m + k'"
      using run_split [OF m(1) less_imp_le [OF m(2)] less.prems(2)] unfolding u .
    have nz: "wn - of_nat m \<noteq> 0" using u m(2) by (metis unat_0 zero_less_diff less_irrefl)
    note z = nul_at_skip [OF less.prems(1) m(1)]
    have "exit_ok buf (s + m) (wn - of_nat m) ((ws @ map ucast (take m (drop s buf))) @ map w32 ns') (length ns') (k', e)
       (conv_loop base buf s wn ws)"
      unfolding m(3)
    proof (rule conv_char_spec [OF z nz r(1)])
      fix s' ns' k' e' and wn' :: u64 and ws' :: "u32 list"
      assume "s + m < s'" "nul_at base buf s' z" "utf8_run mb_lim (unat wn') (drop s' buf) = (ns', k', e')"
      then show "exit_ok buf s' wn' (ws' @ map w32 ns') (length ns') (k', e') (conv_loop base buf s' wn' ws')"
        by (intro less.hyps) (auto simp: nul_at_def)
    qed
    from exit_ok_shift [OF this] show ?thesis
      using length_block [OF m(1)] unfolding r(2,3) map_ucast_w32 by (simp only: map_append length_append length_map append_assoc)
  qed
qed

text \<open>Counting has no limit: the reference runs with any limit larger than the string.\<close>

lemma count_char_spec:
  assumes z: "nul_at base buf s z" and run: "utf8_run mb_lim (Suc N) (drop s buf) = (ns, k, e)"
    and later: "\<And>s' wn' ns' k' e'. s < s' \<Longrightarrow> nul_at base buf s' z \<Longrightarrow> utf8_run mb_lim N (drop s' buf) = (ns', k', e') \<Longrightarrow>
      exit_ok buf s' wn' [] (length ns') (k', e') (count_loop base buf s' wn')"
  shows "exit_ok buf s wn [] (length ns) (k, e) (count_char base buf s wn)"
proof -
  have s: "s < length buf" using z by (simp add: nul_at_def)
  have step: "count_char base buf s wn =
     (if 1 \<le> unat (buf ! s) \<and> unat (buf ! s) < 0x80 then count_loop base buf (s + 1) (wn - 1)
      else if \<not> (0xc2 \<le> unat (buf ! s) \<and> unat (buf ! s) \<le> 0xf4) then Some (Break (int s) 0 wn [])
      else case resume0 buf (s + 1) (w32 (lead_code (unat (buf ! s)))) of
            ChFault \<Rightarrow> None
          | ChBreak s c \<Rightarrow> Some (Break s c wn [])
          | ChNext s c \<Rightarrow> count_loop base buf s (wn - 1))"
    unfolding count_char_def nul_at_drop(2) [OF z] option.case byte_1_7f byte_lead
    by (auto simp: bittab_nth)
  note dec = resume0_lead [of "unat (buf ! s)" "s + 1" buf, unfolded decodes_def]
  show ?thesis
  proof (cases rule: run_step [OF z run, case_names nul ascii bad ill multi])
    case nul
    then show ?thesis using s by (simp add: step exit_ok_def)
  next
    case (ascii ns' k')
    then show ?thesis
      using later [of "s + 1" ns' k' e "wn - 1"] exit_ok_shift [of buf s 1 wn 1 "[]" "length ns'" k' e] by (simp add: step)
  next
    case bad
    then show ?thesis using s by (auto simp: step exit_ok_def)
  next
    case ill
    then show ?thesis using s dec by (auto simp: step exit_ok_def)
  next
    case (multi n l ns' k')
    then obtain c where "resume0 buf (s + 1) (w32 (lead_code (unat (buf ! s)))) = ChNext (s + l) c"
      using dec by auto
    with multi show ?thesis
      using later [of "s + l" ns' k' e "wn - 1"] exit_ok_shift [of buf s l wn 1 "[]" "length ns'" k' e] by (simp add: step)
  qed
qed

lemma count_loop_spec:
  assumes "nul_at base buf s z" "z - s < N" "utf8_run mb_lim N (drop s buf) = (ns, k, e)"
  shows "exit_ok buf s wn [] (length ns) (k, e) (count_loop base buf s wn)"
  using assms
proof (induction "length buf - s" arbitrary: s wn N ns k e rule: less_induct)
  case less
  obtain m where m: "ascii_block buf s m" "count_loop base buf s wn = count_char base buf (s + m) (wn - of_nat m)"
    using count_loop_prefix [OF less.prems(1)] .
  note z = nul_at_skip [OF less.prems(1) m(1)]
  then have mN: "m \<le> N" "z - (s + m) < N - m" using less.prems(2) by (auto simp: nul_at_def)
  obtain ns' k' where r: "utf8_run mb_lim (N - m) (drop (s + m) buf) = (ns', k', e)"
      "ns = map unat (take m (drop s buf)) @ ns'" "k = m + k'"
    using run_split [OF m(1) mN(1) less.prems(3)] .
  obtain N' where N': "N - m = Suc N'" using mN(2) by (cases "N - m") auto
  have "exit_ok buf (s + m) (wn - of_nat m) [] (length ns') (k', e) (count_loop base buf s wn)"
    unfolding m(2)
  proof (rule count_char_spec [OF z r(1) [unfolded N']])
    fix s' ns' k' e' and wn' :: u64
    assume "s + m < s'" "nul_at base buf s' z" "utf8_run mb_lim N' (drop s' buf) = (ns', k', e')"
    then show "exit_ok buf s' wn' [] (length ns') (k', e') (count_loop base buf s' wn')"
      using mN(2) N' by (intro less.hyps [where N = N']) (auto simp: nul_at_def)
  qed
  from exit_ok_shift [OF this] show ?case
    using length_block [OF m(1)] by (simp add: r(2,3))
qed

section \<open>mbsrtowcs\<close>

abbreviation initial :: "u32 option \<Rightarrow> bool" where
  "initial st \<equiv> st = None \<or> st = Some 0"

text \<open>What the caller must see for a reference outcome\<close>

definition converted :: "nat \<Rightarrow> u64 \<Rightarrow> u32 option \<Rightarrow> nat list \<times> nat \<times> run_end \<Rightarrow> mbs_result" where
  "converted s0 wn0 st x =
     (case x of (ns, k, e) \<Rightarrow>
        (case e of
           Filled \<Rightarrow> \<lparr>ret = wn0, src = Some (int (s0 + k)), stored = map w32 ns, state = st, eilseq = False\<rparr>
         | Terminated \<Rightarrow>
             \<lparr>ret = of_nat (length ns), src = None, stored = map w32 ns @ [0], state = st, eilseq = False\<rparr>
         | Illegal \<Rightarrow>
             \<lparr>ret = -1, src = Some (int (s0 + k)), stored = map w32 ns, state = st, eilseq = True\<rparr>))"

definition counted :: "nat \<Rightarrow> u32 option \<Rightarrow> nat list \<times> nat \<times> run_end \<Rightarrow> mbs_result" where
  "counted s0 st x =
     (case x of (ns, k, e) \<Rightarrow>
        \<lparr>ret = (if e = Illegal then -1 else of_nat (length ns)), src = Some (int s0), stored = [], state = st,
         eilseq = (e = Illegal)\<rparr>)"

lemma finish_exit:
  assumes "exit_ok buf s0 wn0 (map w32 ns) (length ns) (k, e) r"
  shows "Option.bind r (mbs_finish buf True s0 wn0 st) = Some (converted s0 wn0 st (ns, k, e))"
  using assms by (cases e) (auto simp: exit_ok_def mbs_finish_def converted_def Let_def rd_inside nat_int_add)

lemma finish_count:
  assumes "exit_ok buf s0 wn0 [] (length ns) (k, e) r" "e \<noteq> Filled"
  shows "Option.bind r (mbs_finish buf False s0 wn0 st) = Some (counted s0 st (ns, k, e))"
  using assms by (cases e) (auto simp: exit_ok_def mbs_finish_def counted_def Let_def rd_inside nat_int_add)

lemma mbsrtowcs_initial:
  assumes "initial st"
  shows "mbsrtowcs base buf True s0 wn0 st = Option.bind (conv_loop base buf s0 wn0 []) (mbs_finish buf True s0 wn0 st)"
    and "mbsrtowcs base buf False s0 wn0 st = Option.bind (count_loop base buf s0 wn0) (mbs_finish buf False s0 wn0 st)"
  using assms by (auto simp: mbsrtowcs_def Let_def)

lemma mbsrtowcs_spec:
  assumes "nul_at base buf s0 z" "initial st"
  shows "mbsrtowcs base buf True s0 wn0 st = Some (converted s0 wn0 st (utf8_run mb_lim (unat wn0) (drop s0 buf)))"
proof -
  obtain ns k e where x: "utf8_run mb_lim (unat wn0) (drop s0 buf) = (ns, k, e)" by (rule prod_cases3)
  from conv_loop_spec [OF assms(1) x, of "[]"] show ?thesis
    unfolding mbsrtowcs_initial [OF assms(2)] x by (intro finish_exit) simp
qed

text \<open>A run with a limit larger than the string meets its end.\<close>

lemma run_not_filled:
  assumes "nul_at base buf s z" "utf8_run mb_lim N (drop s buf) = (ns, k, e)" "z - s < N"
  shows "e \<noteq> Filled"
  using assms
proof (induction N arbitrary: s ns k e)
  case (Suc N)
  show ?case
  proof (cases rule: run_step [OF Suc.prems(1,2), case_names nul ascii bad ill multi])
    case (ascii ns' k')
    have "z - (s + 1) < N" using ascii(3) Suc.prems(3) unfolding nul_at_def by linarith
    from Suc.IH [OF ascii(3,4) this] show ?thesis .
  next
    case (multi n l ns' k')
    have "z - (s + l) < N" using multi(4,6) Suc.prems(3) unfolding nul_at_def by linarith
    from Suc.IH [OF multi(6,7) this] show ?thesis .
  qed auto
qed simp

section \<open>Within Unicode\<close>

text \<open>
  The state table takes the lead byte F4 with a second byte 90 to 9F, which UTF-8 does not. On a
  string without these two bytes in a row the conversion is the one of Unicode.
\<close>

fun within_unicode :: "byte list \<Rightarrow> bool" where
  "within_unicode (b # c # bs) \<longleftrightarrow> \<not> (b = 0xf4 \<and> 0x90 \<le> c \<and> c \<le> 0x9f) \<and> within_unicode (c # bs)"
| "within_unicode _ \<longleftrightarrow> True"

abbreviation c_string :: "byte list \<Rightarrow> byte list" where
  "c_string bs \<equiv> takeWhile (\<lambda>b. b \<noteq> 0) bs"

lemma within_drop: "within_unicode bs \<Longrightarrow> within_unicode (drop l bs)"
proof (induction l arbitrary: bs)
  case (Suc l)
  have "within_unicode (tl bs)" using Suc.prems by (cases bs rule: within_unicode.cases) simp_all
  then show ?case using Suc.IH [of "tl bs"] by (simp add: drop_Suc)
qed simp

lemma c_string_drop: "0 \<notin> set (take l bs) \<Longrightarrow> c_string (drop l bs) = drop l (c_string bs)"
proof (induction l arbitrary: bs)
  case (Suc l)
  then show ?case by (cases bs) auto
qed simp

lemma dec4_unicode:
  assumes "\<not> (L = 0xf4 \<and> 0x90 \<le> unat b1 \<and> unat b1 \<le> 0x9f)" "0xf0 \<le> L" "L \<le> 0xf4"
  shows "dec4 mb_lim L (b1 # bs) = dec4 0x110000 L (b1 # bs)"
proof -
  consider b2 b3 r where "bs = b2 # b3 # r" | "dec4 mb_lim L (b1 # bs) = None \<and> dec4 0x110000 L (b1 # bs) = None"
    by (cases "(0x110000 :: nat, L, b1 # bs)" rule: dec4.cases) auto
  then show ?thesis
  proof cases
    case 1
    have "(((L - 0xf0) * 64 + low6 b1) * 64 + low6 b2) * 64 + low6 b3 < 0x110000"
      if c: "cont b1" "cont b2" "cont b3" "(((L - 0xf0) * 64 + low6 b1) * 64 + low6 b2) * 64 + low6 b3 < mb_lim"
    proof (cases "L = 0xf4")
      case True
      have "low6 b1 < 32" using c(4) True by simp
      then have "low6 b1 < 16" using assms(1) True c(1) by (auto simp: cont_def low6_def)
      then show ?thesis using True low6_less [OF c(2)] low6_less [OF c(3)] by simp
    next
      case False
      define k where "k = L - 0xf0"
      have "k \<le> 3" using False assms(3) by (simp add: k_def)
      then have "((k * 64 + low6 b1) * 64 + low6 b2) * 64 + low6 b3 < 0x110000"
        using low6_less [OF c(1)] low6_less [OF c(2)] low6_less [OF c(3)] by simp
      then show ?thesis unfolding k_def .
    qed
    then show ?thesis unfolding 1 by (auto simp: Let_def)
  qed simp
qed

lemma utf8_dec_unicode:
  assumes "within_unicode (c_string bs)"
  shows "utf8_dec mb_lim bs = utf8_dec 0x110000 bs"
proof (cases bs rule: within_unicode.cases)
  case (1 b c r)
  have "\<not> (unat b = 0xf4 \<and> 0x90 \<le> unat c \<and> unat c \<le> 0x9f)"
  proof
    assume a: "unat b = 0xf4 \<and> 0x90 \<le> unat c \<and> unat c \<le> 0x9f"
    then have "b = 0xf4" "0x90 \<le> c" "c \<le> 0x9f" by (auto simp: word_unat_eq_iff word_le_nat_alt)
    moreover have "b \<noteq> 0" "c \<noteq> 0" using a by auto
    ultimately show False using assms by (simp add: 1)
  qed
  then show ?thesis using dec4_unicode [of "unat b" c r] by (auto simp: 1 utf8_multi_def)
qed (auto simp: utf8_multi_def)

lemma utf8_run_unicode:
  "within_unicode (c_string bs) \<Longrightarrow> utf8_run mb_lim w bs = utf8_run 0x110000 w bs"
proof (induction w arbitrary: bs)
  case (Suc w)
  show ?case
  proof (cases "utf8_dec 0x110000 bs")
    case (Some p)
    obtain n l where p: "p = (n, l)" by force
    show ?thesis
    proof (cases "bs \<noteq> [] \<and> hd bs = 0")
      case False
      have d: "scalar_below 0x110000 n" "take l bs = utf8_enc n" "0 < l"
        using utf8_dec_inv [of "0x110000" bs n l] utf8_dec_pos [of "0x110000" bs n l] Some p by auto
      have "n \<noteq> 0"
      proof
        assume "n = 0"
        with d have "take l bs = [0]" by (simp add: utf8_enc_def byte_of_def)
        with d(3) False show False by (cases bs) (auto simp: take_Cons')
      qed
      then have "0 \<notin> set (take l bs)" using d utf8_enc_no_nul [of n] by (simp add: scalar_below_def)
      then have "within_unicode (c_string (drop l bs))" using Suc.prems by (simp add: c_string_drop within_drop)
      then show ?thesis using Suc.IH [of "drop l bs"] utf8_dec_unicode [OF Suc.prems] Some p by (cases bs) auto
    qed simp
  qed (simp add: utf8_dec_unicode [OF Suc.prems])
qed simp

text \<open>
  C7: From the initial state, on a string whose terminating NUL lies in readable memory (up to the
  end of the aligned word that holds it), \<open>mbsrtowcs\<close> with a destination returns, whatever the
  alignment of the string, and returns what decoding UTF-8 character by character gives: the number of
  characters, the new \<open>*src\<close>, the stored characters, \<open>EILSEQ\<close> at the first ill-formed sequence. Only
  strings with the bytes F4 and 90 to 9F in a row are left out, which the code takes for characters
  beyond U+10FFFF.
\<close>

theorem mbsrtowcs_converts:
  assumes "nul_at base buf s0 z" "initial st" "within_unicode (c_string (drop s0 buf))"
  shows "mbsrtowcs base buf True s0 wn0 st = Some (converted s0 wn0 st (utf8_run 0x110000 (unat wn0) (drop s0 buf)))"
  using mbsrtowcs_spec [OF assms(1,2)] unfolding utf8_run_unicode [OF assms(3)] .

theorem mbsrtowcs_converts_witness:
  "mbsrtowcs 1 [0x61, 0xc3, 0xa9, 0x62, 0, 0, 0, 0] True 0 10 None =
     Some \<lparr>ret = 3, src = None, stored = [0x61, 0xe9, 0x62, 0], state = None, eilseq = False\<rparr>"
  using mbsrtowcs_converts [of 1 "[0x61, 0xc3, 0xa9, 0x62, 0, 0, 0, 0]" 0 4 None 10]
  by (simp add: nul_at_def converted_def utf8_multi_def cont_def low6_def w32_def)

text \<open>
  C8: Called with a null destination, \<open>mbsrtowcs\<close> counts: it returns the number of characters of the
  whole string, or \<open>-1\<close> with \<open>EILSEQ\<close> when the string is not well-formed UTF-8, and moves neither \<open>*src\<close>
  nor the state. Strings with the bytes F4 and 90 to 9F in a row are left out, as for the conversion.
\<close>

theorem mbsrtowcs_counts:
  assumes "nul_at base buf s0 z" "initial st" "within_unicode (c_string (drop s0 buf))"
  shows "mbsrtowcs base buf False s0 wn0 st = Some (counted s0 st (utf8_run 0x110000 (Suc (z - s0)) (drop s0 buf)))"
proof -
  obtain ns k e where x: "utf8_run mb_lim (Suc (z - s0)) (drop s0 buf) = (ns, k, e)" by (rule prod_cases3)
  then have "e \<noteq> Filled" by (rule run_not_filled [OF assms(1)]) simp
  with count_loop_spec [OF assms(1) _ x, of wn0]
  have "mbsrtowcs base buf False s0 wn0 st = Some (counted s0 st (ns, k, e))"
    unfolding mbsrtowcs_initial [OF assms(2)] by (intro finish_count) auto
  then show ?thesis unfolding x [symmetric] utf8_run_unicode [OF assms(3)] .
qed

theorem mbsrtowcs_counts_witness:
  "mbsrtowcs 0 [0x61, 0xe2, 0x82, 0xac, 0x62, 0, 0, 0] False 0 0 (Some 0) =
     Some \<lparr>ret = 3, src = Some 0, stored = [], state = Some 0, eilseq = False\<rparr>"
  using mbsrtowcs_counts [of 0 "[0x61, 0xe2, 0x82, 0xac, 0x62, 0, 0, 0]" 0 5 "Some 0" 0]
  by (simp add: nul_at_def counted_def utf8_multi_def cont_def low6_def surrogate_def)

text \<open>
  C9: Round trip: the UTF-8 encoding of any sequence of non-zero scalar values (up to U+10FFFF), followed
  by a NUL, at any alignment, converts back to that sequence and its terminator.
\<close>

theorem mbsrtowcs_roundtrip:
  fixes ns :: "nat list"
  defines "text \<equiv> concat (map utf8_enc ns)"
  assumes "\<forall>n \<in> set ns. n \<noteq> 0 \<and> scalar n" "length ns < unat wn0" "3 \<le> length pad" "initial st"
  shows "mbsrtowcs base (text @ 0 # pad) True 0 wn0 st =
    Some \<lparr>ret = of_nat (length ns), src = None, stored = map w32 ns @ [0], state = st, eilseq = False\<rparr>"
proof -
  have "(base + length text) div 4 * 4 \<le> base + length text" by simp
  then have "nul_at base (text @ 0 # pad) 0 (length text)"
    using assms(4) by (auto simp: nul_at_def nth_append)
  moreover have "utf8_run mb_lim (unat wn0) (text @ 0 # pad) = (ns, length text, Terminated)"
    unfolding text_def using assms(2,3) by (intro utf8_run_enc) (auto simp: scalar_below_def)
  ultimately show ?thesis
    using mbsrtowcs_spec [of base "text @ 0 # pad" 0 "length text" st wn0] assms(5) by (simp add: converted_def)
qed

theorem mbsrtowcs_roundtrip_witness:
  "mbsrtowcs 3 (concat (map utf8_enc [0x1f600, 0x20ac]) @ [0, 0, 0, 0]) True 0 3 None =
     Some \<lparr>ret = 2, src = None, stored = [0x1f600, 0x20ac, 0], state = None, eilseq = False\<rparr>"
  using mbsrtowcs_roundtrip [of "[0x1f600, 0x20ac]" 3 "[0, 0, 0]" None 3]
  by (simp add: scalar_below_def surrogate_def w32_def)

section \<open>Stores\<close>

text \<open>The room left is accounted for on every path, on any memory contents.\<close>

definition room_ok :: "u64 \<Rightarrow> u32 list \<Rightarrow> mb_exit \<Rightarrow> bool" where
  "room_ok wn ws x \<longleftrightarrow>
     (case x of Full _ ws' \<Rightarrow> length ws' = length ws + unat wn
      | Break _ _ wn' ws' \<Rightarrow> wn' \<noteq> 0 \<and> length ws' + unat wn' = length ws + unat wn)"

lemma copy4_room:
  "copy4 buf s wn ws = Some (s', wn', ws') \<Longrightarrow> wn \<noteq> 0 \<Longrightarrow> wn' \<noteq> 0 \<and> length ws' + unat wn' = length ws + unat wn"
proof (induction buf s wn ws rule: copy4.induct)
  case (1 buf s wn ws)
  have step: "unat (wn - 4) = unat wn - 4" "wn - 4 \<noteq> 0" if "wn \<ge> 5"
  proof -
    have w: "5 \<le> unat wn" using that by (simp add: word_le_nat_alt)
    then show u: "unat (wn - 4) = unat wn - 4" by (simp add: unat_sub word_le_nat_alt)
    have "unat (wn - 4) \<noteq> 0" using w u by linarith
    then show "wn - 4 \<noteq> 0" by (metis unat_0)
  qed
  have big: "5 \<le> unat wn" if "wn \<ge> 5" using that by (simp add: word_le_nat_alt)
  show ?case
  proof (cases "wn \<ge> 5 \<and> (\<exists>w. word_at buf s = Some w \<and> ascii4 w)")
    case True
    then obtain w where w: "wn \<ge> 5" "word_at buf s = Some w" "ascii4 w" by blast
    have "copy4 buf (s + 4) (wn - 4)
        (ws @ [ucast (buf ! s), ucast (buf ! (s + 1)), ucast (buf ! (s + 2)), ucast (buf ! (s + 3))]) = Some (s', wn', ws')"
      using 1(2) w by (subst (asm) copy4.simps) (simp only: option.case if_True)
    from 1(1) [OF w this] step big w(1) show ?thesis by auto
  next
    case False
    then show ?thesis using 1(2,3) by (subst (asm) copy4.simps) (auto split: option.splits if_splits)
  qed
qed

lemma room_ok_Cons: "unat (wn - 1) + 1 = unat wn \<Longrightarrow> room_ok (wn - 1) (ws @ [c]) x \<Longrightarrow> room_ok wn ws x"
  by (auto simp: room_ok_def split: mb_exit.splits)

lemma room_ok_Break: "wn \<noteq> 0 \<Longrightarrow> room_ok wn ws (Break s c wn ws)"
  by (simp add: room_ok_def)

lemma conv_loop_room: "conv_loop base buf s wn ws = Some x \<Longrightarrow> room_ok wn ws x"
proof (induction "length buf - s" arbitrary: s wn ws x rule: less_induct)
  case less
  show ?case
  proof (cases "wn = 0")
    case True
    with less.prems show ?thesis by (subst (asm) conv_loop.simps) (auto simp: room_ok_def)
  next
    case False
    have s: "s < length buf" using less.prems False by (subst (asm) conv_loop.simps) (auto simp: rd_def split: if_splits)
    have "conv_loop base buf s wn ws =
      (case (if ucast (buf ! s) - 1 < (0x7f :: u32) \<and> (base + s) mod 4 = 0 then copy4 buf s wn ws else Some (s, wn, ws)) of
         None \<Rightarrow> None | Some (s, wn, ws) \<Rightarrow> conv_char base buf s wn ws)"
      using False s by (rule conv_loop_head)
    with less.prems obtain s1 wn1 ws1 where
        c: "(if ucast (buf ! s) - 1 < (0x7f :: u32) \<and> (base + s) mod 4 = 0 then copy4 buf s wn ws else Some (s, wn, ws)) = Some (s1, wn1, ws1)"
        "conv_char base buf s1 wn1 ws1 = Some x"
      by (auto split: option.splits)
    then have r: "wn1 \<noteq> 0 \<and> length ws1 + unat wn1 = length ws + unat wn" "s \<le> s1"
      using copy4_room [of buf s wn ws s1 wn1 ws1] copy4_mono [of buf s wn ws s1 wn1 ws1] False by (auto split: if_splits)
    have dec: "unat (wn1 - 1) + 1 = unat wn1" using r(1) by (simp add: unat_minus_one Suc_leI unat_gt_0)
    have IH: "room_ok wn1 ws1 x" if "conv_loop base buf s2 (wn1 - 1) (ws1 @ [c]) = Some x" "s1 < s2" for s2 c
      using less.hyps [OF _ that(1)] that(2) r(2) s by (intro room_ok_Cons [OF dec, where c = c]) linarith
    have "room_ok wn1 ws1 x"
      using c(2) r(1)
      by (auto simp: conv_char_def room_ok_Break split: option.splits if_splits ch.splits
          intro: IH Suc_lessD [OF conjunct1 [OF resume_Next]])
    with r show ?thesis by (simp add: room_ok_def split: mb_exit.splits)
  qed
qed


lemma mbs_finish_room:
  assumes "room_ok wn0 [] x" "mbs_finish buf True s0 wn0 st x = Some r"
  shows "length (stored r) \<le> unat wn0 \<and> (ret r \<noteq> -1 \<longrightarrow> unat (ret r) \<le> length (stored r)) \<and> state r = st
    \<and> (ret r \<noteq> -1 \<longrightarrow> src r \<noteq> None \<longrightarrow> length (stored r) = unat (ret r))"
proof (cases x)
  case (Full s ws)
  with assms show ?thesis by (auto simp: mbs_finish_def room_ok_def)
next
  case (Break s c wn ws)
  then have len: "wn \<noteq> 0" "length ws + unat wn = unat wn0" using assms(1) by (auto simp: room_ok_def)
  then have "unat (wn0 - wn) = length ws" by (subst unat_sub) (auto simp: word_le_nat_alt)
  moreover have "0 < unat wn" using len(1) by (simp add: unat_gt_0)
  ultimately show ?thesis using assms(2) len Break
    by (auto simp: mbs_finish_def Let_def split: option.splits if_splits)
qed

text \<open>
  C10: From the initial state \<open>mbsrtowcs\<close> never stores more than \<open>wn\<close> wide characters, terminator
  included, on any memory contents, and a count it returns is covered by what it stored.
\<close>

theorem mbsrtowcs_within:
  assumes "initial st" "mbsrtowcs base buf True s0 wn0 st = Some r"
  shows "length (stored r) \<le> unat wn0 \<and> (ret r \<noteq> -1 \<longrightarrow> unat (ret r) \<le> length (stored r))"
  using assms mbs_finish_room conv_loop_room unfolding mbsrtowcs_initial [OF assms(1)]
  by (fastforce simp: bind_eq_Some_conv)

theorem mbsrtowcs_within_witness:
  "\<exists>r. mbsrtowcs 0 [0x61, 0x62, 0x63, 0x64, 0x65, 0, 0, 0] True 0 2 None = Some r \<and> length (stored r) \<le> 2 \<and> unat (ret r) \<le> length (stored r)"
proof -
  have "mbsrtowcs 0 [0x61, 0x62, 0x63, 0x64, 0x65, 0, 0, 0] True 0 2 None =
      Some \<lparr>ret = 2, src = Some 2, stored = [0x61, 0x62], state = None, eilseq = False\<rparr>" (is "?m = Some ?r")
    using mbsrtowcs_spec [of 0 "[0x61, 0x62, 0x63, 0x64, 0x65, 0, 0, 0]" 0 5 None 2]
    by (simp add: nul_at_def converted_def w32_def)
  with mbsrtowcs_within [of None 0 "[0x61, 0x62, 0x63, 0x64, 0x65, 0, 0, 0]" 0 2 ?r] show ?thesis by simp
qed

lemma mbs_finish_start: "mbs_finish buf True s = mbs_finish buf True s'"
  by (intro ext) (simp add: mbs_finish_def cong: mb_exit.case_cong)

text \<open>
  C11: A pending lead byte: calling \<open>mbsrtowcs\<close> behind a lead byte with the state that lead byte
  leaves is the same as calling it at the lead byte, for at least one character of room.
\<close>

theorem mbsrtowcs_resumes:
  assumes "s < length buf" "0xc2 \<le> unat (buf ! s)" "unat (buf ! s) \<le> 0xf4" "wn0 \<noteq> 0"
  shows "mbsrtowcs base buf True (s + 1) wn0 (Some (bittab ! (unat (buf ! s) - 0xc2))) = mbsrtowcs base buf True s wn0 (Some 0)"
proof -
  define c where "c = w32 (lead_code (unat (buf ! s)))"
  have c: "c \<noteq> 0" "rd bittab (unat (ucast (buf ! s) - SA)) = Some c"
    using assms lead_code_nonzero bittab_nth by (auto simp: c_def)
  have b: "bittab ! (unat (buf ! s) - 0xc2) = c"
    using c(2) assms(2) by (simp add: rd_Some_iff SA_def unat_sub word_le_nat_alt)
  have "\<not> (1 \<le> unat (buf ! s) \<and> unat (buf ! s) < 0x80)" using assms by simp
  then have "conv_loop base buf s wn0 [] = conv_char base buf s wn0 []"
    unfolding conv_loop_head [OF assms(4,1)] byte_1_7f by auto
  also have "\<dots> = (case resume buf (s + 1) c of ChFault \<Rightarrow> None | ChBreak s c \<Rightarrow> Some (Break s c wn0 [])
          | ChNext s c \<Rightarrow> conv_loop base buf s (wn0 - 1) [c])"
    unfolding conv_char_def rd_inside [OF assms(1)] option.case byte_1_7f byte_lead c(2)
    using assms by (simp split: ch.split)
  finally show ?thesis
    using c(1) unfolding b by (simp add: mbsrtowcs_def mbs_finish_start [of buf "s + 1" s, simplified] split: ch.splits)
qed

theorem mbsrtowcs_resumes_witness:
  "mbsrtowcs 0 [0xc3, 0xa9, 0, 0] True 1 2 (Some (bittab ! 1)) = mbsrtowcs 0 [0xc3, 0xa9, 0, 0] True 0 2 (Some 0)"
  using mbsrtowcs_resumes [of 0 "[0xc3, 0xa9, 0, 0]" 2 0] by simp

text \<open>
  With a pending character and \<open>wn = 0\<close> the jump to \<open>resume\<close> passes the test of \<open>wn\<close>: characters
  are stored although the caller gave no room.
\<close>

theorem mbsrtowcs_pending_overrun:
  "\<exists>r. mbsrtowcs 0 [0xa9, 0, 0, 0] True 0 0 (Some (bittab ! 1)) = Some r \<and> stored r = [0xe9, 0]"
proof -
  have b: "bittab ! 1 = w32 (lead_code 0xc3)" using bittab_nth [of "0xc3"] by (simp add: rd_Some_iff SA_def)
  have n: "bittab ! 1 \<noteq> 0" unfolding b by (rule lead_code_nonzero) simp_all
  have "resume [0xa9, 0, 0, 0] 0 (bittab ! 1) = ChNext 1 0xe9"
    unfolding b using resume_2 [where L = "0xc3" and buf = "[0xa9, 0, 0, 0]" and s = 0] by (simp add: second_ok_def cont_def low6_def w32_def)
  moreover have "conv_loop 0 [0xa9, 0, 0, 0] 1 (0 - 1) [0xe9] = Some (Break 1 0 (-1) [0xe9])"
    by (subst conv_loop.simps) (simp add: SA_def SB_def)
  ultimately show ?thesis using n by (simp add: mbsrtowcs_def mbs_finish_def)
qed

text \<open>
  The state table lets the lead byte F4 be followed by 90..9F: U+110000, which Unicode does not
  have, converts without an error.
\<close>

theorem mbsrtowcs_beyond_unicode:
  "mbsrtowcs 0 [0xf4, 0x90, 0x80, 0x80, 0, 0, 0, 0] True 0 2 None =
     Some \<lparr>ret = 1, src = None, stored = [0x110000, 0], state = None, eilseq = False\<rparr> \<and> \<not> scalar 0x110000"
  using mbsrtowcs_spec [of 0 "[0xf4, 0x90, 0x80, 0x80, 0, 0, 0, 0]" 0 4 None 2]
  by (simp add: nul_at_def converted_def utf8_multi_def cont_def low6_def w32_def scalar_below_def)

end
