(* ===== verification/Mbsnrtowcs.thy ===== *)
theory Mbsnrtowcs
  imports Mbsrtowcs
begin

text \<open>
  \<open>mbsnrtowcs\<close>: the wide characters it stores stay within the caller's room, and the input bytes it
  reads are not limited by \<open>n\<close>.
\<close>

lemma mbsrtowcs_room:
  assumes "initial st" "mbsrtowcs base buf True s0 wn0 st = Some r"
  shows "length (stored r) \<le> unat wn0 \<and> state r = st \<and>
     (ret r \<noteq> -1 \<longrightarrow> src r \<noteq> None \<longrightarrow> length (stored r) = unat (ret r))"
  using assms mbs_finish_room conv_loop_room unfolding mbsrtowcs_initial [OF assms(1)]
  by (fastforce simp: bind_eq_Some_conv)

text \<open>What \<open>ws\<close>, \<open>wn\<close> and the stores to the caller's array satisfy in both loops.\<close>

definition within :: "nat \<Rightarrow> mbsn \<Rightarrow> bool" where
  "within room v \<longleftrightarrow> length (mn_out v) + (if mn_s v = None then 0 else unat (mn_wn v)) \<le> room"

lemma bulk_within:
  "mbsn_bulk base buf True v = Some v' \<Longrightarrow> initial (mn_st v) \<Longrightarrow> within room v \<Longrightarrow> within room v' \<and> mn_st v' = mn_st v"
proof (induction base buf True v rule: mbsn_bulk.induct)
  case (1 base buf v)
  define n2 where "n2 = mn_n v div 4"
  define n2' where "n2' = (if n2 \<ge> mn_wn v then mn_wn v else n2)"
  show ?case
  proof (cases "mn_s v \<noteq> None \<and> mn_wn v \<noteq> 0 \<and> (n2 \<ge> mn_wn v \<or> n2 > 32)")
    case False
    then have "mbsn_bulk base buf True v = Some v"
      by (subst mbsn_bulk.simps) (auto simp: Let_def n2_def)
    with 1(2,4) show ?thesis by simp
  next
    case True
    have le: "unat n2' \<le> unat (mn_wn v)" by (auto simp: n2'_def simp flip: word_le_nat_alt)
    obtain r where r: "mbsrtowcs base buf True (nat (the (mn_s v))) n2' (mn_st v) = Some r"
      using 1(2) True by (subst (asm) mbsn_bulk.simps) (auto simp: Let_def n2'_def simp flip: n2_def split: option.splits)
    note room = mbsrtowcs_room [OF 1(3) r]
    define u where "u = v\<lparr>mn_s := src r, mn_n := mn_n v - n2', mn_wn := mn_wn v - ret r, mn_cnt := mn_cnt v + ret r,
       mn_st := state r, mn_out := mn_out v @ stored r\<rparr>"
    have bulk: "mbsn_bulk base buf True v =
        (if ret r + 1 = 0 then Some (v\<lparr>mn_s := src r, mn_n := mn_n v - n2', mn_wn := 0, mn_cnt := ret r,
            mn_st := state r, mn_out := mn_out v @ stored r\<rparr>)
         else mbsn_bulk base buf True u)"
      using True r by (subst mbsn_bulk.simps) (simp add: Let_def n2'_def u_def flip: n2_def)
    show ?thesis
    proof (cases "ret r + 1 = 0")
      case err: True
      then show ?thesis using 1(2,4) bulk room le True by (auto simp: within_def)
    next
      case False
      then have nr: "ret r \<noteq> -1" by (metis add.left_inverse)
      have "within room u"
      proof (cases "src r")
        case None
        then show ?thesis using room le True 1(4) by (auto simp: within_def u_def)
      next
        case (Some p)
        then have "length (stored r) = unat (ret r)" "unat (ret r) \<le> unat n2'" using room nr by auto
        then show ?thesis using Some le True 1(4) by (auto simp: within_def u_def unat_sub word_le_nat_alt)
      qed
      moreover have "mbsn_bulk base buf True u = Some v'" using bulk False 1(2) by simp
      ultimately show ?thesis
        using 1(1) [OF n2_def True n2'_def refl r refl False] room 1(3) by (simp add: u_def)
    qed
  qed
qed

lemma tail_within:
  "mbsn_tail f buf True v = Some v' \<Longrightarrow> mn_s v \<noteq> None \<Longrightarrow> within room v \<Longrightarrow> within room v'"
proof (induction f buf True v rule: mbsn_tail.induct)
  case (1 f buf v)
  obtain l wc st where f: "f (take (unat (mn_n v)) (drop (nat (the (mn_s v))) buf)) (mn_st v) = (l, wc, st)"
    by (rule prod_cases3)
  have w: "mn_wn v \<noteq> 0 \<Longrightarrow> unat (mn_wn v - 1) = unat (mn_wn v) - 1 \<and> 0 < unat (mn_wn v)"
    by (simp add: unat_minus_one unat_gt_0)
  show ?case
  proof (cases "mn_wn v \<noteq> 0 \<and> mn_n v \<noteq> 0 \<and> \<not> l + 2 \<le> 2")
    case True
    define u where "u = v\<lparr>mn_s := map_option (\<lambda>s. s + int (unat l)) (mn_s v), mn_n := mn_n v - l,
               mn_wn := mn_wn v - 1, mn_cnt := mn_cnt v + 1, mn_st := st, mn_out := mn_out v @ [wc]\<rparr>"
    have "mbsn_tail f buf True v = mbsn_tail f buf True u"
      using True f by (subst mbsn_tail.simps) (simp add: u_def)
    moreover have "within room u" "mn_s u \<noteq> None" using 1(3,4) w True by (auto simp: within_def u_def)
    ultimately show ?thesis
      using 1(1) [OF _ f [symmetric] refl refl] True 1(2) by (simp add: u_def)
  next
    case False
    then show ?thesis using 1(2-4) f w
      by (subst (asm) mbsn_tail.simps) (auto simp: within_def split: if_splits option.splits)
  qed
qed

text \<open>
  C15: With a destination, \<open>mbsnrtowcs\<close> from the initial state stores at most \<open>wn\<close> wide characters,
  whatever the memory holds and whatever \<open>mbrtowc\<close> returns.
\<close>

theorem mbsnrtowcs_within:
  assumes "initial st" "mbsnrtowcs f base buf True s0 n wn st = Some (cnt, p, out, st')"
  shows "length out \<le> unat wn"
proof -
  let ?v = "\<lparr>mn_s = Some (int s0), mn_n = n, mn_wn = wn, mn_cnt = 0, mn_st = st, mn_out = []\<rparr>"
  obtain v u where v: "mbsn_bulk base buf True ?v = Some v" "out = mn_out u"
      "(if mn_s v \<noteq> None then mbsn_tail f buf True v else Some v) = Some u"
    using assms(2) by (auto simp: mbsnrtowcs_def Let_def split: option.splits)
  have "within (unat wn) v" using bulk_within [OF v(1)] assms(1) by (simp add: within_def)
  then have "within (unat wn) u" using v(3) tail_within by (auto split: if_splits)
  then show ?thesis using v(2) by (simp add: within_def)
qed

theorem mbsnrtowcs_within_witness:
  "\<exists>out. mbsnrtowcs (\<lambda>bs st. case bs of [] \<Rightarrow> (-2, 0, st) | b # _ \<Rightarrow> (if b = 0 then 0 else 1, ucast b, st))
      0 [0x61, 0, 0, 0] True 0 1 2 None = Some (1, Some 1, out, None) \<and> length out \<le> 2"
proof -
  have e: "mbsnrtowcs (\<lambda>bs st. case bs of [] \<Rightarrow> (-2, 0, st) | b # _ \<Rightarrow> (if b = 0 then 0 else 1, ucast b, st))
      0 [0x61, 0, 0, 0] True 0 1 2 None = Some (1, Some 1, [0x61], None)"
    by (simp add: mbsnrtowcs_def mbsn_bulk.simps mbsn_tail.simps)
  from mbsnrtowcs_within [OF _ e] show ?thesis using e by simp
qed

text \<open>A call on a string of \<open>k\<close> equal four-byte characters, at a character boundary.\<close>

definition smileys :: "nat \<Rightarrow> byte list" where
  "smileys k = concat (map utf8_enc (replicate k 0x1f600)) @ [0, 0, 0, 0]"

lemma length_smileys: "length (concat (map utf8_enc (replicate k 0x1f600))) = 4 * k"
  by (induction k) (simp_all add: length_utf8_enc)

lemma drop_smileys: "drop (4 * j) (smileys (j + k)) = smileys k"
  unfolding smileys_def replicate_add map_append concat_append append_assoc
  using length_smileys [of j] by simp

lemma smileys_fill:
  assumes "unat w \<le> k"
  shows "mbsrtowcs 0 (smileys (j + k)) True (4 * j) w (Some 0) =
    Some \<lparr>ret = w, src = Some (int (4 * (j + unat w))), stored = replicate (unat w) (w32 0x1f600), state = Some 0, eilseq = False\<rparr>"
proof -
  obtain m where k: "k = unat w + m" using assms le_Suc_ex by blast
  have "nul_at 0 (smileys (j + k)) (4 * j) (4 * (j + k))"
    using length_smileys [of "j + k"] by (simp add: nul_at_def smileys_def nth_append)
  moreover have "utf8_run mb_lim (unat w) (smileys k) = (replicate (unat w) 0x1f600, 4 * unat w, Filled)"
    using utf8_run_fill [of "replicate (unat w) 0x1f600" mb_lim "concat (map utf8_enc (replicate m 0x1f600)) @ [0, 0, 0, 0]"]
    unfolding length_smileys by (simp add: k smileys_def replicate_add scalar_below_def surrogate_def)
  ultimately show ?thesis
    using mbsrtowcs_spec [of 0 "smileys (j + k)" "4 * j" "4 * (j + k)" "Some 0" w] drop_smileys [of j k]
    by (simp add: converted_def)
qed

text \<open>
  \<open>mbsnrtowcs\<close> can read past its input: with \<open>n = 132\<close> and room for 34 characters it takes 136
  bytes of a string of four-byte characters, because \<open>n\<close> goes down by characters, not bytes.
\<close>

theorem mbsnrtowcs_overread:
  "mbsnrtowcs f 0 (smileys 34) True 0 132 34 (Some 0) = Some (34, Some 136, replicate 34 (w32 0x1f600), Some 0)"
proof -
  have a: "mbsrtowcs 0 (smileys 34) True 0 33 (Some 0) =
      Some \<lparr>ret = 33, src = Some 132, stored = replicate 33 (w32 0x1f600), state = Some 0, eilseq = False\<rparr>"
    using smileys_fill [of 33 34 0] by simp
  have b: "mbsrtowcs 0 (smileys 34) True 132 1 (Some 0) =
      Some \<lparr>ret = 1, src = Some 136, stored = replicate 1 (w32 0x1f600), state = Some 0, eilseq = False\<rparr>"
    using smileys_fill [of 1 1 33] by simp
  have "replicate 33 (w32 0x1f600) @ replicate 1 (w32 0x1f600) = replicate 34 (w32 0x1f600)"
    using replicate_add [of 33 1 "w32 0x1f600"] by simp
  then show ?thesis
    by (simp add: mbsnrtowcs_def Let_def mbsn_bulk.simps mbsn_tail.simps a b)
qed

end
