(* ===== verification/Ctype_Tables.thy ===== *)
theory Ctype_Tables
  imports Prelude
begin

text \<open>
  The byte tables of \<open>musl-ctype\<close>: \<open>alpha.h\<close> (\<open>iswalpha\<close>) and \<open>punct.h\<close> (\<open>iswpunct\<close>), in rows of 32 bytes.
  Rows 0..15 are the index of the 512 blocks of 256 characters, each later row is the bitmap of a
  block. \<open>nonspacing.h\<close> is included by no source file.
\<close>

section \<open>alpha.h\<close>

definition alpha_0 :: "byte list" where
  "alpha_0 =
     [18, 17, 19, 20, 21, 22, 23, 24, 25, 26, 27, 28, 29, 30, 31, 32,
      33, 17, 34, 35, 36, 17, 37, 38, 39, 40, 41, 42, 43, 44, 17, 45]"

definition alpha_1 :: "byte list" where
  "alpha_1 =
     [46, 47, 16, 16, 48, 16, 16, 16, 16, 16, 16, 16, 49, 50, 51, 16,
      52, 53, 16, 16, 17, 17, 17, 17, 17, 17, 17, 17, 17, 17, 17, 17]"

definition alpha_2 :: "byte list" where
  "alpha_2 =
     [17, 17, 17, 17, 17, 17, 17, 17, 17, 17, 17, 17, 17, 54, 17, 17,
      17, 17, 17, 17, 17, 17, 17, 17, 17, 17, 17, 17, 17, 17, 17, 17]"

definition alpha_3 :: "byte list" where
  "alpha_3 =
     [17, 17, 17, 17, 17, 17, 17, 17, 17, 17, 17, 17, 17, 17, 17, 17,
      17, 17, 17, 17, 17, 17, 17, 17, 17, 17, 17, 17, 17, 17, 17, 17]"

definition alpha_4 :: "byte list" where
  "alpha_4 =
     [17, 17, 17, 17, 17, 17, 17, 17, 17, 17, 17, 17, 17, 17, 17, 17,
      17, 17, 17, 17, 17, 17, 17, 17, 17, 17, 17, 17, 17, 17, 17, 55]"

definition alpha_5 :: "byte list" where
  "alpha_5 =
     [17, 17, 17, 17, 56, 17, 57, 58, 59, 60, 61, 62, 17, 17, 17, 17,
      17, 17, 17, 17, 17, 17, 17, 17, 17, 17, 17, 17, 17, 17, 17, 17]"

definition alpha_6 :: "byte list" where
  "alpha_6 =
     [17, 17, 17, 17, 17, 17, 17, 17, 17, 17, 17, 17, 17, 17, 17, 17,
      17, 17, 17, 17, 17, 17, 17, 63, 16, 16, 16, 16, 16, 16, 16, 16]"

definition alpha_7 :: "byte list" where
  "alpha_7 =
     [16, 16, 16, 16, 16, 16, 16, 16, 16, 16, 16, 16, 16, 16, 16, 16,
      16, 16, 16, 16, 16, 16, 16, 16, 16, 17, 64, 65, 17, 66, 67, 68]"

definition alpha_8 :: "byte list" where
  "alpha_8 =
     [69, 70, 71, 72, 73, 16, 16, 16, 74, 75, 76, 77, 78, 16, 16, 16,
      79, 80, 16, 16, 16, 16, 81, 16, 16, 16, 16, 16, 16, 16, 16, 16]"

definition alpha_9 :: "byte list" where
  "alpha_9 =
     [17, 17, 17, 82, 83, 16, 16, 16, 16, 16, 16, 16, 16, 16, 16, 16,
      17, 17, 17, 17, 84, 16, 16, 16, 16, 16, 16, 16, 16, 16, 16, 16]"

definition alpha_10 :: "byte list" where
  "alpha_10 =
     [16, 16, 16, 16, 16, 16, 16, 16, 16, 16, 16, 16, 16, 16, 16, 16,
      16, 16, 16, 16, 16, 16, 16, 16, 16, 16, 16, 16, 16, 16, 16, 16]"

definition alpha_11 :: "byte list" where
  "alpha_11 =
     [16, 16, 16, 16, 16, 16, 16, 16, 17, 17, 85, 16, 16, 16, 16, 86,
      16, 16, 16, 16, 16, 16, 16, 16, 16, 16, 16, 16, 16, 16, 16, 16]"

definition alpha_12 :: "byte list" where
  "alpha_12 =
     [16, 16, 16, 16, 16, 16, 16, 16, 16, 16, 16, 16, 16, 16, 16, 16,
      16, 16, 16, 16, 16, 16, 16, 16, 16, 16, 16, 16, 16, 16, 16, 16]"

definition alpha_13 :: "byte list" where
  "alpha_13 =
     [16, 16, 16, 16, 16, 16, 16, 16, 16, 16, 16, 16, 16, 16, 16, 16,
      87, 16, 16, 16, 16, 16, 16, 16, 16, 16, 16, 16, 16, 16, 16, 16]"

definition alpha_14 :: "byte list" where
  "alpha_14 =
     [16, 16, 16, 16, 16, 16, 16, 16, 16, 16, 16, 16, 16, 16, 16, 16,
      16, 16, 16, 16, 88, 89, 90, 91, 16, 16, 16, 16, 16, 16, 16, 16]"

definition alpha_15 :: "byte list" where
  "alpha_15 =
     [16, 16, 16, 16, 16, 16, 16, 16, 16, 16, 16, 16, 16, 16, 92, 16,
      16, 16, 16, 16, 16, 16, 16, 16, 16, 16, 16, 16, 16, 16, 16, 16]"

definition alpha_16 :: "byte list" where
  "alpha_16 =
     [0, 0, 0, 0, 0, 0, 0, 0, 0, 0, 0, 0, 0, 0, 0, 0,
      0, 0, 0, 0, 0, 0, 0, 0, 0, 0, 0, 0, 0, 0, 0, 0]"

definition alpha_17 :: "byte list" where
  "alpha_17 =
     [255, 255, 255, 255, 255, 255, 255, 255, 255, 255, 255, 255, 255, 255, 255, 255,
      255, 255, 255, 255, 255, 255, 255, 255, 255, 255, 255, 255, 255, 255, 255, 255]"

definition alpha_18 :: "byte list" where
  "alpha_18 =
     [0, 0, 0, 0, 0, 0, 0, 0, 254, 255, 255, 7, 254, 255, 255, 7,
      0, 0, 0, 0, 0, 4, 32, 4, 255, 255, 127, 255, 255, 255, 127, 255]"

definition alpha_19 :: "byte list" where
  "alpha_19 =
     [255, 255, 255, 255, 255, 255, 255, 255, 255, 255, 255, 255, 255, 255, 255, 255,
      255, 255, 255, 255, 255, 255, 255, 255, 195, 255, 3, 0, 31, 80, 0, 0]"

definition alpha_20 :: "byte list" where
  "alpha_20 =
     [0, 0, 0, 0, 0, 0, 0, 0, 32, 0, 0, 0, 0, 0, 223, 60,
      64, 215, 255, 255, 251, 255, 255, 255, 255, 255, 255, 255, 255, 255, 191, 255]"

definition alpha_21 :: "byte list" where
  "alpha_21 =
     [255, 255, 255, 255, 255, 255, 255, 255, 255, 255, 255, 255, 255, 255, 255, 255,
      3, 252, 255, 255, 255, 255, 255, 255, 255, 255, 255, 255, 255, 255, 255, 255]"

definition alpha_22 :: "byte list" where
  "alpha_22 =
     [255, 255, 255, 255, 255, 0, 254, 255, 255, 255, 127, 2, 254, 255, 255, 255,
      255, 0, 0, 0, 0, 0, 255, 191, 182, 0, 255, 255, 255, 7, 7, 0]"

definition alpha_23 :: "byte list" where
  "alpha_23 =
     [0, 0, 255, 7, 255, 255, 255, 255, 255, 255, 255, 254, 255, 195, 255, 255,
      255, 255, 255, 255, 255, 255, 255, 255, 255, 255, 239, 31, 254, 225, 255, 159]"

definition alpha_24 :: "byte list" where
  "alpha_24 =
     [0, 0, 255, 255, 255, 255, 255, 255, 0, 224, 255, 255, 255, 255, 255, 255,
      255, 255, 255, 255, 255, 255, 3, 0, 255, 255, 255, 255, 255, 7, 48, 4]"

definition alpha_25 :: "byte list" where
  "alpha_25 =
     [255, 255, 255, 252, 255, 31, 0, 0, 255, 255, 255, 1, 0, 0, 0, 0,
      0, 0, 0, 0, 253, 31, 0, 0, 0, 0, 0, 0, 240, 3, 255, 127]"

definition alpha_26 :: "byte list" where
  "alpha_26 =
     [255, 255, 255, 255, 255, 255, 255, 239, 255, 223, 225, 255, 207, 255, 254, 254,
      238, 159, 249, 255, 255, 253, 197, 227, 159, 89, 128, 176, 207, 255, 3, 0]"

definition alpha_27 :: "byte list" where
  "alpha_27 =
     [238, 135, 249, 255, 255, 253, 109, 195, 135, 25, 2, 94, 192, 255, 63, 0,
      238, 191, 251, 255, 255, 253, 237, 227, 191, 27, 1, 0, 207, 255, 0, 0]"

definition alpha_28 :: "byte list" where
  "alpha_28 =
     [238, 159, 249, 255, 255, 253, 237, 227, 159, 25, 192, 176, 207, 255, 2, 0,
      236, 199, 61, 214, 24, 199, 255, 195, 199, 29, 129, 0, 192, 255, 0, 0]"

definition alpha_29 :: "byte list" where
  "alpha_29 =
     [238, 223, 253, 255, 255, 253, 239, 227, 223, 29, 96, 3, 207, 255, 0, 0,
      236, 223, 253, 255, 255, 253, 239, 227, 223, 29, 96, 64, 207, 255, 6, 0]"

definition alpha_30 :: "byte list" where
  "alpha_30 =
     [236, 223, 253, 255, 255, 255, 255, 231, 223, 93, 128, 0, 207, 255, 0, 252,
      236, 255, 127, 252, 255, 255, 251, 47, 127, 128, 95, 255, 0, 0, 12, 0]"

definition alpha_31 :: "byte list" where
  "alpha_31 =
     [254, 255, 255, 255, 255, 127, 255, 7, 63, 32, 255, 3, 0, 0, 0, 0,
      150, 37, 240, 254, 174, 236, 255, 59, 95, 32, 255, 243, 0, 0, 0, 0]"

definition alpha_32 :: "byte list" where
  "alpha_32 =
     [1, 0, 0, 0, 255, 3, 0, 0, 255, 254, 255, 255, 255, 31, 254, 255,
      3, 255, 255, 254, 255, 255, 255, 31, 0, 0, 0, 0, 0, 0, 0, 0]"

definition alpha_33 :: "byte list" where
  "alpha_33 =
     [255, 255, 255, 255, 255, 255, 127, 249, 255, 3, 255, 255, 231, 193, 255, 255,
      127, 64, 255, 51, 255, 255, 255, 255, 191, 32, 255, 255, 255, 255, 255, 247]"

definition alpha_34 :: "byte list" where
  "alpha_34 =
     [255, 255, 255, 255, 255, 255, 255, 255, 255, 61, 127, 61, 255, 255, 255, 255,
      255, 61, 255, 255, 255, 255, 61, 127, 61, 255, 127, 255, 255, 255, 255, 255]"

definition alpha_35 :: "byte list" where
  "alpha_35 =
     [255, 255, 61, 255, 255, 255, 255, 255, 255, 255, 255, 135, 0, 0, 0, 0,
      255, 255, 0, 0, 255, 255, 255, 255, 255, 255, 255, 255, 255, 255, 31, 0]"

definition alpha_36 :: "byte list" where
  "alpha_36 =
     [254, 255, 255, 255, 255, 255, 255, 255, 255, 255, 255, 255, 255, 255, 255, 255,
      255, 255, 255, 255, 255, 255, 255, 255, 255, 255, 255, 255, 255, 255, 255, 255]"

definition alpha_37 :: "byte list" where
  "alpha_37 =
     [255, 255, 255, 255, 255, 255, 255, 255, 255, 255, 255, 255, 255, 159, 255, 255,
      254, 255, 255, 7, 255, 255, 255, 255, 255, 255, 255, 255, 255, 199, 1, 0]"

definition alpha_38 :: "byte list" where
  "alpha_38 =
     [255, 223, 15, 0, 255, 255, 15, 0, 255, 255, 15, 0, 255, 223, 13, 0,
      255, 255, 255, 255, 255, 255, 207, 255, 255, 1, 128, 16, 255, 3, 0, 0]"

definition alpha_39 :: "byte list" where
  "alpha_39 =
     [0, 0, 255, 3, 255, 255, 255, 255, 255, 255, 255, 255, 255, 255, 255, 0,
      255, 255, 255, 255, 255, 7, 255, 255, 255, 255, 255, 255, 255, 255, 63, 0]"

definition alpha_40 :: "byte list" where
  "alpha_40 =
     [255, 255, 255, 31, 255, 15, 255, 1, 192, 255, 255, 255, 255, 63, 31, 0,
      255, 255, 255, 255, 255, 15, 255, 255, 255, 3, 255, 3, 0, 0, 0, 0]"

definition alpha_41 :: "byte list" where
  "alpha_41 =
     [255, 255, 255, 15, 255, 255, 255, 255, 255, 255, 255, 127, 254, 255, 31, 0,
      255, 3, 255, 3, 128, 0, 0, 0, 0, 0, 0, 0, 0, 0, 0, 0]"

definition alpha_42 :: "byte list" where
  "alpha_42 =
     [255, 255, 255, 255, 255, 255, 239, 255, 239, 15, 255, 3, 0, 0, 0, 0,
      255, 255, 255, 255, 255, 243, 255, 255, 255, 255, 255, 255, 191, 255, 3, 0]"

definition alpha_43 :: "byte list" where
  "alpha_43 =
     [255, 255, 255, 255, 255, 255, 63, 0, 255, 227, 255, 255, 255, 255, 255, 63,
      0, 0, 0, 0, 0, 0, 0, 0, 0, 0, 0, 0, 0, 222, 111, 0]"

definition alpha_44 :: "byte list" where
  "alpha_44 =
     [255, 255, 255, 255, 255, 255, 255, 255, 255, 255, 255, 255, 255, 255, 255, 255,
      255, 255, 255, 255, 255, 255, 255, 255, 0, 0, 0, 0, 0, 0, 0, 0]"

definition alpha_45 :: "byte list" where
  "alpha_45 =
     [255, 255, 63, 63, 255, 255, 255, 255, 63, 63, 255, 170, 255, 255, 255, 63,
      255, 255, 255, 255, 255, 255, 223, 95, 220, 31, 207, 15, 255, 31, 220, 31]"

definition alpha_46 :: "byte list" where
  "alpha_46 =
     [0, 0, 0, 0, 0, 0, 0, 0, 0, 0, 0, 0, 0, 0, 2, 128,
      0, 0, 255, 31, 0, 0, 0, 0, 0, 0, 0, 0, 0, 0, 0, 0]"

definition alpha_47 :: "byte list" where
  "alpha_47 =
     [132, 252, 47, 62, 80, 189, 255, 243, 224, 67, 0, 0, 255, 255, 255, 255,
      255, 1, 0, 0, 0, 0, 0, 0, 0, 0, 0, 0, 0, 0, 0, 0]"

definition alpha_48 :: "byte list" where
  "alpha_48 =
     [0, 0, 0, 0, 0, 0, 0, 0, 0, 0, 0, 0, 0, 0, 0, 0,
      0, 0, 0, 0, 0, 0, 192, 255, 255, 255, 255, 255, 255, 3, 0, 0]"

definition alpha_49 :: "byte list" where
  "alpha_49 =
     [255, 255, 255, 255, 255, 127, 255, 255, 255, 255, 255, 127, 255, 255, 255, 255,
      255, 255, 255, 255, 255, 255, 255, 255, 255, 255, 255, 255, 31, 120, 12, 0]"

definition alpha_50 :: "byte list" where
  "alpha_50 =
     [255, 255, 255, 255, 191, 32, 255, 255, 255, 255, 255, 255, 255, 128, 0, 0,
      255, 255, 127, 0, 127, 127, 127, 127, 127, 127, 127, 127, 255, 255, 255, 255]"

definition alpha_51 :: "byte list" where
  "alpha_51 =
     [0, 0, 0, 0, 0, 128, 0, 0, 0, 0, 0, 0, 0, 0, 0, 0,
      0, 0, 0, 0, 0, 0, 0, 0, 0, 0, 0, 0, 0, 0, 0, 0]"

definition alpha_52 :: "byte list" where
  "alpha_52 =
     [224, 0, 0, 0, 254, 3, 62, 31, 254, 255, 255, 255, 255, 255, 255, 255,
      255, 255, 127, 224, 254, 255, 255, 255, 255, 255, 255, 255, 255, 255, 255, 247]"

definition alpha_53 :: "byte list" where
  "alpha_53 =
     [224, 255, 255, 255, 255, 63, 254, 255, 255, 255, 255, 255, 255, 255, 255, 255,
      255, 127, 0, 0, 255, 255, 255, 7, 0, 0, 0, 0, 0, 0, 255, 255]"

definition alpha_54 :: "byte list" where
  "alpha_54 =
     [255, 255, 255, 255, 255, 255, 255, 255, 255, 255, 255, 255, 255, 255, 255, 255,
      255, 255, 255, 255, 255, 255, 63, 0, 0, 0, 0, 0, 0, 0, 0, 0]"

definition alpha_55 :: "byte list" where
  "alpha_55 =
     [255, 255, 255, 255, 255, 255, 255, 255, 255, 255, 255, 255, 255, 255, 255, 255,
      255, 255, 255, 255, 255, 255, 255, 255, 255, 31, 0, 0, 0, 0, 0, 0]"

definition alpha_56 :: "byte list" where
  "alpha_56 =
     [255, 255, 255, 255, 255, 255, 255, 255, 255, 255, 255, 255, 255, 255, 255, 255,
      255, 31, 0, 0, 0, 0, 0, 0, 0, 0, 255, 255, 255, 255, 255, 63]"

definition alpha_57 :: "byte list" where
  "alpha_57 =
     [255, 31, 255, 255, 255, 15, 0, 0, 255, 255, 255, 255, 255, 127, 240, 143,
      255, 255, 255, 128, 255, 255, 255, 255, 255, 255, 255, 255, 255, 255, 0, 0]"

definition alpha_58 :: "byte list" where
  "alpha_58 =
     [0, 0, 128, 255, 252, 255, 255, 255, 255, 255, 255, 255, 255, 255, 255, 255,
      255, 121, 15, 0, 255, 7, 0, 0, 0, 0, 0, 0, 0, 0, 0, 255]"

definition alpha_59 :: "byte list" where
  "alpha_59 =
     [187, 247, 255, 255, 255, 0, 0, 0, 255, 255, 255, 255, 255, 255, 15, 0,
      255, 255, 255, 255, 255, 255, 255, 255, 15, 0, 255, 3, 0, 0, 252, 8]"

definition alpha_60 :: "byte list" where
  "alpha_60 =
     [255, 255, 255, 255, 255, 7, 255, 255, 255, 255, 7, 0, 255, 255, 255, 31,
      255, 255, 255, 255, 255, 255, 247, 255, 0, 128, 255, 3, 0, 0, 0, 0]"

definition alpha_61 :: "byte list" where
  "alpha_61 =
     [255, 255, 255, 255, 255, 255, 127, 0, 255, 63, 255, 3, 255, 255, 127, 4,
      255, 255, 255, 255, 255, 255, 255, 127, 5, 0, 0, 56, 255, 255, 60, 0]"

definition alpha_62 :: "byte list" where
  "alpha_62 =
     [126, 126, 126, 0, 127, 127, 0, 0, 0, 0, 0, 0, 0, 0, 0, 0,
      0, 0, 0, 0, 0, 0, 0, 0, 255, 255, 255, 255, 255, 7, 255, 3]"

definition alpha_63 :: "byte list" where
  "alpha_63 =
     [255, 255, 255, 255, 255, 255, 255, 255, 255, 255, 255, 255, 255, 255, 255, 255,
      255, 255, 255, 255, 15, 0, 255, 255, 127, 248, 255, 255, 255, 255, 255, 15]"

definition alpha_64 :: "byte list" where
  "alpha_64 =
     [255, 255, 255, 255, 255, 255, 255, 255, 255, 255, 255, 255, 255, 63, 255, 255,
      255, 255, 255, 255, 255, 255, 255, 255, 255, 255, 255, 3, 0, 0, 0, 0]"

definition alpha_65 :: "byte list" where
  "alpha_65 =
     [127, 0, 248, 224, 255, 253, 127, 95, 219, 255, 255, 255, 255, 255, 255, 255,
      255, 255, 255, 255, 255, 255, 3, 0, 0, 0, 248, 255, 255, 255, 255, 255]"

definition alpha_66 :: "byte list" where
  "alpha_66 =
     [255, 255, 255, 255, 255, 255, 255, 63, 0, 0, 255, 255, 255, 255, 255, 255,
      255, 255, 252, 255, 255, 255, 255, 255, 255, 0, 0, 0, 0, 0, 255, 15]"

definition alpha_67 :: "byte list" where
  "alpha_67 =
     [0, 0, 0, 0, 0, 0, 0, 0, 0, 0, 0, 0, 0, 0, 223, 255,
      255, 255, 255, 255, 255, 255, 255, 255, 255, 255, 255, 255, 255, 255, 255, 31]"

definition alpha_68 :: "byte list" where
  "alpha_68 =
     [0, 0, 255, 3, 254, 255, 255, 7, 254, 255, 255, 7, 192, 255, 255, 255,
      255, 255, 255, 255, 255, 255, 255, 127, 252, 252, 252, 28, 0, 0, 0, 0]"

definition alpha_69 :: "byte list" where
  "alpha_69 =
     [255, 239, 255, 255, 127, 255, 255, 183, 255, 63, 255, 63, 0, 0, 0, 0,
      255, 255, 255, 255, 255, 255, 255, 255, 255, 255, 255, 255, 255, 255, 255, 7]"

definition alpha_70 :: "byte list" where
  "alpha_70 =
     [0, 0, 0, 0, 0, 0, 0, 0, 255, 255, 255, 255, 255, 255, 31, 0,
      0, 0, 0, 0, 0, 0, 0, 0, 0, 0, 0, 0, 0, 0, 0, 0]"

definition alpha_71 :: "byte list" where
  "alpha_71 =
     [0, 0, 0, 0, 0, 0, 0, 0, 0, 0, 0, 0, 0, 0, 0, 0,
      255, 255, 255, 31, 255, 255, 255, 255, 255, 255, 1, 0, 0, 0, 0, 0]"

definition alpha_72 :: "byte list" where
  "alpha_72 =
     [255, 255, 255, 127, 0, 0, 255, 255, 255, 7, 0, 0, 0, 0, 0, 0,
      255, 255, 255, 63, 255, 255, 255, 255, 15, 255, 62, 0, 0, 0, 0, 0]"

definition alpha_73 :: "byte list" where
  "alpha_73 =
     [255, 255, 255, 255, 255, 255, 255, 255, 255, 255, 255, 255, 255, 255, 255, 255,
      255, 255, 255, 63, 255, 3, 0, 0, 0, 0, 0, 0, 0, 0, 0, 0]"

definition alpha_74 :: "byte list" where
  "alpha_74 =
     [63, 253, 255, 255, 255, 255, 191, 145, 255, 255, 63, 0, 0, 0, 0, 0,
      0, 0, 0, 0, 0, 0, 0, 0, 0, 0, 0, 0, 0, 0, 0, 0]"

definition alpha_75 :: "byte list" where
  "alpha_75 =
     [255, 255, 63, 0, 255, 255, 255, 3, 0, 0, 0, 0, 0, 0, 0, 0,
      255, 255, 255, 255, 255, 255, 255, 192, 0, 0, 0, 0, 0, 0, 0, 0]"

definition alpha_76 :: "byte list" where
  "alpha_76 =
     [111, 240, 239, 254, 255, 255, 15, 0, 0, 0, 0, 0, 255, 255, 255, 31,
      0, 0, 0, 0, 0, 0, 0, 0, 0, 0, 0, 0, 0, 0, 0, 0]"

definition alpha_77 :: "byte list" where
  "alpha_77 =
     [255, 255, 255, 255, 255, 255, 63, 0, 255, 255, 63, 0, 255, 255, 7, 0,
      0, 0, 0, 0, 0, 0, 0, 0, 0, 0, 0, 0, 0, 0, 0, 0]"

definition alpha_78 :: "byte list" where
  "alpha_78 =
     [255, 255, 255, 255, 255, 255, 255, 255, 255, 1, 0, 0, 0, 0, 0, 0,
      0, 0, 0, 0, 0, 0, 0, 0, 0, 0, 0, 0, 0, 0, 0, 0]"

definition alpha_79 :: "byte list" where
  "alpha_79 =
     [255, 255, 255, 255, 255, 255, 255, 255, 63, 0, 0, 0, 192, 255, 0, 0,
      252, 255, 255, 255, 255, 255, 255, 1, 0, 0, 255, 255, 255, 1, 255, 3]"

definition alpha_80 :: "byte list" where
  "alpha_80 =
     [255, 255, 255, 255, 255, 255, 199, 255, 0, 0, 0, 0, 0, 0, 0, 0,
      255, 255, 255, 255, 255, 255, 255, 255, 30, 0, 255, 3, 0, 0, 0, 0]"

definition alpha_81 :: "byte list" where
  "alpha_81 =
     [0, 0, 0, 0, 0, 0, 0, 0, 0, 0, 0, 0, 0, 0, 0, 0,
      255, 255, 255, 255, 255, 255, 63, 0, 255, 3, 0, 0, 0, 0, 0, 0]"

definition alpha_82 :: "byte list" where
  "alpha_82 =
     [255, 255, 255, 255, 255, 255, 255, 255, 255, 255, 255, 255, 255, 127, 0, 0,
      0, 0, 0, 0, 0, 0, 0, 0, 0, 0, 0, 0, 0, 0, 0, 0]"

definition alpha_83 :: "byte list" where
  "alpha_83 =
     [255, 255, 255, 255, 255, 255, 255, 255, 255, 255, 255, 255, 7, 0, 0, 0,
      0, 0, 0, 0, 0, 0, 0, 0, 0, 0, 0, 0, 0, 0, 0, 0]"

definition alpha_84 :: "byte list" where
  "alpha_84 =
     [255, 255, 255, 255, 255, 127, 0, 0, 0, 0, 0, 0, 0, 0, 0, 0,
      0, 0, 0, 0, 0, 0, 0, 0, 0, 0, 0, 0, 0, 0, 0, 0]"

definition alpha_85 :: "byte list" where
  "alpha_85 =
     [255, 255, 255, 255, 255, 255, 255, 1, 0, 0, 0, 0, 0, 0, 0, 0,
      0, 0, 0, 0, 0, 0, 0, 0, 0, 0, 0, 0, 0, 0, 0, 0]"

definition alpha_86 :: "byte list" where
  "alpha_86 =
     [255, 255, 255, 255, 255, 255, 255, 255, 31, 0, 255, 255, 255, 255, 255, 127,
      0, 0, 248, 255, 0, 0, 0, 0, 0, 0, 0, 0, 0, 0, 0, 0]"

definition alpha_87 :: "byte list" where
  "alpha_87 =
     [3, 0, 0, 0, 0, 0, 0, 0, 0, 0, 0, 0, 0, 0, 0, 0,
      0, 0, 0, 0, 0, 0, 0, 0, 0, 0, 0, 0, 0, 0, 0, 0]"

definition alpha_88 :: "byte list" where
  "alpha_88 =
     [255, 255, 255, 255, 255, 255, 255, 255, 255, 255, 223, 255, 255, 255, 255, 255,
      255, 255, 255, 223, 100, 222, 255, 235, 239, 255, 255, 255, 255, 255, 255, 255]"

definition alpha_89 :: "byte list" where
  "alpha_89 =
     [191, 231, 223, 223, 255, 255, 255, 123, 95, 252, 253, 255, 255, 255, 255, 255,
      255, 255, 255, 255, 255, 255, 255, 255, 255, 255, 255, 255, 255, 255, 255, 255]"

definition alpha_90 :: "byte list" where
  "alpha_90 =
     [255, 255, 255, 255, 255, 255, 255, 255, 255, 255, 255, 255, 255, 255, 255, 255,
      255, 255, 255, 255, 63, 255, 255, 255, 253, 255, 255, 247, 255, 255, 255, 247]"

definition alpha_91 :: "byte list" where
  "alpha_91 =
     [255, 255, 223, 255, 255, 255, 223, 255, 255, 127, 255, 255, 255, 127, 255, 255,
      255, 253, 255, 255, 255, 253, 255, 255, 247, 207, 255, 255, 255, 255, 255, 255]"

definition alpha_92 :: "byte list" where
  "alpha_92 =
     [239, 255, 255, 255, 150, 254, 247, 10, 132, 234, 150, 170, 150, 247, 247, 94,
      255, 251, 255, 15, 238, 251, 255, 15, 0, 0, 0, 0, 0, 0, 0, 0]"

definition alpha_rows :: "byte list list" where
  "alpha_rows =
     [alpha_0, alpha_1, alpha_2, alpha_3, alpha_4, alpha_5, alpha_6, alpha_7, alpha_8, alpha_9,
      alpha_10, alpha_11, alpha_12, alpha_13, alpha_14, alpha_15, alpha_16, alpha_17, alpha_18, alpha_19,
      alpha_20, alpha_21, alpha_22, alpha_23, alpha_24, alpha_25, alpha_26, alpha_27, alpha_28, alpha_29,
      alpha_30, alpha_31, alpha_32, alpha_33, alpha_34, alpha_35, alpha_36, alpha_37, alpha_38, alpha_39,
      alpha_40, alpha_41, alpha_42, alpha_43, alpha_44, alpha_45, alpha_46, alpha_47, alpha_48, alpha_49,
      alpha_50, alpha_51, alpha_52, alpha_53, alpha_54, alpha_55, alpha_56, alpha_57, alpha_58, alpha_59,
      alpha_60, alpha_61, alpha_62, alpha_63, alpha_64, alpha_65, alpha_66, alpha_67, alpha_68, alpha_69,
      alpha_70, alpha_71, alpha_72, alpha_73, alpha_74, alpha_75, alpha_76, alpha_77, alpha_78, alpha_79,
      alpha_80, alpha_81, alpha_82, alpha_83, alpha_84, alpha_85, alpha_86, alpha_87, alpha_88, alpha_89,
      alpha_90, alpha_91, alpha_92]"

definition table_alpha :: "byte list" where
  "table_alpha = concat alpha_rows"

lemmas alpha_row_defs = alpha_0_def alpha_1_def alpha_2_def alpha_3_def alpha_4_def alpha_5_def alpha_6_def alpha_7_def
   alpha_8_def alpha_9_def alpha_10_def alpha_11_def alpha_12_def alpha_13_def alpha_14_def alpha_15_def
   alpha_16_def alpha_17_def alpha_18_def alpha_19_def alpha_20_def alpha_21_def alpha_22_def alpha_23_def
   alpha_24_def alpha_25_def alpha_26_def alpha_27_def alpha_28_def alpha_29_def alpha_30_def alpha_31_def
   alpha_32_def alpha_33_def alpha_34_def alpha_35_def alpha_36_def alpha_37_def alpha_38_def alpha_39_def
   alpha_40_def alpha_41_def alpha_42_def alpha_43_def alpha_44_def alpha_45_def alpha_46_def alpha_47_def
   alpha_48_def alpha_49_def alpha_50_def alpha_51_def alpha_52_def alpha_53_def alpha_54_def alpha_55_def
   alpha_56_def alpha_57_def alpha_58_def alpha_59_def alpha_60_def alpha_61_def alpha_62_def alpha_63_def
   alpha_64_def alpha_65_def alpha_66_def alpha_67_def alpha_68_def alpha_69_def alpha_70_def alpha_71_def
   alpha_72_def alpha_73_def alpha_74_def alpha_75_def alpha_76_def alpha_77_def alpha_78_def alpha_79_def
   alpha_80_def alpha_81_def alpha_82_def alpha_83_def alpha_84_def alpha_85_def alpha_86_def alpha_87_def
   alpha_88_def alpha_89_def alpha_90_def alpha_91_def alpha_92_def

section \<open>punct.h\<close>

definition punct_0 :: "byte list" where
  "punct_0 =
     [18, 16, 19, 20, 21, 22, 23, 24, 25, 26, 27, 28, 29, 30, 31, 32,
      33, 16, 16, 34, 35, 16, 36, 37, 38, 39, 40, 41, 42, 43, 16, 44]"

definition punct_1 :: "byte list" where
  "punct_1 =
     [45, 46, 17, 47, 48, 17, 17, 49, 17, 17, 17, 50, 51, 52, 53, 54,
      55, 56, 57, 17, 16, 16, 16, 16, 16, 16, 16, 16, 16, 16, 16, 16]"

definition punct_2 :: "byte list" where
  "punct_2 =
     [16, 16, 16, 16, 16, 16, 16, 16, 16, 16, 16, 16, 16, 58, 16, 16,
      16, 16, 16, 16, 16, 16, 16, 16, 16, 16, 16, 16, 16, 16, 16, 16]"

definition punct_3 :: "byte list" where
  "punct_3 =
     [16, 16, 16, 16, 16, 16, 16, 16, 16, 16, 16, 16, 16, 16, 16, 16,
      16, 16, 16, 16, 16, 16, 16, 16, 16, 16, 16, 16, 16, 16, 16, 16]"

definition punct_4 :: "byte list" where
  "punct_4 =
     [16, 16, 16, 16, 16, 16, 16, 16, 16, 16, 16, 16, 16, 16, 16, 16,
      16, 16, 16, 16, 16, 16, 16, 16, 16, 16, 16, 16, 16, 16, 16, 16]"

definition punct_5 :: "byte list" where
  "punct_5 =
     [16, 16, 16, 16, 59, 16, 60, 61, 62, 63, 64, 65, 16, 16, 16, 16,
      16, 16, 16, 16, 16, 16, 16, 16, 16, 16, 16, 16, 16, 16, 16, 16]"

definition punct_6 :: "byte list" where
  "punct_6 =
     [16, 16, 16, 16, 16, 16, 16, 16, 16, 16, 16, 16, 16, 16, 16, 16,
      16, 16, 16, 16, 16, 16, 16, 16, 16, 16, 16, 16, 16, 16, 16, 16]"

definition punct_7 :: "byte list" where
  "punct_7 =
     [66, 16, 16, 16, 16, 16, 16, 16, 16, 16, 16, 16, 16, 16, 16, 16,
      16, 16, 16, 16, 16, 16, 16, 16, 67, 16, 16, 68, 16, 69, 70, 71]"

definition punct_8 :: "byte list" where
  "punct_8 =
     [16, 72, 16, 73, 16, 16, 16, 16, 74, 75, 76, 77, 16, 16, 78, 16,
      79, 80, 16, 16, 16, 16, 81, 16, 16, 16, 16, 16, 16, 16, 16, 16]"

definition punct_9 :: "byte list" where
  "punct_9 =
     [16, 16, 16, 16, 82, 16, 16, 16, 16, 16, 16, 16, 16, 16, 16, 16,
      16, 16, 16, 16, 16, 16, 16, 16, 16, 16, 16, 16, 16, 16, 16, 16]"

definition punct_10 :: "byte list" where
  "punct_10 =
     [16, 16, 16, 16, 16, 16, 16, 16, 16, 16, 16, 16, 16, 16, 16, 16,
      16, 16, 16, 16, 16, 16, 16, 16, 16, 16, 16, 16, 16, 16, 16, 16]"

definition punct_11 :: "byte list" where
  "punct_11 =
     [16, 16, 16, 16, 16, 16, 16, 16, 16, 16, 16, 16, 16, 16, 16, 83,
      16, 16, 16, 16, 16, 16, 16, 16, 16, 16, 16, 16, 16, 16, 16, 16]"

definition punct_12 :: "byte list" where
  "punct_12 =
     [16, 16, 16, 16, 16, 16, 16, 16, 16, 16, 16, 16, 16, 16, 16, 16,
      16, 16, 16, 16, 16, 16, 16, 16, 16, 16, 16, 16, 16, 16, 16, 16]"

definition punct_13 :: "byte list" where
  "punct_13 =
     [16, 16, 16, 16, 16, 16, 16, 16, 16, 16, 16, 16, 16, 16, 16, 16,
      16, 16, 16, 16, 16, 16, 16, 16, 16, 16, 16, 16, 16, 16, 16, 16]"

definition punct_14 :: "byte list" where
  "punct_14 =
     [16, 16, 16, 16, 16, 16, 16, 16, 16, 16, 16, 16, 16, 16, 16, 16,
      84, 85, 86, 87, 16, 16, 88, 89, 16, 16, 16, 16, 16, 16, 16, 16]"

definition punct_15 :: "byte list" where
  "punct_15 =
     [16, 16, 16, 16, 16, 16, 16, 16, 16, 16, 16, 16, 16, 16, 90, 16,
      91, 92, 93, 94, 95, 96, 97, 98, 16, 16, 16, 16, 16, 16, 16, 16]"

definition punct_16 :: "byte list" where
  "punct_16 =
     [0, 0, 0, 0, 0, 0, 0, 0, 0, 0, 0, 0, 0, 0, 0, 0,
      0, 0, 0, 0, 0, 0, 0, 0, 0, 0, 0, 0, 0, 0, 0, 0]"

definition punct_17 :: "byte list" where
  "punct_17 =
     [255, 255, 255, 255, 255, 255, 255, 255, 255, 255, 255, 255, 255, 255, 255, 255,
      255, 255, 255, 255, 255, 255, 255, 255, 255, 255, 255, 255, 255, 255, 255, 255]"

definition punct_18 :: "byte list" where
  "punct_18 =
     [0, 0, 0, 0, 254, 255, 0, 252, 1, 0, 0, 248, 1, 0, 0, 120,
      0, 0, 0, 0, 255, 251, 223, 251, 0, 0, 128, 0, 0, 0, 128, 0]"

definition punct_19 :: "byte list" where
  "punct_19 =
     [0, 0, 0, 0, 0, 0, 0, 0, 0, 0, 0, 0, 0, 0, 0, 0,
      0, 0, 0, 0, 0, 0, 0, 0, 60, 0, 252, 255, 224, 175, 255, 255]"

definition punct_20 :: "byte list" where
  "punct_20 =
     [255, 255, 255, 255, 255, 255, 255, 255, 223, 255, 255, 255, 255, 255, 32, 64,
      176, 0, 0, 0, 0, 0, 0, 0, 0, 0, 0, 0, 0, 0, 64, 0]"

definition punct_21 :: "byte list" where
  "punct_21 =
     [0, 0, 0, 0, 0, 0, 0, 0, 0, 0, 0, 0, 0, 0, 0, 0,
      252, 3, 0, 0, 0, 0, 0, 0, 0, 0, 0, 0, 0, 0, 0, 0]"

definition punct_22 :: "byte list" where
  "punct_22 =
     [0, 0, 0, 0, 0, 0, 0, 0, 0, 0, 0, 252, 0, 0, 0, 0,
      0, 134, 254, 255, 255, 255, 0, 64, 73, 0, 0, 0, 0, 0, 24, 0]"

definition punct_23 :: "byte list" where
  "punct_23 =
     [223, 255, 0, 200, 0, 0, 0, 0, 0, 0, 0, 1, 0, 60, 0, 0,
      0, 0, 0, 0, 0, 0, 0, 0, 0, 0, 16, 224, 1, 30, 0, 96]"

definition punct_24 :: "byte list" where
  "punct_24 =
     [255, 191, 0, 0, 0, 0, 0, 0, 255, 7, 0, 0, 0, 0, 0, 0,
      0, 0, 0, 0, 0, 0, 0, 0, 0, 0, 0, 0, 0, 248, 207, 3]"

definition punct_25 :: "byte list" where
  "punct_25 =
     [0, 0, 0, 3, 0, 32, 255, 127, 0, 0, 0, 78, 0, 0, 0, 0,
      0, 0, 0, 0, 0, 0, 0, 0, 0, 0, 0, 0, 0, 252, 0, 0]"

definition punct_26 :: "byte list" where
  "punct_26 =
     [0, 0, 0, 0, 0, 0, 0, 16, 0, 32, 30, 0, 48, 0, 1, 0,
      0, 0, 0, 0, 0, 0, 0, 16, 0, 32, 0, 0, 0, 0, 252, 15]"

definition punct_27 :: "byte list" where
  "punct_27 =
     [0, 0, 0, 0, 0, 0, 0, 16, 0, 32, 0, 0, 0, 0, 0, 0,
      0, 0, 0, 0, 0, 0, 0, 16, 0, 32, 0, 0, 0, 0, 3, 0]"

definition punct_28 :: "byte list" where
  "punct_28 =
     [0, 0, 0, 0, 0, 0, 0, 16, 0, 32, 0, 0, 0, 0, 253, 0,
      0, 0, 0, 0, 0, 0, 0, 0, 0, 32, 0, 0, 0, 0, 255, 7]"

definition punct_29 :: "byte list" where
  "punct_29 =
     [0, 0, 0, 0, 0, 0, 0, 0, 0, 32, 0, 0, 0, 0, 0, 255,
      0, 0, 0, 0, 0, 0, 0, 16, 0, 32, 0, 0, 0, 0, 0, 0]"

definition punct_30 :: "byte list" where
  "punct_30 =
     [0, 0, 0, 0, 0, 0, 0, 0, 0, 32, 0, 0, 0, 0, 63, 2,
      0, 0, 0, 0, 0, 0, 0, 0, 0, 4, 0, 0, 0, 0, 16, 0]"

definition punct_31 :: "byte list" where
  "punct_31 =
     [0, 0, 0, 0, 0, 128, 0, 128, 192, 223, 0, 12, 0, 0, 0, 0,
      0, 0, 0, 0, 0, 0, 0, 0, 0, 31, 0, 0, 0, 0, 0, 0]"

definition punct_32 :: "byte list" where
  "punct_32 =
     [254, 255, 255, 255, 0, 252, 255, 255, 0, 0, 0, 0, 0, 0, 0, 0,
      252, 0, 0, 0, 0, 0, 0, 192, 255, 223, 255, 7, 0, 0, 0, 0]"

definition punct_33 :: "byte list" where
  "punct_33 =
     [0, 0, 0, 0, 0, 0, 128, 6, 0, 252, 0, 0, 24, 62, 0, 0,
      128, 191, 0, 204, 0, 0, 0, 0, 0, 0, 0, 0, 0, 0, 0, 8]"

definition punct_34 :: "byte list" where
  "punct_34 =
     [0, 0, 0, 0, 0, 0, 0, 0, 0, 0, 0, 96, 255, 255, 255, 31,
      0, 0, 255, 3, 0, 0, 0, 0, 0, 0, 0, 0, 0, 0, 0, 0]"

definition punct_35 :: "byte list" where
  "punct_35 =
     [1, 0, 0, 0, 0, 0, 0, 0, 0, 0, 0, 0, 0, 0, 0, 0,
      0, 0, 0, 0, 0, 0, 0, 0, 0, 0, 0, 0, 0, 0, 0, 0]"

definition punct_36 :: "byte list" where
  "punct_36 =
     [0, 0, 0, 0, 0, 0, 0, 0, 0, 0, 0, 0, 0, 96, 0, 0,
      1, 0, 0, 24, 0, 0, 0, 0, 0, 0, 0, 0, 0, 56, 0, 0]"

definition punct_37 :: "byte list" where
  "punct_37 =
     [0, 0, 16, 0, 0, 0, 112, 0, 0, 0, 0, 0, 0, 0, 0, 0,
      0, 0, 0, 0, 0, 0, 48, 0, 0, 254, 127, 47, 0, 0, 255, 3]"

definition punct_38 :: "byte list" where
  "punct_38 =
     [255, 127, 0, 0, 0, 0, 0, 0, 0, 0, 0, 0, 0, 0, 0, 0,
      0, 0, 0, 0, 0, 0, 0, 0, 0, 0, 0, 0, 0, 0, 0, 0]"

definition punct_39 :: "byte list" where
  "punct_39 =
     [0, 0, 0, 0, 0, 0, 0, 14, 49, 0, 0, 0, 0, 0, 0, 0,
      0, 0, 0, 0, 0, 0, 0, 0, 0, 0, 0, 196, 255, 255, 255, 255]"

definition punct_40 :: "byte list" where
  "punct_40 =
     [0, 0, 0, 192, 0, 0, 0, 0, 0, 0, 0, 0, 1, 0, 224, 159,
      0, 0, 0, 0, 127, 63, 0, 0, 0, 0, 0, 0, 0, 0, 0, 0]"

definition punct_41 :: "byte list" where
  "punct_41 =
     [0, 0, 0, 0, 0, 0, 16, 0, 16, 0, 0, 252, 255, 255, 255, 31,
      0, 0, 0, 0, 0, 12, 0, 0, 0, 0, 0, 0, 64, 0, 12, 240]"

definition punct_42 :: "byte list" where
  "punct_42 =
     [0, 0, 0, 0, 0, 0, 192, 248, 0, 0, 0, 0, 0, 0, 0, 192,
      0, 0, 0, 0, 0, 0, 0, 0, 255, 0, 255, 255, 255, 33, 16, 0]"

definition punct_43 :: "byte list" where
  "punct_43 =
     [0, 0, 0, 0, 0, 0, 0, 0, 0, 0, 0, 0, 0, 0, 0, 0,
      0, 0, 0, 0, 0, 0, 0, 0, 255, 255, 255, 255, 127, 0, 0, 240]"

definition punct_44 :: "byte list" where
  "punct_44 =
     [0, 0, 0, 0, 0, 0, 0, 0, 0, 0, 0, 0, 0, 0, 0, 0,
      0, 0, 0, 0, 0, 0, 0, 160, 3, 224, 0, 224, 0, 224, 0, 96]"

definition punct_45 :: "byte list" where
  "punct_45 =
     [128, 248, 255, 255, 255, 252, 255, 255, 255, 255, 255, 127, 31, 252, 241, 127,
      255, 127, 0, 0, 255, 255, 255, 3, 0, 0, 255, 255, 255, 255, 1, 0]"

definition punct_46 :: "byte list" where
  "punct_46 =
     [123, 3, 208, 193, 175, 66, 0, 12, 31, 188, 255, 255, 0, 0, 0, 0,
      0, 2, 255, 255, 255, 255, 255, 255, 255, 255, 255, 255, 255, 255, 255, 255]"

definition punct_47 :: "byte list" where
  "punct_47 =
     [255, 255, 255, 255, 255, 255, 255, 255, 255, 255, 255, 255, 255, 255, 255, 255,
      255, 255, 255, 255, 255, 255, 255, 255, 255, 255, 255, 255, 255, 255, 15, 0]"

definition punct_48 :: "byte list" where
  "punct_48 =
     [255, 255, 255, 255, 127, 0, 0, 0, 255, 7, 0, 0, 255, 255, 255, 255,
      255, 255, 255, 255, 255, 255, 63, 0, 0, 0, 0, 0, 0, 252, 255, 255]"

definition punct_49 :: "byte list" where
  "punct_49 =
     [254, 255, 255, 255, 255, 255, 255, 255, 255, 255, 255, 255, 255, 255, 255, 255,
      255, 255, 255, 255, 255, 255, 255, 255, 255, 255, 255, 255, 255, 255, 255, 255]"

definition punct_50 :: "byte list" where
  "punct_50 =
     [255, 255, 255, 255, 255, 255, 255, 255, 255, 31, 255, 3, 0, 0, 0, 0,
      0, 0, 0, 0, 0, 0, 0, 0, 0, 0, 0, 0, 0, 0, 0, 0]"

definition punct_51 :: "byte list" where
  "punct_51 =
     [0, 0, 0, 0, 0, 0, 0, 0, 0, 0, 0, 0, 0, 0, 0, 0,
      0, 0, 0, 0, 0, 0, 0, 0, 0, 0, 0, 0, 224, 135, 3, 254]"

definition punct_52 :: "byte list" where
  "punct_52 =
     [0, 0, 0, 0, 0, 0, 0, 0, 0, 0, 0, 0, 0, 0, 1, 128,
      0, 0, 0, 0, 0, 0, 0, 0, 0, 0, 0, 0, 0, 0, 0, 0]"

definition punct_53 :: "byte list" where
  "punct_53 =
     [255, 255, 255, 255, 255, 127, 255, 15, 0, 0, 0, 0, 0, 0, 0, 0,
      255, 255, 255, 251, 255, 255, 255, 255, 255, 255, 255, 255, 255, 255, 15, 0]"

definition punct_54 :: "byte list" where
  "punct_54 =
     [255, 255, 255, 255, 255, 255, 255, 255, 255, 255, 255, 255, 255, 255, 255, 255,
      255, 255, 255, 255, 255, 255, 255, 255, 255, 255, 63, 0, 0, 0, 255, 15]"

definition punct_55 :: "byte list" where
  "punct_55 =
     [30, 255, 255, 255, 1, 252, 193, 224, 0, 0, 0, 0, 0, 0, 0, 0,
      0, 0, 0, 30, 1, 0, 0, 0, 0, 0, 0, 0, 0, 0, 0, 8]"

definition punct_56 :: "byte list" where
  "punct_56 =
     [0, 0, 0, 0, 0, 0, 0, 0, 0, 0, 0, 0, 0, 0, 0, 0,
      0, 0, 255, 255, 0, 0, 0, 0, 255, 255, 255, 255, 15, 0, 0, 0]"

definition punct_57 :: "byte list" where
  "punct_57 =
     [255, 255, 255, 127, 255, 255, 255, 255, 255, 255, 255, 255, 255, 255, 255, 255,
      255, 255, 255, 255, 255, 255, 255, 255, 255, 255, 255, 255, 255, 255, 255, 127]"

definition punct_58 :: "byte list" where
  "punct_58 =
     [0, 0, 0, 0, 0, 0, 0, 0, 0, 0, 0, 0, 0, 0, 0, 0,
      0, 0, 0, 0, 0, 0, 0, 0, 255, 255, 255, 255, 255, 255, 255, 255]"

definition punct_59 :: "byte list" where
  "punct_59 =
     [0, 0, 0, 0, 0, 0, 0, 0, 0, 0, 0, 0, 0, 0, 0, 0,
      0, 0, 255, 255, 255, 255, 255, 255, 127, 0, 0, 0, 0, 0, 0, 192]"

definition punct_60 :: "byte list" where
  "punct_60 =
     [0, 224, 0, 0, 0, 0, 0, 0, 0, 0, 0, 0, 0, 128, 15, 112,
      0, 0, 0, 0, 0, 0, 0, 0, 0, 0, 0, 0, 0, 0, 255, 0]"

definition punct_61 :: "byte list" where
  "punct_61 =
     [255, 255, 127, 0, 3, 0, 0, 0, 0, 0, 0, 0, 0, 0, 0, 0,
      0, 6, 0, 0, 0, 0, 0, 0, 0, 0, 0, 0, 0, 0, 0, 0]"

definition punct_62 :: "byte list" where
  "punct_62 =
     [68, 8, 0, 0, 0, 15, 255, 3, 0, 0, 0, 0, 0, 0, 240, 0,
      0, 0, 0, 0, 0, 0, 0, 0, 16, 192, 0, 0, 255, 255, 3, 7]"

definition punct_63 :: "byte list" where
  "punct_63 =
     [0, 0, 0, 0, 0, 248, 0, 0, 0, 0, 8, 128, 0, 0, 0, 0,
      0, 0, 0, 0, 0, 0, 8, 0, 255, 63, 0, 192, 0, 0, 0, 0]"

definition punct_64 :: "byte list" where
  "punct_64 =
     [0, 0, 0, 0, 0, 0, 0, 0, 0, 0, 0, 240, 0, 0, 128, 11,
      0, 0, 0, 0, 0, 0, 0, 128, 2, 0, 0, 192, 0, 0, 67, 0]"

definition punct_65 :: "byte list" where
  "punct_65 =
     [0, 0, 0, 0, 0, 0, 0, 0, 0, 0, 0, 0, 0, 0, 0, 0,
      0, 0, 0, 0, 0, 0, 0, 0, 0, 0, 0, 0, 0, 56, 0, 0]"

definition punct_66 :: "byte list" where
  "punct_66 =
     [1, 0, 0, 0, 0, 0, 0, 0, 0, 0, 0, 0, 0, 0, 0, 0,
      0, 0, 0, 0, 0, 0, 0, 0, 0, 0, 0, 0, 0, 0, 0, 0]"

definition punct_67 :: "byte list" where
  "punct_67 =
     [0, 0, 0, 0, 0, 0, 0, 0, 0, 0, 0, 0, 0, 0, 0, 0,
      0, 0, 0, 0, 0, 0, 0, 0, 0, 0, 0, 0, 0, 0, 0, 128]"

definition punct_68 :: "byte list" where
  "punct_68 =
     [0, 0, 0, 0, 0, 2, 0, 0, 0, 0, 0, 0, 0, 0, 0, 0,
      0, 0, 0, 0, 0, 0, 252, 255, 3, 0, 0, 0, 0, 0, 0, 0]"

definition punct_69 :: "byte list" where
  "punct_69 =
     [0, 0, 0, 0, 0, 0, 0, 192, 0, 0, 0, 0, 0, 0, 0, 0,
      0, 0, 0, 0, 0, 0, 0, 0, 0, 0, 0, 0, 0, 0, 0, 48]"

definition punct_70 :: "byte list" where
  "punct_70 =
     [255, 255, 255, 3, 127, 0, 255, 255, 255, 255, 247, 255, 127, 15, 0, 0,
      0, 0, 0, 0, 0, 0, 0, 0, 0, 0, 0, 0, 0, 0, 0, 128]"

definition punct_71 :: "byte list" where
  "punct_71 =
     [254, 255, 0, 252, 1, 0, 0, 248, 1, 0, 0, 248, 63, 0, 0, 0,
      0, 0, 0, 0, 0, 0, 0, 0, 0, 0, 0, 0, 127, 127, 0, 48]"

definition punct_72 :: "byte list" where
  "punct_72 =
     [135, 255, 255, 255, 255, 255, 143, 255, 0, 0, 0, 0, 0, 0, 224, 255,
      255, 7, 255, 15, 0, 0, 0, 0, 0, 0, 255, 255, 255, 255, 255, 63]"

definition punct_73 :: "byte list" where
  "punct_73 =
     [0, 0, 0, 0, 15, 0, 0, 0, 0, 0, 0, 0, 0, 0, 0, 0,
      0, 0, 0, 128, 0, 0, 0, 0, 0, 0, 1, 0, 0, 0, 0, 0]"

definition punct_74 :: "byte list" where
  "punct_74 =
     [0, 0, 0, 0, 0, 0, 0, 0, 0, 0, 128, 255, 0, 0, 0, 0,
      0, 0, 0, 0, 0, 0, 0, 0, 0, 0, 0, 0, 0, 0, 0, 0]"

definition punct_75 :: "byte list" where
  "punct_75 =
     [0, 0, 192, 143, 0, 0, 0, 128, 0, 0, 0, 0, 0, 0, 0, 0,
      0, 0, 0, 0, 0, 0, 0, 0, 0, 0, 0, 0, 0, 0, 0, 0]"

definition punct_76 :: "byte list" where
  "punct_76 =
     [0, 0, 0, 0, 0, 0, 0, 135, 255, 0, 255, 1, 0, 0, 0, 224,
      0, 0, 0, 0, 0, 0, 0, 0, 0, 0, 0, 0, 0, 0, 0, 0]"

definition punct_77 :: "byte list" where
  "punct_77 =
     [0, 0, 0, 0, 0, 0, 0, 254, 0, 0, 0, 255, 0, 0, 0, 255,
      0, 0, 0, 0, 0, 0, 0, 0, 0, 0, 0, 0, 0, 0, 0, 0]"

definition punct_78 :: "byte list" where
  "punct_78 =
     [0, 0, 0, 0, 0, 0, 0, 0, 0, 0, 0, 0, 255, 255, 255, 127,
      0, 0, 0, 0, 0, 0, 0, 0, 0, 0, 0, 0, 0, 0, 0, 0]"

definition punct_79 :: "byte list" where
  "punct_79 =
     [0, 0, 0, 0, 0, 0, 0, 0, 192, 63, 252, 255, 63, 0, 0, 0,
      3, 0, 0, 0, 0, 0, 0, 254, 3, 0, 0, 0, 0, 0, 0, 0]"

definition punct_80 :: "byte list" where
  "punct_80 =
     [0, 0, 0, 0, 0, 0, 24, 0, 15, 0, 0, 0, 0, 0, 0, 0,
      0, 0, 0, 0, 0, 0, 0, 0, 225, 1, 0, 0, 0, 0, 0, 0]"

definition punct_81 :: "byte list" where
  "punct_81 =
     [0, 0, 0, 0, 0, 0, 0, 0, 0, 0, 0, 0, 0, 0, 0, 0,
      0, 0, 0, 0, 0, 0, 192, 0, 0, 0, 0, 0, 0, 0, 0, 0]"

definition punct_82 :: "byte list" where
  "punct_82 =
     [0, 0, 0, 0, 0, 0, 0, 0, 0, 0, 0, 0, 0, 0, 15, 0,
      0, 0, 0, 0, 0, 0, 0, 0, 0, 0, 0, 0, 0, 0, 0, 0]"

definition punct_83 :: "byte list" where
  "punct_83 =
     [0, 0, 0, 0, 0, 0, 0, 0, 0, 0, 0, 0, 0, 0, 0, 0,
      0, 128, 7, 0, 0, 0, 0, 0, 0, 0, 0, 0, 0, 0, 0, 0]"

definition punct_84 :: "byte list" where
  "punct_84 =
     [255, 255, 255, 255, 255, 255, 255, 255, 255, 255, 255, 255, 255, 255, 255, 255,
      255, 255, 255, 255, 255, 255, 255, 255, 255, 255, 255, 255, 255, 255, 63, 0]"

definition punct_85 :: "byte list" where
  "punct_85 =
     [255, 255, 255, 255, 127, 254, 255, 255, 255, 255, 255, 255, 255, 255, 255, 255,
      255, 255, 255, 255, 255, 255, 255, 255, 255, 255, 255, 63, 0, 0, 0, 0]"

definition punct_86 :: "byte list" where
  "punct_86 =
     [255, 255, 255, 255, 255, 255, 255, 255, 63, 0, 0, 0, 0, 0, 0, 0,
      0, 0, 0, 0, 0, 0, 0, 0, 0, 0, 0, 0, 0, 0, 0, 0]"

definition punct_87 :: "byte list" where
  "punct_87 =
     [255, 255, 255, 255, 255, 255, 255, 255, 255, 255, 127, 0, 255, 255, 3, 0,
      0, 0, 0, 0, 0, 0, 0, 0, 0, 0, 0, 0, 0, 0, 0, 0]"

definition punct_88 :: "byte list" where
  "punct_88 =
     [0, 0, 0, 0, 0, 0, 0, 0, 0, 0, 0, 0, 0, 0, 0, 0,
      0, 0, 0, 0, 0, 0, 0, 0, 2, 0, 0, 8, 0, 0, 0, 8]"

definition punct_89 :: "byte list" where
  "punct_89 =
     [0, 0, 32, 0, 0, 0, 32, 0, 0, 128, 0, 0, 0, 128, 0, 0,
      0, 2, 0, 0, 0, 2, 0, 0, 8, 0, 0, 0, 0, 0, 0, 0]"

definition punct_90 :: "byte list" where
  "punct_90 =
     [0, 0, 0, 0, 0, 0, 0, 0, 0, 0, 0, 0, 0, 0, 0, 0,
      0, 0, 0, 0, 0, 0, 0, 0, 0, 0, 0, 0, 0, 0, 3, 0]"

definition punct_91 :: "byte list" where
  "punct_91 =
     [255, 255, 255, 255, 255, 15, 255, 255, 255, 255, 255, 255, 255, 255, 255, 255,
      255, 255, 15, 0, 255, 127, 254, 127, 254, 255, 254, 255, 0, 0, 0, 0]"

definition punct_92 :: "byte list" where
  "punct_92 =
     [255, 7, 255, 255, 255, 127, 255, 255, 255, 255, 255, 255, 255, 15, 255, 255,
      255, 255, 255, 7, 0, 0, 0, 0, 0, 0, 0, 0, 192, 255, 255, 255]"

definition punct_93 :: "byte list" where
  "punct_93 =
     [7, 0, 255, 255, 255, 255, 255, 7, 255, 1, 3, 0, 0, 0, 0, 0,
      0, 0, 0, 0, 0, 0, 0, 0, 0, 0, 0, 0, 0, 0, 0, 0]"

definition punct_94 :: "byte list" where
  "punct_94 =
     [255, 255, 255, 255, 1, 0, 191, 255, 255, 255, 255, 255, 255, 255, 255, 31,
      255, 255, 15, 0, 255, 255, 255, 255, 223, 7, 0, 0, 255, 255, 1, 0]"

definition punct_95 :: "byte list" where
  "punct_95 =
     [255, 255, 255, 255, 255, 255, 255, 127, 253, 255, 255, 255, 255, 255, 255, 255,
      255, 255, 255, 255, 255, 255, 255, 255, 255, 255, 255, 255, 255, 255, 255, 30]"

definition punct_96 :: "byte list" where
  "punct_96 =
     [255, 255, 255, 255, 255, 255, 255, 63, 15, 0, 255, 255, 255, 0, 0, 0,
      0, 0, 0, 0, 0, 0, 0, 0, 0, 0, 0, 0, 0, 0, 0, 248]"

definition punct_97 :: "byte list" where
  "punct_97 =
     [255, 255, 255, 255, 255, 255, 255, 255, 225, 255, 0, 0, 0, 0, 0, 0,
      255, 255, 255, 255, 255, 255, 255, 255, 63, 0, 0, 0, 0, 0, 0, 0]"

definition punct_98 :: "byte list" where
  "punct_98 =
     [255, 255, 255, 255, 255, 255, 255, 255, 255, 255, 255, 255, 255, 255, 15, 0,
      0, 0, 0, 0, 0, 0, 0, 0, 0, 0, 0, 0, 0, 0, 0, 0]"

definition punct_rows :: "byte list list" where
  "punct_rows =
     [punct_0, punct_1, punct_2, punct_3, punct_4, punct_5, punct_6, punct_7, punct_8, punct_9,
      punct_10, punct_11, punct_12, punct_13, punct_14, punct_15, punct_16, punct_17, punct_18, punct_19,
      punct_20, punct_21, punct_22, punct_23, punct_24, punct_25, punct_26, punct_27, punct_28, punct_29,
      punct_30, punct_31, punct_32, punct_33, punct_34, punct_35, punct_36, punct_37, punct_38, punct_39,
      punct_40, punct_41, punct_42, punct_43, punct_44, punct_45, punct_46, punct_47, punct_48, punct_49,
      punct_50, punct_51, punct_52, punct_53, punct_54, punct_55, punct_56, punct_57, punct_58, punct_59,
      punct_60, punct_61, punct_62, punct_63, punct_64, punct_65, punct_66, punct_67, punct_68, punct_69,
      punct_70, punct_71, punct_72, punct_73, punct_74, punct_75, punct_76, punct_77, punct_78, punct_79,
      punct_80, punct_81, punct_82, punct_83, punct_84, punct_85, punct_86, punct_87, punct_88, punct_89,
      punct_90, punct_91, punct_92, punct_93, punct_94, punct_95, punct_96, punct_97, punct_98]"

definition table_punct :: "byte list" where
  "table_punct = concat punct_rows"

lemmas punct_row_defs = punct_0_def punct_1_def punct_2_def punct_3_def punct_4_def punct_5_def punct_6_def punct_7_def
   punct_8_def punct_9_def punct_10_def punct_11_def punct_12_def punct_13_def punct_14_def punct_15_def
   punct_16_def punct_17_def punct_18_def punct_19_def punct_20_def punct_21_def punct_22_def punct_23_def
   punct_24_def punct_25_def punct_26_def punct_27_def punct_28_def punct_29_def punct_30_def punct_31_def
   punct_32_def punct_33_def punct_34_def punct_35_def punct_36_def punct_37_def punct_38_def punct_39_def
   punct_40_def punct_41_def punct_42_def punct_43_def punct_44_def punct_45_def punct_46_def punct_47_def
   punct_48_def punct_49_def punct_50_def punct_51_def punct_52_def punct_53_def punct_54_def punct_55_def
   punct_56_def punct_57_def punct_58_def punct_59_def punct_60_def punct_61_def punct_62_def punct_63_def
   punct_64_def punct_65_def punct_66_def punct_67_def punct_68_def punct_69_def punct_70_def punct_71_def
   punct_72_def punct_73_def punct_74_def punct_75_def punct_76_def punct_77_def punct_78_def punct_79_def
   punct_80_def punct_81_def punct_82_def punct_83_def punct_84_def punct_85_def punct_86_def punct_87_def
   punct_88_def punct_89_def punct_90_def punct_91_def punct_92_def punct_93_def punct_94_def punct_95_def
   punct_96_def punct_97_def punct_98_def

lemma alpha_nth:
  "alpha_rows ! 0 = alpha_0" "alpha_rows ! 1 = alpha_1" "alpha_rows ! 2 = alpha_2" "alpha_rows ! 3 = alpha_3" "alpha_rows ! 4 = alpha_4"
  "alpha_rows ! 5 = alpha_5" "alpha_rows ! 6 = alpha_6" "alpha_rows ! 7 = alpha_7" "alpha_rows ! 8 = alpha_8" "alpha_rows ! 9 = alpha_9"
  "alpha_rows ! 10 = alpha_10" "alpha_rows ! 11 = alpha_11" "alpha_rows ! 12 = alpha_12" "alpha_rows ! 13 = alpha_13" "alpha_rows ! 14 = alpha_14"
  "alpha_rows ! 15 = alpha_15" "alpha_rows ! 16 = alpha_16" "alpha_rows ! 17 = alpha_17" "alpha_rows ! 18 = alpha_18" "alpha_rows ! 19 = alpha_19"
  "alpha_rows ! 20 = alpha_20" "alpha_rows ! 21 = alpha_21" "alpha_rows ! 22 = alpha_22" "alpha_rows ! 23 = alpha_23" "alpha_rows ! 24 = alpha_24"
  "alpha_rows ! 25 = alpha_25" "alpha_rows ! 26 = alpha_26" "alpha_rows ! 27 = alpha_27" "alpha_rows ! 28 = alpha_28" "alpha_rows ! 29 = alpha_29"
  "alpha_rows ! 30 = alpha_30" "alpha_rows ! 31 = alpha_31" "alpha_rows ! 32 = alpha_32" "alpha_rows ! 33 = alpha_33" "alpha_rows ! 34 = alpha_34"
  "alpha_rows ! 35 = alpha_35" "alpha_rows ! 36 = alpha_36" "alpha_rows ! 37 = alpha_37" "alpha_rows ! 38 = alpha_38" "alpha_rows ! 39 = alpha_39"
  "alpha_rows ! 40 = alpha_40" "alpha_rows ! 41 = alpha_41" "alpha_rows ! 42 = alpha_42" "alpha_rows ! 43 = alpha_43" "alpha_rows ! 44 = alpha_44"
  "alpha_rows ! 45 = alpha_45" "alpha_rows ! 46 = alpha_46" "alpha_rows ! 47 = alpha_47" "alpha_rows ! 48 = alpha_48" "alpha_rows ! 49 = alpha_49"
  "alpha_rows ! 50 = alpha_50" "alpha_rows ! 51 = alpha_51" "alpha_rows ! 52 = alpha_52" "alpha_rows ! 53 = alpha_53" "alpha_rows ! 54 = alpha_54"
  "alpha_rows ! 55 = alpha_55" "alpha_rows ! 56 = alpha_56" "alpha_rows ! 57 = alpha_57" "alpha_rows ! 58 = alpha_58" "alpha_rows ! 59 = alpha_59"
  "alpha_rows ! 60 = alpha_60" "alpha_rows ! 61 = alpha_61" "alpha_rows ! 62 = alpha_62" "alpha_rows ! 63 = alpha_63" "alpha_rows ! 64 = alpha_64"
  "alpha_rows ! 65 = alpha_65" "alpha_rows ! 66 = alpha_66" "alpha_rows ! 67 = alpha_67" "alpha_rows ! 68 = alpha_68" "alpha_rows ! 69 = alpha_69"
  "alpha_rows ! 70 = alpha_70" "alpha_rows ! 71 = alpha_71" "alpha_rows ! 72 = alpha_72" "alpha_rows ! 73 = alpha_73" "alpha_rows ! 74 = alpha_74"
  "alpha_rows ! 75 = alpha_75" "alpha_rows ! 76 = alpha_76" "alpha_rows ! 77 = alpha_77" "alpha_rows ! 78 = alpha_78" "alpha_rows ! 79 = alpha_79"
  "alpha_rows ! 80 = alpha_80" "alpha_rows ! 81 = alpha_81" "alpha_rows ! 82 = alpha_82" "alpha_rows ! 83 = alpha_83" "alpha_rows ! 84 = alpha_84"
  "alpha_rows ! 85 = alpha_85" "alpha_rows ! 86 = alpha_86" "alpha_rows ! 87 = alpha_87" "alpha_rows ! 88 = alpha_88" "alpha_rows ! 89 = alpha_89"
  "alpha_rows ! 90 = alpha_90" "alpha_rows ! 91 = alpha_91" "alpha_rows ! 92 = alpha_92"
  by (simp_all add: alpha_rows_def)

lemma punct_nth:
  "punct_rows ! 0 = punct_0" "punct_rows ! 1 = punct_1" "punct_rows ! 2 = punct_2" "punct_rows ! 3 = punct_3" "punct_rows ! 4 = punct_4"
  "punct_rows ! 5 = punct_5" "punct_rows ! 6 = punct_6" "punct_rows ! 7 = punct_7" "punct_rows ! 8 = punct_8" "punct_rows ! 9 = punct_9"
  "punct_rows ! 10 = punct_10" "punct_rows ! 11 = punct_11" "punct_rows ! 12 = punct_12" "punct_rows ! 13 = punct_13" "punct_rows ! 14 = punct_14"
  "punct_rows ! 15 = punct_15" "punct_rows ! 16 = punct_16" "punct_rows ! 17 = punct_17" "punct_rows ! 18 = punct_18" "punct_rows ! 19 = punct_19"
  "punct_rows ! 20 = punct_20" "punct_rows ! 21 = punct_21" "punct_rows ! 22 = punct_22" "punct_rows ! 23 = punct_23" "punct_rows ! 24 = punct_24"
  "punct_rows ! 25 = punct_25" "punct_rows ! 26 = punct_26" "punct_rows ! 27 = punct_27" "punct_rows ! 28 = punct_28" "punct_rows ! 29 = punct_29"
  "punct_rows ! 30 = punct_30" "punct_rows ! 31 = punct_31" "punct_rows ! 32 = punct_32" "punct_rows ! 33 = punct_33" "punct_rows ! 34 = punct_34"
  "punct_rows ! 35 = punct_35" "punct_rows ! 36 = punct_36" "punct_rows ! 37 = punct_37" "punct_rows ! 38 = punct_38" "punct_rows ! 39 = punct_39"
  "punct_rows ! 40 = punct_40" "punct_rows ! 41 = punct_41" "punct_rows ! 42 = punct_42" "punct_rows ! 43 = punct_43" "punct_rows ! 44 = punct_44"
  "punct_rows ! 45 = punct_45" "punct_rows ! 46 = punct_46" "punct_rows ! 47 = punct_47" "punct_rows ! 48 = punct_48" "punct_rows ! 49 = punct_49"
  "punct_rows ! 50 = punct_50" "punct_rows ! 51 = punct_51" "punct_rows ! 52 = punct_52" "punct_rows ! 53 = punct_53" "punct_rows ! 54 = punct_54"
  "punct_rows ! 55 = punct_55" "punct_rows ! 56 = punct_56" "punct_rows ! 57 = punct_57" "punct_rows ! 58 = punct_58" "punct_rows ! 59 = punct_59"
  "punct_rows ! 60 = punct_60" "punct_rows ! 61 = punct_61" "punct_rows ! 62 = punct_62" "punct_rows ! 63 = punct_63" "punct_rows ! 64 = punct_64"
  "punct_rows ! 65 = punct_65" "punct_rows ! 66 = punct_66" "punct_rows ! 67 = punct_67" "punct_rows ! 68 = punct_68" "punct_rows ! 69 = punct_69"
  "punct_rows ! 70 = punct_70" "punct_rows ! 71 = punct_71" "punct_rows ! 72 = punct_72" "punct_rows ! 73 = punct_73" "punct_rows ! 74 = punct_74"
  "punct_rows ! 75 = punct_75" "punct_rows ! 76 = punct_76" "punct_rows ! 77 = punct_77" "punct_rows ! 78 = punct_78" "punct_rows ! 79 = punct_79"
  "punct_rows ! 80 = punct_80" "punct_rows ! 81 = punct_81" "punct_rows ! 82 = punct_82" "punct_rows ! 83 = punct_83" "punct_rows ! 84 = punct_84"
  "punct_rows ! 85 = punct_85" "punct_rows ! 86 = punct_86" "punct_rows ! 87 = punct_87" "punct_rows ! 88 = punct_88" "punct_rows ! 89 = punct_89"
  "punct_rows ! 90 = punct_90" "punct_rows ! 91 = punct_91" "punct_rows ! 92 = punct_92" "punct_rows ! 93 = punct_93" "punct_rows ! 94 = punct_94"
  "punct_rows ! 95 = punct_95" "punct_rows ! 96 = punct_96" "punct_rows ! 97 = punct_97" "punct_rows ! 98 = punct_98"
  by (simp_all add: punct_rows_def)

end
