(* ===== verification/Ctype.thy ===== *)
theory Ctype
  imports Ctype_Tables
begin

text \<open>
  \<open>musl-ctype\<close>: the character classes \<open>isw*\<close>, their dispatch by name (\<open>wctype\<close>, \<open>iswctype\<close>) and the case
  mappings (\<open>towctrans.c\<close>, \<open>wctrans.c\<close>).

  \<open>wint_t\<close> is a 32-bit word. Functions that read an array return an option: \<open>None\<close> is a read outside
  it. The C library's \<open>isblank\<close> is defined for \<open>EOF\<close> and the values of \<open>unsigned char\<close> only.
\<close>

section \<open>Classes\<close>

text \<open>\<open>iswalpha.c\<close>, \<open>iswpunct.c\<close>: \<open>(table[table[wc>>8]*32+((wc&255)>>3)]>>(wc&7))&1\<close>\<close>

definition bitmap_lookup :: "byte list \<Rightarrow> u32 \<Rightarrow> bool option" where
  "bitmap_lookup table wc =
     (case rd table (unat (drop_bit 8 wc)) of None \<Rightarrow> None | Some b \<Rightarrow>
        (case rd table (unat b * 32 + unat (drop_bit 3 (wc AND 255))) of None \<Rightarrow> None | Some x \<Rightarrow>
           Some (drop_bit (unat (wc AND 7)) x AND 1 = 1)))"

definition iswalpha :: "u32 \<Rightarrow> bool option" where
  "iswalpha wc =
     (if wc < 0x20000 then bitmap_lookup table_alpha wc
      else if wc < 0x2fffe then Some True
      else Some False)"

definition iswpunct :: "u32 \<Rightarrow> bool option" where
  "iswpunct wc = (if wc < 0x20000 then bitmap_lookup table_punct wc else Some False)"

definition iswdigit :: "u32 \<Rightarrow> bool" where
  "iswdigit wc \<longleftrightarrow> wc - 48 < 10"

definition iswalnum :: "u32 \<Rightarrow> bool option" where
  "iswalnum wc = (if iswdigit wc then Some True else iswalpha wc)"

definition isblank :: "u32 \<Rightarrow> bool option" where
  "isblank c = (if c \<le> 255 \<or> c = -1 then Some (c = 32 \<or> c = 9) else None)"

definition iswblank :: "u32 \<Rightarrow> bool option" where
  "iswblank wc = isblank wc"

definition iswcntrl :: "u32 \<Rightarrow> bool" where
  "iswcntrl wc \<longleftrightarrow> wc < 32 \<or> wc - 0x7f < 33 \<or> wc - 0x2028 < 2 \<or> wc - 0xfff9 < 3"

fun wcschr :: "u32 list \<Rightarrow> u32 \<Rightarrow> nat \<Rightarrow> nat option option" where
  "wcschr [] wc i = None"
| "wcschr (c # cs) wc i = (if c = wc then Some (Some i) else if c = 0 then Some None else wcschr cs wc (i + 1))"

definition spaces :: "u32 list" where
  "spaces =
     [32, 9, 10, 13, 11, 12, 0x0085,
      0x2000, 0x2001, 0x2002, 0x2003, 0x2004, 0x2005,
      0x2006, 0x2008, 0x2009, 0x200a,
      0x2028, 0x2029, 0x205f, 0x3000, 0]"

definition iswspace :: "u32 \<Rightarrow> bool option" where
  "iswspace wc = (if wc = 0 then Some False else map_option (\<lambda>p. p \<noteq> None) (wcschr spaces wc 0))"

definition termux_iswprint :: "u32 \<Rightarrow> bool" where
  "termux_iswprint wc \<longleftrightarrow>
     (if wc < 0xff then (wc + 1) AND 0x7f \<ge> 0x21
      else if wc < 0x2028 \<or> wc - 0x202a < 0xd800 - 0x202a \<or> wc - 0xe000 < 0xfff9 - 0xe000 then True
      else if wc - 0xfffc > 0x10ffff - 0xfffc \<or> wc AND 0xfffe = 0xfffe then False
      else True)"

definition iswgraph :: "u32 \<Rightarrow> bool option" where
  "iswgraph wc = map_option (\<lambda>sp. \<not> sp \<and> termux_iswprint wc) (iswspace wc)"

definition iswxdigit :: "u32 \<Rightarrow> bool" where
  "iswxdigit wc \<longleftrightarrow> wc - 48 < 10 \<or> (wc OR 32) - 97 < 6"

section \<open>Case mappings\<close>

record casemap =
  upper :: u16
  lower :: byte
  len :: byte

definition CASEMAP :: "int \<Rightarrow> int \<Rightarrow> int \<Rightarrow> casemap" where
  "CASEMAP u1 u2 l = \<lparr>upper = of_int u1, lower = of_int (l - u1), len = of_int (u2 - u1 + 1)\<rparr>"

definition CASELACE :: "int \<Rightarrow> int \<Rightarrow> casemap" where
  "CASELACE u1 u2 = CASEMAP u1 u2 (u1 + 1)"

definition casemaps :: "casemap list" where
  "casemaps =
     [CASEMAP 65 90 97, CASEMAP 0xc0 0xde 0xe0, CASELACE 0x0100 0x012e,
      CASELACE 0x0132 0x0136, CASELACE 0x0139 0x0147, CASELACE 0x014a 0x0176,
      CASELACE 0x0179 0x017d, CASELACE 0x370 0x372, CASEMAP 0x391 0x3a1 0x3b1,
      CASEMAP 0x3a3 0x3ab 0x3c3, CASEMAP 0x400 0x40f 0x450, CASEMAP 0x410 0x42f 0x430,
      CASELACE 0x460 0x480, CASELACE 0x48a 0x4be, CASELACE 0x4c1 0x4cd,
      CASELACE 0x4d0 0x50e, CASELACE 0x514 0x526, CASEMAP 0x531 0x556 0x561,
      CASELACE 0x01a0 0x01a4, CASELACE 0x01b3 0x01b5, CASELACE 0x01cd 0x01db,
      CASELACE 0x01de 0x01ee, CASELACE 0x01f8 0x021e, CASELACE 0x0222 0x0232,
      CASELACE 0x03d8 0x03ee, CASELACE 0x1e00 0x1e94, CASELACE 0x1ea0 0x1efe,
      CASEMAP 0x1f08 0x1f0f 0x1f00, CASEMAP 0x1f18 0x1f1d 0x1f10, CASEMAP 0x1f28 0x1f2f 0x1f20,
      CASEMAP 0x1f38 0x1f3f 0x1f30, CASEMAP 0x1f48 0x1f4d 0x1f40, CASEMAP 0x1f68 0x1f6f 0x1f60,
      CASEMAP 0x1f88 0x1f8f 0x1f80, CASEMAP 0x1f98 0x1f9f 0x1f90, CASEMAP 0x1fa8 0x1faf 0x1fa0,
      CASEMAP 0x1fb8 0x1fb9 0x1fb0, CASEMAP 0x1fba 0x1fbb 0x1f70, CASEMAP 0x1fc8 0x1fcb 0x1f72,
      CASEMAP 0x1fd8 0x1fd9 0x1fd0, CASEMAP 0x1fda 0x1fdb 0x1f76, CASEMAP 0x1fe8 0x1fe9 0x1fe0,
      CASEMAP 0x1fea 0x1feb 0x1f7a, CASEMAP 0x1ff8 0x1ff9 0x1f78, CASEMAP 0x1ffa 0x1ffb 0x1f7c,
      CASELACE 0x246 0x24e, CASELACE 0x510 0x512, CASEMAP 0x2160 0x216f 0x2170,
      CASEMAP 0x2c00 0x2c2e 0x2c30, CASELACE 0x2c67 0x2c6b, CASELACE 0x2c80 0x2ce2,
      CASELACE 0x2ceb 0x2ced, CASELACE 0xa640 0xa66c, CASELACE 0xa680 0xa696,
      CASELACE 0xa722 0xa72e, CASELACE 0xa732 0xa76e, CASELACE 0xa779 0xa77b,
      CASELACE 0xa77e 0xa786, CASELACE 0xa790 0xa792, CASELACE 0xa7a0 0xa7a8,
      CASEMAP 0xff21 0xff3a 0xff41, \<lparr>upper = 0, lower = 0, len = 0\<rparr>]"

definition pairs :: "(u16 \<times> u16) list" where
  "pairs =
     [(73, 0x0131), (83, 0x017f), (0x0130, 105), (0x0178, 0x00ff), (0x0181, 0x0253), (0x0182, 0x0183),
      (0x0184, 0x0185), (0x0186, 0x0254), (0x0187, 0x0188), (0x0189, 0x0256), (0x018a, 0x0257), (0x018b, 0x018c),
      (0x018e, 0x01dd), (0x018f, 0x0259), (0x0190, 0x025b), (0x0191, 0x0192), (0x0193, 0x0260), (0x0194, 0x0263),
      (0x0196, 0x0269), (0x0197, 0x0268), (0x0198, 0x0199), (0x019c, 0x026f), (0x019d, 0x0272), (0x019f, 0x0275),
      (0x01a6, 0x0280), (0x01a7, 0x01a8), (0x01a9, 0x0283), (0x01ac, 0x01ad), (0x01ae, 0x0288), (0x01af, 0x01b0),
      (0x01b1, 0x028a), (0x01b2, 0x028b), (0x01b7, 0x0292), (0x01b8, 0x01b9), (0x01bc, 0x01bd), (0x01c4, 0x01c6),
      (0x01c4, 0x01c5), (0x01c5, 0x01c6), (0x01c7, 0x01c9), (0x01c7, 0x01c8), (0x01c8, 0x01c9), (0x01ca, 0x01cc),
      (0x01ca, 0x01cb), (0x01cb, 0x01cc), (0x01f1, 0x01f3), (0x01f1, 0x01f2), (0x01f2, 0x01f3), (0x01f4, 0x01f5),
      (0x01f6, 0x0195), (0x01f7, 0x01bf), (0x0220, 0x019e), (0x0386, 0x03ac), (0x0388, 0x03ad), (0x0389, 0x03ae),
      (0x038a, 0x03af), (0x038c, 0x03cc), (0x038e, 0x03cd), (0x038f, 0x03ce), (0x0399, 0x0345), (0x0399, 0x1fbe),
      (0x03a3, 0x03c2), (0x03f7, 0x03f8), (0x03fa, 0x03fb), (0x1e60, 0x1e9b), (0xdf, 0xdf), (0x1e9e, 0xdf),
      (0x1f59, 0x1f51), (0x1f5b, 0x1f53), (0x1f5d, 0x1f55), (0x1f5f, 0x1f57), (0x1fbc, 0x1fb3), (0x1fcc, 0x1fc3),
      (0x1fec, 0x1fe5), (0x1ffc, 0x1ff3), (0x23a, 0x2c65), (0x23b, 0x23c), (0x23d, 0x19a), (0x23e, 0x2c66),
      (0x241, 0x242), (0x243, 0x180), (0x244, 0x289), (0x245, 0x28c), (0x3f4, 0x3b8), (0x3f9, 0x3f2),
      (0x3fd, 0x37b), (0x3fe, 0x37c), (0x3ff, 0x37d), (0x4c0, 0x4cf), (0x2126, 0x3c9), (0x212a, 107),
      (0x212b, 0xe5), (0x2132, 0x214e), (0x2183, 0x2184), (0x2c60, 0x2c61), (0x2c62, 0x26b), (0x2c63, 0x1d7d),
      (0x2c64, 0x27d), (0x2c6d, 0x251), (0x2c6e, 0x271), (0x2c6f, 0x250), (0x2c70, 0x252), (0x2c72, 0x2c73),
      (0x2c75, 0x2c76), (0x2c7e, 0x23f), (0x2c7f, 0x240), (0x2cf2, 0x2cf3), (0xa77d, 0x1d79), (0xa78b, 0xa78c),
      (0xa78d, 0x265), (0xa7aa, 0x266), (0x10c7, 0x2d27), (0x10cd, 0x2d2d), (0x376, 0x377), (0x39c, 0xb5),
      (0x392, 0x3d0), (0x398, 0x3d1), (0x3a6, 0x3d5), (0x3a0, 0x3d6), (0x39a, 0x3f0), (0x3a1, 0x3f1),
      (0x395, 0x3f5), (0x3cf, 0x3d7), (0, 0)]"

text \<open>A search loop reads past its array, ends at the terminator, or returns.\<close>

datatype search = Off | End | Return u32

fun casemap_loop :: "casemap list \<Rightarrow> u32 \<Rightarrow> u32 \<Rightarrow> search" where
  "casemap_loop [] wc lower' = Off"
| "casemap_loop (m # ms) wc lower' =
     (if len m = 0 then End
      else
        let lmul = 2 * lower' - 1;
            lmask = lower' - 1;
            base = ucast (upper m) + (lmask AND scast (lower m)) in
        if wc - base < ucast (len m) then
          if lower m = 1 then Return (wc + lower' - ((wc - ucast (upper m)) AND 1))
          else Return (wc + lmul * scast (lower m))
        else casemap_loop ms wc lower')"

text \<open>\<open>pairs[i][1-lower]\<close> and \<open>pairs[i][lower]\<close>\<close>

definition pair_sel :: "u16 \<times> u16 \<Rightarrow> u32 \<Rightarrow> u16" where
  "pair_sel p i = (if i = 0 then fst p else snd p)"

fun pairs_loop :: "(u16 \<times> u16) list \<Rightarrow> u32 \<Rightarrow> u32 \<Rightarrow> search" where
  "pairs_loop [] wc lower' = Off"
| "pairs_loop (p # ps) wc lower' =
     (if pair_sel p (1 - lower') = 0 then End
      else if ucast (pair_sel p (1 - lower')) = wc then Return (ucast (pair_sel p lower'))
      else pairs_loop ps wc lower')"

definition towcase :: "u32 \<Rightarrow> u32 \<Rightarrow> u32 option" where
  "towcase wc lower' =
     (case iswalpha wc of None \<Rightarrow> None | Some al \<Rightarrow>
        if \<not> al \<or> wc - 0x0600 \<le> 0x0fff - 0x0600 \<or> wc - 0x2e00 \<le> 0xa63f - 0x2e00 \<or> wc - 0xa800 \<le> 0xfeff - 0xa800
        then Some wc
        else if lower' \<noteq> 0 \<and> wc - 0x10a0 < 0x2e then
          if wc > 0x10c5 \<and> wc \<noteq> 0x10c7 \<and> wc \<noteq> 0x10cd then Some wc else Some (wc + 0x2d00 - 0x10a0)
        else if lower' = 0 \<and> wc - 0x2d00 < 0x26 then
          if wc > 0x2d25 \<and> wc \<noteq> 0x2d27 \<and> wc \<noteq> 0x2d2d then Some wc else Some (wc + 0x10a0 - 0x2d00)
        else (case casemap_loop casemaps wc lower' of
            Off \<Rightarrow> None
          | Return r \<Rightarrow> Some r
          | End \<Rightarrow>
              (case pairs_loop pairs wc lower' of
                 Off \<Rightarrow> None
               | Return r \<Rightarrow> Some r
               | End \<Rightarrow>
                   if wc - (0x10428 - 0x28 * lower') < 0x28 then Some (wc - 0x28 + 0x50 * lower')
                   else Some wc)))"

definition towupper :: "u32 \<Rightarrow> u32 option" where
  "towupper wc = towcase wc 0"

definition towlower :: "u32 \<Rightarrow> u32 option" where
  "towlower wc = towcase wc 1"

definition iswlower :: "u32 \<Rightarrow> bool option" where
  "iswlower wc = map_option (\<lambda>u. u \<noteq> wc \<or> wc = 0xdf) (towupper wc)"

definition iswupper :: "u32 \<Rightarrow> bool option" where
  "iswupper wc = map_option (\<lambda>l. l \<noteq> wc) (towlower wc)"

text \<open>\<open>wctrans.c\<close>; a C string is the list of its characters, \<open>strcmp\<close> is zero on equal strings.\<close>

definition wctrans :: "string \<Rightarrow> nat" where
  "wctrans class = (if class = ''toupper'' then 1 else if class = ''tolower'' then 2 else 0)"

definition towctrans :: "u32 \<Rightarrow> nat \<Rightarrow> u32 option" where
  "towctrans wc trans' = (if trans' = 1 then towupper wc else if trans' = 2 then towlower wc else Some wc)"

section \<open>Classes by name\<close>

abbreviation NUL :: char where
  "NUL \<equiv> CHR 0x00"

definition names :: string where
  "names =
     ''alnum'' @ [NUL] @ ''alpha'' @ [NUL] @ ''blank'' @ [NUL] @
     ''cntrl'' @ [NUL] @ ''digit'' @ [NUL] @ ''graph'' @ [NUL] @
     ''lower'' @ [NUL] @ ''print'' @ [NUL] @ ''punct'' @ [NUL] @
     ''space'' @ [NUL] @ ''upper'' @ [NUL] @ ''xdigit'' @ [NUL]"

text \<open>The C string that starts at \<open>p\<close>, and the first character of a C string\<close>

definition cstr :: "string \<Rightarrow> nat \<Rightarrow> string" where
  "cstr buf p = takeWhile (\<lambda>c. c \<noteq> NUL) (drop p buf)"

definition first :: "string \<Rightarrow> char" where
  "first s = (case s of [] \<Rightarrow> NUL | c # _ \<Rightarrow> c)"

function wctype_loop :: "string \<Rightarrow> nat \<Rightarrow> nat \<Rightarrow> nat option" where
  "wctype_loop s i p =
     (case rd names p of None \<Rightarrow> None | Some c \<Rightarrow>
        if c = NUL then Some 0
        else if first s = c \<and> s = cstr names p then Some i
        else wctype_loop s (i + 1) (p + 6))"
  by pat_completeness auto
termination
  by (relation "measure (\<lambda>(s, i, p). length names - p)") (auto simp: rd_Some_iff)

declare wctype_loop.simps [simp del]

definition wctype :: "string \<Rightarrow> nat option" where
  "wctype s = wctype_loop s 1 0"

definition iswctype :: "u32 \<Rightarrow> nat \<Rightarrow> bool option" where
  "iswctype wc type =
     (if type = 1 then iswalnum wc
      else if type = 2 then iswalpha wc
      else if type = 3 then iswblank wc
      else if type = 4 then Some (iswcntrl wc)
      else if type = 5 then Some (iswdigit wc)
      else if type = 6 then iswgraph wc
      else if type = 7 then iswlower wc
      else if type = 8 then Some (termux_iswprint wc)
      else if type = 9 then iswpunct wc
      else if type = 10 then iswspace wc
      else if type = 11 then iswupper wc
      else if type = 12 then Some (iswxdigit wc)
      else Some False)"

end
