(* ===== verification/Ctype_Bitmaps.thy ===== *)
theory Ctype_Bitmaps
  imports Ctype
begin

text \<open>
  The two-level bitmaps behind \<open>iswalpha\<close> and \<open>iswpunct\<close>: every lookup stays inside its table, and the
  bit it returns is the one of the character's block.
\<close>

lemma rd_concat_rows:
  assumes "\<forall>r \<in> set rows. length r = 32" "j < 32"
  shows "rd (concat rows) (i * 32 + j) = (case rd rows i of None \<Rightarrow> None | Some r \<Rightarrow> Some (r ! j))"
  using assms(1)
proof (induction rows arbitrary: i)
  case (Cons r rows)
  then show ?case
  proof (cases i)
    case (Suc k)
    then have "rd (concat (r # rows)) (i * 32 + j) = rd (concat rows) (k * 32 + j)"
      using Cons.prems by (auto simp: rd_def nth_append)
    with Cons Suc show ?thesis by simp
  qed (use assms(2) in \<open>simp add: rd_def nth_append\<close>)
qed (simp add: rd_def)

lemma split_32: "n = n div 32 * 32 + n mod (32::nat)"
  by simp

text \<open>Sixteen rows of block numbers, then the blocks.\<close>

lemmas alpha_index_defs = alpha_0_def alpha_1_def alpha_2_def alpha_3_def alpha_4_def alpha_5_def alpha_6_def alpha_7_def alpha_8_def alpha_9_def alpha_10_def alpha_11_def alpha_12_def alpha_13_def alpha_14_def alpha_15_def
lemmas punct_index_defs = punct_0_def punct_1_def punct_2_def punct_3_def punct_4_def punct_5_def punct_6_def punct_7_def punct_8_def punct_9_def punct_10_def punct_11_def punct_12_def punct_13_def punct_14_def punct_15_def

locale bitmap_table =
  fixes rows :: "byte list list"
  assumes row_length: "list_all (\<lambda>r. length r = 32) rows"
    and index_rows: "16 \<le> length rows"
    and index_range: "list_all (list_all (\<lambda>b. unat b < length rows)) (take 16 rows)"
begin

definition block :: "nat \<Rightarrow> byte list" where
  "block h = rows ! unat (rows ! (h div 32) ! (h mod 32))"

lemma rd_rows: "rd (concat rows) n = (case rd rows (n div 32) of None \<Rightarrow> None | Some r \<Rightarrow> Some (r ! (n mod 32)))"
  using row_length rd_concat_rows [of rows "n mod 32" "n div 32"] by (simp add: list_all_iff)

lemma index_entry: "h < 512 \<Longrightarrow> unat (rows ! (h div 32) ! (h mod 32)) < length rows"
proof -
  assume "h < 512"
  then have h: "h div 32 < 16" by simp
  then have "rows ! (h div 32) \<in> set (take 16 rows)"
    using index_rows by (metis in_set_conv_nth length_take min.absorb2 nth_take)
  moreover from this have "length (rows ! (h div 32)) = 32"
    using row_length by (auto simp: list_all_iff dest: in_set_takeD)
  ultimately show ?thesis using index_range by (simp add: list_all_iff)
qed

lemma lookup:
  assumes "unat wc < 0x20000"
  shows "bitmap_lookup (concat rows) wc = Some (bit (block (unat wc div 256) ! (unat wc mod 256 div 8)) (unat wc mod 8))"
proof -
  define h where "h = unat wc div 256"
  have h: "h < 512" using assms by (simp add: h_def less_mult_imp_div_less)
  have w8: "unat (drop_bit 8 wc) = h" by (simp only: unat_drop_bit h_def) simp
  have m255: "wc AND 255 = take_bit 8 wc" and m7: "wc AND 7 = take_bit 3 wc"
    by (simp_all add: take_bit_eq_mask mask_eq_exp_minus_1)
  have "unat (drop_bit 3 (wc AND 255)) = unat wc mod 256 div 8" "unat (wc AND 7) = unat wc mod 8"
    unfolding m255 m7 by (simp_all only: unat_drop_bit unat_take_bit) simp_all
  moreover have "unat wc mod 256 div 8 < 32" by (simp add: less_mult_imp_div_less)
  moreover have "h div 32 < length rows" using h index_rows by simp
  ultimately show ?thesis
    using index_entry [OF h] unfolding bitmap_lookup_def w8 rd_rows [of h]
    by (simp add: rd_inside rd_rows block_def bit_iff_odd_drop_bit and_one_eq odd_iff_mod_2_eq_one flip: h_def)
qed

end

lemma alpha_row_length: "list_all (\<lambda>r. length r = 32) alpha_rows"
  by (simp add: alpha_rows_def alpha_row_defs)

lemma punct_row_length: "list_all (\<lambda>r. length r = 32) punct_rows"
  by (simp add: punct_rows_def punct_row_defs)

interpretation alpha: bitmap_table alpha_rows
proof
  have n: "length alpha_rows = 93" by (simp add: alpha_rows_def)
  show "list_all (list_all (\<lambda>b. unat b < length alpha_rows)) (take 16 alpha_rows)"
    unfolding n by (simp add: alpha_rows_def) (simp add: alpha_row_defs)
  show "16 \<le> length alpha_rows" using n by simp
qed (rule alpha_row_length)

interpretation punct: bitmap_table punct_rows
proof
  have n: "length punct_rows = 99" by (simp add: punct_rows_def)
  show "list_all (list_all (\<lambda>b. unat b < length punct_rows)) (take 16 punct_rows)"
    unfolding n by (simp add: punct_rows_def) (simp add: punct_row_defs)
  show "16 \<le> length punct_rows" using n by simp
qed (rule punct_row_length)

definition disjoint_rows :: "byte list \<Rightarrow> byte list \<Rightarrow> bool" where
  "disjoint_rows xs ys = list_all2 (\<lambda>x y. x AND y = 0) xs ys"

text \<open>The pairs of blocks that occur for some character\<close>

lemma disjoint_blocks:
  "disjoint_rows alpha_16 punct_16" "disjoint_rows alpha_16 punct_17" "disjoint_rows alpha_16 punct_47"
  "disjoint_rows alpha_16 punct_49" "disjoint_rows alpha_16 punct_50" "disjoint_rows alpha_16 punct_54"
  "disjoint_rows alpha_16 punct_57" "disjoint_rows alpha_16 punct_66" "disjoint_rows alpha_16 punct_67"
  "disjoint_rows alpha_16 punct_78" "disjoint_rows alpha_16 punct_84" "disjoint_rows alpha_16 punct_85"
  "disjoint_rows alpha_16 punct_86" "disjoint_rows alpha_16 punct_87" "disjoint_rows alpha_16 punct_91"
  "disjoint_rows alpha_16 punct_92" "disjoint_rows alpha_16 punct_93" "disjoint_rows alpha_16 punct_94"
  "disjoint_rows alpha_16 punct_95" "disjoint_rows alpha_16 punct_96" "disjoint_rows alpha_16 punct_97"
  "disjoint_rows alpha_16 punct_98" "disjoint_rows alpha_17 punct_16" "disjoint_rows alpha_18 punct_18"
  "disjoint_rows alpha_19 punct_19" "disjoint_rows alpha_20 punct_20" "disjoint_rows alpha_21 punct_21"
  "disjoint_rows alpha_22 punct_22" "disjoint_rows alpha_23 punct_23" "disjoint_rows alpha_24 punct_24"
  "disjoint_rows alpha_25 punct_25" "disjoint_rows alpha_26 punct_26" "disjoint_rows alpha_27 punct_27"
  "disjoint_rows alpha_28 punct_28" "disjoint_rows alpha_29 punct_29" "disjoint_rows alpha_30 punct_30"
  "disjoint_rows alpha_31 punct_31" "disjoint_rows alpha_32 punct_32" "disjoint_rows alpha_33 punct_33"
  "disjoint_rows alpha_34 punct_16" "disjoint_rows alpha_35 punct_34" "disjoint_rows alpha_36 punct_35"
  "disjoint_rows alpha_37 punct_36" "disjoint_rows alpha_38 punct_37" "disjoint_rows alpha_39 punct_38"
  "disjoint_rows alpha_40 punct_39" "disjoint_rows alpha_41 punct_40" "disjoint_rows alpha_42 punct_41"
  "disjoint_rows alpha_43 punct_42" "disjoint_rows alpha_44 punct_43" "disjoint_rows alpha_45 punct_44"
  "disjoint_rows alpha_46 punct_45" "disjoint_rows alpha_47 punct_46" "disjoint_rows alpha_48 punct_48"
  "disjoint_rows alpha_49 punct_51" "disjoint_rows alpha_50 punct_52" "disjoint_rows alpha_51 punct_53"
  "disjoint_rows alpha_52 punct_55" "disjoint_rows alpha_53 punct_56" "disjoint_rows alpha_54 punct_58"
  "disjoint_rows alpha_55 punct_16" "disjoint_rows alpha_56 punct_59" "disjoint_rows alpha_57 punct_60"
  "disjoint_rows alpha_58 punct_61" "disjoint_rows alpha_59 punct_62" "disjoint_rows alpha_60 punct_63"
  "disjoint_rows alpha_61 punct_64" "disjoint_rows alpha_62 punct_65" "disjoint_rows alpha_63 punct_16"
  "disjoint_rows alpha_64 punct_16" "disjoint_rows alpha_65 punct_68" "disjoint_rows alpha_66 punct_69"
  "disjoint_rows alpha_67 punct_70" "disjoint_rows alpha_68 punct_71" "disjoint_rows alpha_69 punct_16"
  "disjoint_rows alpha_70 punct_72" "disjoint_rows alpha_71 punct_16" "disjoint_rows alpha_72 punct_73"
  "disjoint_rows alpha_73 punct_16" "disjoint_rows alpha_74 punct_74" "disjoint_rows alpha_75 punct_75"
  "disjoint_rows alpha_76 punct_76" "disjoint_rows alpha_77 punct_77" "disjoint_rows alpha_78 punct_16"
  "disjoint_rows alpha_79 punct_79" "disjoint_rows alpha_80 punct_80" "disjoint_rows alpha_81 punct_81"
  "disjoint_rows alpha_82 punct_16" "disjoint_rows alpha_83 punct_82" "disjoint_rows alpha_84 punct_16"
  "disjoint_rows alpha_85 punct_16" "disjoint_rows alpha_86 punct_83" "disjoint_rows alpha_87 punct_16"
  "disjoint_rows alpha_88 punct_16" "disjoint_rows alpha_89 punct_16" "disjoint_rows alpha_90 punct_88"
  "disjoint_rows alpha_91 punct_89" "disjoint_rows alpha_92 punct_90"
  by (simp_all add: disjoint_rows_def alpha_row_defs punct_row_defs)

lemma index_disjoint:
  "list_all2 (list_all2 (\<lambda>a p. disjoint_rows (alpha_rows ! unat a) (punct_rows ! unat p))) (take 16 alpha_rows) (take 16 punct_rows)"
proof -
  have "take 16 alpha_rows = [alpha_0, alpha_1, alpha_2, alpha_3, alpha_4, alpha_5, alpha_6, alpha_7, alpha_8, alpha_9, alpha_10, alpha_11, alpha_12, alpha_13, alpha_14, alpha_15]" "take 16 punct_rows = [punct_0, punct_1, punct_2, punct_3, punct_4, punct_5, punct_6, punct_7, punct_8, punct_9, punct_10, punct_11, punct_12, punct_13, punct_14, punct_15]"
    by (simp_all add: alpha_rows_def punct_rows_def)
  then show ?thesis
    by (simp add: alpha_index_defs punct_index_defs alpha_nth punct_nth disjoint_blocks)
qed

end
