(* ===== verification/Ctype_Facts.thy ===== *)
theory Ctype_Facts
  imports Ctype_Bitmaps
begin

text \<open>
  What the character classes and the case mappings promise: no lookup leaves its table, letters and
  punctuation exclude each other, printable and control characters partition Unicode, ASCII behaves
  as ISO C fixes it, and the classes answer to their names.
\<close>

section \<open>Reads stay inside the tables\<close>

lemma iswalpha_Some: "\<exists>b. iswalpha wc = Some b"
  using alpha.lookup [of wc] by (auto simp: iswalpha_def table_alpha_def word_less_nat_alt)

lemma iswpunct_Some: "\<exists>b. iswpunct wc = Some b"
  using punct.lookup [of wc] by (auto simp: iswpunct_def table_punct_def word_less_nat_alt)

lemma wcschr_Some: "0 \<in> set cs \<Longrightarrow> \<exists>p. wcschr cs wc i = Some p"
  by (induction cs arbitrary: i) auto

lemma iswspace_Some: "\<exists>b. iswspace wc = Some b"
  using wcschr_Some [of spaces wc 0] by (auto simp: iswspace_def spaces_def)

lemma casemap_loop_stops: "\<exists>m \<in> set ms. len m = 0 \<Longrightarrow> casemap_loop ms wc l \<noteq> Off"
  by (induction ms) (auto simp: Let_def)

lemma pairs_loop_stops: "(0, 0) \<in> set ps \<Longrightarrow> pairs_loop ps wc l \<noteq> Off"
  by (induction ps) (auto simp: pair_sel_def)

lemma tables_stop: "casemap_loop casemaps wc l \<noteq> Off" "pairs_loop pairs wc l \<noteq> Off"
proof -
  have "len (last casemaps) = 0" "casemaps \<noteq> []" by (simp_all add: casemaps_def)
  then show "casemap_loop casemaps wc l \<noteq> Off" by (intro casemap_loop_stops) (metis last_in_set)
  have "last pairs = (0, 0)" "pairs \<noteq> []" by (simp_all add: pairs_def)
  then show "pairs_loop pairs wc l \<noteq> Off" by (intro pairs_loop_stops) (metis last_in_set)
qed

lemma towcase_Some: "\<exists>r. towcase wc l = Some r"
proof -
  have "towcase wc l \<noteq> None"
    using iswalpha_Some [of wc] tables_stop [of wc l] unfolding towcase_def
    by (cases "casemap_loop casemaps wc l"; cases "pairs_loop pairs wc l"; elim exE)
      (simp_all only: option.case search.case option.distinct not_False_eq_True simp_thms split: if_split)
  then show ?thesis by blast
qed

text \<open>
  C35: For every value of \<open>wint_t\<close> the classifications by table and the case mappings read only inside
  their arrays and end at the terminators of those arrays: each returns a result.
\<close>

theorem classes_defined:
  "iswalpha wc \<noteq> None \<and> iswpunct wc \<noteq> None \<and> iswalnum wc \<noteq> None \<and> iswspace wc \<noteq> None \<and> iswgraph wc \<noteq> None \<and>
   towupper wc \<noteq> None \<and> towlower wc \<noteq> None \<and> iswupper wc \<noteq> None \<and> iswlower wc \<noteq> None"
  using iswalpha_Some [of wc] iswpunct_Some [of wc] iswspace_Some [of wc] towcase_Some [of wc 0] towcase_Some [of wc 1]
  by (auto simp: iswalnum_def iswgraph_def towupper_def towlower_def iswupper_def iswlower_def)

section \<open>Letters and punctuation\<close>

lemma disjoint_bits:
  assumes "disjoint_rows xs ys" "i < length xs"
  shows "\<not> (bit (xs ! i) n \<and> bit (ys ! i) n)"
proof -
  have "xs ! i AND ys ! i = 0" using assms by (simp add: disjoint_rows_def list_all2_conv_all_nth)
  then show ?thesis by (metis bit_0_eq bit_and_iff bot_apply bot_bool_def)
qed

lemma blocks_disjoint:
  assumes "h < 512"
  shows "disjoint_rows (alpha.block h) (punct.block h)"
proof -
  have i: "h div 32 < 16" "h mod 32 < 32" using assms by (auto simp: less_mult_imp_div_less)
  have "length (alpha_rows ! (h div 32)) = 32"
    using alpha_row_length alpha.index_rows i by (simp add: list_all_iff)
  with i index_disjoint alpha.index_rows punct.index_rows show ?thesis
    by (auto simp: list_all2_conv_all_nth alpha.block_def punct.block_def)
qed

lemma block_length:
  assumes "h < 512"
  shows "length (alpha.block h) = 32"
  using alpha_row_length alpha.index_entry [OF assms] by (simp add: alpha.block_def list_all_iff)

text \<open>C34: No character is both a letter and punctuation, over the whole of \<open>wint_t\<close>.\<close>

theorem alpha_punct_disjoint: "\<not> (iswalpha wc = Some True \<and> iswpunct wc = Some True)"
proof (cases "unat wc < 0x20000")
  case True
  have h: "unat wc div 256 < 512" "unat wc mod 256 div 8 < 32" using True by (simp_all add: less_mult_imp_div_less)
  show ?thesis
    using alpha.lookup [OF True] punct.lookup [OF True] True h
      disjoint_bits [OF blocks_disjoint, of "unat wc div 256" "unat wc mod 256 div 8" "unat wc mod 8"]
    by (simp add: iswalpha_def iswpunct_def table_alpha_def table_punct_def word_less_nat_alt block_length)
qed (simp add: iswpunct_def word_less_nat_alt)

section \<open>Printable and control characters\<close>

lemma unat_minus:
  "unat (wc - c) = (if unat c \<le> unat wc then unat wc - unat c else 2 ^ 32 + unat wc - unat c)" for wc c :: u32
  by (subst unat_sub_if') (auto simp: word_le_nat_alt)

lemma range_test:
  fixes wc :: u32
  assumes "unat a + unat k < 2 ^ 32"
  shows "wc - a < k \<longleftrightarrow> unat a \<le> unat wc \<and> unat wc < unat a + unat k"
  using assms unsigned_less [of wc, where ?'a = nat] by (auto simp: word_less_nat_alt unat_minus)

lemma cntrl_nat:
  "iswcntrl wc \<longleftrightarrow> unat wc < 32 \<or> 0x7f \<le> unat wc \<and> unat wc < 0xa0 \<or> 0x2028 \<le> unat wc \<and> unat wc < 0x202a
     \<or> 0xfff9 \<le> unat wc \<and> unat wc < 0xfffc"
  by (simp add: iswcntrl_def range_test) (simp add: word_less_nat_alt)

text \<open>The noncharacters at the end of each plane\<close>

definition plane_end :: "nat \<Rightarrow> bool" where
  "plane_end n \<longleftrightarrow> n mod 0x10000 = 0xfffe \<or> n mod 0x10000 = 0xffff"

lemma and_shifted_mask: "w AND push_bit n (mask m) = push_bit n (take_bit m (drop_bit n w))" for w :: u32
  by (auto simp: bit_eq_iff bit_simps)

lemma and_fffe: "wc AND 0xfffe = 0xfffe \<longleftrightarrow> plane_end (unat wc)" for wc :: u32
proof -
  have c: "(0xfffe :: u32) = push_bit 1 (mask 15)" by (simp add: mask_eq_exp_minus_1)
  have e: "wc AND push_bit 1 (mask 15) = push_bit 1 (take_bit 15 (drop_bit 1 wc))"
    by (rule and_shifted_mask)
  define q where "q = unat wc div 2 mod 2 ^ 15"
  have q: "unat (take_bit 15 (drop_bit 1 wc)) = q" "q < 2 ^ 15"
    unfolding q_def unat_take_bit unat_drop_bit by simp_all
  have "unat (wc AND 0xfffe) = 2 * q"
    unfolding c e using q by (subst push_bit_eq_mult, subst unat_mult_lem [THEN iffD1]) simp_all
  then have "wc AND 0xfffe = 0xfffe \<longleftrightarrow> q = 0x7fff"
    by (simp add: word_unat_eq_iff)
  moreover have "unat wc mod (2 * 2 ^ 15) = 2 * q + unat wc mod 2" unfolding q_def by (rule mod_mult2_eq)
  then have "q = 0x7fff \<longleftrightarrow> plane_end (unat wc)"
    using mod_less_divisor [of 2 "unat wc"] unfolding plane_end_def by simp linarith
  ultimately show ?thesis by simp
qed

lemma low_print: "unat wc < 0xff \<Longrightarrow> (wc + 1) AND 0x7f \<ge> 0x21 \<longleftrightarrow> 0x21 \<le> (unat wc + 1) mod 0x80" for wc :: u32
proof -
  assume w: "unat wc < 0xff"
  have "(wc + 1) AND 0x7f = take_bit 7 (wc + 1)" by (simp add: take_bit_eq_mask mask_eq_exp_minus_1)
  moreover have "unat (wc + 1) = unat wc + 1" using w by (subst unat_add_lem [THEN iffD1]) simp_all
  ultimately have "unat ((wc + 1) AND 0x7f) = (unat wc + 1) mod 0x80"
    by (simp only: unat_take_bit) simp
  then show ?thesis by (simp add: word_le_nat_alt)
qed

lemma print_nat:
  assumes "unat wc \<le> 0x10ffff"
  shows "termux_iswprint wc \<longleftrightarrow>
    (if unat wc < 0xff then 0x21 \<le> (unat wc + 1) mod 0x80
     else unat wc < 0x2028 \<or> 0x202a \<le> unat wc \<and> unat wc < 0xd800 \<or> 0xe000 \<le> unat wc \<and> unat wc < 0xfff9
       \<or> 0xfffc \<le> unat wc \<and> \<not> plane_end (unat wc))"
proof -
  have last: "wc - 0xfffc > 0x10ffff - 0xfffc \<longleftrightarrow> unat wc < 0xfffc"
    using assms by (auto simp: word_less_nat_alt unat_minus)
  show ?thesis
    unfolding termux_iswprint_def last and_fffe
    by (simp add: range_test) (auto simp: word_less_nat_alt low_print)
qed

text \<open>
  C33: Printable and control characters partition Unicode: a code point that is neither a surrogate nor
  one of the noncharacters U+xxFFFE and U+xxFFFF is either printable or a control character, never
  both; surrogates, those noncharacters and values above U+10FFFF are not printable.
\<close>

theorem print_cntrl_partition:
  "termux_iswprint wc \<longleftrightarrow>
     unat wc \<le> 0x10ffff \<and> \<not> (0xd800 \<le> unat wc \<and> unat wc < 0xe000) \<and> \<not> plane_end (unat wc) \<and> \<not> iswcntrl wc"
proof (cases "unat wc \<le> 0x10ffff")
  case True
  consider "unat wc < 0xff" | "0xff \<le> unat wc" "unat wc < 0xfffc" | "0xfffc \<le> unat wc" by linarith
  then show ?thesis
  proof cases
    case 1
    have "(n + 1) mod 0x80 = (if n + 1 < 0x80 then n + 1 else n + 1 - 0x80)" if "n < 0xff" for n :: nat
      using that by (auto simp: le_mod_geq)
    then have "0x21 \<le> (n + 1) mod 0x80 \<longleftrightarrow> \<not> (n < 32 \<or> 0x7f \<le> n \<and> n < 0xa0)" if "n < 0xff" for n :: nat
      using that by simp linarith
    with 1 show ?thesis by (simp add: print_nat cntrl_nat plane_end_def)
  next
    case 2
    then have "\<not> plane_end (unat wc)" by (auto simp: plane_end_def)
    with 2 show ?thesis unfolding print_nat [OF True] cntrl_nat by auto
  next
    case 3
    then show ?thesis using True unfolding print_nat [OF True] cntrl_nat by auto
  qed
next
  case False
  have "wc - 0xfffc > 0x10ffff - 0xfffc"
    using False unsigned_less [of wc, where ?'a = nat] by (simp add: word_less_nat_alt unat_minus)
  with False show ?thesis
    by (simp add: termux_iswprint_def range_test) (simp add: word_less_nat_alt)
qed

section \<open>ASCII\<close>

lemma all_below_128: "list_all P [0..<128] \<Longrightarrow> n < 128 \<Longrightarrow> P n"
  by (simp add: list_all_iff)

definition letter :: "nat \<Rightarrow> bool" where
  "letter n \<longleftrightarrow> 65 \<le> n \<and> n \<le> 90 \<or> 97 \<le> n \<and> n \<le> 122"

definition punctuation :: "nat \<Rightarrow> bool" where
  "punctuation n \<longleftrightarrow> 33 \<le> n \<and> n \<le> 47 \<or> 58 \<le> n \<and> n \<le> 64 \<or> 91 \<le> n \<and> n \<le> 96 \<or> 123 \<le> n \<and> n \<le> 126"

lemma ascii_blocks: "alpha.block 0 = alpha_18" "punct.block 0 = punct_18"
  by (simp_all add: alpha.block_def punct.block_def alpha_nth punct_nth alpha_index_defs punct_index_defs)

lemma ascii_bits:
  "list_all (\<lambda>n. (bit (alpha_18 ! (n div 8)) (n mod 8) \<longleftrightarrow> letter n) \<and> (bit (punct_18 ! (n div 8)) (n mod 8) \<longleftrightarrow> punctuation n)) [0..<128]"
  by (simp add: upt_rec letter_def punctuation_def alpha_18_def punct_18_def)

lemma ascii_partition:
  "n < 128 \<Longrightarrow> length (filter id [letter n, 48 \<le> n \<and> n \<le> 57, punctuation n, n = 32, n < 32 \<or> n = 127]) = 1"
  by (auto simp: letter_def punctuation_def)

lemma ascii_alpha_punct:
  assumes "unat wc < 128"
  shows "iswalpha wc = Some (letter (unat wc))" "iswpunct wc = Some (punctuation (unat wc))"
  using all_below_128 [OF ascii_bits assms] assms alpha.lookup [of wc] punct.lookup [of wc]
  by (simp_all add: iswalpha_def iswpunct_def table_alpha_def table_punct_def word_less_nat_alt ascii_blocks)

lemma space_nat:
  "iswspace wc = Some (unat wc = 32 \<or> 9 \<le> unat wc \<and> unat wc \<le> 13 \<or> unat wc = 0x85 \<or> unat wc = 0x2028 \<or> unat wc = 0x2029
     \<or> 0x2000 \<le> unat wc \<and> unat wc \<le> 0x200a \<and> unat wc \<noteq> 0x2007 \<or> unat wc = 0x205f \<or> unat wc = 0x3000)"
proof -
  have z: "wc = 0 \<longleftrightarrow> unat wc = 0" by (simp add: unat_eq_0)
  show ?thesis
    unfolding iswspace_def spaces_def z by (simp add: word_unat_eq_iff) presburger
qed

lemma ascii_word: "unat wc < 128 \<Longrightarrow> list_all (\<lambda>n. P (of_nat n :: u32)) [0..<128] \<Longrightarrow> P wc" for wc :: u32
  using all_below_128 [of "\<lambda>n. P (of_nat n)" "unat wc"] by simp

lemma ascii_xdigit:
  assumes "unat wc < 128"
  shows "iswxdigit wc \<longleftrightarrow> 48 \<le> unat wc \<and> unat wc \<le> 57 \<or> 65 \<le> unat wc \<and> unat wc \<le> 70 \<or> 97 \<le> unat wc \<and> unat wc \<le> 102"
  by (rule ascii_word [OF assms]) (simp add: upt_rec iswxdigit_def)

lemma digit_nat: "iswdigit wc \<longleftrightarrow> 48 \<le> unat wc \<and> unat wc \<le> 57"
  by (auto simp: iswdigit_def range_test)

section \<open>Names\<close>

lemma wctype_step:
  "rd names p = Some c \<Longrightarrow> c \<noteq> NUL \<Longrightarrow>
     wctype_loop s i p = (if s = cstr names p then Some i else wctype_loop s (i + 1) (p + 6))"
proof -
  assume c: "rd names p = Some c" "c \<noteq> NUL"
  then have "drop p names = c # drop (Suc p) names" by (auto simp: rd_Some_iff Cons_nth_drop_Suc)
  then have "first (cstr names p) = c" using c(2) by (simp add: cstr_def first_def)
  with c show ?thesis by (subst wctype_loop.simps) auto
qed

lemma names_at:
  "rd names 0 = Some (CHR ''a'')" "rd names 6 = Some (CHR ''a'')" "rd names 12 = Some (CHR ''b'')" "rd names 18 = Some (CHR ''c'')"
  "rd names 24 = Some (CHR ''d'')" "rd names 30 = Some (CHR ''g'')" "rd names 36 = Some (CHR ''l'')" "rd names 42 = Some (CHR ''p'')"
  "rd names 48 = Some (CHR ''p'')" "rd names 54 = Some (CHR ''s'')" "rd names 60 = Some (CHR ''u'')" "rd names 66 = Some (CHR ''x'')"
  by (simp_all add: names_def)

lemma wctype_value:
  "wctype s = Some
     (if s = ''alnum'' then 1 else if s = ''alpha'' then 2 else if s = ''blank'' then 3 else if s = ''cntrl'' then 4
      else if s = ''digit'' then 5 else if s = ''graph'' then 6 else if s = ''lower'' then 7 else if s = ''print'' then 8
      else if s = ''punct'' then 9 else if s = ''space'' then 10 else if s = ''upper'' then 11
      else if s = ''xdigit'' then 12 else 0)"
proof -
  have "wctype_loop s i 72 = Some 0" for i by (subst wctype_loop.simps) (simp add: names_def)
  then have "wctype s =
     (if s = cstr names 0 then Some 1 else if s = cstr names 6 then Some 2 else if s = cstr names 12 then Some 3
      else if s = cstr names 18 then Some 4 else if s = cstr names 24 then Some 5 else if s = cstr names 30 then Some 6
      else if s = cstr names 36 then Some 7 else if s = cstr names 42 then Some 8 else if s = cstr names 48 then Some 9
      else if s = cstr names 54 then Some 10 else if s = cstr names 60 then Some 11 else if s = cstr names 66 then Some 12
      else Some 0)"
    unfolding wctype_def by (simp add: wctype_step names_at)
  then show ?thesis by (simp add: names_def cstr_def)
qed

text \<open>
  \<open>wctype\<close> maps each of the twelve class names to its number, every other string to 0, and never reads
  past the list of names.
\<close>

theorem wctype_names:
  "wctype s = Some
     (if s = ''alnum'' then 1 else if s = ''alpha'' then 2 else if s = ''blank'' then 3 else if s = ''cntrl'' then 4
      else if s = ''digit'' then 5 else if s = ''graph'' then 6 else if s = ''lower'' then 7 else if s = ''print'' then 8
      else if s = ''punct'' then 9 else if s = ''space'' then 10 else if s = ''upper'' then 11
      else if s = ''xdigit'' then 12 else 0)"
  by (rule wctype_value)

text \<open>
  C39: Classifying through the number \<open>wctype\<close> gives a name is classifying with the function of that name.
\<close>

theorem iswctype_by_name:
  "iswctype wc (the (wctype ''alnum'')) = iswalnum wc \<and> iswctype wc (the (wctype ''alpha'')) = iswalpha wc
   \<and> iswctype wc (the (wctype ''blank'')) = iswblank wc \<and> iswctype wc (the (wctype ''cntrl'')) = Some (iswcntrl wc)
   \<and> iswctype wc (the (wctype ''digit'')) = Some (iswdigit wc) \<and> iswctype wc (the (wctype ''graph'')) = iswgraph wc
   \<and> iswctype wc (the (wctype ''lower'')) = iswlower wc \<and> iswctype wc (the (wctype ''print'')) = Some (termux_iswprint wc)
   \<and> iswctype wc (the (wctype ''punct'')) = iswpunct wc \<and> iswctype wc (the (wctype ''space'')) = iswspace wc
   \<and> iswctype wc (the (wctype ''upper'')) = iswupper wc \<and> iswctype wc (the (wctype ''xdigit'')) = Some (iswxdigit wc)"
  by (simp add: wctype_value iswctype_def)

section \<open>ASCII case mapping, and the classes on ASCII\<close>

definition map_base :: "casemap \<Rightarrow> u32 \<Rightarrow> u32" where
  "map_base m l = ucast (upper m) + ((l - 1) AND scast (lower m))"

text \<open>No entry of the tables meets the characters from \<open>lo\<close> to \<open>hi\<close>.\<close>

definition maps_avoid :: "nat \<Rightarrow> nat \<Rightarrow> u32 \<Rightarrow> bool" where
  "maps_avoid lo hi l \<longleftrightarrow>
     list_all (\<lambda>m. unat (map_base m l) + unat (len m) < 2 ^ 32
                  \<and> (hi < unat (map_base m l) \<or> unat (map_base m l) + unat (len m) \<le> lo)) casemaps"

definition pairs_avoid :: "nat \<Rightarrow> nat \<Rightarrow> u32 \<Rightarrow> bool" where
  "pairs_avoid lo hi l \<longleftrightarrow>
     list_all (\<lambda>p. hi < unat (pair_sel p (1 - l)) \<or> unat (pair_sel p (1 - l)) < lo) pairs"

lemma casemap_loop_avoid:
  assumes "list_all (\<lambda>m. unat (map_base m l) + unat (len m) < 2 ^ 32
      \<and> (hi < unat (map_base m l) \<or> unat (map_base m l) + unat (len m) \<le> lo)) ms"
    and "lo \<le> unat wc" "unat wc \<le> hi" "casemap_loop ms wc l \<noteq> Off"
  shows "casemap_loop ms wc l = End"
  using assms(1,4)
proof (induction ms)
  case (Cons m ms)
  have "\<not> wc - map_base m l < ucast (len m)"
    using Cons.prems(1) assms(2,3) by (subst range_test) auto
  with Cons show ?case by (auto simp: Let_def map_base_def)
qed simp

lemma pairs_loop_avoid:
  assumes "list_all (\<lambda>p. hi < unat (pair_sel p (1 - l)) \<or> unat (pair_sel p (1 - l)) < lo) ps"
    and "lo \<le> unat wc" "unat wc \<le> hi" "pairs_loop ps wc l \<noteq> Off"
  shows "pairs_loop ps wc l = End"
  using assms(1,4)
proof (induction ps)
  case (Cons p ps)
  have "ucast (pair_sel p (1 - l)) \<noteq> wc"
    using Cons.prems(1) assms(2,3) by auto
  with Cons show ?case by auto
qed simp

lemma loops_avoid:
  assumes "maps_avoid lo hi l" "pairs_avoid lo hi l" "lo \<le> unat wc" "unat wc \<le> hi"
  shows "casemap_loop casemaps wc l = End" "pairs_loop pairs wc l = End"
  using casemap_loop_avoid [of l hi lo casemaps wc] pairs_loop_avoid [of hi l lo pairs wc] assms tables_stop [of wc l]
  unfolding maps_avoid_def pairs_avoid_def by blast+

lemma casemap_values:
  "map_base (CASEMAP u1 u2 x) l = ucast (of_int u1 :: u16) + ((l - 1) AND scast (of_int (x - u1) :: byte))"
  "len (CASEMAP u1 u2 x) = of_int (u2 - u1 + 1)"
  "map_base \<lparr>upper = 0, lower = 0, len = 0\<rparr> l = 0"
  by (simp_all add: map_base_def CASEMAP_def)

lemma ascii_avoid:
  "maps_avoid 97 122 1" "pairs_avoid 97 122 1" "maps_avoid 65 90 0" "pairs_avoid 65 90 0"
  by (simp_all add: maps_avoid_def pairs_avoid_def casemaps_def pairs_def casemap_values CASELACE_def pair_sel_def)

lemma first_map:
  "wc - 65 < 26 \<Longrightarrow> casemap_loop casemaps wc 1 = Return (wc + 32)"
  "wc - 97 < 26 \<Longrightarrow> casemap_loop casemaps wc 0 = Return (wc - 32)"
  by (simp_all add: casemaps_def CASEMAP_def)

text \<open>Below the first excluded block a letter goes through the tables.\<close>

lemma towcase_tables:
  assumes "unat wc < 0x600" "iswalpha wc = Some True"
  shows "towcase wc l =
     (case casemap_loop casemaps wc l of Off \<Rightarrow> None | Return r \<Rightarrow> Some r
      | End \<Rightarrow> (case pairs_loop pairs wc l of Off \<Rightarrow> None | Return r \<Rightarrow> Some r
          | End \<Rightarrow> if wc - (0x10428 - 0x28 * l) < 0x28 then Some (wc - 0x28 + 0x50 * l) else Some wc))"
proof -
  have far: "\<not> wc - a \<le> b" if "0x600 \<le> unat a" "unat b < 0x20000" "unat a < 0x20000" for a b
    using that assms(1) by (simp add: word_le_nat_alt unat_minus)
  have "\<not> wc - a < b" if "0x600 \<le> unat a" "unat b < 0x20000" "unat a < 0x20000" for a b
    using far [OF that] by simp
  then show ?thesis
    unfolding towcase_def assms(2) option.case using far by simp
qed

lemma letter_cases:
  fixes wc :: u32
  assumes "letter (unat wc)"
  obtains "65 \<le> unat wc" "unat wc \<le> 90" "wc - 65 < 26" | "97 \<le> unat wc" "unat wc \<le> 122" "wc - 97 < 26"
  using assms that range_test [of 65 26 wc] range_test [of 97 26 wc] by (auto simp: letter_def)

lemma ascii_case:
  assumes "unat wc < 128"
  shows "towlower wc = Some (if 65 \<le> unat wc \<and> unat wc \<le> 90 then wc + 32 else wc)
     \<and> towupper wc = Some (if 97 \<le> unat wc \<and> unat wc \<le> 122 then wc - 32 else wc)"
proof (cases "letter (unat wc)")
  case True
  have al: "iswalpha wc = Some True" "unat wc < 0x600" using True assms by (simp_all add: ascii_alpha_punct)
  have last: "\<not> wc - 0x10400 < 0x28" "\<not> wc - 0x10428 < 0x28" using assms by (simp_all add: range_test)
  from True show ?thesis
  proof (cases rule: letter_cases)
    case 1
    with al loops_avoid [OF ascii_avoid(3,4) 1(1,2)] last show ?thesis
      by (simp add: towlower_def towupper_def towcase_tables first_map)
  next
    case 2
    with al loops_avoid [OF ascii_avoid(1,2) 2(1,2)] last show ?thesis
      by (simp add: towlower_def towupper_def towcase_tables first_map)
  qed
next
  case False
  then have "iswalpha wc = Some False" using assms by (simp add: ascii_alpha_punct)
  then show ?thesis using False by (auto simp: towlower_def towupper_def towcase_def letter_def)
qed

text \<open>
  C37: On the ASCII characters each of the twelve classes is the one ISO C fixes for the C locale, and
  letters, digits, punctuation, the space and control characters partition them: exactly one of the
  five holds of each character.
\<close>

theorem ascii_classes:
  assumes "unat wc < 128"
  shows "(iswalpha wc = Some (letter (unat wc)))
    \<and> (iswpunct wc = Some (punctuation (unat wc)))
    \<and> (iswdigit wc \<longleftrightarrow> 48 \<le> unat wc \<and> unat wc \<le> 57)
    \<and> (iswspace wc = Some (unat wc = 32 \<or> 9 \<le> unat wc \<and> unat wc \<le> 13))
    \<and> (iswcntrl wc \<longleftrightarrow> unat wc < 32 \<or> unat wc = 127)
    \<and> (iswalnum wc = Some (letter (unat wc) \<or> 48 \<le> unat wc \<and> unat wc \<le> 57))
    \<and> (iswblank wc = Some (unat wc = 32 \<or> unat wc = 9))
    \<and> (termux_iswprint wc \<longleftrightarrow> 32 \<le> unat wc \<and> unat wc < 127)
    \<and> (iswgraph wc = Some (32 < unat wc \<and> unat wc < 127))
    \<and> (iswxdigit wc \<longleftrightarrow> 48 \<le> unat wc \<and> unat wc \<le> 57 \<or> 65 \<le> unat wc \<and> unat wc \<le> 70 \<or> 97 \<le> unat wc \<and> unat wc \<le> 102)
    \<and> (iswupper wc = Some (65 \<le> unat wc \<and> unat wc \<le> 90))
    \<and> (iswlower wc = Some (97 \<le> unat wc \<and> unat wc \<le> 122))
    \<and> length (filter id [iswalpha wc = Some True, iswdigit wc, iswpunct wc = Some True, wc = 32, iswcntrl wc]) = 1"
proof (intro conjI)
  have d: "iswdigit wc \<longleftrightarrow> 48 \<le> unat wc \<and> unat wc \<le> 57" by (rule digit_nat)
  have s: "iswspace wc = Some (unat wc = 32 \<or> 9 \<le> unat wc \<and> unat wc \<le> 13)"
    using assms by (simp add: space_nat)
  have p: "termux_iswprint wc \<longleftrightarrow> 32 \<le> unat wc \<and> unat wc < 127"
    by (rule ascii_word [OF assms]) (simp add: upt_rec termux_iswprint_def word_le_nat_alt)
  show "iswdigit wc \<longleftrightarrow> 48 \<le> unat wc \<and> unat wc \<le> 57" by (rule d)
  show "iswspace wc = Some (unat wc = 32 \<or> 9 \<le> unat wc \<and> unat wc \<le> 13)" by (rule s)
  show "termux_iswprint wc \<longleftrightarrow> 32 \<le> unat wc \<and> unat wc < 127" by (rule p)
  have c: "iswcntrl wc \<longleftrightarrow> unat wc < 32 \<or> unat wc = 127" using assms by (auto simp: cntrl_nat)
  show "iswcntrl wc \<longleftrightarrow> unat wc < 32 \<or> unat wc = 127" by (rule c)
  show "iswupper wc = Some (65 \<le> unat wc \<and> unat wc \<le> 90)"
    using ascii_case [OF assms] by (simp add: iswupper_def)
  show "iswlower wc = Some (97 \<le> unat wc \<and> unat wc \<le> 122)"
    using ascii_case [OF assms] assms by (auto simp: iswlower_def)
  show "length (filter id [iswalpha wc = Some True, iswdigit wc, iswpunct wc = Some True, wc = 32, iswcntrl wc]) = 1"
    using assms ascii_partition [of "unat wc"] by (simp add: ascii_alpha_punct d c word_unat_eq_iff)
  show "iswalnum wc = Some (letter (unat wc) \<or> 48 \<le> unat wc \<and> unat wc \<le> 57)"
    by (auto simp: iswalnum_def d ascii_alpha_punct [OF assms])
  show "iswblank wc = Some (unat wc = 32 \<or> unat wc = 9)"
    using assms by (simp add: iswblank_def isblank_def word_le_nat_alt) (simp add: word_unat_eq_iff)
  show "iswgraph wc = Some (32 < unat wc \<and> unat wc < 127)"
    by (auto simp: iswgraph_def s p)
qed (rule ascii_alpha_punct [OF assms] ascii_xdigit [OF assms])+

theorem ascii_classes_witness:
  "iswalpha 0x41 = Some True \<and> iswpunct 0x41 = Some False \<and> iswspace 0x41 = Some False \<and> iswgraph 0x41 = Some True
   \<and> iswupper 0x41 = Some True \<and> iswlower 0x41 = Some False"
  using ascii_classes [of "0x41"] by (simp add: letter_def punctuation_def)

text \<open>
  C38: On the ASCII characters \<open>towlower\<close> and \<open>towupper\<close> map exactly the letters of the other case, by
  their distance of 32, and leave every other character alone.
\<close>

theorem towcase_ascii:
  assumes "unat wc < 128"
  shows "towlower wc = Some (if 65 \<le> unat wc \<and> unat wc \<le> 90 then wc + 32 else wc)
     \<and> towupper wc = Some (if 97 \<le> unat wc \<and> unat wc \<le> 122 then wc - 32 else wc)"
  by (rule ascii_case [OF assms])

theorem towcase_ascii_witness: "towlower 0x41 = Some 0x61 \<and> towupper 0x41 = Some 0x41"
  using towcase_ascii [of "0x41"] by simp

end
