(* ===== verification/Ctype_Case.thy ===== *)
theory Ctype_Case
  imports Ctype_Facts
begin

text \<open>
  The case mappings on all characters: the tables read as rules on integers, and that a result of a
  mapping is not mapped again.
\<close>

section \<open>Rules\<close>

text \<open>
  \<open>(lo, hi, s, d)\<close> moves the characters from \<open>lo\<close> to \<open>hi\<close>, every second one if \<open>s = 2\<close>, by \<open>d\<close>.
\<close>

type_synonym rule = "int \<times> int \<times> int \<times> int"

fun applies :: "rule \<Rightarrow> int \<Rightarrow> bool" where
  "applies (lo, hi, s, d) x \<longleftrightarrow> lo \<le> x \<and> x \<le> hi \<and> (s = 2 \<longrightarrow> even (x - lo))"

fun moved_by :: "rule \<Rightarrow> int" where
  "moved_by (lo, hi, s, d) = d"

definition moves :: "rule set \<Rightarrow> u32 \<Rightarrow> u32 \<Rightarrow> bool" where
  "moves R wc r \<longleftrightarrow> r = wc \<or> (\<exists>t \<in> R. applies t (uint wc) \<and> uint r = uint wc + moved_by t)"

lemma moves_mono: "moves R wc r \<Longrightarrow> R \<subseteq> S \<Longrightarrow> moves S wc r"
  by (auto simp: moves_def)

text \<open>The rule of an entry of \<open>casemaps\<close>, by its fields as integers; \<open>low\<close> is the direction.\<close>

definition view :: "casemap \<Rightarrow> int \<times> int \<times> int" where
  "view m = (uint (upper m), sint (lower m), uint (len m))"

fun map_rule :: "bool \<Rightarrow> int \<times> int \<times> int \<Rightarrow> rule" where
  "map_rule low (u, l, n) =
     (if l = 1 then (if low then (u, u + n - 1, 2, 1) else (u + 1, u + n, 2, -1))
      else if low then (u, u + n - 1, 1, l) else (u + l, u + l + n - 1, 1, -l))"

lemma uint_of_int_32: "0 \<le> x \<Longrightarrow> x < 2 ^ 32 \<Longrightarrow> uint (word_of_int x :: u32) = x"
  by (simp add: uint_word_of_int)

lemma uint_add_sint:
  fixes w :: u32 and b :: byte
  assumes "0 \<le> uint w + sint b" "uint w + sint b < 2 ^ 32"
  shows "uint (w + scast b) = uint w + sint b"
proof -
  have "word_of_int (uint w + sint b) = w + scast b" unfolding wi_hom_add [symmetric] scast_eq by simp
  then show ?thesis using uint_of_int_32 [OF assms] by simp
qed

lemma uint_sub_sint:
  fixes w :: u32 and b :: byte
  assumes "0 \<le> uint w - sint b" "uint w - sint b < 2 ^ 32"
  shows "uint (w - scast b) = uint w - sint b"
proof -
  have "word_of_int (uint w - sint b) = w - scast b" unfolding wi_hom_sub [symmetric] scast_eq by simp
  then show ?thesis using uint_of_int_32 [OF assms] by simp
qed

lemma uint_range_test:
  fixes wc :: u32
  assumes "uint a + uint k < 2 ^ 32"
  shows "wc - a < k \<longleftrightarrow> uint a \<le> uint wc \<and> uint wc < uint a + uint k"
proof -
  have u: "uint x = int (unat x)" for x :: u32 by simp
  have "int (unat a + unat k) < int (2 ^ 32)" using assms unfolding u of_nat_add of_nat_power of_nat_numeral .
  then have "unat a + unat k < 2 ^ 32" by (simp only: of_nat_less_iff)
  then show ?thesis using range_test [of a k wc] unfolding u by linarith
qed

lemma lace_bit: "(w AND 1) = (if even (uint w) then 0 else 1)" for w :: u32
proof -
  have "uint (w AND 1) = uint w mod 2" unfolding and_one_eq by (simp add: uint_mod)
  then show ?thesis by (simp add: word_uint_eq_iff even_iff_mod_2_eq_zero odd_iff_mod_2_eq_one)
qed

lemma casemap_step:
  fixes wc :: u32
  assumes "0 \<le> uint (upper m) + sint (lower m)" "l = (if low then 1 else 0)"
    and "wc - (ucast (upper m) + ((l - 1) AND scast (lower m))) < ucast (len m)"
  shows "moves {map_rule low (view m)} wc
    (if lower m = 1 then wc + l - ((wc - ucast (upper m)) AND 1) else wc + (2 * l - 1) * scast (lower m))"
proof -
  define u k n where "u = uint (upper m)" and "k = sint (lower m)" and "n = uint (len m)"
  have bounds: "0 \<le> u" "u < 2 ^ 16" "-128 \<le> k" "k < 128" "0 \<le> n" "n < 256"
    using uint_lt2p [of "upper m"] uint_lt2p [of "len m"] sint_ge [of "lower m"] sint_lt [of "lower m"]
    by (simp_all add: u_def k_def n_def)
  have up: "uint (ucast (upper m) :: u32) = u" "uint (ucast (len m) :: u32) = n"
    using bounds by (simp_all add: u_def n_def unsigned_ucast_eq take_bit_int_eq_self)
  have base: "uint (ucast (upper m) + ((l - 1) AND scast (lower m)) :: u32) = (if low then u else u + k)"
    using assms(1,2) bounds uint_add_sint [of "ucast (upper m)" "lower m"] by (simp add: up u_def k_def)
  have range: "(if low then u else u + k) \<le> uint wc \<and> uint wc < (if low then u else u + k) + n"
    using assms(3) bounds by (subst (asm) uint_range_test) (auto simp: base up)
  show ?thesis
  proof (cases "lower m = 1")
    case True
    then have k: "k = 1" by (simp add: k_def)
    have le: "ucast (upper m) \<le> wc" using range k by (auto simp: word_le_def up split: if_splits)
    have d: "uint (wc - ucast (upper m)) = uint wc - u" using le by (simp add: uint_sub_if' up word_le_def)
    have b: "(wc - ucast (upper m)) AND 1 = (if even (uint wc - u) then 0 else 1)"
      unfolding lace_bit d ..
    have wc: "uint wc < 2 ^ 17" "low \<or> 1 \<le> uint wc" using range bounds k by (auto split: if_splits)
    show ?thesis
    proof (cases low)
      case True
      then show ?thesis using \<open>lower m = 1\<close> wc(1) range k assms(2) unfolding b
        by (auto simp: moves_def view_def uint_plus_if' simp flip: u_def k_def n_def)
    next
      case False
      then show ?thesis using \<open>lower m = 1\<close> wc(2) range k assms(2) unfolding b
        by (auto simp: moves_def view_def uint_sub_if' simp flip: u_def k_def n_def)
    qed
  next
    case False
    then have k: "k \<noteq> 1" by (auto simp: k_def signed_word_eqI)
    show ?thesis
    proof (cases low)
      case True
      then have "uint (wc + scast (lower m)) = uint wc + k"
        using range bounds assms(1) uint_add_sint [of wc "lower m"] by (simp add: u_def k_def)
      then show ?thesis using True False range k assms(2)
        by (auto simp: moves_def view_def simp flip: u_def k_def n_def)
    next
      case low: False
      then have "0 \<le> uint wc - k" "uint wc - k < 2 ^ 32" using range bounds assms(1) by (auto simp flip: u_def k_def)
      then have "uint (wc - scast (lower m)) = uint wc - k" unfolding k_def by (rule uint_sub_sint)
      then show ?thesis using low False range k assms(2)
        by (auto simp: moves_def view_def simp flip: u_def k_def n_def)
    qed
  qed
qed

lemma casemap_loop_moves:
  assumes "\<forall>m \<in> set ms. 0 \<le> uint (upper m) + sint (lower m)" "l = (if low then 1 else 0)"
    and "casemap_loop ms wc l = Return r"
  shows "moves ((\<lambda>m. map_rule low (view m)) ` {m \<in> set ms. len m \<noteq> 0}) wc r"
  using assms(1,3)
proof (induction ms)
  case (Cons m ms)
  show ?case
  proof (cases "wc - (ucast (upper m) + ((l - 1) AND scast (lower m))) < ucast (len m)")
    case True
    have "len m \<noteq> 0" using Cons.prems(2) by auto
    moreover have "moves {map_rule low (view m)} wc r"
      using casemap_step [OF _ assms(2) True] Cons.prems True \<open>len m \<noteq> 0\<close> by (simp add: Let_def split: if_splits)
    ultimately show ?thesis by (elim moves_mono) auto
  next
    case False
    then have "casemap_loop ms wc l = Return r" using Cons.prems(2) by (simp add: Let_def split: if_splits)
    then show ?thesis using Cons by (intro moves_mono [OF Cons.IH]) auto
  qed
qed simp

text \<open>
  The pairs; a pair whose first component in the direction stands in an earlier pair has no effect,
  which matters for four of them.
\<close>

fun pair_rule :: "bool \<Rightarrow> u16 \<times> u16 \<Rightarrow> rule" where
  "pair_rule low (a, b) =
     (if low then (uint a, uint a, 2, uint b - uint a) else (uint b, uint b, 2, uint a - uint b))"

definition shadowed :: "bool \<Rightarrow> (u16 \<times> u16) list" where
  "shadowed low =
     (if low then [(0x1c4, 0x1c5), (0x1c7, 0x1c8), (0x1ca, 0x1cb), (0x1f1, 0x1f2)]
      else [(0x1c5, 0x1c6), (0x1c8, 0x1c9), (0x1cb, 0x1cc), (0x1f2, 0x1f3)])"

definition all_rules :: "bool \<Rightarrow> rule list" where
  "all_rules low =
     map (\<lambda>m. map_rule low (view m)) (butlast casemaps) @
     map (pair_rule low) (filter (\<lambda>p. p \<notin> set (shadowed low)) (butlast pairs)) @
     (if low then [(0x10a0, 0x10cd, 1, 0x1c60), (0x10400, 0x10427, 1, 0x28)]
      else [(0x2d00, 0x2d25, 1, -0x1c60), (0x10428, 0x1044f, 1, -0x28)])"

definition rules :: "bool \<Rightarrow> rule list" where
  "rules low = filter (\<lambda>t. moved_by t \<noteq> 0) (all_rules low)"

section \<open>Results against rules\<close>

text \<open>Two rules that have no character in common\<close>

fun apart :: "rule \<Rightarrow> rule \<Rightarrow> bool" where
  "apart (lo, hi, s, d) (lo', hi', s', d') \<longleftrightarrow> hi < lo' \<or> hi' < lo \<or> (s = 2 \<and> s' = 2 \<and> odd (lo - lo'))"

lemma apart_disjoint: "apart r t \<Longrightarrow> \<not> (applies r x \<and> applies t x)"
proof -
  assume "apart r t"
  moreover obtain lo hi s d where "r = (lo, hi, s, d)" by (cases r)
  moreover obtain lo' hi' s' d' where "t = (lo', hi', s', d')" by (cases t)
  moreover have "even (lo - lo')" if "even (x - lo)" "even (x - lo')"
    using that even_diff_iff [of "x - lo'" "x - lo"] by simp
  ultimately show ?thesis by auto
qed

text \<open>Rules in the order of their first characters, by merging neighbours again and again\<close>

fun merge :: "rule list \<Rightarrow> rule list \<Rightarrow> rule list" where
  "merge [] ts = ts"
| "merge rs [] = rs"
| "merge (r # rs) (t # ts) = (if fst r \<le> fst t then r # merge rs (t # ts) else t # merge (r # rs) ts)"

fun merge_adj :: "rule list list \<Rightarrow> rule list list" where
  "merge_adj (rs # ts # xss) = merge rs ts # merge_adj xss"
| "merge_adj xss = xss"

definition arranged :: "rule list \<Rightarrow> rule list" where
  "arranged ts = concat ((merge_adj ^^ 8) (map (\<lambda>t. [t]) ts))"

lemma set_merge: "set (merge rs ts) = set rs \<union> set ts"
  by (induction rs ts rule: merge.induct) auto

lemma set_merge_adj: "set (concat (merge_adj xss)) = set (concat xss)"
  by (induction xss rule: merge_adj.induct) (auto simp: set_merge)

lemma set_arranged: "set (arranged ts) = set ts"
proof -
  have "set (concat ((merge_adj ^^ n) xss)) = set (concat xss)" for n xss
    by (induction n) (simp_all only: funpow.simps comp_apply id_apply set_merge_adj)
  then show ?thesis by (simp add: arranged_def del: set_concat)
qed

fun ascending :: "rule list \<Rightarrow> bool" where
  "ascending (r # t # ts) \<longleftrightarrow> fst r \<le> fst t \<and> ascending (t # ts)"
| "ascending _ \<longleftrightarrow> True"

lemma ascending_wrt: "ascending ts \<Longrightarrow> sorted_wrt (\<lambda>r t. fst r \<le> fst t) ts"
  by (induction ts rule: ascending.induct) auto

text \<open>All pairs of two ascending lists are apart, in one pass.\<close>

fun clear :: "rule \<Rightarrow> rule list \<Rightarrow> bool" where
  "clear r [] \<longleftrightarrow> True"
| "clear r (t # ts) \<longleftrightarrow> (if fst (snd r) < fst t then True else apart r t \<and> clear r ts)"

fun sweep :: "rule list \<Rightarrow> rule list \<Rightarrow> bool" where
  "sweep [] ts \<longleftrightarrow> True"
| "sweep (r # rs) ts \<longleftrightarrow>
     (let ts = dropWhile (\<lambda>t. fst (snd t) < fst r) ts in clear r ts \<and> sweep rs ts)"

lemma apart_outside: "fst (snd r) < fst t \<Longrightarrow> apart r t" "fst (snd t) < fst r \<Longrightarrow> apart r t"
  by (cases r; cases t; simp)+

lemma clear_apart: "clear r ts \<Longrightarrow> sorted_wrt (\<lambda>r t. fst r \<le> fst t) ts \<Longrightarrow> t \<in> set ts \<Longrightarrow> apart r t"
  by (induction r ts rule: clear.induct) (force intro: apart_outside split: if_splits)+

lemma sweep_apart:
  "sweep rs ts \<Longrightarrow> sorted_wrt (\<lambda>r t. fst r \<le> fst t) rs \<Longrightarrow> sorted_wrt (\<lambda>r t. fst r \<le> fst t) ts \<Longrightarrow>
    r \<in> set rs \<Longrightarrow> t \<in> set ts \<Longrightarrow> apart r t"
proof (induction rs ts rule: sweep.induct)
  case (2 q rs ts)
  let ?p = "\<lambda>t. fst (snd t) < fst q"
  have split: "ts = takeWhile ?p ts @ dropWhile ?p ts" by simp
  have sorted: "sorted_wrt (\<lambda>r t. fst r \<le> fst t) (dropWhile ?p ts)"
    using 2(4) by (subst (asm) split) (simp only: sorted_wrt_append)
  have le: "fst q \<le> fst r" using 2(3,5) by auto
  show ?case
  proof (cases "t \<in> set (dropWhile ?p ts)")
    case True
    then show ?thesis using 2(1) [OF refl] 2(2,3,5) clear_apart [OF _ sorted True, of q] sorted by (auto simp: Let_def)
  next
    case False
    then have "t \<in> set (takeWhile ?p ts)" using 2(6) arg_cong [OF split, of set] by (simp only: set_append Un_iff) blast
    then have "fst (snd t) < fst q" by (rule set_takeWhileD [THEN conjunct2])
    then show ?thesis using le by (intro apart_outside(2)) simp
  qed
qed simp

definition all_apart :: "rule list \<Rightarrow> rule list \<Rightarrow> bool" where
  "all_apart rs ts \<longleftrightarrow> (let rs = arranged rs; ts = arranged ts in ascending rs \<and> ascending ts \<and> sweep rs ts)"

lemma all_apart_disjoint: "all_apart rs ts \<Longrightarrow> r \<in> set rs \<Longrightarrow> t \<in> set ts \<Longrightarrow> \<not> (applies r x \<and> applies t x)"
  using sweep_apart [of "arranged rs" "arranged ts" r t] apart_disjoint [of r t x]
  by (auto simp: all_apart_def Let_def ascending_wrt set_arranged)

text \<open>Where the rules move to\<close>

definition results :: "rule list \<Rightarrow> rule list" where
  "results ts = map (\<lambda>(lo, hi, s, d). (lo + d, hi + d, s, d)) ts"

lemma rules_apart: "all_apart (results (rules True)) (rules True)" "all_apart (results (rules False)) (rules False)"
  by code_simp+

lemma results_applies: "t \<in> set ts \<Longrightarrow> applies t x \<Longrightarrow> \<exists>r \<in> set (results ts). applies r (x + moved_by t)"
  by (cases t) (force simp: results_def)

lemma rules_stable:
  assumes "moves (set (rules low)) wc r" "moves (set (rules low)) r r'" "r \<noteq> wc"
  shows "r' = r"
proof (rule ccontr)
  assume "r' \<noteq> r"
  then obtain t where t: "t \<in> set (rules low)" "applies t (uint r)" using assms(2) by (auto simp: moves_def)
  obtain t' where "t' \<in> set (rules low)" "applies t' (uint wc)" "uint r = uint wc + moved_by t'"
    using assms(1,3) by (auto simp: moves_def)
  then obtain s where "s \<in> set (results (rules low))" "applies s (uint r)" using results_applies by metis
  then show False using all_apart_disjoint [of "results (rules low)" "rules low" s t "uint r"] t rules_apart
    by (cases low) auto
qed

section \<open>The mappings follow the rules\<close>

lemma pairs_loop_moves:
  assumes "l = (if low then 1 else 0)" "pairs_loop ps wc l = Return r"
  shows "\<exists>a b. (a, b) \<in> set ps \<and> (if low then wc = ucast a \<and> r = ucast b \<and> a \<noteq> 0 else wc = ucast b \<and> r = ucast a \<and> b \<noteq> 0)"
  using assms(2)
proof (induction ps)
  case (Cons p ps)
  then show ?case using assms(1) by (cases p) (auto simp: pair_sel_def split: if_splits)
qed simp

lemma shadowed_pairs:
  "(a, b) \<in> set (shadowed True) \<Longrightarrow> pairs_loop pairs (ucast a) 1 \<noteq> Return (ucast b)"
  "(a, b) \<in> set (shadowed False) \<Longrightarrow> pairs_loop pairs (ucast b) 0 \<noteq> Return (ucast a)"
proof -
  have "list_all (\<lambda>(a, b). pairs_loop pairs (ucast a) 1 \<noteq> Return (ucast b)) (shadowed True)"
      "list_all (\<lambda>(a, b). pairs_loop pairs (ucast b) 0 \<noteq> Return (ucast a)) (shadowed False)"
    by code_simp+
  then show "(a, b) \<in> set (shadowed True) \<Longrightarrow> pairs_loop pairs (ucast a) 1 \<noteq> Return (ucast b)"
      "(a, b) \<in> set (shadowed False) \<Longrightarrow> pairs_loop pairs (ucast b) 0 \<noteq> Return (ucast a)"
    by (auto simp: list_all_iff)
qed

lemma uint_ucast_short: "uint (ucast (a :: u16) :: u32) = uint a"
  using uint_lt2p [of a] by (simp add: unsigned_ucast_eq take_bit_int_eq_self)

lemma last_tables: "casemaps = butlast casemaps @ [\<lparr>upper = 0, lower = 0, len = 0\<rparr>]" "pairs = butlast pairs @ [(0, 0)]"
  by (simp_all add: casemaps_def pairs_def)

lemma rulesI: "t \<in> set (all_rules low) \<Longrightarrow> moves {t} wc r \<Longrightarrow> moves (set (rules low)) wc r"
proof (cases "moved_by t = 0")
  case True
  then show "moves {t} wc r \<Longrightarrow> ?thesis" by (auto simp: moves_def word_uint_eq_iff)
next
  case False
  then show "t \<in> set (all_rules low) \<Longrightarrow> moves {t} wc r \<Longrightarrow> ?thesis" by (elim moves_mono) (simp add: rules_def)
qed

lemma pairs_moves:
  assumes "l = (if low then 1 else 0)" "pairs_loop pairs wc l = Return r"
  shows "moves (set (rules low)) wc r"
proof -
  obtain a b where p: "(a, b) \<in> set pairs"
      "if low then wc = ucast a \<and> r = ucast b \<and> a \<noteq> 0 else wc = ucast b \<and> r = ucast a \<and> b \<noteq> 0"
    using pairs_loop_moves [OF assms] by blast
  have "(a, b) \<noteq> (0, 0)" using p(2) by (auto split: if_splits)
  then have "(a, b) \<in> set (butlast pairs)" using p(1) by (subst (asm) last_tables) auto
  moreover have "(a, b) \<notin> set (shadowed low)" using shadowed_pairs [of a b] p(2) assms by (cases low) auto
  moreover have "moves {pair_rule low (a, b)} wc r" using p(2) by (cases low) (auto simp: moves_def uint_ucast_short)
  ultimately show ?thesis by (intro rulesI [of "pair_rule low (a, b)"]) (simp_all add: all_rules_def del: pair_rule.simps)
qed

lemma casemaps_nonneg: "\<forall>m \<in> set casemaps. 0 \<le> uint (upper m) + sint (lower m)"
  unfolding casemaps_def by (simp add: CASEMAP_def CASELACE_def)

lemma casemaps_moves:
  assumes "l = (if low then 1 else 0)" "casemap_loop casemaps wc l = Return r"
  shows "moves (set (rules low)) wc r"
proof -
  have "moves ((\<lambda>m. map_rule low (view m)) ` {m \<in> set casemaps. len m \<noteq> 0}) wc r"
    by (rule casemap_loop_moves [OF casemaps_nonneg assms])
  then consider "r = wc" | m where "m \<in> set casemaps" "len m \<noteq> 0" "moves {map_rule low (view m)} wc r"
    by (auto simp: moves_def)
  then show ?thesis
  proof cases
    case 2
    then have "m \<in> set (butlast casemaps)" by (subst (asm) last_tables) auto
    then show ?thesis using 2(3) by (intro rulesI [of "map_rule low (view m)"]) (auto simp: all_rules_def)
  qed (simp add: moves_def)
qed

lemma moves_outside:
  fixes wc :: u32
  shows "wc - 0x10a0 < 0x2e \<Longrightarrow> moves (set (rules True)) wc (wc + 0x2d00 - 0x10a0)"
    "wc - 0x2d00 < 0x26 \<Longrightarrow> moves (set (rules False)) wc (wc + 0x10a0 - 0x2d00)"
    "wc - 0x10400 < 0x28 \<Longrightarrow> moves (set (rules True)) wc (wc + 0x28)"
    "wc - 0x10428 < 0x28 \<Longrightarrow> moves (set (rules False)) wc (wc - 0x28)"
proof -
  assume "wc - 0x10a0 < 0x2e"
  then have "0x10a0 \<le> uint wc" "uint wc < 0x10ce" by (auto simp: uint_range_test)
  moreover have "wc + 0x2d00 - 0x10a0 = wc + 0x1c60" by simp
  ultimately show "moves (set (rules True)) wc (wc + 0x2d00 - 0x10a0)"
    by (intro rulesI [of "(0x10a0, 0x10cd, 1, 0x1c60)"]) (simp_all add: all_rules_def moves_def uint_plus_if')
next
  assume "wc - 0x2d00 < 0x26"
  then have "0x2d00 \<le> uint wc" "uint wc < 0x2d26" by (auto simp: uint_range_test)
  moreover have "wc + 0x10a0 - 0x2d00 = wc - 0x1c60" by simp
  ultimately show "moves (set (rules False)) wc (wc + 0x10a0 - 0x2d00)"
    by (intro rulesI [of "(0x2d00, 0x2d25, 1, -0x1c60)"]) (simp_all add: all_rules_def moves_def uint_sub_if')
next
  assume "wc - 0x10400 < 0x28"
  then have "0x10400 \<le> uint wc" "uint wc < 0x10428" by (auto simp: uint_range_test)
  then show "moves (set (rules True)) wc (wc + 0x28)"
    by (intro rulesI [of "(0x10400, 0x10427, 1, 0x28)"]) (simp_all add: all_rules_def moves_def uint_plus_if')
next
  assume "wc - 0x10428 < 0x28"
  then have "0x10428 \<le> uint wc" "uint wc < 0x10450" by (auto simp: uint_range_test)
  then show "moves (set (rules False)) wc (wc - 0x28)"
    by (intro rulesI [of "(0x10428, 0x1044f, 1, -0x28)"]) (simp_all add: all_rules_def moves_def uint_sub_if')
qed

lemma towcase_moves:
  assumes "towcase wc l = Some r" "l = (if low then 1 else 0)"
  shows "moves (set (rules low)) wc r"
proof -
  have same: "moves (set (rules low)) x x" for x by (simp add: moves_def)
  have last: "wc - 0x28 + 0x50 * l = r \<Longrightarrow> wc - (0x10428 - 0x28 * l) < 0x28 \<Longrightarrow> moves (set (rules low)) wc r"
    using assms(2) moves_outside(3,4) [of wc] by (cases low) (auto simp: add.commute)
  have first: "wc + 0x2d00 - 0x10a0 = r \<Longrightarrow> l \<noteq> 0 \<Longrightarrow> wc - 0x10a0 < 0x2e \<Longrightarrow> moves (set (rules low)) wc r"
    using assms(2) moves_outside(1) [of wc] by (cases low) auto
  have second: "wc + 0x10a0 - 0x2d00 = r \<Longrightarrow> l = 0 \<Longrightarrow> wc - 0x2d00 < 0x26 \<Longrightarrow> moves (set (rules low)) wc r"
    using assms(2) moves_outside(2) [of wc] by (cases low) auto
  have tables: "casemap_loop casemaps wc l = Return r' \<Longrightarrow> moves (set (rules low)) wc r'"
      "pairs_loop pairs wc l = Return r' \<Longrightarrow> moves (set (rules low)) wc r'" for r'
    using casemaps_moves [OF assms(2)] pairs_moves [OF assms(2)] by blast+
  obtain al where al: "iswalpha wc = Some al" using iswalpha_Some by blast
  show ?thesis
    using assms(1) unfolding towcase_def al option.case
    by (simp only: option.inject option.distinct split: if_splits search.splits)
      (rule same | erule tables | erule (2) first | erule (2) second | erule (1) last)+
qed

lemma towcase_stable:
  assumes "towcase wc (if low then 1 else 0) = Some r"
  shows "towcase r (if low then 1 else 0) = Some r"
proof (cases "r = wc")
  case False
  obtain r' where "towcase r (if low then 1 else 0) = Some r'" using towcase_Some by blast
  then show ?thesis using rules_stable [OF towcase_moves [OF assms refl] towcase_moves [OF _ refl] False] by blast
qed (use assms in simp)

section \<open>Properties\<close>

text \<open>
  C36: Case mapping is stable on every value of \<open>wint_t\<close>: a lower-cased character is not upper case and is
  left alone by \<open>towlower\<close>; an upper-cased one is left alone by \<open>towupper\<close> and is not lower case, except
  for the sharp s, which has no upper case letter of its own.
\<close>

theorem case_mapping_stable:
  "\<exists>l u. towlower wc = Some l \<and> towlower l = Some l \<and> iswupper l = Some False \<and>
    towupper wc = Some u \<and> towupper u = Some u \<and> iswlower u = Some (u = 0xdf)"
proof -
  obtain l u where "towcase wc 1 = Some l" "towcase wc 0 = Some u" using towcase_Some by metis
  moreover from this have "towcase l 1 = Some l" "towcase u 0 = Some u"
    using towcase_stable [of wc True] towcase_stable [of wc False] by simp_all
  ultimately show ?thesis by (simp add: towlower_def towupper_def iswupper_def iswlower_def)
qed

end
