(* ===== verification/Cpu_Text.thy ===== *)
theory Cpu_Text
  imports Prelude
begin

text \<open>
  \<open>cpu-features.c\<close>, first part: reading files under \<open>/proc\<close> and \<open>/sys\<close>, and parsing their text.

  An open file is what the kernel still holds of it and how the next calls of \<open>read\<close> behave: an
  interrupted call, a failing call, a short read of at most \<open>Suc k\<close> bytes; after these events a read
  returns as much as it was asked for. A file that cannot be opened is \<open>None\<close>. Text is a list of
  characters; an access outside a buffer is the outcome \<open>Oob\<close>.
\<close>

section \<open>Files\<close>

datatype read_event = Intr | Fail | Short nat

record ofile =
  contents :: string
  events :: "read_event list"

datatype read_result = REintr | RError | ROk string

fun sys_read :: "nat \<Rightarrow> ofile \<Rightarrow> read_result \<times> ofile" where
  "sys_read n f =
     (case events f of
        [] \<Rightarrow> (ROk (take n (contents f)), f\<lparr>contents := drop n (contents f)\<rparr>)
      | Intr # es \<Rightarrow> (REintr, f\<lparr>events := es\<rparr>)
      | Fail # es \<Rightarrow> (RError, f\<lparr>events := es\<rparr>)
      | Short k # es \<Rightarrow>
          let m = min n (Suc k) in
          (ROk (take m (contents f)), f\<lparr>contents := drop m (contents f), events := es\<rparr>))"

abbreviation file_size :: "ofile \<Rightarrow> nat" where
  "file_size f \<equiv> length (contents f) + length (events f)"

lemma sys_read_progress:
  "sys_read n f = (r, f') \<Longrightarrow> 0 < n \<Longrightarrow> r \<noteq> ROk [] \<Longrightarrow> file_size f' < file_size f"
  by (cases "contents f") (auto simp: Let_def split: list.splits read_event.splits)

declare sys_read.simps [simp del]

text \<open>
  The counters of both loops are \<open>int\<close>: a sum beyond \<open>INT_MAX\<close> is undefined, the outcome \<open>None\<close>. A
  \<open>size_t\<close> that is converted to \<open>int\<close> keeps its low 32 bits.
\<close>

abbreviation INT_MAX :: int where
  "INT_MAX \<equiv> 2147483647"

definition c_int :: "nat \<Rightarrow> int" where
  "c_int n = sint (of_nat n :: u32)"

lemma c_int_small: "n < 2 ^ 31 \<Longrightarrow> c_int n = int n"
  by (simp add: c_int_def signed_of_nat signed_take_bit_int_eq_self)

lemma c_int_le: "c_int n \<le> int n"
proof -
  let ?u = "uint (of_nat n :: u32)"
  have "0 \<le> ?u" "?u < 2 ^ 32" using uint_lt2p [of "of_nat n :: u32"] by simp_all
  then have "take_bit 32 ?u = ?u" by (simp add: take_bit_int_eq_self)
  then have "c_int n \<le> ?u" unfolding c_int_def by (simp add: sint_uint signed_take_bit_eq_take_bit_minus)
  also have "\<dots> \<le> int n" by (simp add: unsigned_of_nat take_bit_eq_mod zmod_le_nonneg_dividend)
  finally show ?thesis .
qed

lemma read_progress:
  assumes "sys_read (n - length b) f = (r, f')" "int (length b) < c_int n" "r \<noteq> ROk []"
  shows "file_size f' < file_size f"
proof -
  have "0 < n - length b" using assms(2) c_int_le [of n] by linarith
  then show ?thesis using assms(1,3) sys_read_progress by blast
qed

text \<open>\<open>get_file_size\<close>: the loop with the running \<open>result\<close>.\<close>

function size_loop :: "ofile \<Rightarrow> int \<Rightarrow> int option" where
  "size_loop f result =
     (case sys_read 256 f of
        (REintr, f') \<Rightarrow> size_loop f' result
      | (RError, f') \<Rightarrow> Some result
      | (ROk bs, f') \<Rightarrow>
          if bs = [] then Some result
          else if result + int (length bs) > INT_MAX then None
          else size_loop f' (result + int (length bs)))"
  by pat_completeness auto
termination
  by (relation "measure (\<lambda>(f, r). file_size f)") (auto dest: sys_read_progress [OF sym])

definition get_file_size :: "ofile option \<Rightarrow> int option" where
  "get_file_size fd = (case fd of None \<Rightarrow> Some (-1) | Some f \<Rightarrow> size_loop f 0)"

text \<open>\<open>read_file\<close>: the returned count and the bytes stored at the start of \<open>buffer\<close>.\<close>

function read_loop :: "nat \<Rightarrow> ofile \<Rightarrow> string \<Rightarrow> (int \<times> string) option" where
  "read_loop buffsize f buffer =
     (if int (length buffer) < c_int buffsize then
        (case sys_read (buffsize - length buffer) f of
           (REintr, f') \<Rightarrow> read_loop buffsize f' buffer
         | (RError, f') \<Rightarrow> Some (if buffer = [] then (-1, buffer) else (int (length buffer), buffer))
         | (ROk bs, f') \<Rightarrow>
             if bs = [] then Some (int (length buffer), buffer)
             else if int (length buffer) + int (length bs) > INT_MAX then None
             else read_loop buffsize f' (buffer @ bs))
      else Some (int (length buffer), buffer))"
  by pat_completeness auto
termination
  by (relation "measure (\<lambda>(n, f, b). file_size f)") (auto dest: read_progress [OF sym])

definition read_file :: "ofile option \<Rightarrow> nat \<Rightarrow> (int \<times> string) option" where
  "read_file fd buffsize = (case fd of None \<Rightarrow> Some (-1, []) | Some f \<Rightarrow> read_loop buffsize f [])"

declare size_loop.simps [simp del] read_loop.simps [simp del]

section \<open>Fields of /proc/cpuinfo\<close>

text \<open>The C library's \<open>memmem\<close> and \<open>memchr\<close>, as offsets of the first match\<close>

fun memmem :: "string \<Rightarrow> string \<Rightarrow> nat option" where
  "memmem hay needle =
     (if take (length needle) hay = needle then Some 0
      else case hay of [] \<Rightarrow> None | _ # hay' \<Rightarrow> map_option Suc (memmem hay' needle))"

declare memmem.simps [simp del]

fun memchr :: "string \<Rightarrow> char \<Rightarrow> nat option" where
  "memchr [] c = None"
| "memchr (x # xs) c = (if x = c then Some 0 else map_option Suc (memchr xs c))"

lemma take_prefix_length: "take (length xs) ys = xs \<Longrightarrow> length xs \<le> length ys"
  by (metis length_take min.cobounded1)

lemma memmem_bound: "memmem hay needle = Some i \<Longrightarrow> i + length needle \<le> length hay"
proof (induction hay arbitrary: i)
  case Nil
  then show ?case by (auto simp: memmem.simps [of "[]"] split: if_splits)
next
  case (Cons x hay)
  then show ?case
    using take_prefix_length [of needle "x # hay"] by (auto simp: memmem.simps [of "x # hay"] split: if_splits)
qed

lemma field_progress:
  "memmem (drop p buffer) field = Some i \<Longrightarrow> field \<noteq> [] \<Longrightarrow> length buffer - (p + i + length field) < length buffer - p"
  using memmem_bound [of "drop p buffer" field i] by (cases field) auto

text \<open>
  The search of the first occurrence that starts a line. An empty field would match at once, at the
  start of the buffer.
\<close>

function find_field :: "string \<Rightarrow> string \<Rightarrow> nat \<Rightarrow> nat option" where
  "find_field buffer field p =
     (if field = [] then Some p
      else case memmem (drop p buffer) field of
          None \<Rightarrow> None
        | Some i \<Rightarrow>
            let p = p + i in
            if p = 0 \<or> buffer ! (p - 1) = CHR 0x0A then Some p
            else find_field buffer field (p + length field))"
  by pat_completeness auto
termination
  by (relation "measure (\<lambda>(b, f, p). length b - p)") (auto dest: field_progress)

declare find_field.simps [simp del]

datatype field_result = Oob | Null | Field string

text \<open>\<open>malloc_ok n\<close> tells whether \<open>malloc(n)\<close> succeeds.\<close>

definition extract_cpuinfo_field :: "(nat \<Rightarrow> bool) \<Rightarrow> string \<Rightarrow> string \<Rightarrow> field_result" where
  "extract_cpuinfo_field malloc_ok buffer field =
     (case find_field buffer field 0 of
        None \<Rightarrow> Null
      | Some p \<Rightarrow>
          let p = p + length field in
          (case memchr (drop p buffer) CHR '':'' of
             None \<Rightarrow> Null
           | Some i \<Rightarrow>
               let p = p + i in
               (case rd buffer (p + 1) of
                  None \<Rightarrow> Oob
                | Some c \<Rightarrow>
                    if c \<noteq> CHR '' '' then Null
                    else
                      let p = p + 2;
                          q = (case memchr (drop p buffer) CHR 0x0A of None \<Rightarrow> length buffer | Some j \<Rightarrow> p + j);
                          len = q - p in
                      if malloc_ok (len + 1) then Field (take len (drop p buffer)) else Null)))"

definition is_blank :: "char \<Rightarrow> bool" where
  "is_blank c \<longleftrightarrow> c = CHR '' '' \<or> c = CHR 0x09"

text \<open>\<open>has_list_item\<close> on C strings; \<open>list\<close> may be a null pointer.\<close>

function list_item_loop :: "string \<Rightarrow> string \<Rightarrow> bool" where
  "list_item_loop p item =
     (if p = [] then False
      else
        let p = dropWhile is_blank p;
            q = dropWhile (\<lambda>c. \<not> is_blank c) p in
        if length item = length p - length q \<and> take (length item) p = item then True
        else list_item_loop q item)"
  by pat_completeness auto
termination
proof (relation "measure (\<lambda>(p, item). length p)")
  fix p item x xa
  assume "p \<noteq> []" "x = dropWhile is_blank p" "xa = dropWhile (\<lambda>c. \<not> is_blank c) x"
  then show "((xa, item), p, item) \<in> measure (\<lambda>(p, item). length p)"
    by (cases p) (auto simp: le_imp_less_Suc length_dropWhile_le order_trans [OF length_dropWhile_le])
qed simp

declare list_item_loop.simps [simp del]

definition has_list_item :: "string option \<Rightarrow> string \<Rightarrow> bool" where
  "has_list_item list item = (case list of None \<Rightarrow> False | Some l \<Rightarrow> list_item_loop l item)"

section \<open>Numbers\<close>

text \<open>The digit of a character, or a value that ends the number.\<close>

definition digit_of :: "char \<Rightarrow> int option" where
  "digit_of c =
     (let d = of_char c - 48 in
      if 0 \<le> d \<and> d < 10 then Some d
      else
        let d = of_char c - 97;
            d = (if 0 \<le> d \<and> d < 6 then d else of_char c - 65) in
        if 0 \<le> d \<and> d < 6 then Some (d + 10) else None)"

text \<open>
  \<open>parse_number\<close> on the characters from \<open>input\<close> to \<open>limit\<close>: the value, an \<open>int\<close> that wraps, and
  the number of characters taken.
\<close>

fun number_loop :: "string \<Rightarrow> int \<Rightarrow> u32 \<Rightarrow> nat \<Rightarrow> u32 \<times> nat" where
  "number_loop [] base val n = (val, n)"
| "number_loop (c # cs) base val n =
     (case digit_of c of
        None \<Rightarrow> (val, n)
      | Some d \<Rightarrow>
          if d \<ge> base then (val, n)
          else number_loop cs base (val * of_int base + of_int d) (n + 1))"

definition parse_number :: "string \<Rightarrow> int \<Rightarrow> (u32 \<times> nat) option" where
  "parse_number s base = (case number_loop s base 0 0 of (val, n) \<Rightarrow> if n = 0 then None else Some (val, n))"

definition parse_decimal :: "string \<Rightarrow> (u32 \<times> nat) option" where
  "parse_decimal s = parse_number s 10"

definition parse_hexadecimal :: "string \<Rightarrow> (u32 \<times> nat) option" where
  "parse_hexadecimal s = parse_number s 16"

end
