(* ===== verification/Cpu_List.thy ===== *)
theory Cpu_List
  imports Cpu_Text
begin

text \<open>
  \<open>cpu-features.c\<close>, second part: the CPU masks read from sysfs and the number of CPUs. An \<open>int\<close> that
  leaves its range is undefined in C: \<open>None\<close>.
\<close>

record CpuList =
  mask :: u32

definition cpulist_init :: CpuList where
  "cpulist_init = \<lparr>mask = 0\<rparr>"

definition cpulist_and :: "CpuList \<Rightarrow> CpuList \<Rightarrow> CpuList" where
  "cpulist_and list1 list2 = list1\<lparr>mask := mask list1 AND mask list2\<rparr>"

definition cpulist_set :: "CpuList \<Rightarrow> int \<Rightarrow> CpuList" where
  "cpulist_set list index =
     (if 0 \<le> index \<and> index < 32 then list\<lparr>mask := mask list OR push_bit (nat index) 1\<rparr> else list)"

definition cpulist_count :: "CpuList \<Rightarrow> nat" where
  "cpulist_count list = length (filter (bit (mask list)) [0..<32])"

text \<open>The loop \<open>for (val = start_value; val <= end_value; val++)\<close>\<close>

function set_range :: "CpuList \<Rightarrow> int \<Rightarrow> int \<Rightarrow> CpuList option" where
  "set_range list val end_value =
     (if val \<le> end_value then
        if val \<ge> INT_MAX then None
        else set_range (cpulist_set list val) (val + 1) end_value
      else Some list)"
  by pat_completeness auto
termination
  by (relation "measure (\<lambda>(list, val, e). nat (e + 1 - val))") auto

text \<open>\<open>cpulist_parse\<close>: \<open>p\<close> is what is left of the line.\<close>

function cpulist_parse :: "CpuList \<Rightarrow> string \<Rightarrow> CpuList option" where
  "cpulist_parse list p =
     (if p = [] \<or> hd p = CHR 0x0A then Some list
      else
        let n = (case memchr p CHR '','' of None \<Rightarrow> length p | Some i \<Rightarrow> i);
            item = take n p in
        (case parse_decimal item of
           None \<Rightarrow> Some list
         | Some (start_value, k) \<Rightarrow>
             (case (if k < n \<and> item ! k = CHR ''-'' then map_option fst (parse_decimal (drop (k + 1) item))
                    else Some start_value) of
                None \<Rightarrow> Some list
              | Some end_value \<Rightarrow>
                  (case set_range list (sint start_value) (sint end_value) of
                     None \<Rightarrow> None
                   | Some list \<Rightarrow> cpulist_parse list (drop (n + 1) p)))))"
  by pat_completeness auto
termination
  by (relation "measure (\<lambda>(list, p). length p)") auto

declare set_range.simps [simp del] cpulist_parse.simps [simp del]

definition cpulist_read_from :: "ofile option \<Rightarrow> CpuList option" where
  "cpulist_read_from fd =
     (let list = cpulist_init in
      case read_file fd 64 of
        None \<Rightarrow> None
      | Some (filelen, buffer) \<Rightarrow> if filelen < 0 then Some list else cpulist_parse list buffer)"

definition get_cpu_count :: "ofile option \<Rightarrow> ofile option \<Rightarrow> nat option" where
  "get_cpu_count present possible =
     (case (cpulist_read_from present, cpulist_read_from possible) of
        (Some cpus_present, Some cpus_possible) \<Rightarrow> Some (cpulist_count (cpulist_and cpus_present cpus_possible))
      | _ \<Rightarrow> None)"

end
