(* ===== verification/Cpu_Features.thy ===== *)
theory Cpu_Features
  imports Cpu_List
begin

text \<open>
  \<open>cpu-features.h\<close> and \<open>cpu-features.c\<close>, third part: the CPU families and feature flags, the hardware
  capabilities, the one-time initialisation for each architecture, and the public functions.
\<close>

section \<open>Families and flags\<close>

datatype AndroidCpuFamily =
    ANDROID_CPU_FAMILY_UNKNOWN
  | ANDROID_CPU_FAMILY_ARM
  | ANDROID_CPU_FAMILY_X86
  | ANDROID_CPU_FAMILY_MIPS
  | ANDROID_CPU_FAMILY_ARM64
  | ANDROID_CPU_FAMILY_X86_64
  | ANDROID_CPU_FAMILY_MIPS64

fun family_value :: "AndroidCpuFamily \<Rightarrow> u64" where
  "family_value ANDROID_CPU_FAMILY_UNKNOWN = 0"
| "family_value ANDROID_CPU_FAMILY_ARM = 1"
| "family_value ANDROID_CPU_FAMILY_X86 = 2"
| "family_value ANDROID_CPU_FAMILY_MIPS = 3"
| "family_value ANDROID_CPU_FAMILY_ARM64 = 4"
| "family_value ANDROID_CPU_FAMILY_X86_64 = 5"
| "family_value ANDROID_CPU_FAMILY_MIPS64 = 6"

definition ANDROID_CPU_ARM_FEATURE_ARMv7 :: u64 where "ANDROID_CPU_ARM_FEATURE_ARMv7 = push_bit 0 1"
definition ANDROID_CPU_ARM_FEATURE_VFPv3 :: u64 where "ANDROID_CPU_ARM_FEATURE_VFPv3 = push_bit 1 1"
definition ANDROID_CPU_ARM_FEATURE_NEON :: u64 where "ANDROID_CPU_ARM_FEATURE_NEON = push_bit 2 1"
definition ANDROID_CPU_ARM_FEATURE_LDREX_STREX :: u64 where "ANDROID_CPU_ARM_FEATURE_LDREX_STREX = push_bit 3 1"
definition ANDROID_CPU_ARM_FEATURE_VFPv2 :: u64 where "ANDROID_CPU_ARM_FEATURE_VFPv2 = push_bit 4 1"
definition ANDROID_CPU_ARM_FEATURE_VFP_D32 :: u64 where "ANDROID_CPU_ARM_FEATURE_VFP_D32 = push_bit 5 1"
definition ANDROID_CPU_ARM_FEATURE_VFP_FP16 :: u64 where "ANDROID_CPU_ARM_FEATURE_VFP_FP16 = push_bit 6 1"
definition ANDROID_CPU_ARM_FEATURE_VFP_FMA :: u64 where "ANDROID_CPU_ARM_FEATURE_VFP_FMA = push_bit 7 1"
definition ANDROID_CPU_ARM_FEATURE_NEON_FMA :: u64 where "ANDROID_CPU_ARM_FEATURE_NEON_FMA = push_bit 8 1"
definition ANDROID_CPU_ARM_FEATURE_IDIV_ARM :: u64 where "ANDROID_CPU_ARM_FEATURE_IDIV_ARM = push_bit 9 1"
definition ANDROID_CPU_ARM_FEATURE_IDIV_THUMB2 :: u64 where "ANDROID_CPU_ARM_FEATURE_IDIV_THUMB2 = push_bit 10 1"
definition ANDROID_CPU_ARM_FEATURE_iWMMXt :: u64 where "ANDROID_CPU_ARM_FEATURE_iWMMXt = push_bit 11 1"
definition ANDROID_CPU_ARM_FEATURE_AES :: u64 where "ANDROID_CPU_ARM_FEATURE_AES = push_bit 12 1"
definition ANDROID_CPU_ARM_FEATURE_PMULL :: u64 where "ANDROID_CPU_ARM_FEATURE_PMULL = push_bit 13 1"
definition ANDROID_CPU_ARM_FEATURE_SHA1 :: u64 where "ANDROID_CPU_ARM_FEATURE_SHA1 = push_bit 14 1"
definition ANDROID_CPU_ARM_FEATURE_SHA2 :: u64 where "ANDROID_CPU_ARM_FEATURE_SHA2 = push_bit 15 1"
definition ANDROID_CPU_ARM_FEATURE_CRC32 :: u64 where "ANDROID_CPU_ARM_FEATURE_CRC32 = push_bit 16 1"

definition ANDROID_CPU_ARM64_FEATURE_FP :: u64 where "ANDROID_CPU_ARM64_FEATURE_FP = push_bit 0 1"
definition ANDROID_CPU_ARM64_FEATURE_ASIMD :: u64 where "ANDROID_CPU_ARM64_FEATURE_ASIMD = push_bit 1 1"
definition ANDROID_CPU_ARM64_FEATURE_AES :: u64 where "ANDROID_CPU_ARM64_FEATURE_AES = push_bit 2 1"
definition ANDROID_CPU_ARM64_FEATURE_PMULL :: u64 where "ANDROID_CPU_ARM64_FEATURE_PMULL = push_bit 3 1"
definition ANDROID_CPU_ARM64_FEATURE_SHA1 :: u64 where "ANDROID_CPU_ARM64_FEATURE_SHA1 = push_bit 4 1"
definition ANDROID_CPU_ARM64_FEATURE_SHA2 :: u64 where "ANDROID_CPU_ARM64_FEATURE_SHA2 = push_bit 5 1"
definition ANDROID_CPU_ARM64_FEATURE_CRC32 :: u64 where "ANDROID_CPU_ARM64_FEATURE_CRC32 = push_bit 6 1"

definition ANDROID_CPU_X86_FEATURE_SSSE3 :: u64 where "ANDROID_CPU_X86_FEATURE_SSSE3 = push_bit 0 1"
definition ANDROID_CPU_X86_FEATURE_POPCNT :: u64 where "ANDROID_CPU_X86_FEATURE_POPCNT = push_bit 1 1"
definition ANDROID_CPU_X86_FEATURE_MOVBE :: u64 where "ANDROID_CPU_X86_FEATURE_MOVBE = push_bit 2 1"
definition ANDROID_CPU_X86_FEATURE_SSE4_1 :: u64 where "ANDROID_CPU_X86_FEATURE_SSE4_1 = push_bit 3 1"
definition ANDROID_CPU_X86_FEATURE_SSE4_2 :: u64 where "ANDROID_CPU_X86_FEATURE_SSE4_2 = push_bit 4 1"
definition ANDROID_CPU_X86_FEATURE_AES_NI :: u64 where "ANDROID_CPU_X86_FEATURE_AES_NI = push_bit 5 1"
definition ANDROID_CPU_X86_FEATURE_AVX :: u64 where "ANDROID_CPU_X86_FEATURE_AVX = push_bit 6 1"
definition ANDROID_CPU_X86_FEATURE_RDRAND :: u64 where "ANDROID_CPU_X86_FEATURE_RDRAND = push_bit 7 1"
definition ANDROID_CPU_X86_FEATURE_AVX2 :: u64 where "ANDROID_CPU_X86_FEATURE_AVX2 = push_bit 8 1"
definition ANDROID_CPU_X86_FEATURE_SHA_NI :: u64 where "ANDROID_CPU_X86_FEATURE_SHA_NI = push_bit 9 1"

definition ANDROID_CPU_MIPS_FEATURE_R6 :: u64 where "ANDROID_CPU_MIPS_FEATURE_R6 = push_bit 0 1"
definition ANDROID_CPU_MIPS_FEATURE_MSA :: u64 where "ANDROID_CPU_MIPS_FEATURE_MSA = push_bit 1 1"

text \<open>The kernel's capability bits: AArch64, ARM, ARM (second word), MIPS\<close>

definition HWCAP_FP :: u32 where "HWCAP_FP = push_bit 0 1"
definition HWCAP_ASIMD :: u32 where "HWCAP_ASIMD = push_bit 1 1"
definition HWCAP_AES :: u32 where "HWCAP_AES = push_bit 3 1"
definition HWCAP_PMULL :: u32 where "HWCAP_PMULL = push_bit 4 1"
definition HWCAP_SHA1 :: u32 where "HWCAP_SHA1 = push_bit 5 1"
definition HWCAP_SHA2 :: u32 where "HWCAP_SHA2 = push_bit 6 1"
definition HWCAP_CRC32 :: u32 where "HWCAP_CRC32 = push_bit 7 1"

definition HWCAP_VFP :: u32 where "HWCAP_VFP = push_bit 6 1"
definition HWCAP_IWMMXT :: u32 where "HWCAP_IWMMXT = push_bit 9 1"
definition HWCAP_NEON :: u32 where "HWCAP_NEON = push_bit 12 1"
definition HWCAP_VFPv3 :: u32 where "HWCAP_VFPv3 = push_bit 13 1"
definition HWCAP_VFPv3D16 :: u32 where "HWCAP_VFPv3D16 = push_bit 14 1"
definition HWCAP_VFPv4 :: u32 where "HWCAP_VFPv4 = push_bit 16 1"
definition HWCAP_IDIVA :: u32 where "HWCAP_IDIVA = push_bit 17 1"
definition HWCAP_IDIVT :: u32 where "HWCAP_IDIVT = push_bit 18 1"

definition HWCAP2_AES :: u32 where "HWCAP2_AES = push_bit 0 1"
definition HWCAP2_PMULL :: u32 where "HWCAP2_PMULL = push_bit 1 1"
definition HWCAP2_SHA1 :: u32 where "HWCAP2_SHA1 = push_bit 2 1"
definition HWCAP2_SHA2 :: u32 where "HWCAP2_SHA2 = push_bit 3 1"
definition HWCAP2_CRC32 :: u32 where "HWCAP2_CRC32 = push_bit 4 1"

definition HWCAP_SET_FOR_ARMV8 :: u32 where
  "HWCAP_SET_FOR_ARMV8 =
     HWCAP_VFP OR HWCAP_NEON OR HWCAP_VFPv3 OR HWCAP_VFPv4 OR HWCAP_IDIVA OR HWCAP_IDIVT"

definition HWCAP_MIPS_R6 :: u32 where "HWCAP_MIPS_R6 = push_bit 0 1"
definition HWCAP_MIPS_MSA :: u32 where "HWCAP_MIPS_MSA = push_bit 1 1"

abbreviation AT_HWCAP :: nat where "AT_HWCAP \<equiv> 16"
abbreviation AT_HWCAP2 :: nat where "AT_HWCAP2 \<equiv> 26"

section \<open>The environment\<close>

text \<open>
  What the process can find out about its machine: the two openings of \<open>/proc/cpuinfo\<close> (to measure
  and to read it), the sysfs files, the result of \<open>malloc\<close>, the C library's \<open>getauxval\<close> (\<open>None\<close>: the
  library or the symbol is missing), the entries read from \<open>/proc/self/auxv\<close> (\<open>None\<close>: it cannot be
  opened; an error or the end of the file ends the list) and the \<open>cpuid\<close> instruction.
\<close>

datatype arch = Arm | I386 | Mips64 | Mips | Aarch64 | X86_64 | Other

record env =
  env_arch :: arch
  cpuinfo_size :: "ofile option"
  cpuinfo_read :: "ofile option"
  present :: "ofile option"
  possible :: "ofile option"
  malloc_ok :: "nat \<Rightarrow> bool"
  getauxval :: "(nat \<Rightarrow> nat) option"
  auxv :: "(u32 \<times> u32) list option"
  cpuid :: "nat \<Rightarrow> u32 \<times> u32 \<times> u32 \<times> u32"

definition get_elf_hwcap_from_getauxval :: "env \<Rightarrow> nat \<Rightarrow> u32" where
  "get_elf_hwcap_from_getauxval e hwcap_type =
     (case getauxval e of None \<Rightarrow> 0 | Some func \<Rightarrow> of_nat (func hwcap_type))"

fun auxv_loop :: "(u32 \<times> u32) list \<Rightarrow> u32" where
  "auxv_loop [] = 0"
| "auxv_loop ((tag, value) # es) =
     (if tag = 0 \<and> value = 0 then 0
      else if tag = of_nat AT_HWCAP then value
      else auxv_loop es)"

definition get_elf_hwcap_from_proc_self_auxv :: "env \<Rightarrow> u32" where
  "get_elf_hwcap_from_proc_self_auxv e = (case auxv e of None \<Rightarrow> 0 | Some es \<Rightarrow> auxv_loop es)"

text \<open>
  The C library's \<open>strtol\<close> in base 10 with a 32-bit \<open>long\<close>: the value, clamped, and whether any digit
  was taken.
\<close>

definition is_space :: "char \<Rightarrow> bool" where
  "is_space c \<longleftrightarrow> c = CHR '' '' \<or> 9 \<le> (of_char c :: nat) \<and> (of_char c :: nat) \<le> 13"

definition is_digit :: "char \<Rightarrow> bool" where
  "is_digit c \<longleftrightarrow> 48 \<le> (of_char c :: nat) \<and> (of_char c :: nat) \<le> 57"

definition strtol10 :: "string \<Rightarrow> int \<times> bool" where
  "strtol10 s =
     (let s = dropWhile is_space s;
          neg = (s \<noteq> [] \<and> hd s = CHR ''-'');
          s = (if s \<noteq> [] \<and> (hd s = CHR ''-'' \<or> hd s = CHR ''+'') then tl s else s);
          ds = takeWhile is_digit s;
          v = foldl (\<lambda>a c. 10 * a + (of_char c - 48)) 0 ds in
      (if neg then max (- v) (-2147483648) else min v 2147483647, ds \<noteq> []))"

text \<open>\<open>if (has_list_item(list, item)) hwcaps |= flag\<close>\<close>

definition add_if :: "bool \<Rightarrow> 'a::len word \<Rightarrow> 'a word \<Rightarrow> 'a word" where
  "add_if b flag w = (if b then w OR flag else w)"

definition get_elf_hwcap_from_proc_cpuinfo :: "env \<Rightarrow> string \<Rightarrow> u32 option" where
  "get_elf_hwcap_from_proc_cpuinfo e cpuinfo =
     (case extract_cpuinfo_field (malloc_ok e) cpuinfo ''CPU architecture'' of
        Oob \<Rightarrow> None
      | cpuArch \<Rightarrow>
          if (case cpuArch of Field s \<Rightarrow> fst (strtol10 s) \<ge> 8 | _ \<Rightarrow> False) then Some HWCAP_SET_FOR_ARMV8
          else
            (case extract_cpuinfo_field (malloc_ok e) cpuinfo ''Features'' of
               Oob \<Rightarrow> None
             | Null \<Rightarrow> Some 0
             | Field s \<Rightarrow>
                 let item = has_list_item (Some s) in
                 Some
                   (add_if (item ''iwmmxt'') HWCAP_IWMMXT
                   (add_if (item ''idiv'') (HWCAP_IDIVA OR HWCAP_IDIVT)
                   (add_if (item ''idivt'') HWCAP_IDIVT
                   (add_if (item ''idiva'') HWCAP_IDIVA
                   (add_if (item ''neon'') HWCAP_NEON
                   (add_if (item ''vfpv4'') HWCAP_VFPv4
                   (add_if (item ''vfpv3d16'') HWCAP_VFPv3D16
                   (add_if (item ''vfpv3'') HWCAP_VFPv3
                   (add_if (item ''vfp'') HWCAP_VFP 0)))))))))))"

section \<open>Initialisation\<close>

text \<open>The static variables; a zero \<open>g_once\<close> means that no \<open>pthread_once\<close> has run.\<close>

record cpu_state =
  g_once :: bool
  g_inited :: bool
  g_cpuFamily :: AndroidCpuFamily
  g_cpuFeatures :: u64
  g_cpuCount :: int
  g_cpuIdArm :: u32

definition init_state :: cpu_state where
  "init_state = \<lparr>g_once = False, g_inited = False, g_cpuFamily = ANDROID_CPU_FAMILY_UNKNOWN,
     g_cpuFeatures = 0, g_cpuCount = 0, g_cpuIdArm = 0\<rparr>"

fun android_cpuInitFamily :: "arch \<Rightarrow> AndroidCpuFamily" where
  "android_cpuInitFamily Arm = ANDROID_CPU_FAMILY_ARM"
| "android_cpuInitFamily I386 = ANDROID_CPU_FAMILY_X86"
| "android_cpuInitFamily Mips64 = ANDROID_CPU_FAMILY_MIPS64"
| "android_cpuInitFamily Mips = ANDROID_CPU_FAMILY_MIPS"
| "android_cpuInitFamily Aarch64 = ANDROID_CPU_FAMILY_ARM64"
| "android_cpuInitFamily X86_64 = ANDROID_CPU_FAMILY_X86_64"
| "android_cpuInitFamily Other = ANDROID_CPU_FAMILY_UNKNOWN"

text \<open>\<open>if (x & flag)\<close>\<close>

definition has :: "'a::len word \<Rightarrow> 'a word \<Rightarrow> bool" where
  "has w flag \<longleftrightarrow> w AND flag \<noteq> 0"

text \<open>ARM, first part: the architecture number, and the \<open>Processor\<close> field that may contradict it\<close>

definition arm_architecture :: "env \<Rightarrow> string \<Rightarrow> u64 \<Rightarrow> u64 option" where
  "arm_architecture e cpuinfo features =
     (case extract_cpuinfo_field (malloc_ok e) cpuinfo ''CPU architecture'' of
        Oob \<Rightarrow> None
      | Null \<Rightarrow> Some features
      | Field cpuArch \<Rightarrow>
          (case strtol10 cpuArch of (archNumber, digits) \<Rightarrow>
             let hasARMv7 = (digits \<and> archNumber \<ge> 7) in
             (case (if hasARMv7
                    then (case extract_cpuinfo_field (malloc_ok e) cpuinfo ''Processor'' of
                            Oob \<Rightarrow> None
                          | Null \<Rightarrow> Some True
                          | Field cpuProc \<Rightarrow> Some (\<not> has_list_item (Some cpuProc) ''(v6l)''))
                    else Some False) of
                None \<Rightarrow> None
              | Some hasARMv7 \<Rightarrow>
                  Some (add_if (archNumber \<ge> 6) ANDROID_CPU_ARM_FEATURE_LDREX_STREX
                       (add_if hasARMv7 ANDROID_CPU_ARM_FEATURE_ARMv7 features)))))"

text \<open>ARM, second part: the features from the first capability word\<close>

definition arm_hwcap_features :: "u32 \<Rightarrow> u64 \<Rightarrow> u64" where
  "arm_hwcap_features hwcaps f =
     (if hwcaps = 0 then f
      else
        let f = add_if (has hwcaps HWCAP_VFPv4)
                  (ANDROID_CPU_ARM_FEATURE_VFPv3 OR ANDROID_CPU_ARM_FEATURE_VFP_FP16 OR ANDROID_CPU_ARM_FEATURE_VFP_FMA) f;
            f = add_if (has hwcaps HWCAP_VFPv3 \<or> has hwcaps HWCAP_VFPv3D16) ANDROID_CPU_ARM_FEATURE_VFPv3 f;
            f = add_if (has hwcaps HWCAP_VFP)
                  (if has f ANDROID_CPU_ARM_FEATURE_ARMv7 then ANDROID_CPU_ARM_FEATURE_VFPv3
                   else ANDROID_CPU_ARM_FEATURE_VFPv2) f;
            f = add_if (has hwcaps HWCAP_NEON)
                  (ANDROID_CPU_ARM_FEATURE_VFPv3 OR ANDROID_CPU_ARM_FEATURE_NEON OR ANDROID_CPU_ARM_FEATURE_VFP_D32) f;
            f = add_if (has hwcaps HWCAP_NEON \<and> has hwcaps HWCAP_VFPv4) ANDROID_CPU_ARM_FEATURE_NEON_FMA f;
            f = add_if (has f ANDROID_CPU_ARM_FEATURE_VFPv3)
                  (ANDROID_CPU_ARM_FEATURE_VFPv2 OR ANDROID_CPU_ARM_FEATURE_ARMv7) f;
            f = add_if (has hwcaps HWCAP_IDIVA) ANDROID_CPU_ARM_FEATURE_IDIV_ARM f;
            f = add_if (has hwcaps HWCAP_IDIVT) ANDROID_CPU_ARM_FEATURE_IDIV_THUMB2 f in
        add_if (has hwcaps HWCAP_IWMMXT) ANDROID_CPU_ARM_FEATURE_iWMMXt f)"

definition arm_hwcap2_features :: "u32 \<Rightarrow> u64 \<Rightarrow> u64" where
  "arm_hwcap2_features hwcaps2 f =
     (if hwcaps2 = 0 then f
      else
        add_if (has hwcaps2 HWCAP2_CRC32) ANDROID_CPU_ARM_FEATURE_CRC32
        (add_if (has hwcaps2 HWCAP2_SHA2) ANDROID_CPU_ARM_FEATURE_SHA2
        (add_if (has hwcaps2 HWCAP2_SHA1) ANDROID_CPU_ARM_FEATURE_SHA1
        (add_if (has hwcaps2 HWCAP2_PMULL) ANDROID_CPU_ARM_FEATURE_PMULL
        (add_if (has hwcaps2 HWCAP2_AES) ANDROID_CPU_ARM_FEATURE_AES f)))))"

text \<open>ARM, third part: the CPUID from the fields of \<open>/proc/cpuinfo\<close>\<close>

record CpuIdEntry =
  field :: string
  format :: char
  bit_lshift :: nat
  bit_length :: nat

definition cpu_id_entries :: "CpuIdEntry list" where
  "cpu_id_entries =
     [\<lparr>field = ''CPU implementer'', format = CHR ''x'', bit_lshift = 24, bit_length = 8\<rparr>,
      \<lparr>field = ''CPU variant'', format = CHR ''x'', bit_lshift = 20, bit_length = 4\<rparr>,
      \<lparr>field = ''CPU part'', format = CHR ''x'', bit_lshift = 4, bit_length = 12\<rparr>,
      \<lparr>field = ''CPU revision'', format = CHR ''d'', bit_lshift = 0, bit_length = 4\<rparr>]"

definition hex_prefix :: "string \<Rightarrow> bool" where
  "hex_prefix value \<longleftrightarrow>
     2 \<le> length value \<and> value ! 0 = CHR ''0'' \<and> (value ! 1 = CHR ''x'' \<or> value ! 1 = CHR ''X'')"

definition cpu_id_value :: "CpuIdEntry \<Rightarrow> string \<Rightarrow> u32 option" where
  "cpu_id_value entry value =
     map_option (\<lambda>(val, n). push_bit (bit_lshift entry) (val AND (push_bit (bit_length entry) 1 - 1)))
       (if hex_prefix value then parse_hexadecimal (drop 2 value)
        else if format entry = CHR ''x'' then parse_hexadecimal value
        else parse_decimal value)"

fun cpu_id_loop :: "env \<Rightarrow> string \<Rightarrow> CpuIdEntry list \<Rightarrow> u32 \<Rightarrow> u32 option" where
  "cpu_id_loop e cpuinfo [] ident = Some ident"
| "cpu_id_loop e cpuinfo (entry # es) ident =
     (case extract_cpuinfo_field (malloc_ok e) cpuinfo (field entry) of
        Oob \<Rightarrow> None
      | Null \<Rightarrow> cpu_id_loop e cpuinfo es ident
      | Field value \<Rightarrow>
          cpu_id_loop e cpuinfo es (case cpu_id_value entry value of None \<Rightarrow> ident | Some v \<Rightarrow> ident OR v))"

definition cpu_fixes :: "(u32 \<times> u64) list" where
  "cpu_fixes =
     [(0x510006f2, ANDROID_CPU_ARM_FEATURE_IDIV_ARM OR ANDROID_CPU_ARM_FEATURE_IDIV_THUMB2),
      (0x510006f3, ANDROID_CPU_ARM_FEATURE_IDIV_ARM OR ANDROID_CPU_ARM_FEATURE_IDIV_THUMB2)]"

definition apply_fixes :: "u32 \<Rightarrow> u64 \<Rightarrow> u64" where
  "apply_fixes ident f = foldl (\<lambda>f (cpuid, or_flags). add_if (ident = cpuid) or_flags f) f cpu_fixes"

definition goldfish_fix :: "env \<Rightarrow> string \<Rightarrow> AndroidCpuFamily \<Rightarrow> u32 \<Rightarrow> u64 \<Rightarrow> u64 option" where
  "goldfish_fix e cpuinfo family ident f =
     (case extract_cpuinfo_field (malloc_ok e) cpuinfo ''Hardware'' of
        Oob \<Rightarrow> None
      | Null \<Rightarrow> Some f
      | Field hardware \<Rightarrow>
          Some (add_if (hardware = ''Goldfish'' \<and> ident = 0x4100c080
                        \<and> has (family_value family) ANDROID_CPU_ARM_FEATURE_ARMv7)
                  ANDROID_CPU_ARM_FEATURE_IDIV_ARM f))"

definition arm_hwcaps :: "env \<Rightarrow> string \<Rightarrow> u32 option" where
  "arm_hwcaps e cpuinfo =
     (let hwcaps = get_elf_hwcap_from_getauxval e AT_HWCAP;
          hwcaps = (if hwcaps = 0 then get_elf_hwcap_from_proc_self_auxv e else hwcaps) in
      if hwcaps = 0 then get_elf_hwcap_from_proc_cpuinfo e cpuinfo else Some hwcaps)"

definition arm_init :: "env \<Rightarrow> string \<Rightarrow> cpu_state \<Rightarrow> cpu_state option" where
  "arm_init e cpuinfo st =
     Option.bind (arm_architecture e cpuinfo (g_cpuFeatures st)) (\<lambda>f.
     Option.bind (arm_hwcaps e cpuinfo) (\<lambda>hwcaps.
       let f = arm_hwcap_features hwcaps f;
           f = arm_hwcap2_features (get_elf_hwcap_from_getauxval e AT_HWCAP2) f in
     Option.bind (cpu_id_loop e cpuinfo cpu_id_entries (g_cpuIdArm st)) (\<lambda>ident.
     Option.bind (goldfish_fix e cpuinfo (g_cpuFamily st) ident (apply_fixes ident f)) (\<lambda>f.
       Some (st\<lparr>g_cpuFeatures := f, g_cpuIdArm := ident\<rparr>)))))"

definition arm64_features :: "u32 \<Rightarrow> u64 \<Rightarrow> u64" where
  "arm64_features hwcaps f =
     (if hwcaps = 0 then f
      else
        add_if (has hwcaps HWCAP_CRC32) ANDROID_CPU_ARM64_FEATURE_CRC32
        (add_if (has hwcaps HWCAP_SHA2) ANDROID_CPU_ARM64_FEATURE_SHA2
        (add_if (has hwcaps HWCAP_SHA1) ANDROID_CPU_ARM64_FEATURE_SHA1
        (add_if (has hwcaps HWCAP_PMULL) ANDROID_CPU_ARM64_FEATURE_PMULL
        (add_if (has hwcaps HWCAP_AES) ANDROID_CPU_ARM64_FEATURE_AES
        (add_if (has hwcaps HWCAP_ASIMD) ANDROID_CPU_ARM64_FEATURE_ASIMD
        (add_if (has hwcaps HWCAP_FP) ANDROID_CPU_ARM64_FEATURE_FP f)))))))"

definition x86_features :: "(nat \<Rightarrow> u32 \<times> u32 \<times> u32 \<times> u32) \<Rightarrow> u64 \<Rightarrow> u64" where
  "x86_features x86_cpuid f =
     (case (x86_cpuid 0, x86_cpuid 1, x86_cpuid 7) of
        ((_, b0, c0, d0), (_, _, c1, _), (_, b7, _, _)) \<Rightarrow>
          let vendorIsIntel = (b0 = 0x756e6547 \<and> c0 = 0x6c65746e \<and> d0 = 0x49656e69) in
          add_if (has b7 (push_bit 29 1)) ANDROID_CPU_X86_FEATURE_SHA_NI
          (add_if (has b7 (push_bit 5 1)) ANDROID_CPU_X86_FEATURE_AVX2
          (add_if (has c1 (push_bit 30 1)) ANDROID_CPU_X86_FEATURE_RDRAND
          (add_if (has c1 (push_bit 28 1)) ANDROID_CPU_X86_FEATURE_AVX
          (add_if (has c1 (push_bit 25 1)) ANDROID_CPU_X86_FEATURE_AES_NI
          (add_if (vendorIsIntel \<and> has c1 (push_bit 22 1)) ANDROID_CPU_X86_FEATURE_MOVBE
          (add_if (has c1 (push_bit 20 1)) ANDROID_CPU_X86_FEATURE_SSE4_2
          (add_if (has c1 (push_bit 19 1)) ANDROID_CPU_X86_FEATURE_SSE4_1
          (add_if (has c1 (push_bit 23 1)) ANDROID_CPU_X86_FEATURE_POPCNT
          (add_if (has c1 (push_bit 9 1)) ANDROID_CPU_X86_FEATURE_SSSE3 f))))))))))"

definition mips_features :: "u32 \<Rightarrow> u64 \<Rightarrow> u64" where
  "mips_features hwcaps f =
     (if hwcaps = 0 then f
      else add_if (has hwcaps HWCAP_MIPS_MSA) ANDROID_CPU_MIPS_FEATURE_MSA
           (add_if (has hwcaps HWCAP_MIPS_R6) ANDROID_CPU_MIPS_FEATURE_R6 f))"

definition arch_init :: "env \<Rightarrow> string \<Rightarrow> cpu_state \<Rightarrow> cpu_state option" where
  "arch_init e cpuinfo st =
     (case env_arch e of
        Arm \<Rightarrow> arm_init e cpuinfo st
      | Aarch64 \<Rightarrow>
          Some (st\<lparr>g_cpuFeatures := arm64_features (get_elf_hwcap_from_getauxval e AT_HWCAP) (g_cpuFeatures st)\<rparr>)
      | I386 \<Rightarrow> Some (st\<lparr>g_cpuFeatures := x86_features (cpuid e) (g_cpuFeatures st)\<rparr>)
      | X86_64 \<Rightarrow> Some (st\<lparr>g_cpuFeatures := x86_features (cpuid e) (g_cpuFeatures st)\<rparr>)
      | Mips \<Rightarrow>
          Some (st\<lparr>g_cpuFeatures := mips_features (get_elf_hwcap_from_getauxval e AT_HWCAP) (g_cpuFeatures st)\<rparr>)
      | Mips64 \<Rightarrow>
          Some (st\<lparr>g_cpuFeatures := mips_features (get_elf_hwcap_from_getauxval e AT_HWCAP) (g_cpuFeatures st)\<rparr>)
      | Other \<Rightarrow> Some st)"

text \<open>\<open>android_cpuInit\<close>; \<open>None\<close> is an undefined access on the way.\<close>

definition android_cpuInit :: "env \<Rightarrow> cpu_state \<Rightarrow> cpu_state option" where
  "android_cpuInit e st =
     (let st = st\<lparr>g_cpuFamily := android_cpuInitFamily (env_arch e), g_cpuFeatures := 0, g_cpuCount := 1, g_inited := True\<rparr> in
      case get_file_size (cpuinfo_size e) of
        None \<Rightarrow> None
      | Some cpuinfo_len \<Rightarrow>
          if cpuinfo_len < 0 then Some st
          else if \<not> malloc_ok e (nat cpuinfo_len) then Some st
          else
            (case read_file (cpuinfo_read e) (nat cpuinfo_len) of
               None \<Rightarrow> None
             | Some (cpuinfo_len, cpuinfo) \<Rightarrow>
                 if cpuinfo_len < 0 then Some st
                 else
                   (case get_cpu_count (present e) (possible e) of
                      None \<Rightarrow> None
                    | Some n \<Rightarrow> arch_init e cpuinfo (st\<lparr>g_cpuCount := (if n = 0 then 1 else int n)\<rparr>))))"

section \<open>The public functions\<close>

text \<open>\<open>pthread_once(&g_once, f)\<close>\<close>

definition pthread_once :: "(cpu_state \<Rightarrow> cpu_state option) \<Rightarrow> cpu_state \<Rightarrow> cpu_state option" where
  "pthread_once f st = (if g_once st then Some st else map_option (\<lambda>st. st\<lparr>g_once := True\<rparr>) (f st))"

definition android_getCpuFamily :: "env \<Rightarrow> cpu_state \<Rightarrow> (AndroidCpuFamily \<times> cpu_state) option" where
  "android_getCpuFamily e st = map_option (\<lambda>st. (g_cpuFamily st, st)) (pthread_once (android_cpuInit e) st)"

definition android_getCpuFeatures :: "env \<Rightarrow> cpu_state \<Rightarrow> (u64 \<times> cpu_state) option" where
  "android_getCpuFeatures e st = map_option (\<lambda>st. (g_cpuFeatures st, st)) (pthread_once (android_cpuInit e) st)"

definition android_getCpuCount :: "env \<Rightarrow> cpu_state \<Rightarrow> (int \<times> cpu_state) option" where
  "android_getCpuCount e st = map_option (\<lambda>st. (g_cpuCount st, st)) (pthread_once (android_cpuInit e) st)"

definition android_cpuInitDummy :: "cpu_state \<Rightarrow> cpu_state option" where
  "android_cpuInitDummy st = Some (st\<lparr>g_inited := True\<rparr>)"

definition android_setCpu :: "env \<Rightarrow> int \<Rightarrow> u64 \<Rightarrow> cpu_state \<Rightarrow> (bool \<times> cpu_state) option" where
  "android_setCpu e cpu_count cpu_features st =
     (if g_inited st then Some (False, st)
      else
        map_option (\<lambda>st. (True, st))
          (pthread_once android_cpuInitDummy
             (st\<lparr>g_cpuFamily := android_cpuInitFamily (env_arch e),
                g_cpuCount := (if cpu_count \<le> 0 then 1 else cpu_count),
                g_cpuFeatures := cpu_features\<rparr>)))"

definition android_getCpuIdArm :: "env \<Rightarrow> cpu_state \<Rightarrow> (u32 \<times> cpu_state) option" where
  "android_getCpuIdArm e st = map_option (\<lambda>st. (g_cpuIdArm st, st)) (pthread_once (android_cpuInit e) st)"

definition android_setCpuArm :: "env \<Rightarrow> int \<Rightarrow> u64 \<Rightarrow> u32 \<Rightarrow> cpu_state \<Rightarrow> (bool \<times> cpu_state) option" where
  "android_setCpuArm e cpu_count cpu_features cpu_id st =
     (case android_setCpu e cpu_count cpu_features st of
        None \<Rightarrow> None
      | Some (ok, st) \<Rightarrow> if ok then Some (True, st\<lparr>g_cpuIdArm := cpu_id\<rparr>) else Some (False, st))"

end
