(* ===== verification/Cpu_Text_Facts.thy ===== *)
theory Cpu_Text_Facts
  imports Cpu_Text
begin

text \<open>
  Reading and parsing: a file is read completely however the kernel splits or interrupts the reads, a
  field is found where a line starts with it, an item is found exactly when it is one of the words
  of the list, and numbers are read as printed.
\<close>

section \<open>Reading\<close>

lemma sys_read_ok:
  assumes "sys_read n f = (ROk bs, f')" "0 < n"
  shows "contents f = bs @ contents f'" "length bs \<le> n" "bs = [] \<Longrightarrow> contents f = []" "set (events f') \<subseteq> set (events f)"
  using assms by (auto simp: sys_read.simps Let_def split: list.splits read_event.splits)

lemma sys_read_intr:
  assumes "sys_read n f = (REintr, f')"
  shows "contents f' = contents f" "set (events f') \<subseteq> set (events f)"
  using assms by (auto simp: sys_read.simps Let_def split: list.splits read_event.splits)

lemma sys_read_no_error: "sys_read n f = (RError, f') \<Longrightarrow> Fail \<in> set (events f)"
  by (auto simp: sys_read.simps Let_def split: list.splits read_event.splits)

lemma size_loop_total:
  "Fail \<notin> set (events f) \<Longrightarrow> 0 \<le> r \<Longrightarrow> r + int (length (contents f)) \<le> INT_MAX \<Longrightarrow>
     size_loop f r = Some (r + int (length (contents f)))"
proof (induction f r rule: size_loop.induct)
  case (1 f r)
  obtain x f' where x: "sys_read 256 f = (x, f')" by force
  show ?case
  proof (cases x)
    case REintr
    note f' = sys_read_intr [OF x [unfolded REintr]]
    have "size_loop f r = size_loop f' r" using x REintr by (simp add: size_loop.simps [of f])
    moreover have "Fail \<notin> set (events f')" using 1(3) f'(2) by blast
    ultimately show ?thesis using 1(1) [OF x [symmetric] REintr] 1(4,5) f'(1) by simp
  next
    case RError
    with x 1(3) sys_read_no_error show ?thesis by blast
  next
    case (ROk bs)
    note f' = sys_read_ok [OF x [unfolded ROk]]
    show ?thesis
    proof (cases "bs = []")
      case True
      with f'(3) x ROk show ?thesis by (simp add: size_loop.simps [of f])
    next
      case False
      have len: "\<not> r + int (length bs) > INT_MAX" using 1(5) f'(1) by simp
      have "size_loop f r = size_loop f' (r + int (length bs))" using x ROk False len by (simp add: size_loop.simps [of f])
      moreover have "Fail \<notin> set (events f')" using 1(3) f'(4) by auto
      ultimately show ?thesis using 1(2) [OF x [symmetric] ROk False len] 1(4,5) f'(1) by simp
    qed
  qed
qed

lemma read_loop_total:
  "Fail \<notin> set (events f) \<Longrightarrow> length b \<le> n \<Longrightarrow> n < 2 ^ 31 \<Longrightarrow>
     read_loop n f b = Some (int (min n (length b + length (contents f))), b @ take (n - length b) (contents f))"
proof (induction n f b rule: read_loop.induct)
  case (1 n f b)
  obtain x f' where x: "sys_read (n - length b) f = (x, f')" by force
  note n = c_int_small [OF 1(5)]
  show ?case
  proof (cases "int (length b) < c_int n")
    case True
    then have pos: "0 < n - length b" using n by simp
    show ?thesis
    proof (cases x)
      case REintr
      note f' = sys_read_intr [OF x [unfolded REintr]]
      have "read_loop n f b = read_loop n f' b" using x REintr True by (simp add: read_loop.simps [of n f])
      moreover have "Fail \<notin> set (events f')" using 1(3) f'(2) by blast
      ultimately show ?thesis using 1(1) [OF True x [symmetric] REintr] 1(4,5) f'(1) by simp
    next
      case RError
      with x 1(3) sys_read_no_error show ?thesis by blast
    next
      case (ROk bs)
      note f' = sys_read_ok [OF x [unfolded ROk] pos]
      show ?thesis
      proof (cases "bs = []")
        case eof: True
        with f'(3) x ROk True 1(4) show ?thesis by (simp add: read_loop.simps [of n f])
      next
        case False
        have len: "\<not> int (length b) + int (length bs) > INT_MAX" using f'(2) 1(5) pos by simp
        have "read_loop n f b = read_loop n f' (b @ bs)" using x ROk True False len by (simp add: read_loop.simps [of n f])
        also have "\<dots> = Some (int (min n (length (b @ bs) + length (contents f'))), (b @ bs) @ take (n - length (b @ bs)) (contents f'))"
          using 1(2) [OF True x [symmetric] ROk False len] 1(3,5) f'(2,4) pos by fastforce
        finally show ?thesis using f'(1,2) by simp
      qed
    qed
  next
    case False
    with 1(4) n show ?thesis by (simp add: read_loop.simps [of n f])
  qed
qed

text \<open>
  C31: However the kernel interrupts and splits the reads, as long as none fails and the file and the
  buffer are shorter than 2 GiB, \<open>get_file_size\<close> returns the length of the file and \<open>read_file\<close> stores
  the file up to the size of the buffer and returns the number of bytes stored; no \<open>int\<close> overflows on
  the way.
\<close>

theorem file_read_complete:
  assumes "Fail \<notin> set (events f)" "length (contents f) < 2 ^ 31" "n < 2 ^ 31"
  shows "get_file_size (Some f) = Some (int (length (contents f)))
     \<and> read_file (Some f) n = Some (int (min n (length (contents f))), take n (contents f))"
  using size_loop_total [OF assms(1), of 0] read_loop_total [OF assms(1) _ assms(3), of "[]"] assms(2)
  by (simp add: get_file_size_def read_file_def)

theorem file_read_complete_witness:
  "get_file_size (Some \<lparr>contents = ''0-3'', events = [Intr, Short 0, Intr]\<rparr>) = Some 3 \<and>
   read_file (Some \<lparr>contents = ''0-3'', events = [Intr, Short 0, Intr]\<rparr>) 2 = Some (2, ''0-'')"
  using file_read_complete [of "\<lparr>contents = ''0-3'', events = [Intr, Short 0, Intr]\<rparr>" 2] by simp

text \<open>What is read is a prefix of the file, failures included.\<close>

lemma read_loop_prefix: "read_loop n f b = Some (c, out) \<Longrightarrow> \<exists>k. out = b @ take k (contents f)"
proof (induction n f b arbitrary: c out rule: read_loop.induct)
  case (1 n f b)
  obtain r f' where r: "sys_read (n - length b) f = (r, f')" by force
  show ?case
  proof (cases "int (length b) < c_int n")
    case True
    then have pos: "0 < n - length b" using c_int_le [of n] by linarith
    show ?thesis
    proof (cases r)
      case REintr
      then show ?thesis using 1(1) [OF True r [symmetric]] 1(3) True r sys_read_intr(1)
        by (simp add: read_loop.simps [of n f])
    next
      case RError
      then have "out = b" using 1(3) True r by (auto simp: read_loop.simps [of n f] split: if_splits)
      then show ?thesis by (intro exI [of _ 0]) simp
    next
      case (ROk bs)
      note f' = sys_read_ok [OF r [unfolded ROk] pos]
      show ?thesis
      proof (cases "bs = []")
        case eof: True
        then have "out = b" using 1(3) True r ROk by (simp add: read_loop.simps [of n f])
        then show ?thesis by (intro exI [of _ 0]) simp
      next
        case False
        then have "read_loop n f' (b @ bs) = Some (c, out)" "\<not> int (length b) + int (length bs) > INT_MAX"
          using 1(3) True r ROk by (auto simp: read_loop.simps [of n f] split: if_splits)
        then obtain k where "out = (b @ bs) @ take k (contents f')" using 1(2) [OF True r [symmetric] ROk False] by blast
        then show ?thesis unfolding f'(1) by (intro exI [of _ "length bs + k"]) simp
      qed
    qed
  next
    case False
    then show ?thesis using 1(3) by (intro exI [of _ 0]) (simp add: read_loop.simps [of n f])
  qed
qed

text \<open>A buffer that \<open>int\<close> can measure is read without overflow.\<close>

lemma read_loop_defined: "length b \<le> n \<Longrightarrow> n < 2 ^ 31 \<Longrightarrow> \<exists>c out. read_loop n f b = Some (c, out)"
proof (induction n f b rule: read_loop.induct)
  case (1 n f b)
  obtain r f' where r: "sys_read (n - length b) f = (r, f')" by force
  note n = c_int_small [OF 1(4)]
  show ?case
  proof (cases "int (length b) < c_int n")
    case True
    then have pos: "0 < n - length b" using n by simp
    show ?thesis
    proof (cases r)
      case (ROk bs)
      note f' = sys_read_ok [OF r [unfolded ROk] pos]
      then have "\<not> int (length b) + int (length bs) > INT_MAX" "length (b @ bs) \<le> n" using 1(4) pos by auto
      then show ?thesis using 1(2) [OF True r [symmetric] ROk] 1(4) True r ROk by (cases "bs = []") (auto simp: read_loop.simps [of n f])
    qed (use 1(1) [OF True r [symmetric]] 1(3,4) True r in \<open>auto simp: read_loop.simps [of n f]\<close>)
  qed (simp add: read_loop.simps [of n f])
qed

section \<open>Items of a list\<close>

text \<open>\<open>item\<close> is one of the blank-separated words of \<open>l\<close>.\<close>

definition word_of :: "string \<Rightarrow> string \<Rightarrow> bool" where
  "word_of item l \<longleftrightarrow>
     (\<exists>pre post. l = pre @ item @ post \<and> (pre = [] \<or> is_blank (last pre)) \<and> (post = [] \<or> is_blank (hd post)))"

definition solid :: "string \<Rightarrow> bool" where
  "solid item \<longleftrightarrow> item \<noteq> [] \<and> (\<forall>c \<in> set item. \<not> is_blank c)"

lemma word_of_Nil [simp]: "solid item \<Longrightarrow> \<not> word_of item []"
  by (simp add: word_of_def solid_def)

lemma dropWhile_last: "dropWhile P xs \<noteq> [] \<Longrightarrow> last (dropWhile P xs) = last xs"
  by (metis last_appendR takeWhile_dropWhile_id)

lemma word_of_skip:
  assumes "solid item"
  shows "word_of item (dropWhile is_blank l) \<longleftrightarrow> word_of item l"
proof
  assume "word_of item (dropWhile is_blank l)"
  then obtain pre post where d: "dropWhile is_blank l = pre @ item @ post" "pre = [] \<or> is_blank (last pre)"
      "post = [] \<or> is_blank (hd post)" by (auto simp: word_of_def)
  let ?pre = "takeWhile is_blank l @ pre"
  have "?pre = [] \<or> is_blank (last ?pre)"
    using d(2) set_takeWhileD [of "last (takeWhile is_blank l)" is_blank l]
    by (cases "pre = []"; cases "takeWhile is_blank l = []") auto
  moreover have "l = ?pre @ item @ post" using d(1) by (metis append_assoc takeWhile_dropWhile_id)
  ultimately show "word_of item l" using d(3) unfolding word_of_def by blast
next
  assume "word_of item l"
  then obtain pre post where l: "l = pre @ item @ post" "pre = [] \<or> is_blank (last pre)"
      "post = [] \<or> is_blank (hd post)" by (auto simp: word_of_def)
  have "dropWhile is_blank l = dropWhile is_blank pre @ item @ post"
  proof (cases "\<forall>c \<in> set pre. is_blank c")
    case True
    with assms l(1) show ?thesis
      by (cases item) (auto simp: solid_def dropWhile_append2 dropWhile_eq_Nil_conv [THEN iffD2])
  next
    case False
    with l(1) show ?thesis by (auto simp: dropWhile_append1)
  qed
  moreover have "dropWhile is_blank pre = [] \<or> is_blank (last (dropWhile is_blank pre))"
    using l(2) by (metis dropWhile.simps(1) dropWhile_last)
  ultimately show "word_of item (dropWhile is_blank l)" using l(3) unfolding word_of_def by blast
qed

lemma word_of_step:
  assumes "solid item" "l = [] \<or> \<not> is_blank (hd l)"
  shows "word_of item l \<longleftrightarrow>
    takeWhile (\<lambda>c. \<not> is_blank c) l = item \<or> word_of item (dropWhile (\<lambda>c. \<not> is_blank c) l)" (is "_ \<longleftrightarrow> ?w = item \<or> word_of item ?q")
proof
  assume "word_of item l"
  then obtain pre post where l: "l = pre @ item @ post" "pre = [] \<or> is_blank (last pre)"
      "post = [] \<or> is_blank (hd post)" by (auto simp: word_of_def)
  show "?w = item \<or> word_of item ?q"
  proof (cases "pre = []")
    case True
    have "takeWhile (\<lambda>c. \<not> is_blank c) post = []" using l(3) by (cases post) auto
    then have "?w = item" using True l(1) assms(1) by (simp add: takeWhile_append2 solid_def)
    then show ?thesis ..
  next
    case False
    then have b: "last pre \<in> set pre" "is_blank (last pre)" using l(2) by auto
    then have q: "?q = dropWhile (\<lambda>c. \<not> is_blank c) pre @ item @ post"
      using l(1) dropWhile_append1 [of "last pre" pre "\<lambda>c. \<not> is_blank c" "item @ post"] by simp
    moreover have "dropWhile (\<lambda>c. \<not> is_blank c) pre \<noteq> []" using b by (auto simp: dropWhile_eq_Nil_conv)
    ultimately have "word_of item ?q"
      using l(3) b(2) dropWhile_last [of "\<lambda>c. \<not> is_blank c" pre] unfolding word_of_def by metis
    then show ?thesis ..
  qed
next
  have q0: "?q = [] \<or> is_blank (hd ?q)" by (metis hd_dropWhile)
  assume "?w = item \<or> word_of item ?q"
  then show "word_of item l"
  proof
    assume "?w = item"
    then have "l = [] @ item @ ?q" by (metis append_Nil takeWhile_dropWhile_id)
    with q0 show ?thesis unfolding word_of_def by blast
  next
    assume "word_of item ?q"
    then obtain pre post where d: "?q = pre @ item @ post" "pre = [] \<or> is_blank (last pre)"
        "post = [] \<or> is_blank (hd post)" by (auto simp: word_of_def)
    have "pre \<noteq> []" using d(1) q0 assms(1) by (cases item) (auto simp: solid_def)
    moreover have "l = (?w @ pre) @ item @ post" using d(1) by (metis append_assoc takeWhile_dropWhile_id)
    ultimately show ?thesis using d unfolding word_of_def by (metis append_is_Nil_conv last_appendR)
  qed
qed

lemma item_test:
  "length item = length p - length (dropWhile P p) \<and> take (length item) p = item \<longleftrightarrow> takeWhile P p = item"
proof -
  have "p = takeWhile P p @ dropWhile P p" by simp
  then have "length p - length (dropWhile P p) = length (takeWhile P p)"
    by (metis add_diff_cancel_right' length_append)
  then show ?thesis by (metis takeWhile_eq_take)
qed

lemma item_progress: "p \<noteq> [] \<Longrightarrow> length (dropWhile (\<lambda>c. \<not> is_blank c) (dropWhile is_blank p)) < length p"
  by (cases p) (auto simp: le_imp_less_Suc length_dropWhile_le order_trans [OF length_dropWhile_le])

lemma list_item_loop_words:
  assumes "solid item"
  shows "list_item_loop p item \<longleftrightarrow> word_of item p"
proof (induction "length p" arbitrary: p rule: less_induct)
  case less
  show ?case
  proof (cases "p = []")
    case True
    then show ?thesis using assms by (simp add: list_item_loop.simps)
  next
    case False
    let ?s = "dropWhile is_blank p"
    let ?q = "dropWhile (\<lambda>c. \<not> is_blank c) ?s"
    have "list_item_loop p item \<longleftrightarrow> takeWhile (\<lambda>c. \<not> is_blank c) ?s = item \<or> list_item_loop ?q item"
      using False by (subst list_item_loop.simps) (simp only: Let_def item_test if_False simp_thms split: if_split, blast)
    moreover have "length ?q < length p" using False by (rule item_progress)
    moreover have "?s = [] \<or> \<not> is_blank (hd ?s)" by (metis hd_dropWhile)
    ultimately show ?thesis
      using less.hyps [of ?q] word_of_step [OF assms, of ?s] word_of_skip [OF assms, of p] by simp
  qed
qed

text \<open>
  C30: \<open>has_list_item\<close> finds an item, a non-empty string without blanks, exactly when it is one of the
  blank-separated words of the list: never a part of a longer word, and never in a null list.
\<close>

theorem has_list_item_words:
  assumes "solid item"
  shows "has_list_item None item = False \<and> (has_list_item (Some l) item \<longleftrightarrow> word_of item l)"
  using list_item_loop_words [OF assms] by (simp add: has_list_item_def)

theorem has_list_item_words_witness:
  "has_list_item (Some ''vfpv3 neon'') ''neon'' \<longleftrightarrow> word_of ''neon'' ''vfpv3 neon''"
  using has_list_item_words [of "''neon''" "''vfpv3 neon''"] by (simp add: solid_def is_blank_def)

section \<open>Fields\<close>

abbreviation NL :: char where
  "NL \<equiv> CHR 0x0A"

definition occurs_at :: "string \<Rightarrow> string \<Rightarrow> nat \<Rightarrow> bool" where
  "occurs_at buffer field r \<longleftrightarrow> take (length field) (drop r buffer) = field"

text \<open>A line of the buffer starts with the field at \<open>r\<close>.\<close>

definition line_at :: "string \<Rightarrow> string \<Rightarrow> nat \<Rightarrow> bool" where
  "line_at buffer field r \<longleftrightarrow> occurs_at buffer field r \<and> (r = 0 \<or> buffer ! (r - 1) = NL)"

lemma memmem_Some: "memmem hay needle = Some i \<Longrightarrow> occurs_at hay needle i \<and> (\<forall>j<i. \<not> occurs_at hay needle j)"
proof (induction hay arbitrary: i)
  case Nil
  then show ?case by (auto simp: memmem.simps [of "[]"] occurs_at_def split: if_splits)
next
  case (Cons x hay)
  show ?case
  proof (cases "take (length needle) (x # hay) = needle")
    case True
    with Cons.prems show ?thesis by (auto simp: memmem.simps [of "x # hay"] occurs_at_def)
  next
    case False
    then obtain k where k: "memmem hay needle = Some k" "i = Suc k"
      using Cons.prems by (auto simp: memmem.simps [of "x # hay"])
    have "\<not> occurs_at (x # hay) needle j" if "j < i" for j
      using that Cons.IH [OF k(1)] False k(2) by (cases j) (auto simp: occurs_at_def)
    with Cons.IH [OF k(1)] k(2) show ?thesis by (simp add: occurs_at_def)
  qed
qed

lemma memmem_None: "memmem hay needle = None \<Longrightarrow> \<not> occurs_at hay needle i"
proof (induction hay arbitrary: i)
  case Nil
  then show ?case by (auto simp: memmem.simps [of "[]"] occurs_at_def split: if_splits)
next
  case (Cons x hay)
  then show ?case by (cases i) (auto simp: memmem.simps [of "x # hay"] occurs_at_def split: if_splits)
qed

lemma occurs_at_drop: "occurs_at (drop p buffer) field i \<longleftrightarrow> occurs_at buffer field (p + i)"
  by (simp add: occurs_at_def add.commute)

lemma occurs_at_nth:
  assumes "occurs_at buffer field r" "k < length field"
  shows "buffer ! (r + k) = field ! k"
proof -
  have "r \<le> length buffer" using assms by (cases "r \<le> length buffer") (auto simp: occurs_at_def)
  moreover have "field ! k = take (length field) (drop r buffer) ! k" using assms(1) by (simp add: occurs_at_def)
  ultimately show ?thesis using assms(2) by simp
qed

lemma find_field_least:
  assumes "field \<noteq> []" "NL \<notin> set field"
  shows "find_field buffer field p =
    (if \<exists>r\<ge>p. line_at buffer field r then Some (LEAST r. p \<le> r \<and> line_at buffer field r) else None)"
proof (induction "length buffer - p" arbitrary: p rule: less_induct)
  case less
  show ?case
  proof (cases "memmem (drop p buffer) field")
    case None
    then have "\<not> occurs_at buffer field r" if "p \<le> r" for r
      using memmem_None [OF None, of "r - p"] that by (simp add: occurs_at_drop)
    with None assms(1) show ?thesis by (subst find_field.simps) (auto simp: line_at_def)
  next
    case (Some i)
    have occ: "occurs_at buffer field (p + i)" "\<And>j. p \<le> j \<Longrightarrow> j < p + i \<Longrightarrow> \<not> occurs_at buffer field j"
    proof -
      show "occurs_at buffer field (p + i)" using memmem_Some [OF Some] by (simp add: occurs_at_drop)
      show "\<not> occurs_at buffer field j" if "p \<le> j" "j < p + i" for j
        using memmem_Some [OF Some] that by (auto simp: occurs_at_drop dest!: spec [of _ "j - p"])
    qed
    show ?thesis
    proof (cases "p + i = 0 \<or> buffer ! (p + i - 1) = NL")
      case True
      then have here: "line_at buffer field (p + i)" using occ(1) by (simp add: line_at_def)
      have "(LEAST r. p \<le> r \<and> line_at buffer field r) = p + i"
      proof (rule Least_equality)
        fix r assume "p \<le> r \<and> line_at buffer field r"
        then show "p + i \<le> r" using occ(2) [of r] by (metis leI line_at_def)
      qed (use here in simp)
      moreover have "find_field buffer field p = Some (p + i)"
        using Some assms(1) True by (subst find_field.simps) (auto simp: Let_def)
      moreover have "\<exists>r\<ge>p. line_at buffer field r" using here le_add1 by blast
      ultimately show ?thesis by simp
    next
      case False
      let ?p = "p + i + length field"
      have skip: "p \<le> r \<and> line_at buffer field r \<longleftrightarrow> ?p \<le> r \<and> line_at buffer field r" for r
      proof
        assume r: "p \<le> r \<and> line_at buffer field r"
        have "\<not> r < p + i" using occ(2) [of r] r by (auto simp: line_at_def)
        moreover have "r \<noteq> p + i" using r False by (auto simp: line_at_def)
        moreover have False if "p + i < r" "r < ?p"
        proof -
          have k: "r - 1 - (p + i) < length field" "p + i + (r - 1 - (p + i)) = r - 1" using that by auto
          have "buffer ! (r - 1) = NL" using r that by (auto simp: line_at_def)
          then have "NL \<in> set field" using occurs_at_nth [OF occ(1) k(1)] k by (metis nth_mem)
          with assms(2) show False by simp
        qed
        ultimately show "?p \<le> r \<and> line_at buffer field r" using r by (meson not_less_iff_gr_or_eq leI)
      qed auto
      have "find_field buffer field p = find_field buffer field ?p"
        using Some assms(1) False by (subst find_field.simps) (auto simp: Let_def)
      also have "\<dots> = (if \<exists>r\<ge>?p. line_at buffer field r then Some (LEAST r. ?p \<le> r \<and> line_at buffer field r) else None)"
        using field_progress [OF Some assms(1)] by (rule less)
      finally show ?thesis unfolding skip [symmetric] by (simp add: skip)
    qed
  qed
qed

lemma memchr_append: "c \<notin> set xs \<Longrightarrow> memchr (xs @ c # ys) c = Some (length xs)"
  by (induction xs) auto

lemma memchr_Some: "memchr xs c = Some i \<Longrightarrow> i < length xs \<and> xs ! i = c"
  by (induction xs arbitrary: i) (auto split: if_splits)

lemma line_at_append: "pre = [] \<or> last pre = NL \<Longrightarrow> line_at (pre @ field @ rest) field (length pre)"
  by (cases "pre = []") (simp_all add: line_at_def occurs_at_def nth_append last_conv_nth)

text \<open>
  C29: A field of \<open>/proc/cpuinfo\<close> is read back: when the first line that starts with the field is the
  field, characters other than a colon, a colon, a space and a value, \<open>extract_cpuinfo_field\<close> returns that
  value.
\<close>

theorem extract_cpuinfo_field_line:
  assumes "field \<noteq> []" "NL \<notin> set field" "CHR '':'' \<notin> set mid" "NL \<notin> set value" "pre = [] \<or> last pre = NL"
    and "\<forall>r < length pre. \<not> line_at (pre @ field @ mid @ '': '' @ value @ NL # post) field r"
    and "malloc_ok (length value + 1)"
  shows "extract_cpuinfo_field malloc_ok (pre @ field @ mid @ '': '' @ value @ NL # post) field = Field value"
proof -
  let ?b = "pre @ field @ mid @ '': '' @ value @ NL # post"
  have here: "line_at ?b field (length pre)"
    using assms(5) by (rule line_at_append)
  have "(LEAST r. 0 \<le> r \<and> line_at ?b field r) = length pre"
    using here assms(6) by (intro Least_equality) (auto simp: not_less [symmetric])
  then have f: "find_field ?b field 0 = Some (length pre)"
    using here find_field_least [OF assms(1,2), of ?b 0] by auto
  have c: "memchr (drop (length pre + length field) ?b) CHR '':'' = Some (length mid)"
    using memchr_append [OF assms(3), of "'' '' @ value @ NL # post"] by simp
  have s: "rd ?b (length pre + length field + length mid + 1) = Some CHR '' ''"
    by (simp add: rd_def nth_append)
  have d: "drop (length pre + length field + length mid + 2) ?b = value @ NL # post" by simp
  show ?thesis
    unfolding extract_cpuinfo_field_def f option.case Let_def c s d memchr_append [OF assms(4)]
    using assms(7) by simp
qed

theorem extract_cpuinfo_field_line_witness:
  "extract_cpuinfo_field (\<lambda>_. True) ([] @ ''CPU part'' @ [CHR 0x09] @ '': '' @ ''0xc08'' @ NL # []) ''CPU part'' = Field ''0xc08''"
  using extract_cpuinfo_field_line [of "''CPU part''" "[CHR 0x09]" "''0xc08''" "[]" "[]" "\<lambda>_. True"] by simp

lemma field_inside:
  assumes "buffer = [] \<or> last buffer \<noteq> CHR '':''"
  shows "extract_cpuinfo_field malloc_ok buffer field \<noteq> Oob"
proof
  assume "extract_cpuinfo_field malloc_ok buffer field = Oob"
  then obtain p i where p: "memchr (drop p buffer) CHR '':'' = Some i" "rd buffer (p + i + 1) = None"
    by (auto simp: extract_cpuinfo_field_def Let_def split: option.splits if_splits)
  then have "i < length buffer - p" "buffer ! (p + i) = CHR '':''" "length buffer \<le> p + i + 1"
    using memchr_Some [OF p(1)] by (auto simp: rd_None_iff)
  then have "buffer \<noteq> []" "length buffer - 1 = p + i" by auto
  then have "last buffer = CHR '':''" using \<open>buffer ! (p + i) = CHR '':''\<close> by (simp add: last_conv_nth)
  with assms \<open>buffer \<noteq> []\<close> show False by simp
qed

text \<open>
  C32: \<open>extract_cpuinfo_field\<close> leaves its buffer only when the text ends in a colon: text that ends otherwise,
  as every line of \<open>/proc/cpuinfo\<close> does, is searched without an access outside it.
\<close>

theorem extract_cpuinfo_field_inside:
  assumes "buffer = [] \<or> last buffer \<noteq> CHR '':''"
  shows "extract_cpuinfo_field malloc_ok buffer field \<noteq> Oob"
  using assms by (rule field_inside)

theorem extract_cpuinfo_field_inside_witness:
  "extract_cpuinfo_field (\<lambda>_. True) (''Features: neon'' @ [NL]) ''Features'' \<noteq> Oob"
  using extract_cpuinfo_field_inside [of "''Features: neon'' @ [NL]" "\<lambda>_. True" "''Features''"] by simp

text \<open>
  Text that ends in a colon makes it read one character past its buffer.
\<close>

theorem extract_cpuinfo_field_past_end:
  "extract_cpuinfo_field malloc_ok ''Hardware:'' ''Hardware'' = Oob"
  by (simp add: extract_cpuinfo_field_def find_field.simps memmem.simps rd_def)

section \<open>Numbers\<close>

definition digit_char :: "nat \<Rightarrow> char" where
  "digit_char d = char_of (48 + d)"

fun decimal :: "nat \<Rightarrow> string" where
  "decimal n = (if n < 10 then [digit_char n] else decimal (n div 10) @ [digit_char (n mod 10)])"

declare decimal.simps [simp del]

lemma digit_of_char [simp]: "d < 10 \<Longrightarrow> digit_of (digit_char d) = Some (int d)"
proof -
  assume "d < 10"
  then have "(of_char (digit_char d) :: nat) = 48 + d" by (simp add: digit_char_def)
  then have "(of_char (digit_char d) :: int) = 48 + int d"
    by (metis of_nat_of_char of_nat_add of_nat_numeral)
  with \<open>d < 10\<close> show ?thesis by (simp add: digit_of_def)
qed

text \<open>A decimal number ends before \<open>rest\<close>.\<close>

definition stops :: "string \<Rightarrow> bool" where
  "stops rest \<longleftrightarrow> rest = [] \<or> (case digit_of (hd rest) of None \<Rightarrow> True | Some d \<Rightarrow> 10 \<le> d)"

lemma number_loop_digits:
  assumes "list_all (\<lambda>d. d < 10) ds"
  shows "number_loop (map digit_char ds @ rest) 10 v k =
    number_loop rest 10 (foldl (\<lambda>a d. a * 10 + of_nat d) v ds) (k + length ds)"
  using assms by (induction ds arbitrary: v k) auto

lemma number_loop_stops: "stops rest \<Longrightarrow> number_loop rest 10 v k = (v, k)"
  by (cases rest) (auto simp: stops_def split: option.splits)

lemma decimal_digits:
  "\<exists>ds. decimal n = map digit_char ds \<and> list_all (\<lambda>d. d < 10) ds \<and> ds \<noteq> [] \<and> foldl (\<lambda>a d. a * 10 + of_nat d) (0::u32) ds = of_nat n"
proof (induction n rule: decimal.induct)
  case (1 n)
  show ?case
  proof (cases "n < 10")
    case True
    then show ?thesis by (intro exI [of _ "[n]"]) (simp add: decimal.simps)
  next
    case False
    with 1 obtain ds where ds: "decimal (n div 10) = map digit_char ds" "list_all (\<lambda>d. d < 10) ds"
        "foldl (\<lambda>a d. a * 10 + of_nat d) (0::u32) ds = of_nat (n div 10)" by blast
    have "of_nat (n div 10) * 10 + of_nat (n mod 10) = (of_nat n :: u32)"
      by (metis div_mult_mod_eq of_nat_add of_nat_mult of_nat_numeral)
    with ds False show ?thesis by (intro exI [of _ "ds @ [n mod 10]"]) (simp add: decimal.simps [of n])
  qed
qed

lemma decimal_nonempty [simp]: "decimal n \<noteq> []"
  by (simp add: decimal.simps)

lemma parse_decimal_printed:
  assumes "stops rest"
  shows "parse_decimal (decimal n @ rest) = Some (of_nat n, length (decimal n))"
proof -
  obtain ds where ds: "decimal n = map digit_char ds" "list_all (\<lambda>d. d < 10) ds" "ds \<noteq> []"
      "foldl (\<lambda>a d. a * 10 + of_nat d) (0::u32) ds = of_nat n"
    using decimal_digits [of n] by blast
  with number_loop_digits [OF ds(2), of rest 0 0] number_loop_stops [OF assms] show ?thesis
    by (simp add: parse_decimal_def parse_number_def)
qed

text \<open>
  Round trip of numbers: \<open>parse_decimal\<close> reads the decimal notation of \<open>n\<close> back as \<open>n\<close> modulo \<open>2 ^ 32\<close>, takes
  exactly its digits, and stops at the first character that is not a decimal digit.
\<close>

theorem parse_decimal_roundtrip:
  assumes "stops rest"
  shows "parse_decimal (decimal n @ rest) = Some (of_nat n, length (decimal n))"
  using assms by (rule parse_decimal_printed)

theorem parse_decimal_roundtrip_witness: "parse_decimal (decimal 127 @ '',128'') = Some (127, 3)"
  using parse_decimal_roundtrip [of "'',128''" 127]
  by (simp add: stops_def digit_of_def decimal.simps)

end
