(* ===== verification/Cpu_List_Facts.thy ===== *)
theory Cpu_List_Facts
  imports Cpu_List Cpu_Text_Facts
begin

text \<open>
  The CPU lists of sysfs: a printed list is read back as the set it denotes, and the number of CPUs is
  the size of the intersection of the two lists.
\<close>

section \<open>Masks\<close>

definition cpus :: "CpuList \<Rightarrow> nat set" where
  "cpus l = {i. i < 32 \<and> bit (mask l) i}"

lemma cpus_init [simp]: "cpus cpulist_init = {}"
  by (simp add: cpus_def cpulist_init_def)

lemma cpus_and [simp]: "cpus (cpulist_and a b) = cpus a \<inter> cpus b"
  by (auto simp: cpus_def cpulist_and_def bit_and_iff)

lemma cpus_set: "cpus (cpulist_set l v) = cpus l \<union> {i. i < 32 \<and> int i = v}"
  by (auto simp: cpus_def cpulist_set_def bit_or_iff bit_exp_iff)

lemma cpulist_count_card: "cpulist_count l = card (cpus l)"
proof -
  have "cpulist_count l = card (set (filter (bit (mask l)) [0..<32]))"
    unfolding cpulist_count_def by (rule distinct_card [symmetric]) simp
  also have "set (filter (bit (mask l)) [0..<32]) = cpus l" by (auto simp: cpus_def)
  finally show ?thesis .
qed

lemma set_range_cpus:
  assumes "e < INT_MAX"
  shows "\<exists>l'. set_range l v e = Some l' \<and> cpus l' = cpus l \<union> {i. i < 32 \<and> v \<le> int i \<and> int i \<le> e}"
proof (induction "nat (e + 1 - v)" arbitrary: l v)
  case 0
  then show ?case by (subst set_range.simps) auto
next
  case (Suc k)
  then have "v \<le> e" "k = nat (e + 1 - (v + 1))" by auto
  from Suc(1) [OF this(2), of "cpulist_set l v"] obtain l' where
    l': "set_range (cpulist_set l v) (v + 1) e = Some l'"
      "cpus l' = cpus (cpulist_set l v) \<union> {i. i < 32 \<and> v + 1 \<le> int i \<and> int i \<le> e}" by blast
  have "set_range l v e = Some l'"
    using \<open>v \<le> e\<close> assms by (subst set_range.simps) (simp add: l'(1))
  moreover have "cpus l' = cpus l \<union> {i. i < 32 \<and> v \<le> int i \<and> int i \<le> e}"
  proof (rule set_eqI)
    fix i
    have "int i = v \<or> v + 1 \<le> int i \<and> int i \<le> e \<longleftrightarrow> v \<le> int i \<and> int i \<le> e" using \<open>v \<le> e\<close> by linarith
    then show "i \<in> cpus l' \<longleftrightarrow> i \<in> cpus l \<union> {i. i < 32 \<and> v \<le> int i \<and> int i \<le> e}"
      unfolding l'(2) cpus_set Un_iff mem_Collect_eq by blast
  qed
  ultimately show ?case by blast
qed

section \<open>Printed lists\<close>

datatype cpu_item = One nat | Range nat nat

fun show_item :: "cpu_item \<Rightarrow> string" where
  "show_item (One a) = decimal a"
| "show_item (Range a b) = decimal a @ ''-'' @ decimal b"

fun show_list :: "cpu_item list \<Rightarrow> string" where
  "show_list [] = []"
| "show_list [x] = show_item x"
| "show_list (x # xs) = show_item x @ '','' @ show_list xs"

fun item_cpus :: "cpu_item \<Rightarrow> nat set" where
  "item_cpus (One a) = {a}"
| "item_cpus (Range a b) = {a..b}"

fun item_bound :: "cpu_item \<Rightarrow> nat" where
  "item_bound (One a) = a"
| "item_bound (Range a b) = max a b"

lemma decimal_char:
  assumes "c \<in> set (decimal n)"
  obtains d where "d < 10" "digit_of c = Some d"
proof -
  obtain ds where "decimal n = map digit_char ds" "list_all (\<lambda>d. d < 10) ds" using decimal_digits [of n] by blast
  with assms obtain d where "d < 10" "c = digit_char d" by (auto simp: list_all_iff)
  with that [of "int d"] show ?thesis by simp
qed

lemma no_digit [simp]: "digit_of (CHR '','') = None" "digit_of (CHR 0x0A) = None" "digit_of (CHR ''-'') = None"
  by (simp_all add: digit_of_def)

lemma decimal_clean [simp]: "CHR '','' \<notin> set (decimal n)" "CHR 0x0A \<notin> set (decimal n)" "CHR ''-'' \<notin> set (decimal n)"
  by (auto elim!: decimal_char)

lemma show_item_clean [simp]: "CHR '','' \<notin> set (show_item x)" "show_item x \<noteq> []" "hd (show_item x) \<noteq> CHR 0x0A"
proof -
  have "hd (decimal a @ r) \<noteq> CHR 0x0A" for a r
    by (metis decimal_clean(2) decimal_nonempty hd_append2 hd_in_set)
  then show "CHR '','' \<notin> set (show_item x)" "show_item x \<noteq> []" "hd (show_item x) \<noteq> CHR 0x0A"
    using append_Nil2 [of "decimal _"] by (cases x; simp; metis append_Nil2)+
qed

lemma sint_of_nat: "n < 2147483647 \<Longrightarrow> sint (of_nat n :: u32) = int n"
  by (simp add: signed_of_nat signed_take_bit_int_eq_self)

fun item_first :: "cpu_item \<Rightarrow> nat" where
  "item_first (One a) = a"
| "item_first (Range a b) = a"

fun item_last :: "cpu_item \<Rightarrow> nat" where
  "item_last (One a) = a"
| "item_last (Range a b) = b"

lemma stops_simps [simp]: "stops []" "stops (CHR ''-'' # xs)" "stops (CHR 0x0A # xs)"
  by (simp_all add: stops_def)

lemma memchr_None: "memchr xs c = None \<longleftrightarrow> c \<notin> set xs"
  by (induction xs) auto

text \<open>The two numbers of an item, followed by nothing or a newline\<close>

lemma parse_item:
  assumes "tail = [] \<or> tail = [CHR 0x0A]"
  obtains k where "parse_decimal (show_item x @ tail) = Some (of_nat (item_first x), k)"
    "(if k < length (show_item x @ tail) \<and> (show_item x @ tail) ! k = CHR ''-''
      then map_option fst (parse_decimal (drop (k + 1) (show_item x @ tail))) else Some (of_nat (item_first x)))
     = Some (of_nat (item_last x))"
proof (cases x)
  case (One a)
  have "stops tail" using assms by auto
  from parse_decimal_printed [OF this, of a] One assms show ?thesis
    by (intro that [of "length (decimal a)"]) auto
next
  case (Range a b)
  have "stops tail" using assms by auto
  from parse_decimal_printed [OF this, of b] parse_decimal_printed [of "CHR ''-'' # decimal b @ tail" a] Range
  show ?thesis by (intro that [of "length (decimal a)"]) simp_all
qed

lemma cpulist_parse_step:
  assumes "rest = [] \<and> rest' = [] \<or> rest = [CHR 0x0A] \<and> rest' = [] \<or> rest = CHR '','' # rest'" "item_bound x < 2147483647"
  shows "cpulist_parse l (show_item x @ rest) =
    (case set_range l (int (item_first x)) (int (item_last x)) of None \<Rightarrow> None | Some l \<Rightarrow> cpulist_parse l rest')"
proof -
  let ?p = "show_item x @ rest"
  obtain tail where tail: "tail = [] \<or> tail = [CHR 0x0A]"
      "(case memchr ?p CHR '','' of None \<Rightarrow> length ?p | Some i \<Rightarrow> i) = length (show_item x @ tail)"
      "take (length (show_item x @ tail)) ?p = show_item x @ tail" "drop (length (show_item x @ tail) + 1) ?p = rest'"
  proof -
    consider "rest = [] \<or> rest = [CHR 0x0A]" "rest' = []" | "rest = CHR '','' # rest'" using assms(1) by auto
    then show ?thesis
    proof cases
      case 1
      then have "memchr ?p CHR '','' = None" by (auto simp: memchr_None)
      with 1 that [of rest] show ?thesis by auto
    next
      case 2
      with that [of "[]"] memchr_append [of "CHR '',''" "show_item x" rest'] show ?thesis by simp
    qed
  qed
  obtain k where k: "parse_decimal (show_item x @ tail) = Some (of_nat (item_first x), k)"
    "(if k < length (show_item x @ tail) \<and> (show_item x @ tail) ! k = CHR ''-''
      then map_option fst (parse_decimal (drop (k + 1) (show_item x @ tail))) else Some (of_nat (item_first x)))
     = Some (of_nat (item_last x))"
    using parse_item [OF tail(1)] .
  have start: "\<not> (?p = [] \<or> hd ?p = CHR 0x0A)" by simp
  have b: "item_first x < 2147483647" "item_last x < 2147483647" using assms(2) by (cases x; simp)+
  show ?thesis
    using start b by (subst cpulist_parse.simps)
      (simp only: Let_def tail k if_False option.case prod.case sint_of_nat)
qed

lemma cpulist_parse_Nil [simp]: "cpulist_parse l [] = Some l" "cpulist_parse l [CHR 0x0A] = Some l"
  by (simp_all add: cpulist_parse.simps)

lemma item_set_range:
  assumes "item_bound x < 2147483647"
  obtains l' where "set_range l (int (item_first x)) (int (item_last x)) = Some l'" "cpus l' = cpus l \<union> item_cpus x \<inter> {..<32}"
proof -
  have "int (item_last x) < INT_MAX" using assms by (cases x) auto
  from set_range_cpus [OF this, of l "int (item_first x)"] obtain l' where
    l': "set_range l (int (item_first x)) (int (item_last x)) = Some l'"
      "cpus l' = cpus l \<union> {i. i < 32 \<and> int (item_first x) \<le> int i \<and> int i \<le> int (item_last x)}" by blast
  moreover have "{i. i < 32 \<and> int (item_first x) \<le> int i \<and> int i \<le> int (item_last x)} = item_cpus x \<inter> {..<32}"
    by (cases x) auto
  ultimately show ?thesis using that by simp
qed

lemma cpulist_parse_printed:
  assumes "\<forall>x \<in> set items. item_bound x < 2147483647" "nl = [] \<or> nl = [CHR 0x0A]"
  shows "\<exists>l'. cpulist_parse l (show_list items @ nl) = Some l' \<and> cpus l' = cpus l \<union> (\<Union>x \<in> set items. item_cpus x) \<inter> {..<32}"
  using assms(1)
proof (induction items arbitrary: l rule: show_list.induct)
  case 1
  then show ?case using assms(2) by auto
next
  case (2 x)
  then have "item_bound x < 2147483647" by simp
  then obtain l' where l': "set_range l (int (item_first x)) (int (item_last x)) = Some l'"
      "cpus l' = cpus l \<union> item_cpus x \<inter> {..<32}" by (rule item_set_range)
  have "cpulist_parse l (show_item x @ nl) = Some l'"
    using cpulist_parse_step [of nl "[]" x l] assms(2) 2 l'(1) by auto
  with l'(2) show ?case by simp
next
  case (3 x y ys)
  then have "item_bound x < 2147483647" by simp
  then obtain l' where l': "set_range l (int (item_first x)) (int (item_last x)) = Some l'"
      "cpus l' = cpus l \<union> item_cpus x \<inter> {..<32}" by (rule item_set_range)
  have "cpulist_parse l (show_list (x # y # ys) @ nl) = cpulist_parse l' (show_list (y # ys) @ nl)"
    using cpulist_parse_step [of "'','' @ show_list (y # ys) @ nl" "show_list (y # ys) @ nl" x l] 3(2) l'(1) by simp
  with 3(1) [of l'] 3(2) l'(2) show ?case by fastforce
qed

text \<open>
  C27: Round trip of CPU lists: a comma-separated list of numbers and ranges, with or without the trailing
  newline of sysfs, is read as the set of CPUs it denotes, as far as it lies below 32; numbers up to
  \<open>INT_MAX - 1\<close> are allowed.
\<close>

theorem cpulist_parse_roundtrip:
  assumes "\<forall>x \<in> set items. item_bound x < 2147483647" "nl = [] \<or> nl = [CHR 0x0A]"
  shows "\<exists>l. cpulist_parse cpulist_init (show_list items @ nl) = Some l \<and> cpus l = (\<Union>x \<in> set items. item_cpus x) \<inter> {..<32}"
  using cpulist_parse_printed [OF assms, of cpulist_init] by simp

theorem cpulist_parse_roundtrip_witness:
  "\<exists>l. cpulist_parse cpulist_init (show_list [One 2, Range 4 127] @ [CHR 0x0A]) = Some l \<and> cpus l = {2} \<union> {4..<32}"
proof -
  have "(\<Union>x \<in> set [One 2, Range 4 127]. item_cpus x) \<inter> {..<32} = {2} \<union> {4..<32}" by auto
  with cpulist_parse_roundtrip [of "[One 2, Range 4 127]" "[CHR 0x0A]"] show ?thesis by simp
qed

lemma cpulist_read_from_printed:
  assumes "Fail \<notin> set (events f)" "contents f = show_list items @ nl" "length (contents f) \<le> 64"
    and "\<forall>x \<in> set items. item_bound x < 2147483647" "nl = [] \<or> nl = [CHR 0x0A]"
  obtains l where "cpulist_read_from (Some f) = Some l" "cpus l = (\<Union>x \<in> set items. item_cpus x) \<inter> {..<32}"
proof -
  have "read_file (Some f) 64 = Some (int (length (contents f)), contents f)"
    using read_loop_total [OF assms(1), of "[]" 64] assms(3) by (simp add: read_file_def)
  moreover obtain l where "cpulist_parse cpulist_init (contents f) = Some l" "cpus l = (\<Union>x \<in> set items. item_cpus x) \<inter> {..<32}"
    using cpulist_parse_printed [OF assms(4,5), of cpulist_init] by (auto simp: assms(2))
  ultimately show ?thesis using that by (simp add: cpulist_read_from_def)
qed

text \<open>
  C28: When the files \<open>present\<close> and \<open>possible\<close> hold printed lists of at most 64 characters, \<open>get_cpu_count\<close>
  returns the number of CPUs below 32 that are in both.
\<close>

theorem get_cpu_count_correct:
  assumes "Fail \<notin> set (events f)" "contents f = show_list is @ [CHR 0x0A]" "length (contents f) \<le> 64"
    and "Fail \<notin> set (events g)" "contents g = show_list js @ [CHR 0x0A]" "length (contents g) \<le> 64"
    and "\<forall>x \<in> set is \<union> set js. item_bound x < 2147483647"
  shows "get_cpu_count (Some f) (Some g) =
    Some (card ((\<Union>x \<in> set is. item_cpus x) \<inter> (\<Union>x \<in> set js. item_cpus x) \<inter> {..<32}))"
proof -
  obtain a where a: "cpulist_read_from (Some f) = Some a" "cpus a = (\<Union>x \<in> set is. item_cpus x) \<inter> {..<32}"
    using cpulist_read_from_printed [OF assms(1-3)] assms(7) by auto
  obtain b where b: "cpulist_read_from (Some g) = Some b" "cpus b = (\<Union>x \<in> set js. item_cpus x) \<inter> {..<32}"
    using cpulist_read_from_printed [OF assms(4-6)] assms(7) by auto
  have "cpus a \<inter> cpus b = (\<Union>x \<in> set is. item_cpus x) \<inter> (\<Union>x \<in> set js. item_cpus x) \<inter> {..<32}"
    using a(2) b(2) by auto
  then show ?thesis using a(1) b(1) by (simp add: get_cpu_count_def cpulist_count_card)
qed

lemma decimal_small: "n < 10 \<Longrightarrow> decimal n = [digit_char n]"
  by (simp add: decimal.simps)

theorem get_cpu_count_correct_witness:
  "get_cpu_count (Some \<lparr>contents = show_list [Range 0 3] @ [CHR 0x0A], events = [Short 0]\<rparr>)
     (Some \<lparr>contents = show_list [One 1, One 2] @ [CHR 0x0A], events = []\<rparr>) = Some 2"
proof -
  have "(\<Union>x \<in> set [Range 0 3]. item_cpus x) \<inter> (\<Union>x \<in> set [One 1, One 2]. item_cpus x) \<inter> {..<32} = {1, 2 :: nat}" by auto
  with get_cpu_count_correct [of "\<lparr>contents = show_list [Range 0 3] @ [CHR 0x0A], events = [Short 0]\<rparr>" "[Range 0 3]"
      "\<lparr>contents = show_list [One 1, One 2] @ [CHR 0x0A], events = []\<rparr>" "[One 1, One 2]"]
  show ?thesis by (simp add: decimal_small)
qed

section \<open>Arbitrary texts\<close>

text \<open>
  A text, well-formed or not, in which no run of digits is longer than nine: every number is below
  \<open>INT_MAX\<close>. The first argument counts the digits just before the text.
\<close>

definition decimal_digit :: "char \<Rightarrow> bool" where
  "decimal_digit c \<longleftrightarrow> (\<exists>d < 10. digit_of c = Some d)"

fun short_runs :: "nat \<Rightarrow> string \<Rightarrow> bool" where
  "short_runs k [] \<longleftrightarrow> True"
| "short_runs k (c # cs) \<longleftrightarrow> (if decimal_digit c then k < 9 \<and> short_runs (Suc k) cs else short_runs 0 cs)"

lemma short_runs_mono: "short_runs k s \<Longrightarrow> j \<le> k \<Longrightarrow> short_runs j s"
  by (induction k s arbitrary: j rule: short_runs.induct) (auto split: if_splits)

lemma short_runs_drop: "short_runs k s \<Longrightarrow> short_runs 0 (drop n s)"
proof (induction s arbitrary: k n)
  case (Cons c cs)
  then have "\<exists>j. short_runs j cs" by (auto split: if_splits)
  then show ?case using Cons.IH Cons.prems short_runs_mono by (cases n) (fastforce, auto)
qed simp

lemma short_runs_take: "short_runs k s \<Longrightarrow> short_runs k (take n s)"
  by (induction k s arbitrary: n rule: short_runs.induct; case_tac n) (auto split: if_splits)

lemma number_loop_short:
  "short_runs k s \<Longrightarrow> a < 10 ^ k \<Longrightarrow> k \<le> 9 \<Longrightarrow> number_loop s 10 (of_nat a) n = (v, m) \<Longrightarrow> \<exists>b < 10 ^ 9. v = of_nat b"
proof (induction s arbitrary: k a n)
  case Nil
  have "a < 10 ^ 9" using Nil.prems(2,3) power_increasing [of k 9 "10 :: nat"] by linarith
  then show ?case using Nil.prems(4) by auto
next
  case (Cons c cs)
  have small: "a < 10 ^ 9" using Cons.prems(2,3) power_increasing [of k 9 "10 :: nat"] by linarith
  show ?case
  proof (cases "decimal_digit c")
    case True
    then obtain d where d: "d < 10" "digit_of c = Some d" by (auto simp: decimal_digit_def)
    moreover have "0 \<le> d" using d(2) by (auto simp: digit_of_def Let_def split: if_splits)
    ultimately obtain e where e: "d = int e" "e < 10" using zero_le_imp_eq_int [of d] by auto
    have "number_loop cs 10 (of_nat (a * 10 + e)) (n + 1) = (v, m)" using Cons.prems(4) d e(1) by simp
    moreover have "a * 10 + e < 10 ^ Suc k" using Cons.prems(2) e(2) by simp
    ultimately show ?thesis using Cons.IH [of "Suc k" "a * 10 + e" "n + 1"] Cons.prems(1) True by simp
  next
    case False
    then have "v = of_nat a" using Cons.prems(4) by (auto simp: decimal_digit_def not_le split: option.splits if_splits)
    then show ?thesis using small by blast
  qed
qed

lemma parse_decimal_short:
  assumes "short_runs 0 s" "parse_decimal s = Some (v, k)" shows "sint v < 2147483647"
proof -
  obtain b where b: "b < 10 ^ 9" "v = of_nat b"
    using number_loop_short [of 0 s 0 0 v k] assms
    by (auto simp: parse_decimal_def parse_number_def split: prod.splits if_splits)
  then show ?thesis using sint_of_nat [of b] by simp
qed

lemma set_range_defined: "e < INT_MAX \<Longrightarrow> \<exists>l'. set_range l v e = Some l'"
  by (induction l v e rule: set_range.induct) (simp add: set_range.simps)

lemma cpulist_parse_defined: "short_runs 0 p \<Longrightarrow> \<exists>l'. cpulist_parse l p = Some l'"
proof (induction l p rule: cpulist_parse.induct)
  case (1 l p)
  define n where "n = (case memchr p CHR '','' of None \<Rightarrow> length p | Some i \<Rightarrow> i)"
  have item: "short_runs 0 (take n p)" using short_runs_take [OF 1(2)] .
  show ?case
  proof (cases "p = [] \<or> hd p = CHR 0x0A")
    case False
    show ?thesis
    proof (cases "parse_decimal (take n p)")
      case None
      then show ?thesis using False by (simp add: cpulist_parse.simps [of l p] Let_def flip: n_def)
    next
      case (Some vk)
      obtain v k where vk: "vk = (v, k)" by force
      let ?last = "if k < n \<and> take n p ! k = CHR ''-'' then map_option fst (parse_decimal (drop (k + 1) (take n p))) else Some v"
      have unfold: "cpulist_parse l p = (case ?last of None \<Rightarrow> Some l
          | Some e \<Rightarrow> (case set_range l (sint v) (sint e) of None \<Rightarrow> None | Some l \<Rightarrow> cpulist_parse l (drop (n + 1) p)))"
        using False Some vk by (simp add: cpulist_parse.simps [of l p] Let_def flip: n_def)
      show ?thesis
      proof (cases ?last)
        case e: (Some e)
        have "sint e < INT_MAX"
          using e Some vk item parse_decimal_short short_runs_drop [OF item] by (auto split: if_splits)
        then obtain l' where l': "set_range l (sint v) (sint e) = Some l'" using set_range_defined by blast
        have "\<exists>l''. cpulist_parse l' (drop (n + 1) p) = Some l''"
          using 1(1) [OF False n_def refl Some vk [symmetric] e l'] short_runs_drop [OF 1(2)] by simp
        then show ?thesis unfolding unfold e by (simp add: l')
      qed (simp add: unfold)
    qed
  qed (simp add: cpulist_parse.simps)
qed

lemma get_cpu_count_defined:
  assumes "\<And>f. present = Some f \<or> possible = Some f \<Longrightarrow> short_runs 0 (contents f)"
  obtains n where "get_cpu_count present possible = Some n" "n \<le> 32"
proof -
  have "\<exists>l. cpulist_read_from fd = Some l" if fd: "\<And>f. fd = Some f \<Longrightarrow> short_runs 0 (contents f)" for fd
  proof (cases fd)
    case (Some f)
    obtain c out where r: "read_loop 64 f [] = Some (c, out)" using read_loop_defined [of "[]" 64 f] by auto
    then obtain k where "out = take k (contents f)" using read_loop_prefix by fastforce
    then have "short_runs 0 out" using fd [OF Some] short_runs_take by simp
    then show ?thesis using r Some cpulist_parse_defined by (simp add: cpulist_read_from_def read_file_def)
  qed (simp add: cpulist_read_from_def read_file_def)
  then obtain a b where "cpulist_read_from present = Some a" "cpulist_read_from possible = Some b"
    using assms by metis
  then have "get_cpu_count present possible = Some (cpulist_count (cpulist_and a b))" by (simp add: get_cpu_count_def)
  moreover have "cpulist_count l \<le> 32" for l
    unfolding cpulist_count_def using length_filter_le [of "bit (mask l)" "[0..<32]"] by simp
  ultimately show thesis by (rule that)
qed

text \<open>
  A range that ends at \<open>INT_MAX\<close> runs the counter of the loop over the end of its type.
\<close>

theorem cpulist_parse_overflow: "cpulist_parse l ''2147483647'' = None"
proof -
  have "parse_decimal ''2147483647'' = Some (2147483647, 10)"
    by (simp add: parse_decimal_def parse_number_def digit_of_def)
  then show ?thesis by (simp add: cpulist_parse.simps set_range.simps)
qed

end
