(* ===== verification/Cpu_Features_Facts.thy ===== *)
theory Cpu_Features_Facts
  imports Cpu_Features Cpu_List_Facts
begin

text \<open>
  The features that the initialisation reports are consistent, translate the capability bits one to
  one where the architecture allows it, and are fixed by the first call of the library: the public
  functions as a step relation.
\<close>

section \<open>Feature sets\<close>

lemmas arm_feature_defs =
  ANDROID_CPU_ARM_FEATURE_ARMv7_def ANDROID_CPU_ARM_FEATURE_VFPv3_def ANDROID_CPU_ARM_FEATURE_NEON_def
  ANDROID_CPU_ARM_FEATURE_LDREX_STREX_def ANDROID_CPU_ARM_FEATURE_VFPv2_def ANDROID_CPU_ARM_FEATURE_VFP_D32_def
  ANDROID_CPU_ARM_FEATURE_VFP_FP16_def ANDROID_CPU_ARM_FEATURE_VFP_FMA_def ANDROID_CPU_ARM_FEATURE_NEON_FMA_def
  ANDROID_CPU_ARM_FEATURE_IDIV_ARM_def ANDROID_CPU_ARM_FEATURE_IDIV_THUMB2_def ANDROID_CPU_ARM_FEATURE_iWMMXt_def
  ANDROID_CPU_ARM_FEATURE_AES_def ANDROID_CPU_ARM_FEATURE_PMULL_def ANDROID_CPU_ARM_FEATURE_SHA1_def
  ANDROID_CPU_ARM_FEATURE_SHA2_def ANDROID_CPU_ARM_FEATURE_CRC32_def

lemma has_bit: "has w (push_bit n 1) \<longleftrightarrow> bit w n"
  unfolding has_def by (simp add: push_bit_of_1 and_exp_eq_0_iff_not_bit del: push_bit_numeral)

lemma bit_add_if: "bit (add_if b flag w) n \<longleftrightarrow> bit w n \<or> b \<and> bit flag n"
  by (simp add: add_if_def bit_or_iff)

text \<open>The implications that \<open>cpu-features.h\<close> documents for 32-bit ARM\<close>

definition arm_consistent :: "u64 \<Rightarrow> bool" where
  "arm_consistent f \<longleftrightarrow>
     (has f ANDROID_CPU_ARM_FEATURE_VFPv3 \<longrightarrow>
        has f ANDROID_CPU_ARM_FEATURE_VFPv2 \<and> has f ANDROID_CPU_ARM_FEATURE_ARMv7) \<and>
     (has f ANDROID_CPU_ARM_FEATURE_NEON \<longrightarrow>
        has f ANDROID_CPU_ARM_FEATURE_VFPv3 \<and> has f ANDROID_CPU_ARM_FEATURE_VFP_D32) \<and>
     (has f ANDROID_CPU_ARM_FEATURE_NEON_FMA \<longrightarrow>
        has f ANDROID_CPU_ARM_FEATURE_NEON \<and> has f ANDROID_CPU_ARM_FEATURE_VFP_FMA) \<and>
     (has f ANDROID_CPU_ARM_FEATURE_VFP_FMA \<longrightarrow> has f ANDROID_CPU_ARM_FEATURE_VFPv3)"

lemma arm_consistent_bits:
  "arm_consistent f \<longleftrightarrow>
     (bit f 1 \<longrightarrow> bit f 4 \<and> bit f 0) \<and> (bit f 2 \<longrightarrow> bit f 1 \<and> bit f 5) \<and> (bit f 8 \<longrightarrow> bit f 2 \<and> bit f 7) \<and> (bit f 7 \<longrightarrow> bit f 1)"
  unfolding arm_consistent_def arm_feature_defs has_bit ..

lemma bit_flag: "k < 64 \<Longrightarrow> bit (push_bit k 1 :: u64) n \<longleftrightarrow> n = k"
  by (auto simp: bit_simps)

lemma bit_features:
  "bit (ANDROID_CPU_ARM_FEATURE_ARMv7) n \<longleftrightarrow> n = 0" "bit (ANDROID_CPU_ARM_FEATURE_VFPv3) n \<longleftrightarrow> n = 1"
  "bit (ANDROID_CPU_ARM_FEATURE_NEON) n \<longleftrightarrow> n = 2" "bit (ANDROID_CPU_ARM_FEATURE_LDREX_STREX) n \<longleftrightarrow> n = 3"
  "bit (ANDROID_CPU_ARM_FEATURE_VFPv2) n \<longleftrightarrow> n = 4" "bit (ANDROID_CPU_ARM_FEATURE_VFP_D32) n \<longleftrightarrow> n = 5"
  "bit (ANDROID_CPU_ARM_FEATURE_VFP_FP16) n \<longleftrightarrow> n = 6" "bit (ANDROID_CPU_ARM_FEATURE_VFP_FMA) n \<longleftrightarrow> n = 7"
  "bit (ANDROID_CPU_ARM_FEATURE_NEON_FMA) n \<longleftrightarrow> n = 8" "bit (ANDROID_CPU_ARM_FEATURE_IDIV_ARM) n \<longleftrightarrow> n = 9"
  "bit (ANDROID_CPU_ARM_FEATURE_IDIV_THUMB2) n \<longleftrightarrow> n = 10" "bit (ANDROID_CPU_ARM_FEATURE_iWMMXt) n \<longleftrightarrow> n = 11"
  "bit (ANDROID_CPU_ARM_FEATURE_AES) n \<longleftrightarrow> n = 12" "bit (ANDROID_CPU_ARM_FEATURE_PMULL) n \<longleftrightarrow> n = 13"
  "bit (ANDROID_CPU_ARM_FEATURE_SHA1) n \<longleftrightarrow> n = 14" "bit (ANDROID_CPU_ARM_FEATURE_SHA2) n \<longleftrightarrow> n = 15"
  "bit (ANDROID_CPU_ARM_FEATURE_CRC32) n \<longleftrightarrow> n = 16"
  unfolding arm_feature_defs by (rule bit_flag, simp)+

text \<open>Before the capabilities only \<open>ARMv7\<close> and \<open>LDREX_STREX\<close> can be set.\<close>

definition arm_basic :: "u64 \<Rightarrow> bool" where
  "arm_basic f \<longleftrightarrow> (\<forall>n. bit f n \<longrightarrow> n = 0 \<or> n = 3)"

lemma arm_architecture_basic:
  "arm_architecture e cpuinfo 0 = Some f \<Longrightarrow> arm_basic f"
  by (auto simp: arm_architecture_def arm_basic_def bit_add_if bit_features
      split: field_result.splits prod.splits option.splits if_splits)

lemma has_features:
  "has f ANDROID_CPU_ARM_FEATURE_ARMv7 \<longleftrightarrow> bit f 0" "has f ANDROID_CPU_ARM_FEATURE_VFPv3 \<longleftrightarrow> bit f 1"
  unfolding arm_feature_defs by (rule has_bit)+

lemma arm_hwcap_consistent:
  assumes "arm_basic f"
  shows "arm_consistent (arm_hwcap_features h f)"
proof -
  have f: "\<not> bit f 1" "\<not> bit f 2" "\<not> bit f 4" "\<not> bit f 5" "\<not> bit f 7" "\<not> bit f 8" using assms by (auto simp: arm_basic_def)
  show ?thesis
    unfolding arm_consistent_bits arm_hwcap_features_def Let_def
    using f by (simp add: bit_add_if bit_features bit_or_iff has_features)
qed

text \<open>Later parts touch only the bits from 9 on.\<close>

definition same_core :: "u64 \<Rightarrow> u64 \<Rightarrow> bool" where
  "same_core f g \<longleftrightarrow> (\<forall>n<9. bit f n \<longleftrightarrow> bit g n)"

lemma same_core_consistent: "same_core f g \<Longrightarrow> arm_consistent g \<Longrightarrow> arm_consistent f"
  by (simp add: same_core_def arm_consistent_bits)

lemma same_core_trans: "same_core f g \<Longrightarrow> same_core g h \<Longrightarrow> same_core f h"
  by (simp add: same_core_def)

lemma arm_hwcap2_core: "same_core (arm_hwcap2_features h f) f"
  by (simp add: same_core_def arm_hwcap2_features_def bit_add_if bit_features)

lemma apply_fixes_core: "same_core (apply_fixes i f) f"
  by (simp add: same_core_def apply_fixes_def cpu_fixes_def bit_add_if bit_or_iff bit_features)

lemma goldfish_core: "goldfish_fix e c fam i f = Some g \<Longrightarrow> same_core g f"
  by (auto simp: same_core_def goldfish_fix_def bit_add_if bit_features split: field_result.splits)

lemma arm_init_consistent:
  assumes "arm_init e cpuinfo st = Some st'" "g_cpuFeatures st = 0"
  shows "arm_consistent (g_cpuFeatures st')"
proof -
  obtain f h i g where s: "arm_architecture e cpuinfo 0 = Some f"
      "goldfish_fix e cpuinfo (g_cpuFamily st) i
         (apply_fixes i (arm_hwcap2_features (get_elf_hwcap_from_getauxval e AT_HWCAP2) (arm_hwcap_features h f))) = Some g"
      "st' = st\<lparr>g_cpuFeatures := g, g_cpuIdArm := i\<rparr>"
    using assms by (auto simp: arm_init_def Let_def bind_eq_Some_conv)
  have "same_core g (arm_hwcap_features h f)"
    using goldfish_core [OF s(2)] apply_fixes_core arm_hwcap2_core same_core_trans by blast
  with arm_hwcap_consistent [OF arm_architecture_basic [OF s(1)]] s(3) show ?thesis
    by (auto intro: same_core_consistent)
qed

text \<open>The state that \<open>android_cpuInit\<close> sets before it looks at any file.\<close>

abbreviation fresh :: "env \<Rightarrow> cpu_state \<Rightarrow> cpu_state" where
  "fresh e st \<equiv> st\<lparr>g_cpuFamily := android_cpuInitFamily (env_arch e), g_cpuFeatures := 0, g_cpuCount := 1, g_inited := True\<rparr>"

lemma android_cpuInit_cases:
  assumes "android_cpuInit e st = Some st'"
  obtains (early) "st' = fresh e st"
  | (arch) cpuinfo n where "1 \<le> n" "arch_init e cpuinfo ((fresh e st)\<lparr>g_cpuCount := n\<rparr>) = Some st'"
proof -
  let ?st = "fresh e st"
  show ?thesis
  proof (cases "st' = ?st")
    case False
    then obtain cpuinfo n where n: "get_cpu_count (present e) (possible e) = Some n"
        "arch_init e cpuinfo (?st\<lparr>g_cpuCount := (if n = 0 then 1 else int n)\<rparr>) = Some st'"
      using assms by (auto simp: android_cpuInit_def Let_def split: if_splits prod.splits option.splits)
    show ?thesis by (rule arch [OF _ n(2)]) simp
  qed (rule early)
qed

text \<open>
  C24: On 32-bit ARM the features found by the initialisation respect the dependencies that the header
  documents: VFPv3 comes with VFPv2 and ARMv7, NEON with VFPv3 and the 32 registers, the fused NEON
  operations with NEON and the fused VFP operations, and those with VFPv3.
\<close>

theorem arm_features_consistent:
  assumes "env_arch e = Arm" "android_cpuInit e st = Some st'"
  shows "arm_consistent (g_cpuFeatures st')"
  using assms(2)
proof (cases rule: android_cpuInit_cases)
  case early
  then show ?thesis by (simp add: arm_consistent_bits)
next
  case (arch cpuinfo n)
  from arch(2) assms(1) show ?thesis unfolding arch_init_def by (auto intro: arm_init_consistent)
qed


theorem arm_features_consistent_witness:
  "\<exists>st'. android_cpuInit \<lparr>env_arch = Arm, cpuinfo_size = Some \<lparr>contents = [], events = []\<rparr>,
        cpuinfo_read = Some \<lparr>contents = [], events = []\<rparr>, present = None, possible = None, malloc_ok = (\<lambda>_. True),
        getauxval = Some (\<lambda>_. 0x1000), auxv = None, cpuid = (\<lambda>_. (0, 0, 0, 0))\<rparr> init_state = Some st'
     \<and> arm_consistent (g_cpuFeatures st')"
  (is "\<exists>st'. android_cpuInit ?e init_state = Some st' \<and> _")
proof -
  have "\<exists>st'. android_cpuInit ?e init_state = Some st'"
    by (simp add: android_cpuInit_def get_file_size_def size_loop.simps sys_read.simps read_file_def read_loop.simps
        get_cpu_count_def cpulist_read_from_def arch_init_def arm_init_def arm_architecture_def
        extract_cpuinfo_field_def find_field.simps memmem.simps arm_hwcaps_def get_elf_hwcap_from_getauxval_def
        cpu_id_entries_def goldfish_fix_def)
  then obtain st' where "android_cpuInit ?e init_state = Some st'" by blast
  with arm_features_consistent [of ?e init_state st'] show ?thesis by simp
qed

text \<open>The flag of each capability bit on AArch64: the bit of the flag and the bit of the capability.\<close>

definition arm64_flags :: "(nat \<times> nat) list" where
  "arm64_flags = [(0, 0), (1, 1), (2, 3), (3, 4), (4, 5), (5, 6), (6, 7)]"

lemma arm64_features_bits: "bit (arm64_features hwcaps 0) n \<longleftrightarrow> (\<exists>k. (n, k) \<in> set arm64_flags \<and> bit hwcaps k)"
proof (cases "hwcaps = 0")
  case False
  have fl: "bit ANDROID_CPU_ARM64_FEATURE_FP n \<longleftrightarrow> n = 0" "bit ANDROID_CPU_ARM64_FEATURE_ASIMD n \<longleftrightarrow> n = 1"
    "bit ANDROID_CPU_ARM64_FEATURE_AES n \<longleftrightarrow> n = 2" "bit ANDROID_CPU_ARM64_FEATURE_PMULL n \<longleftrightarrow> n = 3"
    "bit ANDROID_CPU_ARM64_FEATURE_SHA1 n \<longleftrightarrow> n = 4" "bit ANDROID_CPU_ARM64_FEATURE_SHA2 n \<longleftrightarrow> n = 5"
    "bit ANDROID_CPU_ARM64_FEATURE_CRC32 n \<longleftrightarrow> n = 6"
    unfolding ANDROID_CPU_ARM64_FEATURE_FP_def ANDROID_CPU_ARM64_FEATURE_ASIMD_def ANDROID_CPU_ARM64_FEATURE_AES_def
      ANDROID_CPU_ARM64_FEATURE_PMULL_def ANDROID_CPU_ARM64_FEATURE_SHA1_def ANDROID_CPU_ARM64_FEATURE_SHA2_def
      ANDROID_CPU_ARM64_FEATURE_CRC32_def
    by (rule bit_flag, simp)+
  have hw: "has hwcaps HWCAP_FP \<longleftrightarrow> bit hwcaps 0" "has hwcaps HWCAP_ASIMD \<longleftrightarrow> bit hwcaps 1"
    "has hwcaps HWCAP_AES \<longleftrightarrow> bit hwcaps 3" "has hwcaps HWCAP_PMULL \<longleftrightarrow> bit hwcaps 4" "has hwcaps HWCAP_SHA1 \<longleftrightarrow> bit hwcaps 5"
    "has hwcaps HWCAP_SHA2 \<longleftrightarrow> bit hwcaps 6" "has hwcaps HWCAP_CRC32 \<longleftrightarrow> bit hwcaps 7"
    unfolding HWCAP_FP_def HWCAP_ASIMD_def HWCAP_AES_def HWCAP_PMULL_def HWCAP_SHA1_def HWCAP_SHA2_def HWCAP_CRC32_def
    by (rule has_bit)+
  from False show ?thesis by (auto simp: arm64_features_def arm64_flags_def bit_add_if fl hw)
qed (simp add: arm64_features_def)

text \<open>
  The correction for the emulator tests the CPU family where it means the features: on ARM, whose family
  number is 1, the test always holds, and the division flag is set although ARMv7 was not found.
\<close>

theorem goldfish_ignores_features:
  assumes "extract_cpuinfo_field (malloc_ok e) cpuinfo ''Hardware'' = Field ''Goldfish''"
  shows "goldfish_fix e cpuinfo ANDROID_CPU_FAMILY_ARM 0x4100c080 0 = Some ANDROID_CPU_ARM_FEATURE_IDIV_ARM
     \<and> \<not> has (ANDROID_CPU_ARM_FEATURE_IDIV_ARM) ANDROID_CPU_ARM_FEATURE_ARMv7"
  using assms by (simp add: goldfish_fix_def add_if_def has_features bit_features)

theorem goldfish_ignores_features_witness:
  "goldfish_fix \<lparr>env_arch = Arm, cpuinfo_size = None, cpuinfo_read = None, present = None, possible = None, malloc_ok = (\<lambda>_. True),
        getauxval = None, auxv = None, cpuid = (\<lambda>_. (0, 0, 0, 0))\<rparr> (''Hardware'' @ '': Goldfish'' @ [NL]) ANDROID_CPU_FAMILY_ARM 0x4100c080 0
     = Some ANDROID_CPU_ARM_FEATURE_IDIV_ARM"
  (is "goldfish_fix ?e ?t _ _ _ = _")
proof -
  have "extract_cpuinfo_field (\<lambda>_. True) ?t ''Hardware'' = Field ''Goldfish''"
    by (simp add: extract_cpuinfo_field_def find_field.simps memmem.simps)
  then show ?thesis using goldfish_ignores_features [of ?e ?t] by simp
qed

section \<open>Initialisation returns\<close>


text \<open>
  What the files hold: every opening of \<open>/proc/cpuinfo\<close> that succeeds finds the same text, shorter than
  2 GiB, and no read of it fails; no number in the CPU lists has more than nine digits.
\<close>

definition cpuinfo_holds :: "env \<Rightarrow> string \<Rightarrow> bool" where
  "cpuinfo_holds e s \<longleftrightarrow> length s < 2 ^ 31 \<and>
     (\<forall>f \<in> set_option (cpuinfo_size e) \<union> set_option (cpuinfo_read e). contents f = s \<and> Fail \<notin> set (events f))"

definition lists_short :: "env \<Rightarrow> bool" where
  "lists_short e \<longleftrightarrow> (\<forall>f \<in> set_option (present e) \<union> set_option (possible e). short_runs 0 (contents f))"

text \<open>Whether \<open>/proc/cpuinfo\<close> can be opened twice and stored.\<close>

definition cpuinfo_stored :: "env \<Rightarrow> string \<Rightarrow> bool" where
  "cpuinfo_stored e s \<longleftrightarrow> cpuinfo_size e \<noteq> None \<and> cpuinfo_read e \<noteq> None \<and> malloc_ok e (length s)"

lemma android_cpuInit_run:
  assumes "cpuinfo_holds e s" "lists_short e"
  obtains n where "1 \<le> n" "n \<le> 32" "\<And>st. android_cpuInit e st =
    (if cpuinfo_stored e s then arch_init e s ((fresh e st)\<lparr>g_cpuCount := n\<rparr>) else Some (fresh e st))"
proof -
  obtain m where m: "get_cpu_count (present e) (possible e) = Some m" "m \<le> 32"
    using get_cpu_count_defined [of "present e" "possible e"] assms(2) unfolding lists_short_def by auto
  have s: "length s < 2 ^ 31" and f: "\<And>f. cpuinfo_size e = Some f \<Longrightarrow> contents f = s \<and> Fail \<notin> set (events f)"
      and g: "\<And>f. cpuinfo_read e = Some f \<Longrightarrow> contents f = s \<and> Fail \<notin> set (events f)"
    using assms(1) by (auto simp: cpuinfo_holds_def)
  have size: "get_file_size (cpuinfo_size e) = Some (if cpuinfo_size e = None then -1 else int (length s))"
    using f size_loop_total [of _ 0] s by (cases "cpuinfo_size e") (simp_all add: get_file_size_def)
  have read: "read_file (cpuinfo_read e) (length s) = Some (if cpuinfo_read e = None then (-1, []) else (int (length s), s))"
    using g read_loop_total [OF _ _ s, of _ "[]"] by (cases "cpuinfo_read e") (simp_all add: read_file_def)
  show thesis
  proof (rule that)
    show "1 \<le> (if m = 0 then 1 else int m)" "(if m = 0 then 1 else int m) \<le> 32" using m(2) by auto
    show "android_cpuInit e st =
      (if cpuinfo_stored e s then arch_init e s ((fresh e st)\<lparr>g_cpuCount := if m = 0 then 1 else int m\<rparr>)
       else Some (fresh e st))" for st
      unfolding android_cpuInit_def Let_def size option.case using m(1) read
      by (cases "cpuinfo_size e"; cases "cpuinfo_read e") (auto simp: cpuinfo_stored_def)
  qed
qed


text \<open>
  C25: On AArch64 the first call of \<open>android_getCpuFeatures\<close> reports exactly the seven capability bits that
  the kernel gives to \<open>getauxval\<close>, each under its own flag, and no other flag, when \<open>/proc/cpuinfo\<close> can be
  opened and stored; when it cannot, it reports no feature at all. (The files are read without error,
  and no number in the CPU lists has more than nine digits.)
\<close>

theorem arm64_features_exact:
  assumes "env_arch e = Aarch64" "cpuinfo_holds e s" "lists_short e"
  shows "\<exists>f st. android_getCpuFeatures e init_state = Some (f, st) \<and>
    (\<forall>n. bit f n \<longleftrightarrow> cpuinfo_stored e s \<and>
      (\<exists>k func. (n, k) \<in> set arm64_flags \<and> getauxval e = Some func \<and> bit (of_nat (func AT_HWCAP) :: u32) k))"
proof -
  obtain n where n: "\<And>st. android_cpuInit e st =
    (if cpuinfo_stored e s then arch_init e s ((fresh e st)\<lparr>g_cpuCount := n\<rparr>) else Some (fresh e st))"
    using android_cpuInit_run [OF assms(2,3)] by metis
  have hw: "bit (arm64_features (get_elf_hwcap_from_getauxval e AT_HWCAP) 0) m \<longleftrightarrow>
      (\<exists>k func. (m, k) \<in> set arm64_flags \<and> getauxval e = Some func \<and> bit (of_nat (func AT_HWCAP) :: u32) k)" for m
    unfolding arm64_features_bits by (cases "getauxval e") (auto simp: get_elf_hwcap_from_getauxval_def)
  show ?thesis
    by (cases "cpuinfo_stored e s")
      (simp_all add: android_getCpuFeatures_def pthread_once_def init_state_def n Let_def arch_init_def assms(1) hw)
qed

theorem arm64_features_exact_witness:
  "\<exists>f st. android_getCpuFeatures \<lparr>env_arch = Aarch64, cpuinfo_size = Some \<lparr>contents = ''processor'', events = [Intr]\<rparr>,
      cpuinfo_read = Some \<lparr>contents = ''processor'', events = [Short 2]\<rparr>, present = Some \<lparr>contents = ''0-7'', events = []\<rparr>,
      possible = None, malloc_ok = (\<lambda>_. True), getauxval = Some (\<lambda>_. 0xff), auxv = None, cpuid = (\<lambda>_. (0, 0, 0, 0))\<rparr> init_state
      = Some (f, st) \<and> bit f 6 \<and> \<not> bit f 7"
  (is "\<exists>f st. android_getCpuFeatures ?e _ = _ \<and> _")
proof -
  have "cpuinfo_holds ?e ''processor''" by (simp add: cpuinfo_holds_def)
  moreover have "lists_short ?e" by (simp add: lists_short_def decimal_digit_def)
  ultimately obtain f st where f: "android_getCpuFeatures ?e init_state = Some (f, st)"
      "\<And>n. bit f n \<longleftrightarrow> cpuinfo_stored ?e ''processor'' \<and>
        (\<exists>k func. (n, k) \<in> set arm64_flags \<and> getauxval ?e = Some func \<and> bit (of_nat (func AT_HWCAP) :: u32) k)"
    using arm64_features_exact [of ?e "''processor''"] by auto
  have "cpuinfo_stored ?e ''processor''" by (simp add: cpuinfo_stored_def)
  then have "bit f 6" "\<not> bit f 7" unfolding f(2) by (auto simp: arm64_flags_def bit_simps)
  then show ?thesis using f(1) by blast
qed




section \<open>The public functions as steps\<close>

datatype cpu_call = GetFamily | GetFeatures | GetCount | GetIdArm | SetCpu int u64 | SetCpuArm int u64 u32

datatype cpu_answer = Family AndroidCpuFamily | Features u64 | Count int | IdArm u32 | Accepted bool

inductive cpu_step :: "cpu_state \<Rightarrow> cpu_call \<Rightarrow> cpu_answer \<Rightarrow> cpu_state \<Rightarrow> bool" where
  get_family: "android_getCpuFamily e st = Some (r, st') \<Longrightarrow> cpu_step st GetFamily (Family r) st'"
| get_features: "android_getCpuFeatures e st = Some (r, st') \<Longrightarrow> cpu_step st GetFeatures (Features r) st'"
| get_count: "android_getCpuCount e st = Some (r, st') \<Longrightarrow> cpu_step st GetCount (Count r) st'"
| get_id: "android_getCpuIdArm e st = Some (r, st') \<Longrightarrow> cpu_step st GetIdArm (IdArm r) st'"
| set_cpu: "android_setCpu e n f st = Some (r, st') \<Longrightarrow> cpu_step st (SetCpu n f) (Accepted r) st'"
| set_cpu_arm: "android_setCpuArm e n f i st = Some (r, st') \<Longrightarrow> cpu_step st (SetCpuArm n f i) (Accepted r) st'"

inductive_cases cpu_step_cases: "cpu_step st c a st'"

inductive cpu_reach :: "cpu_state \<Rightarrow> cpu_state \<Rightarrow> bool" where
  here: "cpu_reach st st"
| more: "cpu_reach st st' \<Longrightarrow> cpu_step st' c a st'' \<Longrightarrow> cpu_reach st st''"

text \<open>\<open>g_once\<close> and \<open>g_inited\<close> agree, and an initialised library reports at least one CPU.\<close>

definition cpu_inv :: "cpu_state \<Rightarrow> bool" where
  "cpu_inv st \<longleftrightarrow> g_once st = g_inited st \<and> (g_once st \<longrightarrow> 1 \<le> g_cpuCount st)"

lemma android_cpuInit_result:
  assumes "android_cpuInit e st = Some st'"
  shows "g_inited st'" "1 \<le> g_cpuCount st'"
  using assms
  by (cases rule: android_cpuInit_cases;
      auto simp: arch_init_def arm_init_def Let_def bind_eq_Some_conv split: arch.splits)+

lemmas getter_defs = android_getCpuFamily_def android_getCpuFeatures_def android_getCpuCount_def android_getCpuIdArm_def

lemma cpu_step_done:
  assumes "cpu_step st c a st'" "cpu_inv st" "g_once st"
  shows "st' = st"
  using assms
  by (auto elim!: cpu_step_cases simp: getter_defs pthread_once_def android_setCpu_def android_setCpuArm_def cpu_inv_def split: if_splits)

lemma cpu_step_first:
  assumes "cpu_step st c a st'" "cpu_inv st"
  shows "cpu_inv st' \<and> g_once st'"
  using assms
  by (auto elim!: cpu_step_cases simp: getter_defs pthread_once_def android_setCpu_def android_setCpuArm_def android_cpuInitDummy_def
      cpu_inv_def android_cpuInit_result split: if_splits option.splits)

lemma cpu_inv_init: "cpu_inv init_state" "\<not> g_once init_state"
  by (simp_all add: cpu_inv_def init_state_def)

lemma cpu_reach_inv: "cpu_reach st st' \<Longrightarrow> cpu_inv st \<Longrightarrow> cpu_inv st'"
  by (induction rule: cpu_reach.induct) (auto dest: cpu_step_first)

lemma cpu_reach_done: "cpu_reach st st' \<Longrightarrow> cpu_inv st \<Longrightarrow> g_once st \<Longrightarrow> st' = st"
  by (induction rule: cpu_reach.induct) (auto dest: cpu_step_done)

lemma cpu_reach_cases: "cpu_reach init_state st \<Longrightarrow> st = init_state \<or> g_once st"
  by (induction init_state st rule: cpu_reach.induct) (auto dest: cpu_step_first cpu_reach_inv [OF _ cpu_inv_init(1)])

text \<open>
  C23: In every state the library can reach by calls of its public functions, \<open>g_once\<close> and \<open>g_inited\<close>
  agree, and once a call has been made the number of CPUs is at least 1.
\<close>

theorem cpu_reach_invariant:
  assumes "cpu_reach init_state st"
  shows "cpu_inv st"
  using cpu_reach_inv [OF assms cpu_inv_init(1)] .

text \<open>
  C21: The first call decides: after any call, whatever functions are called next and whatever the machine
  would then report, family, features, count and identifier stay as that call left them.
\<close>

theorem cpu_first_call_decides:
  assumes "cpu_reach init_state st" "cpu_step st c a st1" "cpu_reach st1 st2"
  shows "st2 = st1"
proof -
  have "cpu_inv st" using cpu_reach_inv [OF assms(1) cpu_inv_init(1)] .
  from cpu_step_first [OF assms(2) this] cpu_reach_done [OF assms(3)] show ?thesis by blast
qed

text \<open>
  C22: \<open>android_setCpu\<close> is accepted exactly when it is the first call of the library, as the header
  documents; then the library reports the given features and the given count, or 1 for a count that
  is not positive.
\<close>

theorem cpu_set_first_only:
  assumes "cpu_reach init_state st" "cpu_step st (SetCpu n f) (Accepted r) st'"
  shows "(r \<longleftrightarrow> st = init_state) \<and> (r \<longrightarrow> g_cpuFeatures st' = f \<and> g_cpuCount st' = (if n \<le> 0 then 1 else n))"
proof -
  obtain e where e: "android_setCpu e n f st = Some (r, st')" using assms(2) by (auto elim: cpu_step_cases)
  have inv: "cpu_inv st" using cpu_reach_inv [OF assms(1) cpu_inv_init(1)] .
  show ?thesis
  proof (cases "st = init_state")
    case True
    with e show ?thesis
      by (auto simp: android_setCpu_def init_state_def pthread_once_def android_cpuInitDummy_def)
  next
    case False
    then have "g_inited st" using cpu_reach_cases [OF assms(1)] inv by (simp add: cpu_inv_def)
    with e False show ?thesis by (auto simp: android_setCpu_def)
  qed
qed

text \<open>A run: \<open>android_setCpu(4, 5)\<close>, then \<open>android_getCpuFeatures()\<close>\<close>

definition set_state :: cpu_state where
  "set_state = \<lparr>g_once = True, g_inited = True, g_cpuFamily = ANDROID_CPU_FAMILY_ARM64, g_cpuFeatures = 5, g_cpuCount = 4, g_cpuIdArm = 0\<rparr>"

definition plain_env :: env where
  "plain_env = \<lparr>env_arch = Aarch64, cpuinfo_size = None, cpuinfo_read = None, present = None, possible = None,
      malloc_ok = (\<lambda>_. True), getauxval = None, auxv = None, cpuid = (\<lambda>_. (0, 0, 0, 0))\<rparr>"

lemma set_run: "cpu_step init_state (SetCpu 4 5) (Accepted True) set_state" "cpu_step set_state GetFeatures (Features 5) set_state"
proof -
  have "android_setCpu plain_env 4 5 init_state = Some (True, set_state)"
    by (simp add: android_setCpu_def pthread_once_def android_cpuInitDummy_def init_state_def set_state_def plain_env_def)
  then show "cpu_step init_state (SetCpu 4 5) (Accepted True) set_state" by (rule set_cpu)
  have "android_getCpuFeatures plain_env set_state = Some (5, set_state)"
    by (simp add: android_getCpuFeatures_def pthread_once_def set_state_def)
  then show "cpu_step set_state GetFeatures (Features 5) set_state" by (rule get_features)
qed

theorem cpu_reach_invariant_witness: "cpu_reach init_state set_state \<and> cpu_inv set_state"
  using cpu_reach_invariant [of set_state] cpu_reach.more [OF here set_run(1)] by blast

theorem cpu_first_call_decides_witness: "cpu_reach set_state set_state \<and> (\<forall>st2. cpu_reach set_state st2 = (st2 = set_state))"
  using cpu_first_call_decides [OF here set_run(1)] here by blast

theorem cpu_set_first_only_witness: "g_cpuFeatures set_state = 5 \<and> g_cpuCount set_state = 4"
  using cpu_set_first_only [OF here set_run(1)] by simp

end
