(* ===== verification/Iconv_Rows.thy ===== *)
theory Iconv_Rows
  imports Utf8
begin

text \<open>
  What the code point tables of \<open>iconv.c\<close> share: rows of \<open>unsigned short\<close>, the read of a row and
  column, and the conditions a row of each table satisfies.
\<close>

text \<open>The initialiser of an array of \<open>unsigned short\<close>.\<close>

definition shorts :: "int list \<Rightarrow> u16 list" where
  "shorts = map word_of_int"

lemma length_shorts [simp]: "length (shorts xs) = length xs"
  by (simp add: shorts_def)

text \<open>\<open>rd2 t i j\<close> is the C read \<open>t[i][j]\<close>; \<open>None\<close> is an index outside its dimension.\<close>

definition rd2 :: "'a list list \<Rightarrow> nat \<Rightarrow> nat \<Rightarrow> 'a option" where
  "rd2 t i j = Option.bind (rd t i) (\<lambda>r. rd r j)"

lemma rd2_Some:
  assumes "\<forall>r \<in> set t. length r = n" "i < length t" "j < n"
  obtains r where "r \<in> set t" "rd2 t i j = Some (r ! j)" "r ! j \<in> set r"
proof
  show "t ! i \<in> set t" using assms(2) by simp
  then have "length (t ! i) = n" using assms(1) by blast
  then show "rd2 t i j = Some (t ! i ! j)" "t ! i ! j \<in> set (t ! i)"
    using assms by (simp_all add: rd2_def rd_def)
qed

section \<open>Conditions on rows\<close>

text \<open>A row has its length and no surrogate code point.\<close>

definition row_ok :: "nat \<Rightarrow> u16 list \<Rightarrow> bool" where
  "row_ok n r \<longleftrightarrow> length r = n \<and> (\<forall>x \<in> set r. \<not> surrogate (unat x))"

text \<open>
  In \<open>hkscs\<close> the four code points U+DC00, U+DC04, U+DC08 and U+DC0C stand for offsets into a string.
\<close>

definition hkscs_row_ok :: "nat \<Rightarrow> u16 list \<Rightarrow> bool" where
  "hkscs_row_ok n r \<longleftrightarrow> length r = n \<and>
     (\<forall>x \<in> set r. surrogate (unat x) \<longrightarrow> 0xdc00 \<le> unat x \<and> unat x \<le> 0xdc0c)"

text \<open>The same conditions as computations on the initialisers.\<close>

fun ints_ok :: "(int \<Rightarrow> bool) \<Rightarrow> int \<Rightarrow> int list \<Rightarrow> bool" where
  "ints_ok P n [] \<longleftrightarrow> n = 0"
| "ints_ok P n (x # xs) \<longleftrightarrow> 0 \<le> x \<and> (if x < 0xd800 then True else if x < 0xe000 then P x else x < 0x10000) \<and> ints_ok P (n - 1) xs"

lemma ints_ok_length: "ints_ok P n xs \<Longrightarrow> int (length xs) = n"
  by (induction P n xs rule: ints_ok.induct) auto

lemma ints_ok_set:
  "ints_ok P n xs \<Longrightarrow> x \<in> set xs \<Longrightarrow> 0 \<le> x \<and> x < 0x10000 \<and> (0xd800 \<le> x \<longrightarrow> x < 0xe000 \<longrightarrow> P x)"
  by (induction P n xs rule: ints_ok.induct) (auto split: if_splits)

lemma unat_short: "0 \<le> x \<Longrightarrow> x < 0x10000 \<Longrightarrow> unat (word_of_int x :: u16) = nat x"
  by (simp add: unat_eq_nat_uint uint_word_of_int)

lemma row_ok_shorts:
  assumes "ints_ok (\<lambda>_. False) (int n) xs" shows "row_ok n (shorts xs)"
proof -
  have "\<not> surrogate (unat (word_of_int x :: u16))" if "x \<in> set xs" for x
    using ints_ok_set [OF assms that] by (auto simp: unat_short surrogate_def)
  then show ?thesis using ints_ok_length [OF assms] by (simp add: row_ok_def) (simp add: shorts_def)
qed

lemma hkscs_row_ok_shorts:
  assumes "ints_ok (\<lambda>x. 0xdc00 \<le> x \<and> x \<le> 0xdc0c) (int n) xs" shows "hkscs_row_ok n (shorts xs)"
proof -
  have "surrogate (unat (word_of_int x :: u16)) \<longrightarrow>
      0xdc00 \<le> unat (word_of_int x :: u16) \<and> unat (word_of_int x :: u16) \<le> 0xdc0c" if "x \<in> set xs" for x
    using ints_ok_set [OF assms that] by (auto simp: unat_short surrogate_def)
  then show ?thesis using ints_ok_length [OF assms] by (simp add: hkscs_row_ok_def) (simp add: shorts_def)
qed

end
