(* ===== verification/Iconv_Open.thy ===== *)
theory Iconv_Open
  imports Charmaps
begin

text \<open>
  \<open>iconv.c\<close>, first part: the search of an encoding by name and \<open>iconv_open\<close>. A pointer into a string
  is the list of the bytes from it on; the NUL that ends a caller's string is the end of the list,
  the NULs inside \<open>charmaps\<close> are elements.
\<close>

datatype errno = EILSEQ | E2BIG | EINVAL

text \<open>\<open>*s\<close> for a string pointer.\<close>

fun at :: "byte list \<Rightarrow> byte" where
  "at [] = 0"
| "at (b # _) = b"

lemma at_length: "at s \<noteq> 0 \<Longrightarrow> 0 < length s"
  by (cases s) auto

definition strlen :: "byte list \<Rightarrow> nat" where
  "strlen s = length (takeWhile (\<lambda>b. b \<noteq> 0) s)"

text \<open>
  The test of the \<open>while\<close> loop in \<open>fuzzycmp\<close>, in the unsigned arithmetic of C: a character that is
  compared is a letter, a digit, \<open>{\<close>, \<open>[\<close> or \<open>:\<close>.
\<close>

definition skipped :: "byte \<Rightarrow> bool" where
  "skipped b \<longleftrightarrow> b \<noteq> 0 \<and> (ucast b OR 32) - 97 > (26 :: u32) \<and> ucast b - 48 > (10 :: u32)"

definition fuzzy_skip :: "byte list \<Rightarrow> byte list" where
  "fuzzy_skip a = dropWhile skipped a"

text \<open>
  \<open>fuzzycmp a b\<close> is true when the code returns a non-zero value. The pointer \<open>a\<close> stays inside its
  string: at its NUL the comparison \<open>(*a|32U) != *b\<close> ends the loop, no alias having a blank.
\<close>

function fuzzycmp :: "byte list \<Rightarrow> byte list \<Rightarrow> bool" where
  "fuzzycmp a b =
     (if at a \<noteq> 0 \<and> at b \<noteq> 0 then
        let a = fuzzy_skip a in
        if ucast (at a) OR 32 \<noteq> (ucast (at b) :: u32) then True else fuzzycmp (tl a) (tl b)
      else at a \<noteq> at b)"
  by pat_completeness auto

termination
  by (relation "measure (\<lambda>(a, b). length b)") (auto dest: at_length)

text \<open>The loop over the remaining aliases after a match: a pointer and its offset in \<open>charmaps\<close>.\<close>

function skip_names :: "byte list \<Rightarrow> nat \<Rightarrow> nat" where
  "skip_names s p =
     (if at s \<noteq> 0 then skip_names (drop (strlen s + 1) s) (p + strlen s + 1) else p)"
  by pat_completeness auto

termination
  by (relation "measure (\<lambda>(s, p). length s)") (auto dest: at_length)

text \<open>The loop of \<open>find_charmap\<close>; \<open>None\<close> is the result \<open>-1\<close>.\<close>

function find_charmap_loop :: "byte list \<Rightarrow> byte list \<Rightarrow> nat \<Rightarrow> nat option" where
  "find_charmap_loop name s p =
     (if at s = 0 then None
      else if \<not> fuzzycmp name s then Some (skip_names s p + 1)
      else
        let n = strlen s + 1; s = drop n s; p = p + n in
        if at s = 0 then
          let k = (if at (tl s) > 0x80 then 2 else 2 + (128 - unat (at (tl s))) div 4 * 5) in
          find_charmap_loop name (drop k s) (p + k)
        else find_charmap_loop name s p)"
  by pat_completeness auto

termination
  by (relation "measure (\<lambda>(name, s, p). length s)") (auto dest: at_length)

declare fuzzycmp.simps [simp del] skip_names.simps [simp del] find_charmap_loop.simps [simp del]

definition find_charmap :: "byte list \<Rightarrow> nat option" where
  "find_charmap name = find_charmap_loop name charmaps 0"

text \<open>\<open>iconv_open\<close>: the conversion descriptor holds both offsets.\<close>

definition iconv_open :: "byte list \<Rightarrow> byte list \<Rightarrow> errno + u64" where
  "iconv_open to from =
     (case find_charmap to of
        None \<Rightarrow> Inl EINVAL
      | Some t \<Rightarrow>
          (case find_charmap from of
             None \<Rightarrow> Inl EINVAL
           | Some f \<Rightarrow>
               if at (drop t charmaps) \<ge> 0xd0 then Inl EINVAL
               else Inr (push_bit 16 (of_nat f) OR of_nat t)))"

definition iconv_close :: "u64 \<Rightarrow> u32" where
  "iconv_close cd = 0"

end
