(* ===== verification/Hkscs.thy ===== *)
theory Hkscs
  imports Iconv_Rows
begin

text \<open>
  The table \<open>hkscs\<close> of \<open>iconv.c\<close>, from \<open>hkscs.h\<close>: 31 rows of 157 code points (the low 16 bits),
  then 305 words with one bit per code point, set where it lies in plane 2.
\<close>

definition hkscs_0 :: "u16 list" where
  "hkscs_0 = shorts
     [17392, 19506, 17923, 17830, 17784, 29287, 19831, 17843, 31921, 19682, 31941, 15253, 18230, 18244, 19527, 19520,
      17087, 13847, 29522, 28299, 28882, 19543, 41809, 18255, 17882, 19589, 31852, 19719, 19108, 18081, 27427, 29221,
      23124, 6755, 15878, 16225, 26189, 22267, 0, 32149, 22813, 35769, 15860, 38708, 31727, 23515, 7518, 23204,
      13861, 40624, 23249, 23479, 23804, 26478, 34195, 39237, 29793, 29853, 14453, 7507, 13982, 24609, 16108, 22750,
      15093, 31484, 40855, 16737, 35085, 12778, 2698, 12894, 17162, 33924, 40854, 37935, 18736, 34323, 22678, 38730,
      37400, 31184, 31282, 26208, 27177, 34973, 29772, 31685, 26498, 31276, 21071, 36934, 13542, 29636, 23993, 29894,
      40903, 22451, 18735, 21580, 16689, 13966, 22552, 31346, 31589, 35727, 18094, 28296, 16769, 23961, 31662, 9404,
      40904, 9409, 9417, 9420, 40905, 34052, 13755, 16564, 40906, 17633, 44543, 25281, 28782, 40907, 0, 0,
      0, 0, 0, 0, 0, 0, 0, 0, 0, 0, 0, 0, 0, 0, 0, 0,
      0, 0, 0, 0, 0, 0, 0, 0, 0, 0, 0, 0, 0]"

definition hkscs_1 :: "u16 list" where
  "hkscs_1 = shorts
     [12736, 12737, 12738, 12739, 12740, 268, 12741, 209, 205, 12742, 12743, 203, 8168, 12744, 202, 12745,
      12746, 12747, 12748, 270, 12749, 12750, 256, 193, 461, 192, 274, 201, 282, 200, 332, 211,
      465, 210, 56320, 7870, 56324, 7872, 202, 257, 225, 462, 224, 593, 275, 233, 283, 232,
      299, 237, 464, 236, 333, 243, 466, 242, 363, 250, 468, 249, 470, 472, 474, 476,
      252, 56328, 7871, 56332, 7873, 234, 609, 9178, 9179, 0, 0, 0, 0, 0, 0, 0,
      0, 0, 0, 0, 0, 0, 0, 0, 0, 0, 0, 0, 0, 0, 0, 0,
      0, 0, 0, 0, 0, 0, 0, 0, 0, 0, 0, 0, 0, 0, 0, 0,
      0, 0, 0, 0, 0, 0, 0, 0, 0, 0, 0, 0, 0, 0, 0, 0,
      0, 0, 0, 0, 0, 0, 0, 0, 0, 0, 0, 0, 0, 0, 0, 0,
      0, 0, 0, 0, 0, 0, 0, 0, 0, 0, 0, 0, 0]"

definition hkscs_2 :: "u16 list" where
  "hkscs_2 = shorts
     [41897, 4421, 0, 25866, 0, 0, 20029, 28381, 40270, 37343, 0, 0, 30517, 25745, 20250, 20264,
      20392, 20822, 20852, 20892, 20964, 21153, 21160, 21307, 21326, 21457, 21464, 22242, 22768, 22788, 22791, 22834,
      22836, 23398, 23454, 23455, 23706, 24198, 24635, 25993, 26622, 26628, 26725, 27982, 28860, 30005, 32420, 32428,
      32442, 32455, 32463, 32479, 32518, 32567, 33402, 33487, 33647, 35270, 35774, 35810, 36710, 36711, 36718, 29713,
      31996, 32205, 26950, 31433, 21031, 0, 0, 0, 0, 37260, 30904, 37214, 32956, 0, 36107, 33014,
      2535, 0, 0, 32927, 40647, 19661, 40393, 40460, 19518, 40438, 28686, 40458, 41267, 13761, 0, 28314,
      33342, 29977, 0, 18705, 39532, 39567, 40857, 31111, 33900, 7626, 1488, 10982, 20004, 20097, 20096, 20103,
      20159, 20203, 20279, 13388, 20413, 15944, 20483, 20616, 13437, 13459, 13477, 20870, 22789, 20955, 20988, 20997,
      20105, 21113, 21136, 21287, 13767, 21417, 13649, 21424, 13651, 21442, 21539, 13677, 13682, 13953, 21651, 21667,
      21684, 21689, 21712, 21743, 21784, 21795, 21800, 13720, 21823, 13733, 13759, 21975, 13765]"

definition hkscs_3 :: "u16 list" where
  "hkscs_3 = shorts
     [32132, 21797, 0, 3138, 3349, 20779, 21904, 11462, 14828, 833, 36422, 19896, 38117, 16467, 32958, 30586,
      11320, 14900, 18389, 33117, 27122, 19946, 25821, 3452, 4020, 3285, 4340, 25741, 36478, 3734, 3083, 3940,
      11433, 33366, 17619, 0, 3398, 39501, 33001, 18420, 20135, 11458, 39602, 14951, 38388, 16365, 13574, 21191,
      38868, 30920, 11588, 40302, 38933, 0, 17369, 24741, 25780, 21731, 11596, 11210, 4215, 14843, 4207, 26330,
      26390, 31136, 25834, 20562, 3139, 36456, 8609, 35660, 1841, 0, 18443, 425, 16378, 22643, 11661, 0,
      17864, 1276, 24727, 3916, 3478, 21881, 16571, 17338, 0, 19124, 10854, 4253, 33194, 39157, 3484, 25465,
      14846, 10101, 36288, 22177, 25724, 15939, 0, 42497, 3593, 10959, 11465, 0, 4296, 14786, 14738, 14854,
      33435, 13688, 24137, 8391, 22098, 3889, 11442, 38688, 13500, 27709, 20027, 0, 0, 30068, 11915, 8712,
      42587, 36045, 3706, 3124, 26652, 32659, 4303, 10243, 10553, 13819, 20963, 3724, 3981, 3754, 16275, 3888,
      3399, 4431, 3660, 0, 3755, 2985, 3400, 4288, 4413, 16377, 9878, 25650, 4013]"

definition hkscs_4 :: "u16 list" where
  "hkscs_4 = shorts
     [13300, 30265, 11214, 3454, 3455, 11345, 11349, 14872, 3736, 4295, 3886, 42546, 27472, 36050, 36249, 36042,
      38314, 21708, 33476, 21945, 0, 40643, 39974, 39606, 30558, 11758, 28992, 33133, 33004, 23580, 25970, 33076,
      14231, 21343, 32957, 37302, 3834, 3599, 3703, 3835, 13789, 19947, 13833, 3286, 22191, 10165, 4297, 3600,
      3704, 4216, 4424, 33287, 5205, 3705, 20048, 11684, 23124, 4125, 4126, 4341, 4342, 22428, 3601, 30356,
      33485, 4021, 3707, 20862, 14083, 4022, 4480, 21208, 41661, 18906, 6202, 16759, 33404, 22681, 21096, 13850,
      22333, 31666, 23400, 18432, 19244, 40743, 18919, 39967, 39821, 23412, 12605, 22011, 13810, 22153, 20008, 22786,
      7105, 63608, 38737, 134, 20059, 20155, 13630, 23587, 24401, 24516, 14586, 25164, 25909, 27514, 27701, 27706,
      28780, 29227, 20012, 29357, 18665, 32594, 31035, 31993, 32595, 25194, 13505, 0, 25419, 32770, 32896, 26130,
      26961, 21341, 34916, 35265, 30898, 35744, 36125, 38021, 38264, 38271, 38376, 36367, 38886, 39029, 39118, 39134,
      39267, 38928, 40060, 40479, 40644, 27503, 63751, 20023, 135, 38429, 25143, 38050, 0]"

definition hkscs_5 :: "u16 list" where
  "hkscs_5 = shorts
     [20539, 28158, 40051, 40870, 15817, 34959, 16718, 28791, 23797, 19232, 20941, 13657, 23856, 24866, 35378, 36775,
      37366, 29073, 26393, 29626, 12929, 41223, 15499, 6528, 19216, 30948, 29698, 20910, 34575, 16393, 27235, 41658,
      16931, 34319, 2671, 31274, 39239, 35562, 38741, 28749, 21284, 8318, 37876, 30425, 35299, 40871, 30685, 20131,
      20464, 20668, 20015, 20247, 40872, 21556, 32139, 22674, 22736, 7606, 24210, 24217, 24514, 10002, 25995, 13305,
      26905, 27203, 15459, 27903, 0, 29184, 17669, 29580, 16091, 18963, 23317, 29881, 35715, 23716, 22165, 31379,
      31724, 31939, 32364, 33528, 34199, 40873, 34960, 40874, 36537, 40875, 36815, 34143, 39392, 37409, 40876, 36281,
      5183, 16497, 17058, 23066, 0, 0, 0, 39016, 26475, 17014, 22333, 0, 34262, 18811, 33471, 28941,
      19585, 28020, 23931, 27413, 28606, 40877, 40878, 23446, 40879, 26343, 32347, 28247, 31178, 15752, 17603, 12886,
      10134, 17306, 17718, 0, 23765, 15130, 35577, 23672, 15634, 13649, 23928, 40882, 29015, 17752, 16620, 7715,
      19575, 14712, 13386, 420, 27713, 35532, 20404, 569, 22975, 33132, 38998, 39162, 24379]"

definition hkscs_6 :: "u16 list" where
  "hkscs_6 = shorts
     [2975, 0, 8641, 35181, 16642, 18107, 36985, 16135, 40883, 41397, 16632, 14294, 18167, 27718, 16764, 34482,
      29695, 17773, 14548, 21658, 17761, 17691, 19849, 19579, 19830, 17898, 16328, 19215, 13921, 17630, 17597, 16877,
      23870, 23880, 23894, 15868, 14351, 23972, 23993, 14368, 14392, 24130, 24253, 24357, 24451, 14600, 14612, 14655,
      14669, 24791, 24893, 23781, 14729, 25015, 25017, 25039, 14776, 25132, 25232, 25317, 25368, 14840, 22193, 14851,
      25570, 25595, 25607, 25690, 14923, 25792, 23829, 22049, 40863, 14999, 25990, 15037, 26111, 26195, 15090, 26258,
      15138, 26390, 15170, 26532, 26624, 15192, 26698, 26756, 15218, 15217, 15227, 26889, 26947, 29276, 26980, 27039,
      27013, 15292, 27094, 15325, 27237, 27252, 27249, 27266, 15340, 27289, 15346, 27307, 27317, 27348, 27382, 27521,
      27585, 27626, 27765, 27818, 15563, 27906, 27910, 27942, 28033, 15599, 28068, 28081, 28181, 28184, 28201, 28294,
      35264, 28347, 28386, 28378, 40831, 28392, 28393, 28452, 28468, 15686, 16193, 28545, 28606, 15722, 15733, 29111,
      23705, 15754, 28716, 15761, 28752, 28756, 28783, 28799, 28809, 805, 17345, 13809, 3800]"

definition hkscs_7 :: "u16 list" where
  "hkscs_7 = shorts
     [16087, 22462, 28371, 28990, 22496, 13902, 27042, 35817, 23412, 31305, 22753, 38105, 31333, 31357, 22956, 31419,
      31408, 31426, 31427, 29137, 25741, 16842, 31450, 31453, 31466, 16879, 21682, 23553, 31499, 31573, 31529, 21262,
      23806, 31650, 31599, 33692, 23476, 27775, 31696, 33825, 31634, 0, 23840, 15789, 23653, 33938, 31738, 0,
      31797, 23745, 31812, 31875, 18562, 31910, 26237, 17784, 31945, 31943, 31974, 31860, 31987, 31989, 0, 32359,
      17693, 28228, 32093, 28374, 29837, 32137, 32171, 28981, 32179, 0, 16471, 24617, 32228, 15635, 32245, 6137,
      32229, 33645, 0, 24865, 24922, 32366, 32402, 17195, 37996, 32295, 32576, 32577, 32583, 31030, 25296, 39393,
      32663, 25425, 32675, 5729, 104, 17756, 14182, 17667, 33594, 32762, 25737, 0, 32776, 32797, 0, 32815,
      41095, 27843, 32827, 32828, 32865, 10004, 18825, 26150, 15843, 26344, 26405, 32935, 35400, 33031, 33050, 22704,
      9974, 27775, 25752, 20408, 25831, 5258, 33304, 6238, 27219, 19045, 19093, 17530, 33321, 2829, 27218, 15742,
      20473, 5373, 34018, 33634, 27402, 18855, 13616, 6003, 15864, 33450, 26907, 63892, 16859]"

definition hkscs_8 :: "u16 list" where
  "hkscs_8 = shorts
     [34123, 33488, 33562, 3606, 6068, 14017, 12669, 13658, 33403, 33506, 33560, 16011, 28067, 27397, 27543, 13774,
      15807, 33565, 21996, 33669, 17675, 28069, 33708, 0, 33747, 13438, 28372, 27223, 34138, 13462, 28226, 12015,
      33880, 23524, 33905, 15827, 17636, 27303, 33866, 15541, 31064, 0, 27542, 28279, 28227, 34014, 0, 33681,
      17568, 33939, 34020, 23697, 16960, 23744, 17731, 34100, 23282, 28313, 17703, 34163, 17686, 26559, 34326, 34341,
      34363, 34241, 28808, 34306, 5506, 28877, 63922, 17770, 34344, 13896, 6306, 21495, 29594, 34430, 34673, 41208,
      34798, 11303, 34737, 34778, 34831, 22113, 34412, 26710, 17935, 34885, 34886, 30176, 15801, 30180, 34910, 34972,
      18011, 34996, 34997, 25537, 35013, 30583, 30479, 35207, 35210, 0, 0, 35239, 35260, 35365, 35303, 31012,
      31421, 35484, 30611, 37374, 35472, 31321, 31465, 31546, 16271, 18195, 31544, 29052, 35596, 35615, 21552, 21861,
      35647, 35660, 35661, 35497, 19066, 35728, 35739, 35503, 5855, 17941, 34895, 35995, 32084, 32143, 63956, 14117,
      32083, 36054, 32152, 32189, 36114, 36099, 6416, 36059, 28764, 36113, 19657, 16080, 0]"

definition hkscs_9 :: "u16 list" where
  "hkscs_9 = shorts
     [36265, 32770, 4116, 18826, 15228, 33212, 28940, 31463, 36525, 36534, 36547, 37588, 36633, 36653, 33637, 33810,
      36773, 37635, 41631, 2640, 36787, 18730, 35294, 34109, 15803, 24312, 12898, 36857, 40980, 34492, 34049, 8997,
      14720, 28375, 36919, 34108, 31422, 36961, 34156, 34315, 37032, 34579, 37060, 34534, 37038, 0, 37223, 15088,
      37289, 37316, 31916, 35123, 7817, 37390, 27807, 37441, 37474, 21945, 0, 35526, 15515, 35596, 21979, 3377,
      37676, 37739, 35553, 35819, 28815, 23235, 35554, 35557, 18789, 37444, 35820, 35897, 35839, 37747, 37979, 36540,
      38277, 38310, 37926, 38304, 28662, 17081, 9850, 34520, 4732, 15918, 18911, 27676, 38523, 38550, 16748, 38563,
      28373, 25050, 38582, 30965, 35552, 38589, 21452, 18849, 27832, 628, 25616, 37039, 37093, 19153, 6421, 13066,
      38705, 34370, 38710, 18959, 17725, 17797, 19177, 28789, 23361, 38683, 0, 37333, 38743, 23370, 37355, 38751,
      37925, 20688, 12471, 12476, 38793, 38815, 38833, 38846, 38848, 38866, 38880, 21612, 38894, 29724, 37939, 0,
      38901, 37917, 31098, 19153, 38964, 38963, 38987, 39014, 15118, 29045, 15697, 1584, 16732]"

definition hkscs_10 :: "u16 list" where
  "hkscs_10 = shorts
     [22278, 39114, 39095, 39112, 39111, 19199, 27943, 5843, 21936, 39137, 39142, 39148, 37752, 39225, 18985, 19314,
      38999, 39173, 39413, 39436, 39483, 39440, 39512, 22309, 14020, 37041, 39893, 39648, 39650, 39685, 39668, 19470,
      39700, 39725, 34304, 20532, 39732, 27048, 14531, 12413, 39760, 39744, 40254, 23109, 6243, 39822, 16971, 39938,
      39935, 39948, 40552, 40404, 40887, 41362, 41387, 41185, 41251, 41439, 40318, 40323, 41268, 40462, 26760, 40388,
      8539, 41363, 41504, 6459, 41523, 40249, 41145, 41652, 40592, 40597, 40606, 40610, 19764, 40618, 40623, 17252,
      40641, 15200, 14821, 15645, 20274, 14270, 35883, 40706, 40712, 19350, 37924, 28066, 40727, 0, 40761, 22175,
      22154, 40773, 39352, 37003, 38898, 33919, 40802, 40809, 31452, 40846, 29206, 19390, 18805, 18875, 29047, 18936,
      17224, 19025, 29598, 35802, 6394, 31135, 35198, 36406, 37737, 37875, 35396, 37612, 37761, 37835, 35180, 17593,
      29207, 16107, 30578, 31299, 28880, 17523, 17400, 29054, 6127, 28835, 6334, 13721, 16071, 6277, 21551, 6136,
      14114, 5883, 6201, 14049, 6004, 6353, 24395, 14115, 5824, 22363, 18981, 5118, 4776]"

definition hkscs_11 :: "u16 list" where
  "hkscs_11 = shorts
     [5062, 5302, 34051, 13990, 0, 33877, 18836, 29029, 15921, 21852, 16123, 28754, 17652, 14062, 39325, 28454,
      26617, 14131, 15381, 15847, 22636, 6434, 26640, 16471, 14143, 16609, 16523, 16655, 27681, 21707, 22174, 26289,
      22162, 4063, 2984, 3597, 37830, 35603, 37788, 20216, 20779, 14361, 17462, 20156, 1125, 895, 20299, 20362,
      22097, 23144, 427, 971, 14745, 778, 1044, 13365, 20265, 704, 36531, 629, 35546, 524, 20120, 20685,
      20749, 20386, 20227, 18958, 16010, 20290, 20526, 20588, 20609, 20428, 20453, 20568, 20732, 0, 0, 0,
      0, 28278, 13717, 15929, 16063, 28018, 6276, 16009, 20904, 20931, 1504, 17629, 1187, 1170, 1169, 36218,
      35484, 1806, 21081, 21156, 2163, 21217, 0, 18042, 29068, 17292, 3104, 18860, 4324, 27089, 3613, 0,
      16094, 29849, 29716, 29782, 29592, 19342, 19132, 16525, 21456, 13700, 29199, 16585, 21940, 837, 21709, 3014,
      22301, 37469, 38644, 37734, 22493, 22413, 22399, 13886, 22731, 23193, 35398, 5882, 5999, 5904, 23084, 22968,
      37519, 23166, 23247, 23058, 22854, 6643, 6241, 17045, 14069, 27909, 29763, 23073, 24195]"

definition hkscs_12 :: "u16 list" where
  "hkscs_12 = shorts
     [23169, 35799, 1043, 37856, 29836, 4867, 28933, 18802, 37896, 35323, 37821, 14240, 23582, 23710, 24158, 24136,
      6550, 6524, 15086, 24269, 23375, 6403, 6404, 14081, 6304, 14045, 5886, 14035, 33066, 35399, 7610, 13426,
      35240, 24332, 24334, 6439, 6059, 23147, 5947, 23364, 34324, 30205, 34912, 24702, 10336, 9771, 24539, 16056,
      9647, 9662, 37000, 28531, 25024, 62, 70, 9755, 24985, 24984, 24693, 11419, 11527, 18132, 37197, 25713,
      18021, 11114, 14889, 11042, 13392, 39146, 11896, 25399, 42075, 25782, 25393, 25553, 18915, 11623, 25252, 11425,
      25659, 25963, 26994, 15348, 12430, 12973, 18825, 12971, 21773, 13024, 6361, 37951, 26318, 12937, 12723, 15072,
      16784, 21892, 35618, 21903, 5884, 21851, 21541, 30958, 12547, 6186, 12852, 13412, 12815, 12674, 17097, 26254,
      27940, 26219, 19347, 26160, 30832, 7659, 26211, 13010, 13025, 26142, 22642, 14545, 14394, 14268, 15257, 14242,
      13310, 29904, 15254, 26511, 17962, 26806, 26654, 15300, 27326, 14435, 14293, 17543, 27187, 27218, 27337, 27397,
      6418, 25873, 26776, 27212, 15319, 27258, 27479, 16320, 15514, 37792, 37618, 35818, 35531]"

definition hkscs_13 :: "u16 list" where
  "hkscs_13 = shorts
     [37513, 32798, 35292, 37991, 28069, 28427, 18924, 0, 16255, 15759, 28164, 16444, 23101, 28170, 22599, 27940,
      30786, 28987, 17178, 17014, 28913, 29264, 29319, 29332, 18319, 18213, 20857, 19108, 1515, 29818, 16120, 13919,
      19018, 18711, 24545, 16134, 16049, 19167, 35875, 16181, 24743, 16115, 29900, 29756, 37767, 29751, 17567, 28138,
      17745, 30083, 16227, 19673, 19718, 16216, 30037, 30323, 42438, 15129, 29800, 35532, 18859, 18830, 15099, 15821,
      19022, 16127, 18885, 18675, 37370, 22322, 37698, 35555, 6244, 20703, 21025, 20967, 30584, 12850, 30478, 30479,
      30587, 18071, 14209, 14942, 18672, 29752, 29851, 16063, 19130, 19143, 16584, 19094, 25006, 37639, 21889, 30750,
      30861, 30856, 30930, 29648, 31065, 30529, 22243, 16654, 0, 33942, 31141, 27181, 16122, 31290, 31220, 16750,
      5862, 16690, 37429, 31217, 3404, 18828, 665, 15802, 5998, 13719, 21867, 13680, 13994, 468, 3085, 31458,
      23129, 9973, 23215, 23196, 23053, 603, 30960, 23082, 23494, 31486, 16889, 31837, 31853, 16913, 23475, 24252,
      24230, 31949, 18937, 6064, 31886, 31868, 31918, 27314, 32220, 32263, 32211, 32590, 25185]"

definition hkscs_14 :: "u16 list" where
  "hkscs_14 = shorts
     [24924, 31560, 32151, 24194, 17002, 27509, 2326, 26582, 78, 13775, 22468, 25618, 25592, 18786, 32733, 31527,
      2092, 23273, 23875, 31500, 24078, 39398, 34373, 39523, 27164, 13375, 14818, 18935, 26029, 39455, 26016, 33920,
      28967, 27857, 17642, 33079, 17410, 32966, 33033, 33090, 26548, 39107, 27202, 33378, 33381, 27217, 33875, 28071,
      34320, 29211, 23174, 16767, 6208, 23339, 6305, 23268, 6360, 34464, 63932, 15759, 34861, 29730, 23042, 34926,
      20293, 34951, 35007, 35046, 35173, 35149, 22147, 35156, 30597, 30596, 35829, 35801, 35740, 35321, 16045, 33955,
      18165, 18127, 14322, 35389, 35356, 37960, 24397, 37419, 17028, 26068, 28969, 28868, 6213, 40301, 35999, 36073,
      32220, 22938, 30659, 23024, 17262, 14036, 36394, 36519, 19465, 36656, 36682, 17140, 27736, 28603, 8993, 18587,
      28537, 28299, 6106, 39913, 14005, 18735, 37051, 0, 21873, 18694, 37307, 37892, 35403, 16482, 35580, 37927,
      35869, 35899, 34021, 35371, 38297, 38311, 38295, 38294, 36148, 29765, 16066, 18687, 19010, 17386, 16103, 12837,
      38543, 36583, 36454, 36453, 16076, 18925, 19064, 16366, 29714, 29803, 16124, 38721, 37040]"

definition hkscs_15 :: "u16 list" where
  "hkscs_15 = shorts
     [26695, 18973, 37011, 22495, 0, 37736, 35209, 35878, 35631, 25534, 37562, 23313, 35689, 18748, 29689, 16923,
      38811, 38769, 39224, 3878, 24001, 35781, 19122, 38943, 38106, 37622, 38359, 37349, 17600, 35664, 19047, 35684,
      39132, 35397, 16128, 37418, 18725, 33812, 39227, 39245, 31494, 15869, 39323, 19311, 39338, 39516, 35685, 22728,
      27279, 39457, 23294, 39471, 39153, 19344, 39240, 39356, 19389, 19351, 37757, 22642, 4866, 22562, 18872, 5352,
      30788, 10015, 15800, 26821, 15741, 37976, 14631, 24912, 10113, 10603, 24839, 40015, 40019, 40059, 39989, 39952,
      39807, 39887, 40493, 39839, 41461, 41214, 40225, 19630, 16644, 40472, 19632, 40204, 41396, 41197, 41203, 39215,
      40357, 33981, 28178, 28639, 27522, 34300, 17715, 28068, 28292, 28144, 33824, 34286, 28160, 14295, 24676, 31202,
      13724, 13888, 18733, 18910, 15714, 37851, 37566, 37704, 703, 30905, 37495, 37965, 20452, 13376, 36964, 21853,
      30781, 30804, 30902, 30795, 5975, 12745, 18753, 13978, 20338, 28634, 28633, 0, 28702, 21524, 16821, 22459,
      22771, 22410, 40214, 22487, 28980, 13487, 16812, 29163, 27712, 20375, 0, 6069, 35401]"

definition hkscs_16 :: "u16 list" where
  "hkscs_16 = shorts
     [24844, 23246, 23051, 17084, 17544, 14124, 19323, 35324, 37819, 37816, 6358, 3869, 33906, 27840, 5139, 17146,
      11302, 17345, 22932, 15799, 26433, 32168, 24923, 24740, 18873, 18827, 35322, 37605, 29666, 16105, 29876, 35683,
      6303, 16097, 19123, 27352, 29683, 29691, 16086, 19006, 19092, 6105, 19046, 935, 5156, 18917, 29768, 18710,
      28837, 18806, 37508, 29670, 37727, 1278, 37681, 35534, 35350, 37766, 35815, 21973, 18741, 35458, 29035, 18755,
      3327, 22180, 1562, 3051, 3256, 21762, 31172, 6138, 32254, 5826, 19024, 6226, 17710, 37889, 14090, 35520,
      18861, 22960, 6335, 6275, 29828, 23201, 14050, 15707, 14000, 37471, 23161, 35457, 6242, 37748, 15565, 2740,
      19094, 14730, 20724, 15721, 15692, 5020, 29045, 17147, 33304, 28175, 37092, 17643, 27991, 32335, 28775, 27823,
      15574, 16365, 15917, 28162, 28428, 15727, 1013, 30033, 14012, 13512, 18048, 16090, 18545, 22980, 37486, 18750,
      36673, 35868, 27584, 22546, 22472, 14038, 5202, 28926, 17250, 19057, 12259, 4784, 9149, 26809, 26983, 5016,
      13541, 31732, 14047, 35459, 14294, 13306, 19615, 27162, 13997, 27831, 33854, 17631, 17614]"

definition hkscs_17 :: "u16 list" where
  "hkscs_17 = shorts
     [27942, 27985, 27778, 28638, 28439, 28937, 33597, 5946, 33773, 27776, 28755, 6107, 22921, 23170, 6067, 23137,
      23153, 6405, 16892, 14125, 23023, 5948, 14023, 29070, 37776, 26266, 17061, 23150, 23083, 17043, 27179, 16121,
      30518, 17499, 17098, 28957, 16985, 35297, 20400, 27944, 23746, 17614, 32333, 17341, 27148, 16982, 4868, 28838,
      28979, 17385, 15781, 27871, 63525, 19023, 32357, 23019, 23855, 15859, 24412, 19037, 6111, 32164, 33830, 21637,
      15098, 13056, 532, 22398, 2261, 1561, 16357, 8094, 41654, 28675, 37211, 23920, 29583, 31955, 35417, 37920,
      20424, 32743, 29389, 29456, 31476, 29496, 29497, 22262, 29505, 29512, 16041, 31512, 36972, 29173, 18674, 29665,
      33270, 16074, 30476, 16081, 27810, 22269, 29721, 29726, 29727, 16098, 16112, 16116, 16122, 29907, 16142, 16211,
      30018, 30061, 30066, 30093, 16252, 30152, 30172, 16320, 30285, 16343, 30324, 16348, 30330, 20316, 29064, 22051,
      35200, 22633, 16413, 30531, 16441, 26465, 16453, 13787, 30616, 16490, 16495, 23646, 30654, 30667, 22770, 30744,
      28857, 30748, 16552, 30777, 30791, 30801, 30822, 33864, 21813, 31027, 26627, 31026, 16643]"

definition hkscs_18 :: "u16 list" where
  "hkscs_18 = shorts
     [16649, 31121, 31129, 36795, 31238, 36796, 16743, 31377, 16818, 31420, 33401, 16836, 31439, 31451, 16847, 20001,
      31586, 31596, 31611, 31762, 31771, 16992, 17018, 31867, 31900, 17036, 31928, 17044, 31981, 36755, 28864, 3279,
      32207, 32212, 32208, 32253, 32686, 32692, 29343, 17303, 32800, 32805, 31545, 32814, 32817, 32852, 15820, 22452,
      28832, 32951, 33001, 17389, 33036, 29482, 33038, 33042, 30048, 33044, 17409, 15161, 33110, 33113, 33114, 17427,
      22586, 33148, 33156, 17445, 33171, 17453, 33189, 22511, 33217, 33252, 33364, 17551, 33446, 33398, 33482, 33496,
      33535, 17584, 33623, 38505, 27018, 33797, 28917, 33892, 24803, 33928, 17668, 33982, 34017, 34040, 34064, 34104,
      34130, 17723, 34159, 34160, 34272, 17783, 34418, 34450, 34482, 34543, 38469, 34699, 17926, 17943, 34990, 35071,
      35108, 35143, 35217, 31079, 35369, 35384, 35476, 35508, 35921, 36052, 36082, 36124, 18328, 22623, 36291, 18413,
      20206, 36410, 21976, 22356, 36465, 22005, 36528, 18487, 36558, 36578, 36580, 36589, 36594, 36791, 36801, 36810,
      36812, 36915, 39364, 18605, 39136, 37395, 18718, 37416, 37464, 37483, 37553, 37550, 37567]"

definition hkscs_19 :: "u16 list" where
  "hkscs_19 = shorts
     [37603, 37611, 37619, 37620, 37629, 37699, 37764, 37805, 18757, 18769, 40639, 37911, 21249, 37917, 37933, 37950,
      18794, 37972, 38009, 38189, 38306, 18855, 38388, 38451, 18917, 26528, 18980, 38720, 18997, 38834, 38850, 22100,
      19172, 24808, 39097, 19225, 39153, 22596, 39182, 39193, 20916, 39196, 39223, 39234, 39261, 39266, 19312, 39365,
      19357, 39484, 39695, 31363, 39785, 39809, 39901, 39921, 39924, 19565, 39968, 14191, 7106, 40265, 39994, 40702,
      22096, 40339, 40381, 40384, 40444, 38134, 36790, 40571, 40620, 40625, 40637, 40646, 38108, 40674, 40689, 40696,
      31432, 40772, 148, 695, 928, 26906, 38083, 22956, 1239, 22592, 38081, 14265, 1493, 1557, 1654, 5818,
      22359, 29043, 2754, 2765, 3007, 21610, 63547, 3019, 21662, 3067, 3131, 3155, 3173, 3196, 24807, 3213,
      22138, 3253, 3293, 3309, 3439, 3506, 3528, 26965, 39983, 34725, 3588, 3598, 3799, 3984, 3885, 3699,
      23584, 4028, 24075, 4188, 4175, 4214, 26398, 4219, 4232, 4246, 13895, 4287, 4307, 4399, 4411, 21348,
      33965, 4835, 4981, 4918, 35713, 5495, 5657, 6083, 6087, 20088, 28859, 6189, 6506]"

definition hkscs_20 :: "u16 list" where
  "hkscs_20 = shorts
     [6701, 6725, 7210, 7280, 7340, 7880, 25283, 7893, 7957, 29080, 26709, 8261, 27113, 14024, 8828, 9175,
      9210, 10026, 10353, 10575, 33533, 10599, 10643, 10965, 35237, 10984, 36768, 11022, 38840, 11071, 38983, 39613,
      11340, 0, 11400, 11447, 23528, 11528, 11538, 11703, 11669, 11842, 12148, 12236, 12339, 12390, 13087, 13278,
      24497, 26184, 26303, 31353, 13671, 13811, 0, 18874, 0, 13850, 14102, 0, 838, 22709, 26382, 26904,
      15015, 30295, 24546, 15889, 16057, 30206, 8346, 18640, 19128, 16665, 35482, 17134, 17165, 16443, 17204, 17302,
      19013, 1482, 20946, 1553, 22943, 7848, 15294, 15615, 17412, 17622, 22408, 18036, 14747, 18223, 34280, 39369,
      14178, 8643, 35678, 35662, 0, 18450, 18683, 18965, 29193, 19136, 3192, 22885, 20133, 20358, 1913, 36570,
      20524, 21135, 22335, 29041, 21145, 21529, 16202, 19111, 21948, 21574, 21614, 27474, 0, 13427, 21823, 30258,
      21854, 18200, 21858, 21862, 22471, 18751, 22621, 20582, 13563, 13260, 0, 22787, 18300, 35144, 23214, 23433,
      23558, 7568, 22433, 29009, 0, 24834, 31762, 36950, 25010, 20378, 35682, 25602, 25674]"

definition hkscs_21 :: "u16 list" where
  "hkscs_21 = shorts
     [23899, 27639, 0, 25732, 6428, 35562, 18934, 25736, 16367, 25874, 19392, 26047, 26293, 10011, 37989, 22497,
      24981, 23079, 63693, 0, 22201, 17697, 26364, 20074, 18740, 38486, 28047, 27837, 13848, 35191, 26521, 26734,
      25617, 26718, 0, 26823, 31554, 37056, 2577, 26918, 0, 26937, 31301, 0, 27130, 39462, 27181, 13919,
      25705, 33, 31107, 27188, 27483, 23852, 13593, 0, 27549, 18128, 27812, 30011, 34917, 28078, 22710, 14108,
      9613, 28747, 29133, 15444, 29312, 29317, 37505, 8570, 29323, 37680, 29414, 18896, 27705, 38047, 29776, 3832,
      34855, 35061, 10534, 33907, 6065, 28344, 18986, 6176, 14756, 14009, 0, 0, 17727, 26294, 40109, 39076,
      35139, 30668, 30808, 22230, 16607, 5642, 14753, 14127, 33000, 5061, 29101, 33638, 31197, 37288, 0, 19639,
      28847, 35243, 31229, 31242, 31499, 32102, 16762, 31555, 31102, 32777, 28597, 41695, 27139, 33560, 21410, 28167,
      37823, 26678, 38749, 33135, 32803, 27061, 5101, 12847, 32840, 23941, 35888, 32899, 22293, 38947, 35145, 23979,
      18824, 26046, 27093, 21458, 19109, 16257, 15377, 26422, 32912, 33012, 33070, 8097, 33103]"

definition hkscs_22 :: "u16 list" where
  "hkscs_22 = shorts
     [33161, 33199, 33306, 33542, 33583, 33674, 13770, 33896, 34474, 18682, 25574, 35158, 30728, 37461, 35256, 17394,
      35303, 17375, 35304, 35654, 35796, 23032, 35849, 0, 36805, 37100, 0, 37136, 37180, 15863, 37214, 19146,
      36816, 29327, 22155, 38119, 38377, 38320, 38328, 38706, 39121, 39241, 39274, 39363, 39464, 39694, 40282, 40347,
      32415, 40696, 40739, 19620, 38215, 41619, 29090, 41727, 19857, 36882, 42443, 19868, 3228, 36798, 21953, 36794,
      9392, 36793, 19091, 17673, 32383, 28502, 27313, 20202, 13540, 35628, 30877, 14138, 36480, 6133, 32804, 35692,
      35737, 31294, 26287, 15851, 30293, 15543, 22069, 22870, 20122, 24193, 25176, 22207, 3693, 36366, 23405, 16008,
      19614, 25566, 0, 6134, 6267, 25904, 22061, 23626, 21530, 21265, 15814, 40344, 19581, 22050, 22046, 32585,
      24280, 22901, 15680, 34672, 19996, 4074, 3401, 14010, 33047, 40286, 36120, 30267, 40005, 30286, 30649, 37701,
      21554, 33096, 33527, 22053, 33074, 33816, 32957, 21994, 31074, 22083, 21526, 3741, 13774, 22021, 22001, 26353,
      33506, 13869, 30004, 22000, 21946, 21655, 21874, 3137, 3222, 24272, 20808, 3702, 11362]"

definition hkscs_23 :: "u16 list" where
  "hkscs_23 = shorts
     [3746, 40619, 32090, 21982, 4213, 25245, 38765, 21652, 36045, 29174, 37238, 25596, 25529, 25598, 21865, 11075,
      40050, 11955, 20890, 13535, 3495, 20903, 21581, 21790, 21779, 30310, 36397, 26762, 30129, 32950, 34820, 34694,
      35015, 33206, 33820, 4289, 17644, 29444, 18182, 23440, 33547, 26771, 22139, 9972, 32047, 16803, 32115, 28368,
      29366, 37232, 4569, 37384, 15612, 42665, 3756, 3833, 29286, 7330, 18254, 20418, 32761, 4075, 16634, 40029,
      25887, 11680, 18675, 18400, 40316, 4076, 3594, 0, 30115, 4077, 0, 24648, 4487, 29091, 32398, 40272,
      19994, 19972, 13687, 23309, 27826, 21351, 13996, 14812, 21373, 13989, 17944, 22682, 19310, 33325, 21579, 22442,
      23189, 2425, 0, 14930, 9317, 29556, 40620, 19721, 39917, 15614, 40752, 19547, 20393, 38302, 40926, 33884,
      15798, 29362, 26547, 14112, 25390, 32037, 16119, 15916, 14890, 36872, 21196, 15988, 13946, 17897, 1166, 30272,
      23280, 3766, 30842, 32558, 22695, 16575, 22140, 39819, 23924, 30292, 42036, 40581, 19681, 0, 14331, 24857,
      12506, 17394, 0, 22109, 4777, 22439, 18787, 40454, 21044, 28846, 13741, 0, 40316]"

definition hkscs_24 :: "u16 list" where
  "hkscs_24 = shorts
     [31830, 39737, 22494, 5996, 23635, 25811, 38096, 25397, 29028, 34477, 3368, 27938, 19170, 3441, 0, 20990,
      7951, 23950, 38659, 7633, 40577, 36940, 31519, 39682, 23761, 31651, 25192, 25397, 39679, 31695, 39722, 31870,
      0, 31810, 31878, 39957, 31740, 39689, 0, 39963, 18750, 40794, 21875, 23491, 20477, 40600, 20466, 21088,
      15878, 21201, 22375, 20566, 22967, 24082, 38856, 40363, 36700, 21609, 38836, 39232, 38842, 21292, 24880, 26924,
      21466, 39946, 40194, 19515, 38465, 27008, 20646, 30022, 5997, 39386, 21107, 0, 37209, 38529, 37212, 0,
      37201, 36503, 25471, 27939, 27338, 22033, 37262, 30074, 25221, 1020, 29519, 31856, 23585, 15613, 0, 18713,
      30422, 39837, 20010, 3284, 33726, 34882, 0, 23626, 27072, 0, 22394, 21023, 24053, 20174, 27697, 498,
      20281, 21660, 21722, 21146, 36226, 13822, 0, 13811, 0, 27474, 37244, 40869, 39831, 38958, 39092, 39610,
      40616, 40580, 29050, 31508, 0, 27642, 34840, 32632, 0, 22048, 42570, 36471, 40787, 0, 36308, 36431,
      40476, 36353, 25218, 33661, 36392, 36469, 31443, 19063, 31294, 30936, 27882, 35431, 30215]"

definition hkscs_25 :: "u16 list" where
  "hkscs_25 = shorts
     [35418, 40742, 27854, 34774, 30147, 41650, 30803, 63552, 36108, 29410, 29553, 35629, 29442, 29937, 36075, 19131,
      34351, 24506, 34976, 17591, 0, 6203, 28165, 0, 35454, 9499, 0, 24829, 30311, 39639, 40260, 37742,
      39823, 34805, 0, 0, 36087, 29484, 38689, 39856, 13782, 29362, 19463, 31825, 39242, 24921, 24921, 19460,
      40598, 24957, 0, 22367, 24943, 25254, 25145, 0, 14940, 25058, 21418, 13301, 25444, 26626, 13778, 23895,
      35778, 36826, 36409, 0, 20697, 7494, 30982, 21298, 38456, 3899, 16485, 0, 30718, 0, 31938, 24346,
      31962, 31277, 32870, 32867, 32077, 29957, 29938, 35220, 33306, 26380, 32866, 29830, 32859, 29936, 33027, 30500,
      35209, 26572, 30035, 28369, 34729, 34766, 33224, 34700, 35401, 36013, 35651, 30507, 29944, 34010, 13877, 27058,
      36262, 0, 35241, 0, 28089, 34753, 16401, 29927, 15835, 29046, 24740, 24988, 15569, 0, 24695, 0,
      32625, 35629, 0, 24809, 19326, 21024, 15384, 15559, 24279, 30294, 21809, 6468, 4862, 39171, 28124, 28845,
      23745, 25005, 35343, 13943, 238, 26694, 20238, 17762, 23327, 25420, 40784, 40614, 25195]"

definition hkscs_26 :: "u16 list" where
  "hkscs_26 = shorts
     [1351, 37595, 1503, 16325, 34124, 17077, 29679, 20917, 13897, 18754, 35300, 37700, 6619, 33518, 15560, 30780,
      26436, 25311, 18739, 35242, 672, 27571, 4869, 20395, 9453, 20488, 27945, 31364, 13824, 19121, 9491, 0,
      894, 24484, 896, 839, 28379, 1055, 0, 20737, 13434, 20750, 39020, 14147, 33814, 18852, 1159, 20832,
      13236, 20842, 3071, 8444, 741, 9520, 1422, 12851, 6531, 23426, 34685, 1459, 15513, 20914, 20920, 40244,
      20937, 20943, 20945, 15580, 20947, 19110, 20915, 20962, 21314, 20973, 33741, 26942, 14125, 24443, 21003, 21030,
      21052, 21173, 21079, 21140, 21177, 21189, 31765, 34114, 21216, 34317, 27411, 0, 35550, 21833, 28377, 16256,
      2388, 16364, 21299, 0, 3042, 27851, 5926, 26651, 29653, 24650, 16042, 14540, 5864, 29149, 17570, 21357,
      21364, 34475, 21374, 0, 5526, 5651, 30694, 21395, 35483, 21408, 21419, 21422, 29607, 22386, 16217, 29596,
      21441, 21445, 27721, 20041, 22526, 21465, 15019, 2959, 21472, 16363, 11683, 21494, 3191, 21523, 28793, 21803,
      26199, 27995, 21613, 27475, 3444, 21853, 21647, 21668, 18342, 5901, 3805, 15796, 3405]"

definition hkscs_27 :: "u16 list" where
  "hkscs_27 = shorts
     [35260, 9880, 21831, 19693, 21551, 29719, 21894, 21929, 0, 6359, 16442, 17746, 17461, 26291, 4276, 22071,
      26317, 12938, 26276, 26285, 22093, 22095, 30961, 22257, 38791, 21502, 22272, 22255, 22253, 35686, 13859, 4687,
      22342, 16805, 27758, 28811, 22338, 14001, 27774, 22502, 5142, 22531, 5204, 17251, 22566, 19445, 22620, 22698,
      13665, 22752, 22748, 4668, 22779, 23551, 22339, 41296, 17016, 37843, 13729, 22815, 26790, 14019, 28249, 5694,
      23076, 21843, 5778, 34053, 22985, 3406, 27777, 27946, 6108, 23001, 6139, 6066, 28070, 28017, 6184, 5845,
      23033, 28229, 23211, 23139, 14054, 18857, 0, 14088, 23190, 29797, 23251, 28577, 9556, 15749, 6417, 14130,
      5816, 24195, 21200, 23414, 25992, 23420, 31246, 16388, 18525, 516, 23509, 24928, 6708, 22988, 1445, 23539,
      23453, 19728, 23557, 6980, 23571, 29646, 23572, 7333, 27432, 23625, 18653, 23685, 23785, 23791, 23947, 7673,
      7735, 23824, 23832, 23878, 7844, 23738, 24023, 33532, 14381, 18689, 8265, 8563, 33415, 14390, 15298, 24110,
      27274, 0, 24186, 17596, 3283, 21414, 20151, 0, 21416, 6001, 24073, 24308, 33922]"

definition hkscs_28 :: "u16 list" where
  "hkscs_28 = shorts
     [24313, 24315, 14496, 24316, 26686, 37915, 24333, 449, 63636, 15070, 18606, 4922, 24378, 26760, 9168, 0,
      9329, 24419, 38845, 28270, 24434, 37696, 35382, 24487, 23990, 15711, 21072, 8042, 28920, 9832, 37334, 670,
      35369, 24625, 26245, 6263, 14691, 15815, 13881, 22416, 10164, 31089, 15936, 24734, 0, 24755, 18818, 18831,
      31315, 29860, 20705, 23200, 24932, 33828, 24898, 63654, 28370, 24961, 20980, 1622, 24967, 23466, 16311, 10335,
      25043, 35741, 39261, 25040, 14642, 10624, 10433, 24611, 24924, 25886, 25483, 280, 25285, 6000, 25301, 11789,
      25452, 18911, 14871, 25656, 25592, 5006, 6140, 0, 28554, 11830, 38932, 16524, 22301, 25825, 25829, 38011,
      14950, 25658, 14935, 25933, 28438, 18984, 18979, 25989, 25965, 25951, 12414, 26037, 18752, 19255, 26065, 16600,
      6185, 26080, 26083, 24543, 13312, 26136, 12791, 12792, 26180, 12708, 12709, 26187, 3701, 26215, 20966, 26227,
      0, 7741, 12849, 34292, 12744, 21267, 30661, 10487, 39332, 26370, 17308, 18977, 15147, 27130, 14274, 0,
      26471, 26466, 16845, 37101, 26583, 17641, 26658, 28240, 37436, 26625, 13286, 28064, 26717]"

definition hkscs_29 :: "u16 list" where
  "hkscs_29 = shorts
     [13423, 27105, 27147, 35551, 26995, 26819, 13773, 26881, 26880, 15666, 14849, 13884, 15232, 26540, 26977, 35402,
      17148, 26934, 27032, 15265, 969, 33635, 20624, 27129, 13913, 8490, 27205, 14083, 27293, 15347, 26545, 27336,
      37276, 15373, 27421, 2339, 24798, 27445, 27508, 10189, 28341, 15067, 949, 6488, 14144, 21537, 15194, 27617,
      16124, 27612, 27703, 9355, 18673, 27473, 27738, 33318, 27769, 15804, 17605, 15805, 16804, 18700, 18688, 15561,
      14053, 15595, 3378, 39811, 12793, 9361, 32655, 26679, 27941, 28065, 28139, 28054, 27996, 28284, 28420, 18815,
      16517, 28274, 34099, 28532, 20935, 0, 0, 33838, 35617, 0, 15919, 29779, 16258, 31180, 28239, 23185,
      12363, 28664, 14093, 28573, 15920, 28410, 5271, 16445, 17749, 37872, 28484, 28508, 15694, 28532, 37232, 15675,
      28575, 16708, 28627, 16529, 16725, 16441, 16368, 16308, 16703, 20959, 16726, 16727, 16704, 25053, 28747, 28798,
      28839, 28801, 28876, 28885, 28886, 28895, 16644, 15848, 29108, 29078, 17015, 28971, 28997, 23176, 29002, 0,
      23708, 17253, 29007, 37730, 17089, 28972, 17498, 18983, 18978, 29114, 35816, 28861, 29198]"

definition hkscs_30 :: "u16 list" where
  "hkscs_30 = shorts
     [37954, 29205, 22801, 37955, 29220, 37697, 22021, 29230, 29248, 18804, 26813, 29269, 29271, 15957, 12356, 26637,
      28477, 29314, 0, 29483, 18467, 34859, 18669, 34820, 29480, 29486, 29647, 29610, 3130, 27182, 29641, 29769,
      16866, 5863, 18980, 26147, 14021, 18871, 18829, 18939, 29687, 29717, 26883, 18982, 29753, 1475, 16087, 0,
      10413, 29792, 36530, 29767, 29668, 29814, 33721, 29804, 14128, 29812, 37873, 27180, 29826, 18771, 19084, 16735,
      19065, 35727, 23366, 35843, 6302, 29896, 6536, 29966, 0, 29982, 36569, 6731, 23511, 36524, 37765, 30029,
      30026, 30055, 30062, 20354, 16132, 19731, 30094, 29789, 30110, 30132, 30210, 30252, 30289, 30287, 30319, 30326,
      25589, 30352, 33263, 14328, 26897, 26894, 30369, 30373, 30391, 30412, 28575, 33890, 20637, 20861, 7708, 30494,
      30502, 30528, 25775, 21024, 30552, 12972, 30639, 35172, 35176, 5825, 30708, 0, 4982, 18962, 26826, 30895,
      30919, 30931, 38565, 31022, 21984, 30935, 31028, 30897, 30220, 36792, 34948, 35627, 24707, 9756, 31110, 35072,
      26882, 31104, 22615, 31133, 31545, 31036, 31145, 28202, 28966, 16040, 31174, 37133, 31188]"

definition hkscs_planes :: "u16 list" where
  "hkscs_planes = shorts
     [1312, 17503, 21007, 47234, 248, 16384, 43296, 1102, 0, 0, 2868, 1, 0, 0, 0, 0,
      0, 0, 0, 3072, 64, 0, 0, 0, 1024, 88, 60, 0, 0, 23680, 56493, 48115,
      17353, 60910, 4004, 49446, 30363, 61426, 64478, 63482, 12815, 44868, 61438, 65277, 24593, 176, 8448, 33049,
      4128, 43144, 8544, 9321, 17408, 50313, 0, 16387, 53, 33859, 20785, 26771, 514, 0, 0, 0,
      0, 0, 16384, 256, 44160, 33380, 35904, 37025, 20484, 54368, 53760, 6186, 26781, 38709, 55375, 8440,
      33476, 10268, 30082, 660, 16440, 41376, 4293, 19825, 3524, 47512, 23390, 17153, 39327, 30723, 57888, 2079,
      393, 16585, 775, 39437, 21136, 20433, 892, 8450, 49184, 4974, 46467, 62939, 30693, 20368, 39447, 5942,
      12, 47726, 12041, 21600, 7680, 26744, 28706, 40534, 62245, 46990, 2839, 59119, 6007, 7003, 4289, 36248,
      6162, 53174, 12545, 6770, 11355, 49334, 57888, 23747, 7042, 56032, 34254, 16598, 21673, 53259, 18447, 16452,
      2320, 16596, 15278, 7780, 11076, 2071, 33414, 6198, 35232, 40167, 2139, 900, 55810, 60560, 34779, 49029,
      44450, 36509, 39069, 9504, 70, 40774, 58239, 51669, 62596, 19926, 58118, 6326, 2322, 0, 1024, 0,
      32, 0, 512, 0, 0, 0, 0, 8192, 0, 0, 0, 0, 0, 0, 8, 36352,
      28280, 16223, 56702, 63293, 39932, 44796, 65490, 27535, 59377, 47807, 28334, 61207, 42972, 46654, 30645, 37577,
      42455, 19126, 39790, 33209, 26445, 21758, 39921, 65122, 21103, 14039, 49150, 17705, 63873, 26045, 17062, 57,
      16896, 36704, 37888, 16448, 45010, 53719, 219, 39072, 31666, 20998, 38944, 51222, 2365, 0, 1, 0,
      2561, 2226, 128, 0, 34820, 5152, 19472, 0, 4, 17569, 16, 321, 2048, 61504, 20447, 22582,
      62961, 32949, 26613, 16512, 20480, 16718, 33992, 23040, 55392, 11009, 20481, 5793, 16580, 28402, 44049, 14624,
      49348, 1800, 2316, 38552, 39876, 7184, 27800, 10886, 422, 4422, 58733, 50379, 37568, 8464, 4630, 29341,
      27124, 5902, 41514, 62593, 123, 41992, 36875, 11280, 14796, 330, 5872, 2571, 3136, 59933, 17420, 17678,
      2]"

definition hkscs_rows :: "u16 list list" where
  "hkscs_rows =
     [hkscs_0, hkscs_1, hkscs_2, hkscs_3, hkscs_4, hkscs_5, hkscs_6, hkscs_7,
      hkscs_8, hkscs_9, hkscs_10, hkscs_11, hkscs_12, hkscs_13, hkscs_14, hkscs_15,
      hkscs_16, hkscs_17, hkscs_18, hkscs_19, hkscs_20, hkscs_21, hkscs_22, hkscs_23,
      hkscs_24, hkscs_25, hkscs_26, hkscs_27, hkscs_28, hkscs_29, hkscs_30]"

definition hkscs :: "u16 list" where
  "hkscs = concat hkscs_rows @ hkscs_planes"

lemma hkscs_0_ok: "hkscs_row_ok 157 hkscs_0"
  unfolding hkscs_0_def by (rule hkscs_row_ok_shorts) code_simp

lemma hkscs_1_ok: "hkscs_row_ok 157 hkscs_1"
  unfolding hkscs_1_def by (rule hkscs_row_ok_shorts) code_simp

lemma hkscs_2_ok: "hkscs_row_ok 157 hkscs_2"
  unfolding hkscs_2_def by (rule hkscs_row_ok_shorts) code_simp

lemma hkscs_3_ok: "hkscs_row_ok 157 hkscs_3"
  unfolding hkscs_3_def by (rule hkscs_row_ok_shorts) code_simp

lemma hkscs_4_ok: "hkscs_row_ok 157 hkscs_4"
  unfolding hkscs_4_def by (rule hkscs_row_ok_shorts) code_simp

lemma hkscs_5_ok: "hkscs_row_ok 157 hkscs_5"
  unfolding hkscs_5_def by (rule hkscs_row_ok_shorts) code_simp

lemma hkscs_6_ok: "hkscs_row_ok 157 hkscs_6"
  unfolding hkscs_6_def by (rule hkscs_row_ok_shorts) code_simp

lemma hkscs_7_ok: "hkscs_row_ok 157 hkscs_7"
  unfolding hkscs_7_def by (rule hkscs_row_ok_shorts) code_simp

lemma hkscs_8_ok: "hkscs_row_ok 157 hkscs_8"
  unfolding hkscs_8_def by (rule hkscs_row_ok_shorts) code_simp

lemma hkscs_9_ok: "hkscs_row_ok 157 hkscs_9"
  unfolding hkscs_9_def by (rule hkscs_row_ok_shorts) code_simp

lemma hkscs_10_ok: "hkscs_row_ok 157 hkscs_10"
  unfolding hkscs_10_def by (rule hkscs_row_ok_shorts) code_simp

lemma hkscs_11_ok: "hkscs_row_ok 157 hkscs_11"
  unfolding hkscs_11_def by (rule hkscs_row_ok_shorts) code_simp

lemma hkscs_12_ok: "hkscs_row_ok 157 hkscs_12"
  unfolding hkscs_12_def by (rule hkscs_row_ok_shorts) code_simp

lemma hkscs_13_ok: "hkscs_row_ok 157 hkscs_13"
  unfolding hkscs_13_def by (rule hkscs_row_ok_shorts) code_simp

lemma hkscs_14_ok: "hkscs_row_ok 157 hkscs_14"
  unfolding hkscs_14_def by (rule hkscs_row_ok_shorts) code_simp

lemma hkscs_15_ok: "hkscs_row_ok 157 hkscs_15"
  unfolding hkscs_15_def by (rule hkscs_row_ok_shorts) code_simp

lemma hkscs_16_ok: "hkscs_row_ok 157 hkscs_16"
  unfolding hkscs_16_def by (rule hkscs_row_ok_shorts) code_simp

lemma hkscs_17_ok: "hkscs_row_ok 157 hkscs_17"
  unfolding hkscs_17_def by (rule hkscs_row_ok_shorts) code_simp

lemma hkscs_18_ok: "hkscs_row_ok 157 hkscs_18"
  unfolding hkscs_18_def by (rule hkscs_row_ok_shorts) code_simp

lemma hkscs_19_ok: "hkscs_row_ok 157 hkscs_19"
  unfolding hkscs_19_def by (rule hkscs_row_ok_shorts) code_simp

lemma hkscs_20_ok: "hkscs_row_ok 157 hkscs_20"
  unfolding hkscs_20_def by (rule hkscs_row_ok_shorts) code_simp

lemma hkscs_21_ok: "hkscs_row_ok 157 hkscs_21"
  unfolding hkscs_21_def by (rule hkscs_row_ok_shorts) code_simp

lemma hkscs_22_ok: "hkscs_row_ok 157 hkscs_22"
  unfolding hkscs_22_def by (rule hkscs_row_ok_shorts) code_simp

lemma hkscs_23_ok: "hkscs_row_ok 157 hkscs_23"
  unfolding hkscs_23_def by (rule hkscs_row_ok_shorts) code_simp

lemma hkscs_24_ok: "hkscs_row_ok 157 hkscs_24"
  unfolding hkscs_24_def by (rule hkscs_row_ok_shorts) code_simp

lemma hkscs_25_ok: "hkscs_row_ok 157 hkscs_25"
  unfolding hkscs_25_def by (rule hkscs_row_ok_shorts) code_simp

lemma hkscs_26_ok: "hkscs_row_ok 157 hkscs_26"
  unfolding hkscs_26_def by (rule hkscs_row_ok_shorts) code_simp

lemma hkscs_27_ok: "hkscs_row_ok 157 hkscs_27"
  unfolding hkscs_27_def by (rule hkscs_row_ok_shorts) code_simp

lemma hkscs_28_ok: "hkscs_row_ok 157 hkscs_28"
  unfolding hkscs_28_def by (rule hkscs_row_ok_shorts) code_simp

lemma hkscs_29_ok: "hkscs_row_ok 157 hkscs_29"
  unfolding hkscs_29_def by (rule hkscs_row_ok_shorts) code_simp

lemma hkscs_30_ok: "hkscs_row_ok 157 hkscs_30"
  unfolding hkscs_30_def by (rule hkscs_row_ok_shorts) code_simp

lemmas hkscs_rows_oks =
  hkscs_0_ok hkscs_1_ok hkscs_2_ok hkscs_3_ok hkscs_4_ok hkscs_5_ok
  hkscs_6_ok hkscs_7_ok hkscs_8_ok hkscs_9_ok hkscs_10_ok hkscs_11_ok
  hkscs_12_ok hkscs_13_ok hkscs_14_ok hkscs_15_ok hkscs_16_ok hkscs_17_ok
  hkscs_18_ok hkscs_19_ok hkscs_20_ok hkscs_21_ok hkscs_22_ok hkscs_23_ok
  hkscs_24_ok hkscs_25_ok hkscs_26_ok hkscs_27_ok hkscs_28_ok hkscs_29_ok
  hkscs_30_ok

lemma hkscs_rows_ok: "\<forall>r \<in> set hkscs_rows. hkscs_row_ok 157 r"
  unfolding hkscs_rows_def by (simp only: list.set ball_simps hkscs_rows_oks simp_thms)

lemma length_hkscs_rows [table_simps]: "length hkscs_rows = 31"
  by (simp add: hkscs_rows_def)

lemma length_hkscs_planes [table_simps]: "length hkscs_planes = 305"
  by (simp add: hkscs_planes_def)

end
