(* ===== verification/Iconv_Decode.thy ===== *)
theory Iconv_Decode
  imports Iconv_Open Multibyte Jis0208 Gb18030 Big5 Hkscs Ksc
begin

text \<open>
  \<open>iconv.c\<close>, second part: the first \<open>switch\<close> of \<open>iconv\<close>, one definition for each source encoding. The
  argument \<open>bs\<close> holds the remaining input bytes (\<open>*inb\<close> of them, at least one), \<open>c\<close> its first byte.
\<close>

text \<open>
  How the \<open>switch\<close> is left: a character \<open>c\<close> of \<open>l\<close> bytes, a Big5-HKSCS code that stands for the
  four bytes at an offset of a string, \<open>goto ilseq\<close>, \<open>goto starved\<close>, or a read outside a table,
  which C leaves undefined.
\<close>

datatype decoded = Decoded u32 nat | Hkscs_pair nat | Ilseq | Starved | Undef

section \<open>Numbers in the input\<close>

definition get_16 :: "byte list \<Rightarrow> byte \<Rightarrow> u32" where
  "get_16 s e = (let e = unat (e AND 1) in push_bit 8 (ucast (s ! e)) OR ucast (s ! (1 - e)))"

definition get_32 :: "byte list \<Rightarrow> byte \<Rightarrow> u32" where
  "get_32 s e =
     (let e = e AND 3 in
      push_bit 24 (ucast (s ! unat e)) OR push_bit 16 (ucast (s ! unat (e XOR 1)))
        OR push_bit 8 (ucast (s ! unat (e XOR 2))) OR ucast (s ! unat (e XOR 3)))"

text \<open>The read of a \<open>wchar_t\<close>: four bytes, least significant first, as on every Android target.\<close>

definition get_wchar :: "byte list \<Rightarrow> u32" where
  "get_wchar s =
     push_bit 24 (ucast (s ! 3)) OR push_bit 16 (ucast (s ! 2)) OR push_bit 8 (ucast (s ! 1)) OR ucast (s ! 0)"

section \<open>The Unicode encodings\<close>

text \<open>\<open>UTF_8\<close>: \<open>mbrtowc\<close> belongs to the C library; its conversion state lives through the loop.\<close>

definition decode_utf8 :: "mbrtowc_fun \<Rightarrow> byte list \<Rightarrow> u32 option \<Rightarrow> decoded \<times> u32 option" where
  "decode_utf8 mbrtowc bs st =
     (let (l, wc, st) = mbrtowc bs st in
      if l = 0 then (Decoded wc 1, st)
      else if l = -1 then (Ilseq, st)
      else if l = -2 then (Starved, st)
      else (Decoded wc (unat l), st))"

definition check_scalar :: "u32 \<Rightarrow> decoded" where
  "check_scalar c = (if c - 0xd800 < 0x800 \<or> c \<ge> 0x110000 then Ilseq else Decoded c 4)"

definition decode_wchar :: "byte list \<Rightarrow> decoded" where
  "decode_wchar bs = (if length bs < 4 then Starved else check_scalar (get_wchar bs))"

definition decode_utf32 :: "byte \<Rightarrow> byte list \<Rightarrow> decoded" where
  "decode_utf32 type bs = (if length bs < 4 then Starved else check_scalar (get_32 bs type))"

definition decode_utf16 :: "byte \<Rightarrow> byte list \<Rightarrow> decoded" where
  "decode_utf16 type bs =
     (if length bs < 2 then Starved
      else
        let c = get_16 bs type in
        if c - 0xdc00 < 0x400 then Ilseq
        else if c - 0xd800 < 0x400 then
          if type - UCS2BE < 2 then Ilseq
          else if length bs < 4 then Starved
          else
            let d = get_16 (drop 2 bs) type in
            if d - 0xdc00 \<ge> 0x400 then Ilseq
            else Decoded (push_bit 10 (c - 0xd7c0) + (d - 0xdc00)) 4
        else Decoded c 2)"

section \<open>The Japanese encodings\<close>

text \<open>The code point at a row and column; 0 is an unassigned code.\<close>

definition nonzero_at :: "u16 list list \<Rightarrow> u32 \<Rightarrow> u32 \<Rightarrow> decoded" where
  "nonzero_at t c d =
     (case rd2 t (unat c) (unat d) of
        None \<Rightarrow> Undef
      | Some x \<Rightarrow> if x = 0 then Ilseq else Decoded (ucast x) 2)"

definition decode_sjis :: "u32 \<Rightarrow> byte list \<Rightarrow> decoded" where
  "decode_sjis c bs =
     (if c - 0xa1 \<le> 0xdf - 0xa1 then Decoded (c + (0xff61 - 0xa1)) 1
      else if length bs < 2 then Starved
      else
        let d = ucast (bs ! 1);
            sjis_second = (\<lambda>c.
              let c = c * 2 in
              if d - 64 \<le> 158 - 64 then
                if d = 127 then Ilseq
                else nonzero_at jis0208 c ((if d > 127 then d - 1 else d) - 64)
              else if d - 159 \<le> 252 - 159 then nonzero_at jis0208 (c + 1) (d - 159)
              else nonzero_at jis0208 c d)
        in
        if c - 129 \<le> 159 - 129 then sjis_second (c - 129)
        else if c - 224 \<le> 239 - 224 then sjis_second (c - 193)
        else Ilseq)"

definition decode_eucjp :: "u32 \<Rightarrow> byte list \<Rightarrow> decoded" where
  "decode_eucjp c bs =
     (if length bs < 2 then Starved
      else
        let d = ucast (bs ! 1) in
        if c = 0x8e then
          if d - 0xa1 > 0xdf - 0xa1 then Ilseq else Decoded (d + (0xff61 - 0xa1)) 2
        else
          let c = c - 0xa1; d = d - 0xa1 in
          if c \<ge> 84 \<or> d \<ge> 94 then Ilseq else nonzero_at jis0208 c d)"

section \<open>The Chinese encodings\<close>

text \<open>
  The loop over a whole table that \<open>GB18030\<close> and \<open>EUC_KR\<close> share: \<open>k\<close> counts the table's entries
  between \<open>d\<close> and \<open>c\<close> (an unsigned comparison), \<open>c\<close> moves up by as many. \<open>None\<close> is a loop that does
  not end.
\<close>

definition count_entries :: "u16 list list \<Rightarrow> u32 \<Rightarrow> u32 \<Rightarrow> nat" where
  "count_entries t d c = (\<Sum>r\<leftarrow>t. length (filter (\<lambda>x. ucast x - d \<le> c - d) r))"

partial_function (option) skip_entries :: "u16 list list \<Rightarrow> u32 \<Rightarrow> u32 \<Rightarrow> u32 option" where
  "skip_entries t d c =
     (if d \<le> c then skip_entries t (c + 1) (c + of_nat (count_entries t d c)) else Some c)"

definition skipped_char :: "u16 list list \<Rightarrow> u32 \<Rightarrow> u32 \<Rightarrow> nat \<Rightarrow> decoded" where
  "skipped_char t d c l = (case skip_entries t d c of None \<Rightarrow> Undef | Some c \<Rightarrow> Decoded c l)"

definition decode_gb_four :: "u32 \<Rightarrow> u32 \<Rightarrow> byte list \<Rightarrow> decoded" where
  "decode_gb_four c d bs =
     (if length bs < 4 then Starved
      else
        let c = (10 * c + d - 48) * 1260; d = ucast (bs ! 2) in
        if d - 0x81 > 126 then Ilseq
        else
          let c = c + 10 * (d - 0x81); d = ucast (bs ! 3) in
          if d - 48 > 9 then Ilseq
          else skipped_char gb18030 0 (c + (d - 48) + 128) 4)"

definition decode_gb :: "byte \<Rightarrow> u32 \<Rightarrow> byte list \<Rightarrow> decoded" where
  "decode_gb type c bs =
     (if type = GB2312 \<and> c < 0xa1 then Ilseq
      else
        let c = c - 0x81 in
        if c \<ge> 126 then Ilseq
        else if length bs < 2 then Starved
        else
          let d = ucast (bs ! 1) in
          if d < 0xa1 \<and> type = GB2312 then Ilseq
          else if d - 0x40 \<ge> 191 \<or> d = 127 then
            if d - 48 > 9 \<or> type \<noteq> GB18030 then Ilseq
            else decode_gb_four c d bs
          else
            let d = d - 0x40; d = (if d > 63 then d - 1 else d) in
            case rd2 gb18030 (unat c) (unat d) of None \<Rightarrow> Undef | Some x \<Rightarrow> Decoded (ucast x) 2)"

text \<open>\<open>BIG5\<close> with the Hong Kong supplement, whose codes lie outside rows A1 to F9.\<close>

definition hkscs_char :: "nat \<Rightarrow> u32 option" where
  "hkscs_char i =
     Option.bind (rd hkscs (4867 + i div 16)) (\<lambda>p. Option.bind (rd hkscs i) (\<lambda>x.
       Some (push_bit 17 (drop_bit (i mod 16) (ucast p) mod 2) OR ucast x)))"

definition decode_hkscs :: "u32 \<Rightarrow> u32 \<Rightarrow> decoded" where
  "decode_hkscs c d =
     (if c - 0x87 \<ge> 0xff - 0x87 then Ilseq
      else
        let c = (if c < 0xa1 then c - 0x87 else c - (0x87 + (0xfa - 0xa1))) in
        case hkscs_char (unat (c * 157 + d)) of
          None \<Rightarrow> Undef
        | Some c \<Rightarrow>
            if c div 256 = 0xdc then Hkscs_pair (unat (c mod 256))
            else if c = 0 then Ilseq
            else Decoded c 2)"

definition decode_big5 :: "u32 \<Rightarrow> byte list \<Rightarrow> decoded" where
  "decode_big5 c bs =
     (if length bs < 2 then Starved
      else
        let d = ucast (bs ! 1) in
        if d - 0x40 \<ge> 0xff - 0x40 \<or> d - 0x7f < 0xa1 - 0x7f then Ilseq
        else
          let d = d - 0x40; d = (if d > 0x3e then d - 0x22 else d) in
          if c - 0xa1 \<ge> 0xfa - 0xa1 then decode_hkscs c d
          else
            let c = c - 0xa1 in
            case rd2 big5 (unat c) (unat d) of
              None \<Rightarrow> Undef
            | Some x \<Rightarrow>
                let c = ucast x OR push_bit 17 (if c = 0x27 \<and> (d = 0x3a \<or> d = 0x3c \<or> d = 0x42) then 1 else 0) in
                if c = 0 then Ilseq else Decoded c 2)"

section \<open>The Korean encoding\<close>

definition euckr_column :: "u32 \<Rightarrow> u32 option" where
  "euckr_column d =
     (if d - 65 < 26 then Some (d - 65)
      else if d - 97 < 26 then Some (d - 97 + 26)
      else if d - 0x81 < 0xff - 0x81 then Some (d - 0x81 + 52)
      else None)"

definition decode_euckr :: "u32 \<Rightarrow> byte list \<Rightarrow> decoded" where
  "decode_euckr c bs =
     (if length bs < 2 then Starved
      else
        let d = ucast (bs ! 1); c = c - 0xa1; d = d - 0xa1 in
        if c \<ge> 93 \<or> d \<ge> 94 then
          let c = c + (0xa1 - 0x81); d = d + 0xa1 in
          if c \<ge> 93 \<or> (c \<ge> 0xc6 - 0x81 \<and> d > 0x52) then Ilseq
          else
            case euckr_column d of
              None \<Rightarrow> Ilseq
            | Some d \<Rightarrow>
                let c = (if c < 0x20 then 178 * c + d else 178 * 0x20 + 84 * (c - 0x20) + d) in
                skipped_char ksc 0xac00 (c + 0xac00) 2
        else nonzero_at ksc c d)"

section \<open>The code pages\<close>

text \<open>
  The packed table of a code page, ten bits for a character: \<open>map[c*5/4] >> 2*c%8 |
  (map[c*5/4+1] << (8-2*c%8) & 1023)\<close> is the index into \<open>legacy_chars\<close>.
\<close>

definition legacy_index :: "byte list \<Rightarrow> nat \<Rightarrow> nat option" where
  "legacy_index tab c =
     Option.bind (rd tab (c * 5 div 4)) (\<lambda>a. Option.bind (rd tab (c * 5 div 4 + 1)) (\<lambda>b.
       Some (unat (drop_bit (2 * c mod 8) (ucast a :: u32)
         OR (push_bit (8 - 2 * c mod 8) (ucast b) AND 1023)))))"

definition legacy_char :: "byte list \<Rightarrow> nat \<Rightarrow> u16 option" where
  "legacy_char tab c = Option.bind (legacy_index tab c) (rd legacy_chars)"

definition decode_legacy :: "byte \<Rightarrow> byte list \<Rightarrow> byte \<Rightarrow> decoded" where
  "decode_legacy type tab b =
     (if unat b < 128 + unat type then Decoded (ucast b) 1
      else
        case legacy_char tab (unat b - (128 + unat type)) of
          None \<Rightarrow> Undef
        | Some x \<Rightarrow>
            let c = (if x = 0 then ucast b else ucast x) in
            if c = 1 then Ilseq else Decoded c 1)"

section \<open>The switch\<close>

definition decode_other :: "byte \<Rightarrow> byte list \<Rightarrow> byte list \<Rightarrow> decoded" where
  "decode_other type tab bs =
     (let b = hd bs; c = ucast b in
      if type = US_ASCII then Ilseq
      else if type = WCHAR_T then decode_wchar bs
      else if type = UTF_32BE \<or> type = UTF_32LE then decode_utf32 type bs
      else if type = UCS2BE \<or> type = UCS2LE \<or> type = UTF_16BE \<or> type = UTF_16LE then decode_utf16 type bs
      else if type = SHIFT_JIS then decode_sjis c bs
      else if type = EUC_JP then decode_eucjp c bs
      else if type = GB2312 \<or> type = GBK \<or> type = GB18030 then decode_gb type c bs
      else if type = BIG5 then decode_big5 c bs
      else if type = EUC_KR then decode_euckr c bs
      else decode_legacy type tab b)"

definition decode :: "mbrtowc_fun \<Rightarrow> byte \<Rightarrow> byte list \<Rightarrow> byte list \<Rightarrow> u32 option \<Rightarrow> decoded \<times> u32 option" where
  "decode mbrtowc type tab bs st =
     (if hd bs \<ge> 128 \<or> type - UTF_32BE < 7 then
        if type = UTF_8 then decode_utf8 mbrtowc bs st else (decode_other type tab bs, st)
      else (Decoded (ucast (hd bs)) 1, st))"

end
