(* ===== verification/Iconv.thy ===== *)
theory Iconv
  imports Iconv_Decode
begin

text \<open>
  \<open>iconv.c\<close>, third part: the second \<open>switch\<close> of \<open>iconv\<close>, one definition for each target encoding, and
  \<open>iconv\<close> itself.
\<close>

section \<open>The output buffer\<close>

text \<open>
  Addresses are integers relative to any base: \<open>outp\<close> is \<open>*out\<close>, \<open>outb\<close> is \<open>*outb\<close>, \<open>mem\<close> what the
  memory holds. \<open>wrote\<close> lists the addresses that were stored to, the latest first.
\<close>

record outbuf =
  mem :: "int \<Rightarrow> byte"
  outp :: int
  outb :: nat
  wrote :: "int list"

text \<open>Stores of consecutive bytes at \<open>*out\<close>, which then moves behind them.\<close>

fun put :: "byte list \<Rightarrow> outbuf \<Rightarrow> outbuf" where
  "put [] b = b"
| "put (x # xs) b =
     put xs (b\<lparr>mem := (mem b)(outp b := x), outp := outp b + 1, outb := outb b - 1, wrote := outp b # wrote b\<rparr>)"

definition put_16 :: "u32 \<Rightarrow> byte \<Rightarrow> byte list" where
  "put_16 c e = (let e = unat (e AND 1) in [0, 0][e := ucast (drop_bit 8 c), 1 - e := ucast c])"

definition put_32 :: "u32 \<Rightarrow> byte \<Rightarrow> byte list" where
  "put_32 c e =
     (let e = e AND 3 in
      [0, 0, 0, 0][unat (e XOR 0) := ucast (drop_bit 24 c), unat (e XOR 1) := ucast (drop_bit 16 c),
                   unat (e XOR 2) := ucast (drop_bit 8 c), unat (e XOR 3) := ucast c])"

text \<open>The store of a \<open>wchar_t\<close>, least significant byte first.\<close>

definition put_wchar :: "u32 \<Rightarrow> byte list" where
  "put_wchar c = [ucast c, ucast (drop_bit 8 c), ucast (drop_bit 16 c), ucast (drop_bit 24 c)]"

section \<open>The target encodings\<close>

text \<open>
  How the second \<open>switch\<close> is left: bytes to store, with the number of substitutions to count,
  \<open>goto toobig\<close>, a failed \<open>wctomb\<close> (its result \<open>-1\<close> is added to \<open>*out\<close> and subtracted from \<open>*outb\<close>),
  or a read outside a table.
\<close>

datatype encoded = Emit nat "byte list" | Toobig | Step_back | Outside

definition emit :: "nat \<Rightarrow> byte list \<Rightarrow> nat \<Rightarrow> encoded" where
  "emit x bs room = (if room < length bs then Toobig else Emit x bs)"

text \<open>
  \<open>UTF_8\<close>: \<open>wctomb\<close> belongs to the C library, \<open>None\<close> is its result \<open>-1\<close>. With less than four bytes of
  room the character goes through a local buffer, and \<open>*outb < (size_t)-1\<close> always holds.
\<close>

type_synonym wctomb_fun = "u32 \<Rightarrow> byte list option"

definition encode_utf8 :: "wctomb_fun \<Rightarrow> nat \<Rightarrow> u32 \<Rightarrow> encoded" where
  "encode_utf8 wctomb room c =
     (if room < 4 then (case wctomb c of None \<Rightarrow> Toobig | Some bs \<Rightarrow> emit 0 bs room)
      else (case wctomb c of None \<Rightarrow> Step_back | Some bs \<Rightarrow> Emit 0 bs))"

text \<open>The search of a code page for the character \<open>d\<close>, from position \<open>c\<close> on.\<close>

datatype found = Found nat | Missing | Out_of_table

function legacy_find :: "byte list \<Rightarrow> nat \<Rightarrow> u32 \<Rightarrow> nat \<Rightarrow> found" where
  "legacy_find tab n d c =
     (if c < n then
        (case legacy_char tab c of
           None \<Rightarrow> Out_of_table
         | Some x \<Rightarrow> if d = ucast x then Found c else legacy_find tab n d (c + 1))
      else Missing)"
  by pat_completeness auto

termination
  by (relation "measure (\<lambda>(tab, n, d, c). n - c)") auto

definition subst :: "nat \<Rightarrow> encoded" where
  "subst room = emit 1 [0x2a] room"

definition encode_ascii :: "nat \<Rightarrow> u32 \<Rightarrow> encoded" where
  "encode_ascii room c = (if c > 0x7f then subst room else emit 0 [ucast c] room)"

definition encode_legacy :: "byte \<Rightarrow> byte list \<Rightarrow> nat \<Rightarrow> u32 \<Rightarrow> encoded" where
  "encode_legacy totype tomap room c =
     (if room < 1 then Toobig
      else if unat c < 128 + unat totype then Emit 0 [ucast c]
      else
        case legacy_find tomap (128 - unat totype) c 0 of
          Found i \<Rightarrow> Emit 0 [of_nat (i + 128)]
        | Missing \<Rightarrow> subst room
        | Out_of_table \<Rightarrow> Outside)"

definition encode_utf16 :: "byte \<Rightarrow> byte \<Rightarrow> nat \<Rightarrow> u32 \<Rightarrow> encoded" where
  "encode_utf16 type totype room c =
     (if c < 0x10000 \<or> type - UCS2BE < 2 then
        emit 0 (put_16 (if c \<ge> 0x10000 then 0xfffd else c) totype) room
      else
        let c = c - 0x10000 in
        emit 0 (put_16 (drop_bit 10 c OR 0xd800) totype @ put_16 (c AND 0x3ff OR 0xdc00) totype) room)"

definition encode :: "wctomb_fun \<Rightarrow> byte \<Rightarrow> byte \<Rightarrow> byte list \<Rightarrow> nat \<Rightarrow> u32 \<Rightarrow> encoded" where
  "encode wctomb type totype tomap room c =
     (if totype = WCHAR_T then emit 0 (put_wchar c) room
      else if totype = UTF_8 then encode_utf8 wctomb room c
      else if totype = US_ASCII then encode_ascii room c
      else if totype = UCS2BE \<or> totype = UCS2LE \<or> totype = UTF_16BE \<or> totype = UTF_16LE
        then encode_utf16 type totype room c
      else if totype = UTF_32BE \<or> totype = UTF_32LE then emit 0 (put_32 c totype) room
      else encode_legacy totype tomap room c)"

section \<open>iconv\<close>

text \<open>
  The Big5-HKSCS codes that stand for two characters: the room asked for, and the string whose
  bytes a nested call converts.
\<close>

definition pair_room :: "byte \<Rightarrow> nat" where
  "pair_room totype =
     (if (ucast totype :: u32) - 0xc0 > 8 then 2
      else [8, 4, 4, 8, 4, 4, 8, 2, 4] ! unat (totype - 0xc0))"

definition pair_bytes :: "byte list" where
  "pair_bytes =
     [0xc3, 0x8a, 0xcc, 0x84,  0xc3, 0x8a, 0xcc, 0x8c,
      0xc3, 0xaa, 0xcc, 0x84,  0xc3, 0xaa, 0xcc, 0x8c]"

text \<open>
  What \<open>iconv\<close> leaves: its result, the value its own assignments last gave \<open>errno\<close>, if any (the
  nested call's included), the remaining input, the output.
\<close>

record iconv_result =
  ret :: u64
  err :: "errno option"
  left :: "byte list"
  outs :: outbuf

text \<open>
  What an iteration of the loop does: go on after \<open>l\<close> bytes, with the \<open>errno\<close> that a nested call may
  have set, stop, or something undefined.
\<close>

datatype iteration = Continue nat u64 "errno option" outbuf | Stop errno | Fault

text \<open>An \<open>errno\<close> set by an iteration stays unless a later one sets another.\<close>

definition keep_errno :: "errno option \<Rightarrow> iconv_result \<Rightarrow> iconv_result" where
  "keep_errno er r = (if err r = None then r\<lparr>err := er\<rparr> else r)"

lemma keep_errno_simps [simp]:
  "keep_errno None r = r" "left (keep_errno er r) = left r" "outs (keep_errno er r) = outs r"
  "ret (keep_errno er r) = ret r" "err (keep_errno er r) = (if err r = None then er else err r)"
  by (simp_all add: keep_errno_def)

lemma map_keep_errno_None [simp]: "map_option (keep_errno None) v = v"
  by (cases v) simp_all

definition convert :: "wctomb_fun \<Rightarrow> byte \<Rightarrow> byte \<Rightarrow> byte list \<Rightarrow> u64 \<Rightarrow> outbuf \<Rightarrow> u32 \<Rightarrow> nat \<Rightarrow> iteration" where
  "convert wctomb type totype tomap x b c l =
     (case encode wctomb type totype tomap (outb b) c of
        Emit n bs \<Rightarrow> Continue l (x + of_nat n) None (put bs b)
      | Toobig \<Rightarrow> Stop E2BIG
      | Step_back \<Rightarrow> Continue l x None (b\<lparr>outp := outp b - 1, outb := outb b + 1\<rparr>)
      | Outside \<Rightarrow> Fault)"

definition iterate ::
  "mbrtowc_fun \<Rightarrow> wctomb_fun \<Rightarrow> (byte list \<Rightarrow> outbuf \<Rightarrow> iconv_result option) \<Rightarrow>
     byte \<Rightarrow> byte list \<Rightarrow> byte \<Rightarrow> byte list \<Rightarrow> byte list \<Rightarrow> u32 option \<Rightarrow> u64 \<Rightarrow> outbuf \<Rightarrow> iteration \<times> u32 option" where
  "iterate mbrtowc wctomb nested type tab totype tomap bs st x b =
     (case decode mbrtowc type tab bs st of
        (Decoded c l, st) \<Rightarrow> (convert wctomb type totype tomap x b c l, st)
      | (Hkscs_pair i, st) \<Rightarrow>
          (if pair_room totype > outb b then Stop E2BIG
           else case nested (take 4 (drop i pair_bytes)) b of
                  None \<Rightarrow> Fault
                | Some r \<Rightarrow> Continue 2 (x + ret r) (err r) (outs r), st)
      | (Ilseq, st) \<Rightarrow> (Stop EILSEQ, st)
      | (Starved, st) \<Rightarrow> (Stop EINVAL, st)
      | (Undef, st) \<Rightarrow> (Fault, st))"

text \<open>
  The loop. Every iteration consumes at least one byte; a character longer than the input, which
  only a faulty \<open>mbrtowc\<close> could return, is undefined.
\<close>

function iconv_loop ::
  "mbrtowc_fun \<Rightarrow> wctomb_fun \<Rightarrow> (byte list \<Rightarrow> outbuf \<Rightarrow> iconv_result option) \<Rightarrow>
     byte \<Rightarrow> byte list \<Rightarrow> byte \<Rightarrow> byte list \<Rightarrow> byte list \<Rightarrow> u32 option \<Rightarrow> u64 \<Rightarrow> outbuf \<Rightarrow> iconv_result option" where
  "iconv_loop mbrtowc wctomb nested type tab totype tomap bs st x b =
     (if bs = [] then Some \<lparr>ret = x, err = None, left = [], outs = b\<rparr>
      else
        case iterate mbrtowc wctomb nested type tab totype tomap bs st x b of
          (Continue l x er b, st) \<Rightarrow>
            if 0 < l \<and> l \<le> length bs
            then map_option (keep_errno er) (iconv_loop mbrtowc wctomb nested type tab totype tomap (drop l bs) st x b)
            else None
        | (Stop e, st) \<Rightarrow> Some \<lparr>ret = -1, err = Some e, left = bs, outs = b\<rparr>
        | (Fault, st) \<Rightarrow> None)"
  by pat_completeness auto

termination
  by (relation "measure (\<lambda>(_, _, _, _, _, _, _, bs, _). length bs)") auto

declare legacy_find.simps [simp del] iconv_loop.simps [simp del]

text \<open>
  \<open>iconv\<close>, with the nesting of its calls counted: the nested call converts from the offset 0 of
  \<open>charmaps\<close>, which is not Big5, so that it makes no further one. \<open>None\<close> for the input is a null
  \<open>in\<close> or \<open>*in\<close>.
\<close>

fun iconv_nested ::
  "nat \<Rightarrow> mbrtowc_fun \<Rightarrow> wctomb_fun \<Rightarrow> u64 \<Rightarrow> byte list option \<Rightarrow> outbuf \<Rightarrow> iconv_result option" where
  "iconv_nested 0 mbrtowc wctomb cd inp b = None"
| "iconv_nested (Suc n) mbrtowc wctomb cd inp b =
     (let to = cd AND 0xffff; from = ucast (drop_bit 16 cd) :: u32;
          tab = drop (unat from + 1) charmaps; tomap = drop (unat to + 1) charmaps;
          type = at (drop (unat from) charmaps); totype = at (drop (unat to) charmaps)
      in
      case inp of
        None \<Rightarrow> Some \<lparr>ret = 0, err = None, left = [], outs = b\<rparr>
      | Some bs \<Rightarrow>
          iconv_loop mbrtowc wctomb (\<lambda>bs b. iconv_nested n mbrtowc wctomb to (Some bs) b)
            type tab totype tomap bs (Some 0) 0 b)"

definition iconv :: "mbrtowc_fun \<Rightarrow> wctomb_fun \<Rightarrow> u64 \<Rightarrow> byte list option \<Rightarrow> outbuf \<Rightarrow> iconv_result option" where
  "iconv = iconv_nested 2"

end
