(* ===== verification/Iconv_Unicode.thy ===== *)
theory Iconv_Unicode
  imports Iconv
begin

text \<open>
  The Unicode encodings of \<open>iconv\<close> against a reference over natural numbers: UTF-16 and UTF-32 in both
  byte orders, and \<open>wchar_t\<close>. What the first \<open>switch\<close> reads back is what the reference encodes, and the
  second \<open>switch\<close> writes what the reference encodes.
\<close>

section \<open>The reference\<close>

definition utf16_units :: "nat \<Rightarrow> nat list" where
  "utf16_units n =
     (if n < 0x10000 then [n] else [0xd800 + (n - 0x10000) div 0x400, 0xdc00 + (n - 0x10000) mod 0x400])"

definition be16 :: "nat \<Rightarrow> byte list" where
  "be16 u = [byte_of (u div 256), byte_of u]"

definition be32 :: "nat \<Rightarrow> byte list" where
  "be32 n = [byte_of (n div 16777216), byte_of (n div 65536), byte_of (n div 256), byte_of n]"

definition utf16be :: "nat \<Rightarrow> byte list" where
  "utf16be n = concat (map be16 (utf16_units n))"

definition utf16le :: "nat \<Rightarrow> byte list" where
  "utf16le n = concat (map (\<lambda>u. rev (be16 u)) (utf16_units n))"

definition utf32be :: "nat \<Rightarrow> byte list" where
  "utf32be n = be32 n"

definition utf32le :: "nat \<Rightarrow> byte list" where
  "utf32le n = rev (be32 n)"

lemmas unicode_ref_defs = utf16be_def utf16le_def utf32be_def utf32le_def utf16_units_def be16_def be32_def

section \<open>Words and bytes\<close>

lemma unat_push_or:
  fixes x y :: u32
  assumes "unat x * 2 ^ n + unat y < 2 ^ 32" "unat y < 2 ^ n"
  shows "unat (push_bit n x OR y) = unat x * 2 ^ n + unat y"
proof -
  have y: "take_bit n y = y" using assms(2) by (simp only: word_unat_eq_iff unat_take_bit mod_less)
  have "push_bit n x AND take_bit n y = 0" by (auto simp: bit_eq_iff bit_simps)
  then have "push_bit n x + y = push_bit n x OR y" unfolding y by (rule disjunctive_add_eq_or)
  moreover have "unat (push_bit n x) = unat x * 2 ^ n"
    using assms(1) unfolding unsigned_push_bit_eq by (simp add: push_bit_eq_mult take_bit_nat_eq_self)
  moreover have "unat (push_bit n x + y) = (unat (push_bit n x) + unat y) mod 2 ^ 32"
    using unat_word_ariths(1) [of "push_bit n x" y] by simp
  ultimately show ?thesis using assms(1) by (simp only: mod_less)
qed

lemma unat_bytes16: "unat (push_bit 8 (ucast a) OR ucast b :: u32) = unat a * 256 + unat b" for a b :: byte
  using unat_byte_less [of a] unat_byte_less [of b]
  by (subst unat_push_or) simp_all

lemma unat_bytes32:
  "unat (push_bit 24 (ucast a) OR push_bit 16 (ucast b) OR push_bit 8 (ucast c) OR ucast d :: u32) =
     ((unat a * 256 + unat b) * 256 + unat c) * 256 + unat d" for a b c d :: byte
proof -
  have h: "push_bit 24 (ucast a) OR push_bit 16 (ucast b) OR push_bit 8 (ucast c) OR ucast d =
      (push_bit 8 (push_bit 8 (push_bit 8 (ucast a) OR ucast b) OR ucast c) OR ucast d :: u32)"
    by (simp add: push_bit_or or.assoc)
  have "unat (push_bit 8 (push_bit 8 (ucast a) OR ucast b) OR ucast c :: u32) = (unat a * 256 + unat b) * 256 + unat c"
    using unat_byte_less [of a] unat_byte_less [of b] unat_byte_less [of c]
    by (subst unat_push_or) (simp_all add: unat_bytes16)
  then show ?thesis unfolding h
    using unat_byte_less [of a] unat_byte_less [of b] unat_byte_less [of c] unat_byte_less [of d]
    by (subst unat_push_or) simp_all
qed

lemma ucast_byte: "ucast (drop_bit k c) = byte_of (unat c div 2 ^ k)" for c :: u32
  by (simp add: byte_of_def word_unat_eq_iff unat_of_nat unsigned_ucast_eq take_bit_eq_mod unat_drop_bit del: drop_bit_eq_div)

lemma ucast_byte_0: "ucast c = byte_of (unat c)" for c :: u32
  using ucast_byte [of 0 c] by simp

lemma window_u32:
  fixes a c k :: u32
  assumes "unat a + unat k \<le> 2 ^ 32"
  shows "c - a < k \<longleftrightarrow> unat a \<le> unat c \<and> unat c < unat a + unat k"
  using assms unsigned_less [of c, where ?'a = nat]
  by (subst word_less_nat_alt, subst unat_sub_if') auto

lemma unat_byte_of_mod: "unat (byte_of n) = n mod 256"
  by (simp add: byte_of_def unat_of_nat)

section \<open>UTF-16\<close>

text \<open>
  A byte order: how a 16-bit unit is laid out in memory and what \<open>get_16\<close> and \<open>put_16\<close> make of it for
  a type code.
\<close>

locale utf16_order =
  fixes lay :: "nat \<Rightarrow> byte list" and type :: byte
  assumes get: "u < 0x10000 \<Longrightarrow> get_16 (lay u @ rest) type = of_nat u"
    and put: "u < 0x10000 \<Longrightarrow> put_16 (of_nat u) type = lay u"
    and len: "length (lay u) = 2"
    and pairs: "\<not> type - UCS2BE < 2"
begin

lemma decode_unit:
  assumes "u < 0x10000" "\<not> surrogate u"
  shows "decode_utf16 type (lay u @ rest) = Decoded (of_nat u) 2"
proof -
  have u: "unat (of_nat u :: u32) = u" using assms(1) by (intro unat_of_nat_32) simp
  have "\<not> (of_nat u :: u32) - 0xdc00 < 0x400" "\<not> (of_nat u :: u32) - 0xd800 < 0x400"
    using assms(2) u by (subst window_u32; auto simp: surrogate_def)+
  then show ?thesis using assms(1) by (simp add: decode_utf16_def get len)
qed

lemma decode_pair:
  assumes "h < 0x400" "l < 0x400"
  shows "decode_utf16 type (lay (0xd800 + h) @ lay (0xdc00 + l) @ rest) = Decoded (of_nat (0x10000 + h * 0x400 + l)) 4"
proof -
  let ?h = "of_nat (0xd800 + h) :: u32" and ?l = "of_nat (0xdc00 + l) :: u32"
  have u: "unat ?h = 0xd800 + h" "unat ?l = 0xdc00 + l" using assms by (intro unat_of_nat_32; simp)+
  have t: "\<not> ?h - 0xdc00 < 0x400" "?h - 0xd800 < 0x400" "?l - 0xdc00 < 0x400"
    using u assms by (subst window_u32; simp)+
  have g: "get_16 (lay (0xd800 + h) @ lay (0xdc00 + l) @ rest) type = ?h" "get_16 (lay (0xdc00 + l) @ rest) type = ?l"
    using assms by (simp_all add: get)
  have "push_bit 10 (?h - 0xd7c0) + (?l - 0xdc00) = (of_nat (0x10000 + h * 0x400 + l) :: u32)"
    by (simp add: push_bit_eq_mult algebra_simps)
  then show ?thesis using t g pairs by (simp add: decode_utf16_def len Let_def not_le)
qed

lemma decode_enc:
  assumes "scalar n"
  shows "decode_utf16 type (concat (map lay (utf16_units n)) @ rest) =
    Decoded (of_nat n) (length (concat (map lay (utf16_units n))))"
proof (cases "n < 0x10000")
  case True
  then show ?thesis using assms decode_unit [of n rest] by (simp add: utf16_units_def scalar_below_def len)
next
  case False
  define h l where "h = (n - 0x10000) div 0x400" and "l = (n - 0x10000) mod 0x400"
  have "h < 0x400" "l < 0x400" using assms by (auto simp: h_def l_def scalar_below_def)
  moreover have "0x10000 + h * 0x400 + l = n" using False by (simp add: h_def l_def)
  ultimately show ?thesis using decode_pair [of h l rest] False
    by (simp add: utf16_units_def len flip: h_def l_def)
qed

lemma encode_enc:
  assumes "scalar n"
  shows "encode_utf16 t type room (of_nat n) =
    (if n < 0x10000 \<or> \<not> t - UCS2BE < 2 then emit 0 (concat (map lay (utf16_units n))) room
     else emit 0 (lay 0xfffd) room)"
proof -
  have n: "unat (of_nat n :: u32) = n" using assms by (intro unat_of_nat_32) (simp add: scalar_below_def)
  show ?thesis
  proof (cases "n < 0x10000")
    case True
    then show ?thesis using n put [of n] by (simp add: encode_utf16_def word_less_nat_alt word_le_nat_alt utf16_units_def)
  next
    case False
    define m where "m = n - 0x10000"
    have m: "m < 0x100000" "n = m + 0x10000" using False assms by (auto simp: m_def scalar_below_def)
    have um: "unat (of_nat m :: u32) = m" using m by (intro unat_of_nat_32) simp
    have d: "unat (drop_bit 10 (of_nat m :: u32)) = m div 0x400" by (simp only: unat_drop_bit um) simp
    have "unat (drop_bit 10 (of_nat m) OR 0xd800 :: u32) = unat (push_bit 10 0x36 OR drop_bit 10 (of_nat m) :: u32)"
      by (simp add: or.commute)
    also have "\<dots> = 0xd800 + m div 0x400"
      using m d by (subst unat_push_or) simp_all
    finally have hi: "drop_bit 10 (of_nat m) OR 0xd800 = (of_nat (0xd800 + m div 0x400) :: u32)"
      using m by (simp add: word_unat_eq_iff unat_of_nat_32 del: of_nat_add)
    have e: "of_nat m AND 0x3ff = (take_bit 10 (of_nat m) :: u32)" by (simp add: take_bit_eq_mask mask_eq_exp_minus_1)
    have t: "unat (take_bit 10 (of_nat m :: u32)) = m mod 0x400" by (simp only: unat_take_bit um) simp
    have "unat (take_bit 10 (of_nat m) OR 0xdc00 :: u32) = unat (push_bit 10 0x37 OR take_bit 10 (of_nat m) :: u32)"
      by (simp add: or.commute)
    also have "\<dots> = 0xdc00 + m mod 0x400"
      using m t by (subst unat_push_or) simp_all
    finally have lo: "take_bit 10 (of_nat m) OR 0xdc00 = (of_nat (0xdc00 + m mod 0x400) :: u32)"
      by (simp add: word_unat_eq_iff unat_of_nat_32 del: of_nat_add)
    have "put_16 (drop_bit 10 (of_nat m) OR 0xd800) type = lay (0xd800 + m div 0x400)"
      "put_16 (of_nat m AND 0x3ff OR 0xdc00) type = lay (0xdc00 + m mod 0x400)"
      unfolding e hi lo using m by (intro put; simp)+
    moreover have "of_nat n - 0x10000 = (of_nat m :: u32)" using m by simp
    moreover have "put_16 0xfffd type = lay 0xfffd" using put [of "0xfffd"] by simp
    ultimately show ?thesis using False n
      by (simp add: encode_utf16_def word_less_nat_alt word_le_nat_alt utf16_units_def Let_def flip: m_def)
  qed
qed

end

lemma be16_order:
  assumes "u < 0x10000"
  shows "get_16 (be16 u @ rest) UTF_16BE = of_nat u" "put_16 (of_nat u) UTF_16BE = be16 u"
    "get_16 (rev (be16 u) @ rest) UTF_16LE = of_nat u" "put_16 (of_nat u) UTF_16LE = rev (be16 u)"
proof -
  have u: "unat (of_nat u :: u32) = u" using assms by (intro unat_of_nat_32) simp
  have "unat (push_bit 8 (ucast (byte_of (u div 256))) OR ucast (byte_of u) :: u32) = u"
    using assms unfolding unat_bytes16 unat_byte_of_mod by simp
  then have g: "push_bit 8 (ucast (byte_of (u div 256))) OR ucast (byte_of u) = (of_nat u :: u32)"
    using u by (simp only: word_unat_eq_iff)
  show "get_16 (be16 u @ rest) UTF_16BE = of_nat u" "get_16 (rev (be16 u) @ rest) UTF_16LE = of_nat u"
    using g by (simp_all add: get_16_def be16_def type_defs)
  show "put_16 (of_nat u) UTF_16BE = be16 u" "put_16 (of_nat u) UTF_16LE = rev (be16 u)"
    unfolding put_16_def ucast_byte unfolding ucast_byte_0 u by (simp_all add: be16_def type_defs)
qed

interpretation utf16be_order: utf16_order be16 UTF_16BE
  by unfold_locales (simp_all add: be16_order, simp_all add: be16_def type_defs)

interpretation utf16le_order: utf16_order "\<lambda>u. rev (be16 u)" UTF_16LE
  by unfold_locales (simp_all add: be16_order, simp_all add: be16_def type_defs)

section \<open>UTF-32 and wchar_t\<close>

lemma be32_value:
  fixes n :: nat
  assumes "n < 2 ^ 32"
  shows "((n div 16777216 mod 256 * 256 + n div 65536 mod 256) * 256 + n div 256 mod 256) * 256 + n mod 256 = n"
proof -
  have "n div 16777216 < 256" using assms by auto
  moreover have "n div 65536 = n div 16777216 * 256 + n div 65536 mod 256"
    using div_mult_mod_eq [of "n div 65536" 256] by (simp add: div_mult2_eq [symmetric])
  moreover have "n div 256 = n div 65536 * 256 + n div 256 mod 256"
    using div_mult_mod_eq [of "n div 256" 256] by (simp add: div_mult2_eq [symmetric])
  moreover have "n = n div 256 * 256 + n mod 256" by simp
  ultimately show ?thesis by (metis mod_less)
qed

lemma be32_order:
  assumes "n < 2 ^ 32"
  shows "get_32 (utf32be n @ rest) UTF_32BE = of_nat n" "put_32 (of_nat n) UTF_32BE = utf32be n"
    "get_32 (utf32le n @ rest) UTF_32LE = of_nat n" "put_32 (of_nat n) UTF_32LE = utf32le n"
    "get_wchar (utf32le n @ rest) = of_nat n" "put_wchar (of_nat n) = utf32le n"
proof -
  have u: "unat (of_nat n :: u32) = n" using assms by (rule unat_of_nat_32)
  let ?b = "\<lambda>k. byte_of (n div k)"
  have "unat (push_bit 24 (ucast (?b 16777216)) OR push_bit 16 (ucast (?b 65536)) OR push_bit 8 (ucast (?b 256)) OR ucast (byte_of n) :: u32) = n"
    unfolding unat_bytes32 unat_byte_of_mod using be32_value [OF assms] .
  then have g: "push_bit 24 (ucast (?b 16777216)) OR push_bit 16 (ucast (?b 65536)) OR push_bit 8 (ucast (?b 256)) OR ucast (byte_of n) = (of_nat n :: u32)"
    using u by (simp only: word_unat_eq_iff)
  show "get_32 (utf32be n @ rest) UTF_32BE = of_nat n" "get_32 (utf32le n @ rest) UTF_32LE = of_nat n"
    "get_wchar (utf32le n @ rest) = of_nat n"
    using g by (simp_all add: get_32_def get_wchar_def utf32be_def utf32le_def be32_def type_defs)
  show "put_32 (of_nat n) UTF_32BE = utf32be n" "put_32 (of_nat n) UTF_32LE = utf32le n" "put_wchar (of_nat n) = utf32le n"
    unfolding put_32_def put_wchar_def ucast_byte unfolding ucast_byte_0 u
    by (simp_all add: utf32be_def utf32le_def be32_def type_defs)
qed

lemma check_scalar_iff: "check_scalar c = (if scalar (unat c) then Decoded c 4 else Ilseq)"
  by (auto simp: check_scalar_def window_u32 scalar_below_def surrogate_def word_le_nat_alt)

lemma length_utf32 [simp]: "length (utf32be n) = 4" "length (utf32le n) = 4"
  by (simp_all add: utf32be_def utf32le_def be32_def)

lemma decode_utf32_enc:
  assumes "scalar n"
  shows "decode_utf32 UTF_32BE (utf32be n @ rest) = Decoded (of_nat n) 4"
    "decode_utf32 UTF_32LE (utf32le n @ rest) = Decoded (of_nat n) 4"
    "decode_wchar (utf32le n @ rest) = Decoded (of_nat n) 4"
proof -
  have n: "n < 2 ^ 32" using assms by (simp add: scalar_below_def)
  then show "decode_utf32 UTF_32BE (utf32be n @ rest) = Decoded (of_nat n) 4"
    "decode_utf32 UTF_32LE (utf32le n @ rest) = Decoded (of_nat n) 4"
    "decode_wchar (utf32le n @ rest) = Decoded (of_nat n) 4"
    using assms unat_of_nat_32 [OF n]
    by (simp_all add: decode_utf32_def decode_wchar_def be32_order check_scalar_iff)
qed

section \<open>UTF-8\<close>

text \<open>
  What \<open>iconv\<close> relies on in the C library: from the initial state, \<open>mbrtowc\<close> decodes the UTF-8 of a
  character other than NUL and is back in the initial state, and \<open>wctomb\<close> encodes every character.
\<close>

locale utf8_libc =
  fixes mbrtowc :: mbrtowc_fun and wctomb :: wctomb_fun
  assumes mbrtowc_enc: "scalar n \<Longrightarrow> 0 < n \<Longrightarrow>
      mbrtowc (utf8_enc n @ rest) (Some 0) = (of_nat (length (utf8_enc n)), of_nat n, Some 0)"
    and wctomb_enc: "scalar n \<Longrightarrow> wctomb (of_nat n) = Some (utf8_enc n)"
begin

lemma utf8_length: "unat (of_nat (length (utf8_enc n)) :: u64) = length (utf8_enc n)" "length (utf8_enc n) \<in> {1..4}"
  by (auto simp: length_utf8_enc)

lemma decode_utf8_enc:
  assumes "scalar n" "0 < n"
  shows "decode_utf8 mbrtowc (utf8_enc n @ rest) (Some 0) = (Decoded (of_nat n) (length (utf8_enc n)), Some 0)"
proof -
  let ?l = "of_nat (length (utf8_enc n)) :: u64"
  have "?l \<noteq> 0" "?l \<noteq> -1" "?l \<noteq> -2" by (auto simp: length_utf8_enc)
  then show ?thesis using assms utf8_length(1) by (simp add: decode_utf8_def mbrtowc_enc)
qed

lemma encode_utf8_enc: "scalar n \<Longrightarrow> encode_utf8 wctomb room (of_nat n) = emit 0 (utf8_enc n) room"
  using utf8_length(2) [of n] by (auto simp: encode_utf8_def wctomb_enc emit_def)

end

text \<open>A C library that keeps the contract: the reference encoder and decoder.\<close>

definition ref_mbrtowc :: mbrtowc_fun where
  "ref_mbrtowc bs st =
     (case utf8_dec 0x110000 bs of
        None \<Rightarrow> (-1, 0, st)
      | Some (n, l) \<Rightarrow> (if n = 0 then 0 else of_nat l, of_nat n, Some 0))"

definition ref_wctomb :: wctomb_fun where
  "ref_wctomb c = (if scalar (unat c) then Some (utf8_enc (unat c)) else None)"

interpretation ref: utf8_libc ref_mbrtowc ref_wctomb
proof
  fix n rest assume n: "scalar n" "0 < n"
  then show "ref_mbrtowc (utf8_enc n @ rest) (Some 0) = (of_nat (length (utf8_enc n)), of_nat n, Some 0)"
    by (simp add: ref_mbrtowc_def utf8_dec_enc)
next
  fix n assume n: "scalar n"
  then have "unat (of_nat n :: u32) = n" by (intro unat_of_nat_32) (simp add: scalar_below_def)
  then show "ref_wctomb (of_nat n) = Some (utf8_enc n)" using n by (simp add: ref_wctomb_def)
qed

end
