(* ===== verification/Iconv_Open_Facts.thy ===== *)
theory Iconv_Open_Facts
  imports Iconv_Open
begin

text \<open>
  What \<open>fuzzycmp\<close> compares, that \<open>find_charmap\<close> finds the first encoding with a matching alias, and
  what \<open>iconv_open\<close> accepts.
\<close>

section \<open>fuzzycmp\<close>

text \<open>
  The reference: a name without the characters that are skipped, in lower case. A name matches an
  alias when this is the alias and its last character is not one that is skipped.
\<close>

definition normalise :: "byte list \<Rightarrow> byte list" where
  "normalise a = map (\<lambda>b. b OR 32) (filter (\<lambda>b. \<not> skipped b) a)"

definition matches :: "byte list \<Rightarrow> byte list \<Rightarrow> bool" where
  "matches name alias \<longleftrightarrow> normalise name = alias \<and> (name = [] \<or> \<not> skipped (last name))"

lemma or_32_ucast: "ucast x OR 32 = (ucast y :: u32) \<longleftrightarrow> x OR 32 = y" for x y :: byte
proof -
  have "ucast x OR 32 = (ucast (x OR 32) :: u32)"
    by (simp add: unsigned_or_eq)
  moreover have "inj (ucast :: byte \<Rightarrow> u32)"
    by (rule injI) (metis unat_ucast_byte word_unat_eq_iff)
  ultimately show ?thesis by (auto dest: injD)
qed

lemma normalise_dropWhile: "normalise (dropWhile skipped a) = normalise a"
  by (induction a) (auto simp: normalise_def)

lemma last_dropWhile: "dropWhile P a \<noteq> [] \<Longrightarrow> last (dropWhile P a) = last a"
  by (induction a) auto

lemma matches_Nil: "matches a [] \<longleftrightarrow> a = []"
  by (cases "a = []") (auto simp: matches_def normalise_def filter_empty_conv)

lemma matches_Cons:
  "matches a (b # bs) \<longleftrightarrow>
     (case dropWhile skipped a of [] \<Rightarrow> False | x # a' \<Rightarrow> x OR 32 = b \<and> matches a' bs)"
proof (cases "dropWhile skipped a")
  case Nil
  then have "normalise a = []" using normalise_dropWhile [of a] by (simp add: normalise_def)
  then show ?thesis unfolding Nil by (simp add: matches_def)
next
  case (Cons x a')
  then have "\<not> skipped x" using hd_dropWhile [of skipped a] by simp
  then have n: "normalise a = (x OR 32) # normalise a'"
    using normalise_dropWhile [of a] Cons by (simp add: normalise_def)
  have l: "last a = last (x # a')" using last_dropWhile [of skipped a] Cons by simp
  have "a \<noteq> []" using Cons by auto
  then show ?thesis using Cons n l \<open>\<not> skipped x\<close> by (auto simp: matches_def)
qed

lemma fuzzycmp_matches:
  assumes "0 \<notin> set a" "0 \<notin> set bs" "32 \<notin> set bs"
  shows "fuzzycmp a (bs @ 0 # rest) \<longleftrightarrow> \<not> matches a bs"
  using assms
proof (induction bs arbitrary: a)
  case Nil
  then show ?case by (subst fuzzycmp.simps) (cases a; simp add: matches_Nil)
next
  case (Cons b bs)
  have at_a: "at a \<noteq> 0 \<longleftrightarrow> a \<noteq> []" using Cons.prems(1) by (cases a) auto
  show ?case
  proof (cases "dropWhile skipped a")
    case Nil
    have "32 \<noteq> (ucast b :: u32)" using Cons.prems or_32_ucast [of 0 b] by auto
    then have "fuzzycmp a (b # bs @ 0 # rest)"
      using Cons.prems by (subst fuzzycmp.simps) (simp only: Nil fuzzy_skip_def, simp)
    then show ?thesis by (simp add: matches_Cons Nil del: dropWhile_eq_Nil_conv)
  next
    case c: (Cons x a')
    have "set (dropWhile skipped a) \<subseteq> set a" by (auto dest: set_dropWhileD)
    then have "0 \<notin> set a'" using c Cons.prems(1) by auto
    then have IH: "fuzzycmp a' (bs @ 0 # rest) \<longleftrightarrow> \<not> matches a' bs" using Cons by simp
    have "a \<noteq> []" using c by auto
    then show ?thesis using c at_a Cons.prems IH
      by (subst fuzzycmp.simps) (simp add: matches_Cons fuzzy_skip_def or_32_ucast)
  qed
qed

text \<open>ASCII letters and digits, and the lower case of a letter.\<close>

definition ascii_alnum :: "byte \<Rightarrow> bool" where
  "ascii_alnum b \<longleftrightarrow> 48 \<le> unat b \<and> unat b \<le> 57 \<or> 65 \<le> unat b \<and> unat b \<le> 90 \<or> 97 \<le> unat b \<and> unat b \<le> 122"

definition ascii_lower :: "byte \<Rightarrow> byte" where
  "ascii_lower b = (if 65 \<le> unat b \<and> unat b \<le> 90 then b + 32 else b)"

lemma byte_cases:
  assumes "list_all (\<lambda>n. P (of_nat n :: byte)) [0..<256]" shows "P b"
proof -
  have "unat b \<in> set [0..<256]" using unat_byte_less [of b] by simp
  then have "P (of_nat (unat b))" using assms unfolding list_all_iff by blast
  then show ?thesis by simp
qed

lemma skipped_alnum: "b \<noteq> 0 \<Longrightarrow> unat b \<notin> {58, 91, 123} \<Longrightarrow> skipped b \<longleftrightarrow> \<not> ascii_alnum b"
  and or_32_alnum: "ascii_alnum b \<Longrightarrow> b OR 32 = ascii_lower b"
proof -
  have "(b \<noteq> 0 \<longrightarrow> unat b \<notin> {58, 91, 123} \<longrightarrow> skipped b = (\<not> ascii_alnum b)) \<and> (ascii_alnum b \<longrightarrow> b OR 32 = ascii_lower b)"
    by (rule byte_cases) code_simp
  then show "b \<noteq> 0 \<Longrightarrow> unat b \<notin> {58, 91, 123} \<Longrightarrow> skipped b \<longleftrightarrow> \<not> ascii_alnum b"
    "ascii_alnum b \<Longrightarrow> b OR 32 = ascii_lower b" by blast+
qed

lemma normalise_ascii:
  assumes "0 \<notin> set a" "\<forall>b \<in> set a. unat b \<notin> {58, 91, 123}"
  shows "normalise a = map ascii_lower (filter ascii_alnum a)"
proof -
  have "filter (\<lambda>b. \<not> skipped b) a = filter ascii_alnum a"
    using assms skipped_alnum by (intro filter_cong) metis+
  then show ?thesis by (auto simp: normalise_def or_32_alnum)
qed

section \<open>find_charmap\<close>

definition wf_alias :: "byte list \<Rightarrow> bool" where
  "wf_alias a \<longleftrightarrow> a \<noteq> [] \<and> 0 \<notin> set a \<and> 32 \<notin> set a"

definition table_size :: "byte \<Rightarrow> nat" where
  "table_size k = (if k > 0x80 then 0 else (128 - unat k) div 4 * 5)"

definition wf_charmap :: "charmap \<Rightarrow> bool" where
  "wf_charmap m \<longleftrightarrow> aliases m \<noteq> [] \<and> (\<forall>a \<in> set (aliases m). wf_alias (name_bytes a)) \<and>
     length (table m) = table_size (kind m)"

definition names_bytes :: "byte list list \<Rightarrow> byte list" where
  "names_bytes as = concat (map (\<lambda>a. a @ [0]) as)"

lemma names_bytes_Cons: "names_bytes (a # as) = a @ 0 # names_bytes as"
  by (simp add: names_bytes_def)

lemma strlen_append: "0 \<notin> set a \<Longrightarrow> strlen (a @ 0 # s) = length a"
  unfolding strlen_def by (subst takeWhile_append2) auto

lemma at_append: "wf_alias a \<Longrightarrow> at (a @ s) \<noteq> 0"
  by (cases a) (auto simp: wf_alias_def)

lemma skip_names_bytes:
  "\<forall>a \<in> set as. wf_alias a \<Longrightarrow> skip_names (names_bytes as @ 0 # s) p = p + length (names_bytes as)"
proof (induction as arbitrary: p)
  case Nil
  then show ?case by (simp add: names_bytes_def skip_names.simps)
next
  case (Cons a as)
  have "skip_names (a @ 0 # names_bytes as @ 0 # s) p = skip_names (names_bytes as @ 0 # s) (p + length a + 1)"
    using Cons.prems at_append [of a] by (subst skip_names.simps) (simp add: strlen_append wf_alias_def)
  then show ?case using Cons by (simp add: names_bytes_def)
qed

lemma find_charmap_names:
  assumes "0 \<notin> set name" "as \<noteq> []" "\<forall>a \<in> set as. wf_alias a" "length tab = table_size k"
  shows "find_charmap_loop name (names_bytes as @ [0, k] @ tab @ s) p =
    (if \<exists>a \<in> set as. matches name a then Some (p + length (names_bytes as) + 1)
     else find_charmap_loop name s (p + length (names_bytes as) + 2 + length tab))"
  using assms(2,3)
proof (induction as arbitrary: p)
  case (Cons a as)
  let ?t = "[0, k] @ tab @ s"
  have a: "wf_alias a" using Cons.prems by simp
  have ns: "names_bytes (a # as) @ ?t = a @ 0 # names_bytes as @ ?t" by (simp add: names_bytes_def)
  have cmp: "fuzzycmp name (a @ 0 # names_bytes as @ ?t) \<longleftrightarrow> \<not> matches name a"
    using fuzzycmp_matches assms(1) a by (simp add: wf_alias_def)
  have len: "strlen (a @ 0 # names_bytes as @ ?t) = length a" using a by (simp add: strlen_append wf_alias_def)
  have skip: "skip_names (a @ 0 # names_bytes as @ ?t) p = p + length (names_bytes (a # as))"
    using skip_names_bytes [of "a # as" "k # tab @ s" p] Cons.prems by (simp add: names_bytes_def)
  show ?case
  proof (cases "matches name a")
    case True
    then show ?thesis unfolding ns using cmp skip at_append [OF a]
      by (subst find_charmap_loop.simps) simp
  next
    case no: False
    show ?thesis
    proof (cases "as = []")
      case True
      then show ?thesis unfolding ns using no cmp at_append [OF a] len assms(4)
        by (subst find_charmap_loop.simps) (auto simp: Let_def names_bytes_def table_size_def)
    next
      case False
      then obtain a' as' where as: "as = a' # as'" by (cases as) auto
      have "at (names_bytes as @ ?t) \<noteq> 0"
        using at_append [of a'] Cons.prems by (simp add: as names_bytes_def)
      then have "find_charmap_loop name (a @ 0 # names_bytes as @ ?t) p =
          find_charmap_loop name (names_bytes as @ ?t) (p + length a + 1)"
        using no cmp at_append [OF a] len by (subst find_charmap_loop.simps) (simp add: Let_def)
      then show ?thesis unfolding ns using Cons.IH [OF False, of "p + length a + 1"] Cons.prems no
        by (simp add: names_bytes_Cons add.assoc)
    qed
  qed
qed simp

definition has_alias :: "byte list \<Rightarrow> charmap \<Rightarrow> bool" where
  "has_alias name m \<longleftrightarrow> (\<exists>a \<in> set (aliases m). matches name (name_bytes a))"

lemma find_charmap_maps:
  assumes "0 \<notin> set name" "\<forall>m \<in> set ms. wf_charmap m"
  shows "case List.find (has_alias name) ms of
      None \<Rightarrow> find_charmap_loop name (concat (map charmap_bytes ms) @ [0]) p = None
    | Some m \<Rightarrow> \<exists>q s. find_charmap_loop name (concat (map charmap_bytes ms) @ [0]) p = Some (p + q) \<and>
        drop q (concat (map charmap_bytes ms) @ [0]) = kind m # table m @ s"
  using assms(2)
proof (induction ms arbitrary: p)
  case Nil
  then show ?case by (subst find_charmap_loop.simps) simp
next
  case (Cons m ms)
  let ?s = "concat (map charmap_bytes ms) @ [0]"
  let ?ns = "names_bytes (map name_bytes (aliases m))"
  have b: "concat (map charmap_bytes (m # ms)) @ [0] = ?ns @ [0, kind m] @ table m @ ?s"
    by (simp add: charmap_bytes_def names_bytes_def comp_def)
  note step = find_charmap_names [OF assms(1), of "map name_bytes (aliases m)" "table m" "kind m" ?s p]
  have wf: "wf_charmap m" using Cons.prems by simp
  show ?case
  proof (cases "has_alias name m")
    case True
    have "drop (length ?ns + 1) (?ns @ [0, kind m] @ table m @ ?s) = kind m # table m @ ?s" by simp
    moreover have "find_charmap_loop name (?ns @ [0, kind m] @ table m @ ?s) p = Some (p + (length ?ns + 1))"
      using step wf True by (simp add: wf_charmap_def has_alias_def)
    ultimately show ?thesis unfolding b using True by force
  next
    case False
    define p' where "p' = p + length ?ns + 2 + length (table m)"
    have "find_charmap_loop name (?ns @ [0, kind m] @ table m @ ?s) p = find_charmap_loop name ?s p'"
      using step wf False by (simp add: wf_charmap_def has_alias_def p'_def)
    moreover have "drop (length ?ns + 2 + length (table m) + q) (?ns @ [0, kind m] @ table m @ ?s) = drop q ?s" for q
      by simp
    ultimately show ?thesis unfolding b using False Cons.IH [of p'] Cons.prems
      by (auto simp: p'_def add.assoc split: option.splits)
  qed
qed

lemma length_bytes [simp]: "length (bytes xs) = length xs"
  by (simp add: bytes_def)

lemma charmap_list_wf: "list_all wf_charmap charmap_list"
  by code_simp

text \<open>A bound on the length of a list, as a computation.\<close>

fun upto_len :: "int \<Rightarrow> 'a list \<Rightarrow> bool" where
  "upto_len n [] \<longleftrightarrow> 0 \<le> n"
| "upto_len n (x # xs) \<longleftrightarrow> upto_len (n - 1) xs"

lemma upto_len: "upto_len n xs \<longleftrightarrow> int (length xs) \<le> n"
  by (induction n xs rule: upto_len.induct) auto

lemma length_charmaps: "int (length charmaps) \<le> 4361"
  unfolding upto_len [symmetric] by code_simp
lemma aliases_distinct: "distinct (concat (map aliases charmap_list))"
  by code_simp

text \<open>The two offsets a descriptor holds.\<close>

lemma descriptor_parts:
  assumes "f < 65536" "t < 65536"
  defines "cd \<equiv> push_bit 16 (of_nat f) OR of_nat t :: u64"
  shows "unat (cd AND 0xffff) = t" "unat (ucast (drop_bit 16 cd) :: u32) = f"
proof -
  have t: "unat (of_nat t :: u64) = t" and f: "unat (of_nat f :: u64) = f"
    using assms by (simp_all add: unat_of_nat)
  have tt: "take_bit 16 (of_nat t :: u64) = of_nat t"
    using assms(2) by (simp add: word_unat_eq_iff unat_take_bit unat_of_nat)
  have "drop_bit 16 (of_nat t :: u64) = 0"
    using assms(2) by (simp add: word_unat_eq_iff unat_drop_bit unat_of_nat)
  moreover have "drop_bit 16 (push_bit 16 (of_nat f :: u64)) = of_nat f"
  proof (rule bit_word_eqI)
    fix n assume "n < LENGTH(64)"
    have "\<not> bit (of_nat f :: u64) n" if "48 \<le> n"
    proof -
      have "(2::nat) ^ 48 \<le> 2 ^ n" using that by (rule power_increasing) simp
      moreover have "f < 2 ^ 48" using assms(1) by simp
      ultimately have "f < 2 ^ n" by linarith
      then have "drop_bit n (of_nat f :: u64) = 0" by (simp only: word_unat_eq_iff unat_drop_bit f) simp
      then show ?thesis by (simp only: bit_iff_odd_drop_bit) simp
    qed
    then show "bit (drop_bit 16 (push_bit 16 (of_nat f :: u64))) n = bit (of_nat f :: u64) n"
      by (cases "48 \<le> n") (simp_all add: bit_drop_bit_eq bit_push_bit_iff)
  qed
  ultimately have d: "drop_bit 16 cd = of_nat f" by (simp add: cd_def drop_bit_or)
  have "unat (ucast (of_nat f :: u64) :: u32) = f"
    using assms(1) by (simp add: unsigned_ucast_eq take_bit_nat_eq_self unat_of_nat)
  then show "unat (ucast (drop_bit 16 cd) :: u32) = f" by (simp only: d)
  have "cd AND 0xffff = take_bit 16 cd" by (simp add: take_bit_eq_mask mask_eq_exp_minus_1)
  also have "\<dots> = of_nat t" unfolding cd_def take_bit_or tt by (simp add: take_bit_push_bit)
  finally show "unat (cd AND 0xffff) = t" using t by simp
qed

lemma find_charmap_Some:
  assumes "0 \<notin> set name" "List.find (has_alias name) charmap_list = Some m"
  shows "\<exists>p s. find_charmap name = Some p \<and> p < 65536 \<and> drop p charmaps = kind m # table m @ s"
proof -
  obtain p s where p: "find_charmap name = Some p" "drop p charmaps = kind m # table m @ s"
    using find_charmap_maps [OF assms(1), of charmap_list 0] charmap_list_wf assms(2)
    by (auto simp: find_charmap_def charmaps_def list_all_iff)
  have "p < length charmaps" using p(2) by (metis drop_all list.distinct(1) not_le)
  then show ?thesis using p length_charmaps by auto
qed

lemma find_charmap_None:
  assumes "0 \<notin> set name" "List.find (has_alias name) charmap_list = None"
  shows "find_charmap name = None"
  using find_charmap_maps [OF assms(1), of charmap_list 0] charmap_list_wf assms(2)
  by (simp add: find_charmap_def charmaps_def list_all_iff)

lemma find_first:
  "m \<in> set ms \<Longrightarrow> P m \<Longrightarrow> \<forall>m' \<in> set ms. P m' \<longrightarrow> m' = m \<Longrightarrow> List.find P ms = Some m"
proof (induction ms)
  case (Cons m' ms)
  show ?case
  proof (cases "P m'")
    case True
    moreover have "m' = m" using True Cons.prems(3) by (blast intro: list.set_intros(1))
    ultimately show ?thesis by simp
  next
    case False
    then have "m \<in> set ms" using Cons.prems(1,2) by auto
    moreover have "\<forall>m' \<in> set ms. P m' \<longrightarrow> m' = m" using Cons.prems(3) by (blast intro: list.set_intros(2))
    ultimately have "List.find P ms = Some m" using Cons.prems(2) Cons.IH by blast
    then show ?thesis using False by simp
  qed
qed simp

lemma inj_name_bytes: "name_bytes a = name_bytes b \<longleftrightarrow> a = b"
proof -
  have "inj (of_char :: char \<Rightarrow> byte)"
  proof (rule injI)
    fix c d :: char assume "of_char c = (of_char d :: byte)"
    then have "unat (of_char c :: byte) = unat (of_char d :: byte)" by simp
    moreover have "unat (of_char c :: byte) = of_char c" for c
      using nat_of_char_less_256 [of c] by (metis byte_of_def of_nat_of_char unat_byte_of)
    ultimately show "c = d" by simp
  qed
  then show ?thesis by (simp add: name_bytes_def inj_map_eq_map)
qed

lemma distinct_owner:
  "distinct (concat (map f ms)) \<Longrightarrow> m \<in> set ms \<Longrightarrow> m' \<in> set ms \<Longrightarrow> a \<in> set (f m) \<Longrightarrow> a \<in> set (f m') \<Longrightarrow> m' = m"
  by (induction ms) auto

lemma find_alias:
  assumes "m \<in> set charmap_list" "a \<in> set (aliases m)" "matches name (name_bytes a)"
  shows "List.find (has_alias name) charmap_list = Some m"
proof (rule find_first [OF assms(1)])
  show "has_alias name m" using assms by (auto simp: has_alias_def)
  show "\<forall>m' \<in> set charmap_list. has_alias name m' \<longrightarrow> m' = m"
  proof (intro ballI impI)
    fix m' assume m': "m' \<in> set charmap_list" "has_alias name m'"
    then obtain a' where "a' \<in> set (aliases m')" "matches name (name_bytes a')" by (auto simp: has_alias_def)
    then have "a' = a" using assms(3) by (metis inj_name_bytes matches_def)
    then show "m' = m" using distinct_owner [OF aliases_distinct assms(1) m'(1) assms(2)] \<open>a' \<in> _\<close> by simp
  qed
qed

lemma iconv_open_mapped:
  assumes "0 \<notin> set to" "0 \<notin> set from"
    and "List.find (has_alias from) charmap_list = Some mf" "List.find (has_alias to) charmap_list = Some mt"
    and "kind mt < EUC_JP"
  shows "\<exists>cd rt rf. iconv_open to from = Inr cd \<and>
    drop (unat (cd AND 0xffff)) charmaps = kind mt # table mt @ rt \<and>
    drop (unat (ucast (drop_bit 16 cd) :: u32)) charmaps = kind mf # table mf @ rf"
proof -
  obtain t rt where t: "find_charmap to = Some t" "t < 65536" "drop t charmaps = kind mt # table mt @ rt"
    using find_charmap_Some [OF assms(1,4)] by blast
  obtain f rf where f: "find_charmap from = Some f" "f < 65536" "drop f charmaps = kind mf # table mf @ rf"
    using find_charmap_Some [OF assms(2,3)] by blast
  show ?thesis using t f descriptor_parts [OF f(2) t(2)] assms(5)
    by (auto simp: iconv_open_def EUC_JP_def)
qed

lemma iconv_open_refused:
  assumes "0 \<notin> set to" "List.find (has_alias to) charmap_list = Some mt" "EUC_JP \<le> kind mt"
  shows "iconv_open to from = Inl EINVAL"
  using find_charmap_Some [OF assms(1,2)] assms(3)
  by (auto simp: iconv_open_def EUC_JP_def split: option.splits)

section \<open>Properties\<close>

text \<open>
  C18: \<open>find_charmap\<close> finds an encoding by any spelling of any of its aliases: its ASCII letters, in
  upper or lower case, and its digits, in order, with any other characters but \<open>:\<close>, \<open>[\<close> and \<open>{\<close>
  anywhere before the last letter or digit (those three are compared, not skipped). The offset it
  returns is the one of the encoding's type code, which its table follows.
\<close>

theorem find_charmap_alias:
  assumes "m \<in> set charmap_list" "a \<in> set (aliases m)" "0 \<notin> set name"
    and "\<forall>b \<in> set name. unat b \<notin> {58, 91, 123}"
    and "map ascii_lower (filter ascii_alnum name) = name_bytes a" "ascii_alnum (last name)"
  shows "\<exists>p rest. find_charmap name = Some p \<and> drop p charmaps = kind m # table m @ rest"
proof -
  have "name_bytes a \<noteq> []" using assms(1,2) charmap_list_wf by (simp add: list_all_iff wf_charmap_def wf_alias_def)
  then have "name \<noteq> []" using assms(5) by auto
  then have "last name \<in> set name" by simp
  then have "\<not> skipped (last name)" using skipped_alnum assms(3,4,6) by metis
  moreover have "normalise name = name_bytes a" using normalise_ascii [OF assms(3,4)] assms(5) by simp
  ultimately show ?thesis
    using find_charmap_Some [OF assms(3) find_alias [OF assms(1,2)]] by (auto simp: matches_def)
qed

theorem find_charmap_alias_witness:
  "\<exists>p rest. find_charmap (name_bytes ''ISO-8859-15'') = Some p \<and>
     drop p charmaps = kind cm_iso885915 # table cm_iso885915 @ rest"
proof -
  have "cm_iso885915 \<in> set charmap_list" by (simp add: charmap_list_def)
  moreover have "''iso885915'' \<in> set (aliases cm_iso885915)" by (simp add: cm_iso885915_def)
  moreover have "0 \<notin> set (name_bytes ''ISO-8859-15'')" by code_simp
  moreover have "\<forall>b \<in> set (name_bytes ''ISO-8859-15''). unat b \<notin> {58, 91, 123}"
    by (simp add: name_bytes_def)
  moreover have "map ascii_lower (filter ascii_alnum (name_bytes ''ISO-8859-15'')) = name_bytes ''iso885915''"
    by (simp add: name_bytes_def ascii_lower_def ascii_alnum_def)
  moreover have "ascii_alnum (last (name_bytes ''ISO-8859-15''))" by (simp add: name_bytes_def ascii_alnum_def)
  ultimately show ?thesis by (rule find_charmap_alias)
qed

text \<open>
  C19: \<open>iconv_open\<close> succeeds exactly when both names match an alias and the target is not one of the
  multi-byte East Asian encodings; it fails with \<open>EINVAL\<close> otherwise. From the descriptor, \<open>iconv\<close>
  gets back the type code and the table of both encodings.
\<close>

theorem iconv_open_correct:
  assumes "0 \<notin> set to" "0 \<notin> set from"
  shows "case (List.find (has_alias to) charmap_list, List.find (has_alias from) charmap_list) of
      (Some mt, Some mf) \<Rightarrow>
        if kind mt \<ge> EUC_JP then iconv_open to from = Inl EINVAL
        else (\<exists>cd rt rf. iconv_open to from = Inr cd \<and>
          drop (unat (cd AND 0xffff)) charmaps = kind mt # table mt @ rt \<and>
          drop (unat (ucast (drop_bit 16 cd) :: u32)) charmaps = kind mf # table mf @ rf)
    | _ \<Rightarrow> iconv_open to from = Inl EINVAL"
proof (cases "List.find (has_alias to) charmap_list")
  case None
  then show ?thesis using find_charmap_None [OF assms(1)] by (simp add: iconv_open_def)
next
  case mt: (Some mt)
  show ?thesis
  proof (cases "List.find (has_alias from) charmap_list")
    case None
    then show ?thesis using find_charmap_None [OF assms(2)] find_charmap_Some [OF assms(1) mt] mt
      by (auto simp: iconv_open_def)
  next
    case mf: (Some mf)
    then show ?thesis
      using mt iconv_open_mapped [OF assms mf mt] iconv_open_refused [OF assms(1) mt] by (auto simp: not_le)
  qed
qed

theorem iconv_open_correct_witness:
  "(\<exists>cd. iconv_open (name_bytes ''UTF-8'') (name_bytes ''Shift_JIS'') = Inr cd) \<and>
   iconv_open (name_bytes ''Shift_JIS'') (name_bytes ''UTF-8'') = Inl EINVAL"
proof -
  have 0: "0 \<notin> set (name_bytes ''UTF-8'')" "0 \<notin> set (name_bytes ''Shift_JIS'')" by code_simp+
  have a: "List.find (has_alias (name_bytes ''UTF-8'')) charmap_list = Some cm_utf8"
    by (rule find_alias [where a = "''utf8''"]) ((simp add: charmap_list_def cm_utf8_def)+, code_simp)
  have b: "List.find (has_alias (name_bytes ''Shift_JIS'')) charmap_list = Some cm_shiftjis"
    by (rule find_alias [where a = "''shiftjis''"]) ((simp add: charmap_list_def cm_shiftjis_def)+, code_simp)
  show ?thesis using iconv_open_correct [OF 0] iconv_open_correct [OF 0(2) 0(1)]
    unfolding a b by (auto simp: cm_utf8_def cm_shiftjis_def type_defs)
qed

end
