(* ===== verification/Iconv_Sound.thy ===== *)
theory Iconv_Sound
  imports Iconv_Unicode Iconv_Open_Facts
begin

text \<open>
  What the first \<open>switch\<close> of \<open>iconv\<close> can yield: every table read lies inside its table and every
  character is a Unicode scalar value, for each source encoding where this holds.
\<close>

text \<open>An outcome that is safe to go on with, for an input of \<open>n\<close> bytes.\<close>

fun sound :: "nat \<Rightarrow> decoded \<Rightarrow> bool" where
  "sound n (Decoded c l) \<longleftrightarrow> scalar (unat c) \<and> 0 < l \<and> l \<le> n"
| "sound n (Hkscs_pair i) \<longleftrightarrow> i \<le> 12 \<and> 2 \<le> n"
| "sound n Ilseq \<longleftrightarrow> True"
| "sound n Starved \<longleftrightarrow> True"
| "sound n Undef \<longleftrightarrow> False"

lemma unat_short_less: "unat x < 65536" for x :: u16
  using unsigned_less [of x, where ?'a = nat] by simp

lemma of_unat: "unat w = n \<Longrightarrow> w = of_nat n" for w :: u32
  by auto

lemma scalar_short: "\<not> surrogate (unat x) \<Longrightarrow> scalar (unat x)" for x :: u16
  using unat_short_less [of x] by (simp add: scalar_below_def)

section \<open>The Unicode encodings\<close>

lemma wchar_sound: "sound (length bs) (decode_wchar bs)"
  by (simp add: decode_wchar_def check_scalar_iff)

lemma utf32_sound: "sound (length bs) (decode_utf32 type bs)"
  by (simp add: decode_utf32_def check_scalar_iff)

lemma get_16_less: "unat (get_16 s e) < 65536"
  using unat_byte_less [of "s ! unat (e AND 1)"] unat_byte_less [of "s ! (1 - unat (e AND 1))"]
  by (simp add: get_16_def Let_def unat_bytes16)

lemma utf16_sound: "sound (length bs) (decode_utf16 type bs)"
proof -
  define c d where "c = get_16 bs type" and "d = get_16 (drop 2 bs) type"
  have unit: "scalar (unat c)" if "\<not> c - 0xdc00 < 0x400" "\<not> c - 0xd800 < 0x400"
    using that get_16_less [of bs type] by (auto simp: window_u32 scalar_below_def surrogate_def simp flip: c_def)
  have pair: "scalar (unat (push_bit 10 (c - 0xd7c0) + (d - 0xdc00)))" if "c - 0xd800 < 0x400" "d - 0xdc00 < 0x400"
  proof -
    define h l where "h = unat c - 0xd7c0" and "l = unat d - 0xdc00"
    have r: "unat c = 0xd7c0 + h" "unat d = 0xdc00 + l" "0x40 \<le> h" "h < 0x440" "l < 0x400"
      using that by (auto simp: window_u32 h_def l_def)
    have "c = of_nat (0xd7c0 + h)" using r(1) by (rule of_unat)
    moreover have "d = of_nat (0xdc00 + l)" using r(2) by (rule of_unat)
    ultimately have "push_bit 10 (c - 0xd7c0) + (d - 0xdc00) = of_nat (h * 0x400 + l)"
      by (simp add: push_bit_eq_mult)
    moreover have "unat (of_nat (h * 0x400 + l) :: u32) = h * 0x400 + l" using r by (intro unat_of_nat_32) simp
    moreover have "0x10000 \<le> h * 0x400 + l" "h * 0x400 + l < 0x110000" using r by linarith+
    ultimately show ?thesis by (simp add: scalar_below_def surrogate_def)
  qed
  show ?thesis using unit pair
    by (auto simp: decode_utf16_def Let_def not_le not_less simp flip: c_def d_def)
qed

section \<open>The table driven encodings\<close>

lemma table_read:
  assumes "\<forall>r \<in> set t. row_ok n r" "i < length t" "j < n"
  obtains x where "rd2 t i j = Some x" "\<not> surrogate (unat x)"
proof -
  have "\<forall>r \<in> set t. length r = n" using assms(1) by (simp add: row_ok_def)
  then obtain r where "r \<in> set t" "rd2 t i j = Some (r ! j)" "r ! j \<in> set r"
    using assms(2,3) by (rule rd2_Some)
  then show thesis using that assms(1) by (auto simp: row_ok_def)
qed

lemma nonzero_at_sound:
  assumes "\<forall>r \<in> set t. row_ok m r" "unat c < length t" "unat d < m" "2 \<le> n"
  shows "sound n (nonzero_at t c d)"
proof -
  obtain x where "rd2 t (unat c) (unat d) = Some x" "\<not> surrogate (unat x)"
    using table_read [OF assms(1-3)] .
  then show ?thesis using assms(4) by (simp add: nonzero_at_def scalar_short)
qed

lemma eucjp_sound: "sound (length bs) (decode_eucjp c bs)"
proof -
  define d :: u32 where "d = ucast (bs ! 1)"
  have kana: "scalar (unat (d + 0xfec0))" if "\<not> d - 0xa1 > 0x3e"
  proof -
    have "d - 0xa1 < 0x3f" using that by (simp add: word_less_nat_alt not_less)
    then have "0xa1 \<le> unat d" "unat d < 0xe0" by (auto simp: window_u32)
    then have "unat (d + 0xfec0) = unat d + 0xfec0" by (simp add: unat_word_ariths)
    then show ?thesis using \<open>unat d < 0xe0\<close> \<open>0xa1 \<le> unat d\<close> by (simp add: scalar_below_def surrogate_def)
  qed
  have square: "sound (length bs) (nonzero_at jis0208 (c - 0xa1) (d - 0xa1))"
    if "\<not> (c - 0xa1 \<ge> 84 \<or> d - 0xa1 \<ge> 94)" "\<not> length bs < 2"
    using that by (intro nonzero_at_sound [OF jis0208_ok]) (auto simp: length_jis0208 not_le word_less_nat_alt)
  show ?thesis using kana square unfolding decode_eucjp_def Let_def d_def [symmetric] by auto
qed

text \<open>The column of a second byte in the tables \<open>gb18030\<close> and \<open>big5\<close>.\<close>

lemma gb_column:
  fixes b :: byte
  assumes "\<not> (ucast b - 0x40 :: u32) \<ge> 191" "ucast b \<noteq> (127 :: u32)"
  shows "unat (if (ucast b - 0x40 :: u32) > 63 then ucast b - 0x40 - 1 else ucast b - 0x40 :: u32) < 190"
proof -
  define e :: u32 where "e = ucast b - 0x40"
  have "e < 191" using assms(1) by (simp add: e_def)
  moreover have "e \<noteq> 63" using assms(2) by (auto simp: e_def algebra_simps)
  moreover have "unat (e - 1) = unat e - 1" if "e > 63"
    using that by (intro unat_minus_one) auto
  ultimately show ?thesis unfolding e_def [symmetric]
    by (auto simp: word_less_nat_alt word_unat_eq_iff)
qed

lemma gb_sound:
  assumes "type \<noteq> GB18030"
  shows "sound (length bs) (decode_gb type c bs)"
proof -
  define b where "b = bs ! 1"
  define d :: u32 where "d = (if (ucast b - 0x40 :: u32) > 63 then ucast b - 0x40 - 1 else ucast b - 0x40)"
  have "sound (length bs) (case rd2 gb18030 (unat (c - 0x81)) (unat d) of None \<Rightarrow> Undef | Some x \<Rightarrow> Decoded (ucast x) 2)"
    if "\<not> c - 0x81 \<ge> 126" "\<not> length bs < 2" "\<not> ((ucast b :: u32) - 0x40 \<ge> 191 \<or> ucast b = (127 :: u32))"
  proof -
    have "unat (c - 0x81) < length gb18030" using that(1) by (simp add: length_gb18030 not_le word_less_nat_alt)
    moreover have "unat d < 190" unfolding d_def using gb_column that(3) by blast
    ultimately obtain x where "rd2 gb18030 (unat (c - 0x81)) (unat d) = Some x" "\<not> surrogate (unat x)"
      by (rule table_read [OF gb18030_ok])
    then show ?thesis using that(2) by (simp add: scalar_short)
  qed
  then show ?thesis using assms unfolding decode_gb_def Let_def b_def [symmetric] d_def [symmetric] by simp
qed

lemma big5_column:
  fixes b :: byte
  assumes "\<not> ((ucast b - 0x40 :: u32) \<ge> 0xbf \<or> (ucast b - 0x7f :: u32) < 0x22)"
  shows "unat (if (ucast b - 0x40 :: u32) > 0x3e then ucast b - 0x40 - 0x22 else ucast b - 0x40 :: u32) < 157"
proof -
  define e :: u32 where "e = ucast b - 0x40"
  have "ucast b - 0x40 < (0xbf :: u32)" "\<not> (ucast b - 0x7f :: u32) < 0x22" using assms by auto
  then have r: "0x40 \<le> unat b" "unat b < 0xff" "unat b < 0x7f \<or> 0xa1 \<le> unat b" by (auto simp: window_u32)
  then have "unat e = unat b - 0x40" unfolding e_def by (subst unat_sub) (simp_all add: word_le_nat_alt)
  moreover have "unat (e - 0x22) = unat e - 0x22" if "e > 0x3e"
    using that by (subst unat_sub) (auto simp: word_le_nat_alt word_less_nat_alt)
  ultimately show ?thesis unfolding e_def [symmetric] using r by (auto simp: word_less_nat_alt)
qed

lemma nth_concat_rows:
  "\<forall>r \<in> set t. length r = n \<Longrightarrow> i < length t * n \<Longrightarrow> concat t ! i \<in> set (t ! (i div n)) \<and> i div n < length t"
proof (induction t arbitrary: i)
  case (Cons r t)
  show ?case
  proof (cases "i < n")
    case True
    then show ?thesis using Cons.prems by (simp add: nth_append)
  next
    case False
    have "n > 0" using Cons.prems(2) by (cases n) auto
    moreover have "i div n = Suc ((i - n) div n)" using False \<open>n > 0\<close> by (simp add: le_div_geq not_less)
    ultimately show ?thesis using Cons.IH [of "i - n"] Cons.prems False by (simp add: nth_append)
  qed
qed simp

lemma length_hkscs_concat: "length (concat hkscs_rows) = 4867"
proof -
  have "length (concat t) = length t * 157" if "\<forall>r \<in> set t. hkscs_row_ok 157 r" for t
    using that by (induction t) (auto simp: hkscs_row_ok_def)
  from this [OF hkscs_rows_ok] show ?thesis by (simp add: length_hkscs_rows)
qed

lemma length_hkscs: "length hkscs = 5172"
  by (simp add: hkscs_def length_hkscs_concat length_hkscs_planes)

lemma hkscs_entry:
  assumes "i < 4867"
  shows "surrogate (unat (hkscs ! i)) \<longrightarrow> 0xdc00 \<le> unat (hkscs ! i) \<and> unat (hkscs ! i) \<le> 0xdc0c"
proof -
  have "\<forall>r \<in> set hkscs_rows. length r = 157" using hkscs_rows_ok by (simp add: hkscs_row_ok_def)
  moreover have "i < length hkscs_rows * 157" using assms by (simp add: length_hkscs_rows)
  ultimately have "concat hkscs_rows ! i \<in> set (hkscs_rows ! (i div 157)) \<and> i div 157 < length hkscs_rows"
    by (rule nth_concat_rows)
  then show ?thesis using hkscs_rows_ok assms
    by (auto simp: hkscs_def nth_append length_hkscs_concat hkscs_row_ok_def)
qed

lemma unat_plane: "unat (push_bit 17 p OR ucast x :: u32) = unat p * 131072 + unat x"
  if "unat p < 2" for p :: u32 and x :: u16
  using that unat_short_less [of x] by (subst unat_push_or) simp_all

lemma unat_mod_2: "unat (w mod 2) < 2" for w :: u32
  by (simp add: unat_mod)

lemma hkscs_char_cases:
  assumes "i < 4867"
  obtains p c where "hkscs_char i = Some c" "unat c = p * 131072 + unat (hkscs ! i)" "p < 2"
proof -
  define p :: u32 where "p = drop_bit (i mod 16) (ucast (hkscs ! (4867 + i div 16))) mod 2"
  have "unat p < 2" unfolding p_def by (rule unat_mod_2)
  moreover have "hkscs_char i = Some (push_bit 17 p OR ucast (hkscs ! i))"
    using assms by (simp add: hkscs_char_def p_def rd_inside length_hkscs)
  ultimately show thesis using that unat_plane by blast
qed

lemma hkscs_sound:
  assumes "c - 0xa1 \<ge> 0x59" "unat d < 157" "2 \<le> n" "unat c < 256"
  shows "sound n (decode_hkscs c d)"
proof (cases "c - 0x87 \<ge> 0x78")
  case True
  then show ?thesis by (simp add: decode_hkscs_def)
next
  case False
  define r where "r = (if c < 0xa1 then c - 0x87 else c - (0x87 + (0xfa - 0xa1)))"
  have c: "0x87 \<le> unat c" "unat c < 0xff" using False by (auto simp: window_u32 not_le)
  have "\<not> c - 0xa1 < 0x59" using assms(1) by simp
  then have "unat c < 0xa1 \<or> 0xfa \<le> unat c" by (auto simp: window_u32)
  then have "unat r < 31"
    using c unfolding r_def by (auto simp: word_less_nat_alt unat_sub_if' word_le_nat_alt)
  then have i: "unat (r * 157 + d) < 4867" using assms(2) by (simp add: unat_word_ariths)
  then obtain p v where v: "hkscs_char (unat (r * 157 + d)) = Some v"
      "unat v = p * 131072 + unat (hkscs ! unat (r * 157 + d))" "p < 2"
    by (rule hkscs_char_cases)
  define x where "x = unat (hkscs ! unat (r * 157 + d))"
  have x: "x < 65536" "surrogate x \<longrightarrow> 0xdc00 \<le> x \<and> x \<le> 0xdc0c"
    using hkscs_entry [OF i] unat_short_less unfolding x_def by auto
  have "decode_hkscs c d = (if v div 256 = 0xdc then Hkscs_pair (unat (v mod 256)) else if v = 0 then Ilseq else Decoded v 2)"
    using False unfolding decode_hkscs_def Let_def r_def [symmetric] v(1) option.case by simp
  moreover have "v div 256 = 0xdc \<longleftrightarrow> unat v div 256 = 0xdc"
    by (simp add: word_unat_eq_iff unat_div)
  moreover have "unat v = x \<or> unat v = 131072 + x"
    using v(2,3) unfolding x_def [symmetric] by (cases "p = 0") auto
  then have "(unat v div 256 = 0xdc \<longrightarrow> unat v mod 256 \<le> 12) \<and> (unat v div 256 \<noteq> 0xdc \<longrightarrow> scalar (unat v))"
  proof
    assume e: "unat v = x"
    have "x mod 256 \<le> 12" if "x div 256 = 0xdc"
    proof -
      have "x = 0xdc00 + x mod 256" using div_mult_mod_eq [of x 256] that by simp
      moreover have "x \<le> 0xdc0c" using x(2) calculation by (simp add: surrogate_def)
      ultimately show ?thesis by linarith
    qed
    moreover have "\<not> surrogate x" if "x div 256 \<noteq> 0xdc"
    proof
      assume "surrogate x"
      then have "0xdc00 \<le> x" "x < 0xdd00" using x(2) by auto
      then show False using that by auto
    qed
    ultimately show ?thesis using e x(1) by (simp add: scalar_below_def)
  next
    assume e: "unat v = 131072 + x"
    then have "unat v div 256 \<noteq> 0xdc" by auto
    then show ?thesis using e x(1) by (simp add: scalar_below_def surrogate_def)
  qed
  ultimately show ?thesis using assms(3) by (simp add: unat_mod)
qed

lemma big5_sound:
  assumes "unat c < 256"
  shows "sound (length bs) (decode_big5 c bs)"
proof -
  define b where "b = bs ! 1"
  define d :: u32 where "d = (if (ucast b - 0x40 :: u32) > 0x3e then ucast b - 0x40 - 0x22 else ucast b - 0x40)"
  define q :: u32 where "q = (if c - 0xa1 = 0x27 \<and> (d = 0x3a \<or> d = 0x3c \<or> d = 0x42) then 1 else 0)"
  have plane0: "sound (length bs)
      (case rd2 big5 (unat (c - 0xa1)) (unat d) of None \<Rightarrow> Undef
       | Some x \<Rightarrow> if ucast x OR push_bit 17 q = 0 then Ilseq else Decoded (ucast x OR push_bit 17 q) 2)"
    if asm: "\<not> c - 0xa1 \<ge> 0x59" "unat d < 157" "\<not> length bs < 2"
  proof -
    have "unat (c - 0xa1) < length big5" using asm(1) by (simp add: length_big5 not_le word_less_nat_alt)
    then obtain x where x: "rd2 big5 (unat (c - 0xa1)) (unat d) = Some x" "\<not> surrogate (unat x)"
      using asm(2) by (rule table_read [OF big5_ok])
    have q: "unat q < 2" by (simp add: q_def)
    then have "unat (ucast x OR push_bit 17 q) = unat q * 131072 + unat x"
      using unat_plane [of q x] by (simp add: or.commute)
    moreover have "unat q = 0 \<or> unat q = 1" using q by auto
    ultimately have "scalar (unat (ucast x OR push_bit 17 q))"
      using x(2) unat_short_less [of x] by (elim disjE) (simp_all add: scalar_below_def surrogate_def)
    then show ?thesis using x(1) asm(3) by simp
  qed
  have col: "unat d < 157" if "\<not> ((ucast b - 0x40 :: u32) \<ge> 0xbf \<or> (ucast b - 0x7f :: u32) < 0x22)"
    unfolding d_def using big5_column [OF that] .
  have hk: "sound (length bs) (decode_hkscs c d)" if "c - 0xa1 \<ge> 0x59" "unat d < 157" "\<not> length bs < 2"
    using that assms by (intro hkscs_sound) auto
  have "decode_big5 c bs =
      (if length bs < 2 then Starved
       else if (ucast b - 0x40 :: u32) \<ge> 0xbf \<or> (ucast b - 0x7f :: u32) < 0x22 then Ilseq
       else if c - 0xa1 \<ge> 0x59 then decode_hkscs c d
       else case rd2 big5 (unat (c - 0xa1)) (unat d) of None \<Rightarrow> Undef
            | Some x \<Rightarrow> if ucast x OR push_bit 17 q = 0 then Ilseq else Decoded (ucast x OR push_bit 17 q) 2)"
    unfolding decode_big5_def Let_def b_def [symmetric] d_def [symmetric] q_def [symmetric] by simp
  then show ?thesis using plane0 col hk by simp
qed

section \<open>The code pages\<close>

text \<open>A packed table whose indices, four in five bytes, all lie inside \<open>legacy_chars\<close>.\<close>

fun packed_ok :: "byte list \<Rightarrow> bool" where
  "packed_ok [] \<longleftrightarrow> True"
| "packed_ok (a # b # c # d # e # r) \<longleftrightarrow>
     unat a + unat b mod 4 * 256 < 657 \<and> unat b div 4 + unat c mod 16 * 64 < 657 \<and>
     unat c div 16 + unat d mod 64 * 16 < 657 \<and> unat d div 64 + unat e * 4 < 657 \<and> packed_ok r"
| "packed_ok _ \<longleftrightarrow> False"

fun packed_ints_ok :: "int list \<Rightarrow> bool" where
  "packed_ints_ok [] \<longleftrightarrow> True"
| "packed_ints_ok (a # b # c # d # e # r) \<longleftrightarrow>
     0 \<le> a \<and> a < 256 \<and> 0 \<le> b \<and> b < 256 \<and> 0 \<le> c \<and> c < 256 \<and> 0 \<le> d \<and> d < 256 \<and> 0 \<le> e \<and> e < 256 \<and>
     a + b mod 4 * 256 < 657 \<and> b div 4 + c mod 16 * 64 < 657 \<and>
     c div 16 + d mod 64 * 16 < 657 \<and> d div 64 + e * 4 < 657 \<and> packed_ints_ok r"
| "packed_ints_ok _ \<longleftrightarrow> False"

lemma unat_byte_int: "0 \<le> x \<Longrightarrow> x < 256 \<Longrightarrow> int (unat (word_of_int x :: byte)) = x"
  by (simp add: unat_eq_nat_uint uint_word_of_int)

lemma less_657: "int n < 657 \<Longrightarrow> n < 657"
  by simp

lemma packed_bytes: "packed_ints_ok xs \<Longrightarrow> packed_ok (bytes xs)"
proof (induction xs rule: packed_ints_ok.induct)
  case (2 a b c d e r)
  let ?u = "\<lambda>x. unat (word_of_int x :: byte)"
  have u: "int (?u a) = a" "int (?u b) = b" "int (?u c) = c" "int (?u d) = d" "int (?u e) = e"
    by (rule unat_byte_int; use 2(2) in simp)+
  have "?u a + ?u b mod 4 * 256 < 657" "?u b div 4 + ?u c mod 16 * 64 < 657"
      "?u c div 16 + ?u d mod 64 * 16 < 657" "?u d div 64 + ?u e * 4 < 657"
    by (rule less_657; unfold of_nat_add of_nat_mult of_nat_mod of_nat_div of_nat_numeral u; use 2(2) in simp)+
  then show ?case using 2 by (simp add: bytes_def)
qed (simp_all add: bytes_def)

lemma unat_legacy_index:
  fixes a b :: byte
  assumes "s \<le> 6"
  shows "unat (drop_bit s (ucast a :: u32) OR (push_bit (8 - s) (ucast b) AND 1023)) =
    unat a div 2 ^ s + unat b mod 2 ^ (s + 2) * 2 ^ (8 - s)"
proof -
  define x y :: u32 where "x = take_bit (s + 2) (ucast b)" and "y = drop_bit s (ucast a)"
  have "push_bit (8 - s) (ucast b :: u32) AND 1023 = take_bit 10 (push_bit (8 - s) (ucast b))"
    by (simp add: take_bit_eq_mask mask_eq_exp_minus_1)
  also have "\<dots> = push_bit (8 - s) x"
    using assms by (simp add: take_bit_push_bit x_def)
  finally have mask: "push_bit (8 - s) (ucast b :: u32) AND 1023 = push_bit (8 - s) x" .
  have x: "unat x = unat b mod 2 ^ (s + 2)" unfolding x_def unat_take_bit by simp
  have y: "unat y = unat a div 2 ^ s" unfolding y_def unat_drop_bit by simp
  have "unat a < 2 ^ (8 - s) * 2 ^ s" using unat_byte_less [of a] assms by (simp flip: power_add)
  then have small: "unat y < 2 ^ (8 - s)" unfolding y by (simp add: less_mult_imp_div_less)
  have "unat x \<le> unat b" unfolding x by (rule mod_less_eq_dividend)
  then have "unat x \<le> 255" using unat_byte_less [of b] by linarith
  moreover have p: "(2::nat) ^ (8 - s) \<le> 256" using power_increasing [of "8 - s" 8 "2::nat"] by simp
  ultimately have "unat x * 2 ^ (8 - s) \<le> 255 * 256" by (intro mult_le_mono)
  then have "unat x * 2 ^ (8 - s) + unat y < 2 ^ 32" using small p by simp
  then have "unat (push_bit (8 - s) x OR y) = unat x * 2 ^ (8 - s) + unat y" using small by (rule unat_push_or)
  then show ?thesis unfolding mask y_def [symmetric] x [symmetric] y [symmetric] by (simp add: or.commute)
qed

lemma legacy_index_shift:
  "legacy_index (a # b # c # d # e # r) (i + 4) = legacy_index r i"
proof -
  have "(i + 4) * 5 div 4 = Suc (Suc (Suc (Suc (Suc (i * 5 div 4)))))" "2 * (i + 4) mod 8 = 2 * i mod 8" by auto
  then show ?thesis by (simp add: legacy_index_def)
qed

lemma legacy_index_first:
  "legacy_index (a # b # c # d # e # r) 0 = Some (unat a + unat b mod 4 * 256)"
  "legacy_index (a # b # c # d # e # r) 1 = Some (unat b div 4 + unat c mod 16 * 64)"
  "legacy_index (a # b # c # d # e # r) 2 = Some (unat c div 16 + unat d mod 64 * 16)"
  "legacy_index (a # b # c # d # e # r) 3 = Some (unat d div 64 + unat e * 4)"
  using unat_legacy_index [of 0 a b] unat_legacy_index [of 2 b c] unat_legacy_index [of 4 c d] unat_legacy_index [of 6 d e]
    unat_byte_less [of e]
  by (simp_all add: legacy_index_def)

lemma packed_index:
  "packed_ok tab \<Longrightarrow> i < length tab div 5 * 4 \<Longrightarrow> \<exists>k. legacy_index (tab @ rest) i = Some k \<and> k < 657"
proof (induction tab arbitrary: i rule: packed_ok.induct)
  case (2 a b c d e r)
  consider "i = 0" | "i = 1" | "i = 2" | "i = 3" | j where "i = j + 4"
    by (cases "i < 4") (auto simp: less_Suc_eq numeral_eq_Suc intro: that(5) [of "i - 4"])
  moreover have "(5 + length r) div 5 = Suc (length r div 5)" by simp
  ultimately show ?case
    by cases (use 2 legacy_index_first [of a b c d e "r @ rest"] legacy_index_shift in \<open>auto\<close>)
qed simp_all

text \<open>
  The encodings whose packed tables stay inside \<open>legacy_chars\<close>: all but \<open>cp437\<close> and \<open>cp850\<close>.
\<close>

definition packed_map :: "charmap \<Rightarrow> bool" where
  "packed_map m \<longleftrightarrow> kind m > 0x80 \<or> (unat (kind m) mod 4 = 0 \<and> packed_ok (table m))"

lemma cm_iso88591_packed: "packed_map cm_iso88591"
  unfolding packed_map_def cm_iso88591_def charmap.simps
  by (rule disjI2, rule conjI, simp, rule packed_bytes, code_simp)

lemma cm_iso88592_packed: "packed_map cm_iso88592"
  unfolding packed_map_def cm_iso88592_def charmap.simps
  by (rule disjI2, rule conjI, simp, rule packed_bytes, code_simp)

lemma cm_iso88593_packed: "packed_map cm_iso88593"
  unfolding packed_map_def cm_iso88593_def charmap.simps
  by (rule disjI2, rule conjI, simp, rule packed_bytes, code_simp)

lemma cm_iso88594_packed: "packed_map cm_iso88594"
  unfolding packed_map_def cm_iso88594_def charmap.simps
  by (rule disjI2, rule conjI, simp, rule packed_bytes, code_simp)

lemma cm_iso88595_packed: "packed_map cm_iso88595"
  unfolding packed_map_def cm_iso88595_def charmap.simps
  by (rule disjI2, rule conjI, simp, rule packed_bytes, code_simp)

lemma cm_iso88596_packed: "packed_map cm_iso88596"
  unfolding packed_map_def cm_iso88596_def charmap.simps
  by (rule disjI2, rule conjI, simp, rule packed_bytes, code_simp)

lemma cm_iso88597_packed: "packed_map cm_iso88597"
  unfolding packed_map_def cm_iso88597_def charmap.simps
  by (rule disjI2, rule conjI, simp, rule packed_bytes, code_simp)

lemma cm_iso88598_packed: "packed_map cm_iso88598"
  unfolding packed_map_def cm_iso88598_def charmap.simps
  by (rule disjI2, rule conjI, simp, rule packed_bytes, code_simp)

lemma cm_iso88599_packed: "packed_map cm_iso88599"
  unfolding packed_map_def cm_iso88599_def charmap.simps
  by (rule disjI2, rule conjI, simp, rule packed_bytes, code_simp)

lemma cm_iso885910_packed: "packed_map cm_iso885910"
  unfolding packed_map_def cm_iso885910_def charmap.simps
  by (rule disjI2, rule conjI, simp, rule packed_bytes, code_simp)

lemma cm_iso885911_packed: "packed_map cm_iso885911"
  unfolding packed_map_def cm_iso885911_def charmap.simps
  by (rule disjI2, rule conjI, simp, rule packed_bytes, code_simp)

lemma cm_iso885913_packed: "packed_map cm_iso885913"
  unfolding packed_map_def cm_iso885913_def charmap.simps
  by (rule disjI2, rule conjI, simp, rule packed_bytes, code_simp)

lemma cm_iso885914_packed: "packed_map cm_iso885914"
  unfolding packed_map_def cm_iso885914_def charmap.simps
  by (rule disjI2, rule conjI, simp, rule packed_bytes, code_simp)

lemma cm_iso885915_packed: "packed_map cm_iso885915"
  unfolding packed_map_def cm_iso885915_def charmap.simps
  by (rule disjI2, rule conjI, simp, rule packed_bytes, code_simp)

lemma cm_iso885916_packed: "packed_map cm_iso885916"
  unfolding packed_map_def cm_iso885916_def charmap.simps
  by (rule disjI2, rule conjI, simp, rule packed_bytes, code_simp)

lemma cm_cp1250_packed: "packed_map cm_cp1250"
  unfolding packed_map_def cm_cp1250_def charmap.simps
  by (rule disjI2, rule conjI, simp, rule packed_bytes, code_simp)

lemma cm_cp1251_packed: "packed_map cm_cp1251"
  unfolding packed_map_def cm_cp1251_def charmap.simps
  by (rule disjI2, rule conjI, simp, rule packed_bytes, code_simp)

lemma cm_cp1252_packed: "packed_map cm_cp1252"
  unfolding packed_map_def cm_cp1252_def charmap.simps
  by (rule disjI2, rule conjI, simp, rule packed_bytes, code_simp)

lemma cm_cp1253_packed: "packed_map cm_cp1253"
  unfolding packed_map_def cm_cp1253_def charmap.simps
  by (rule disjI2, rule conjI, simp, rule packed_bytes, code_simp)

lemma cm_cp1254_packed: "packed_map cm_cp1254"
  unfolding packed_map_def cm_cp1254_def charmap.simps
  by (rule disjI2, rule conjI, simp, rule packed_bytes, code_simp)

lemma cm_cp1255_packed: "packed_map cm_cp1255"
  unfolding packed_map_def cm_cp1255_def charmap.simps
  by (rule disjI2, rule conjI, simp, rule packed_bytes, code_simp)

lemma cm_cp1256_packed: "packed_map cm_cp1256"
  unfolding packed_map_def cm_cp1256_def charmap.simps
  by (rule disjI2, rule conjI, simp, rule packed_bytes, code_simp)

lemma cm_cp1257_packed: "packed_map cm_cp1257"
  unfolding packed_map_def cm_cp1257_def charmap.simps
  by (rule disjI2, rule conjI, simp, rule packed_bytes, code_simp)

lemma cm_cp1258_packed: "packed_map cm_cp1258"
  unfolding packed_map_def cm_cp1258_def charmap.simps
  by (rule disjI2, rule conjI, simp, rule packed_bytes, code_simp)

lemma cm_koi8r_packed: "packed_map cm_koi8r"
  unfolding packed_map_def cm_koi8r_def charmap.simps
  by (rule disjI2, rule conjI, simp, rule packed_bytes, code_simp)

lemma cm_koi8u_packed: "packed_map cm_koi8u"
  unfolding packed_map_def cm_koi8u_def charmap.simps
  by (rule disjI2, rule conjI, simp, rule packed_bytes, code_simp)

lemmas legacy_packed =
  cm_iso88591_packed cm_iso88592_packed cm_iso88593_packed cm_iso88594_packed cm_iso88595_packed
  cm_iso88596_packed cm_iso88597_packed cm_iso88598_packed cm_iso88599_packed cm_iso885910_packed
  cm_iso885911_packed cm_iso885913_packed cm_iso885914_packed cm_iso885915_packed cm_iso885916_packed
  cm_cp1250_packed cm_cp1251_packed cm_cp1252_packed cm_cp1253_packed cm_cp1254_packed
  cm_cp1255_packed cm_cp1256_packed cm_cp1257_packed cm_cp1258_packed cm_koi8r_packed
  cm_koi8u_packed

lemma charmap_list_packed:
  assumes "m \<in> set charmap_list" "m \<noteq> cm_cp437" "m \<noteq> cm_cp850"
  shows "packed_map m"
proof -
  have special: "packed_map m" if "kind m > 0x80" for m using that by (simp add: packed_map_def)
  have "\<forall>m \<in> set charmap_list. m = cm_cp437 \<or> m = cm_cp850 \<or> packed_map m"
    unfolding charmap_list_def list.set ball_simps
    by (intro conjI TrueI; (simp only: legacy_packed simp_thms)?;
        (rule disjI2, rule disjI2, rule special, simp add: charmap_defs type_defs)?)
  then show ?thesis using assms by blast
qed

lemma legacy_char_inside:
  assumes "packed_map m" "wf_charmap m" "kind m \<le> 0x80" "i < 128 - unat (kind m)"
  shows "\<exists>x. legacy_char (table m @ rest) i = Some x \<and> \<not> surrogate (unat x)"
proof -
  have k: "\<not> kind m > 0x80" using assms(3) by simp
  have "unat (kind m) mod 4 = 0" "packed_ok (table m)" using assms(1) k by (auto simp: packed_map_def)
  moreover have "length (table m) = (128 - unat (kind m)) div 4 * 5"
    using assms(2) k by (simp add: wf_charmap_def table_size_def)
  moreover have "(128 - unat (kind m)) div 4 * 4 = 128 - unat (kind m)"
    using \<open>unat (kind m) mod 4 = 0\<close> by presburger
  ultimately obtain j where j: "legacy_index (table m @ rest) i = Some j" "j < 657"
    using packed_index [of "table m" i rest] assms(4) by auto
  have "length legacy_chars = 657" "\<forall>x \<in> set legacy_chars. \<not> surrogate (unat x)"
    using legacy_chars_ok by (simp_all add: row_ok_def)
  then show ?thesis using j by (simp add: legacy_char_def rd_inside)
qed

lemma legacy_sound:
  assumes "packed_map m" "wf_charmap m" "kind m \<le> 0x80" "0 < n"
  shows "sound n (decode_legacy (kind m) (table m @ rest) b)"
proof (cases "unat b < 128 + unat (kind m)")
  case True
  then show ?thesis using unat_byte_less [of b] assms(4)
    by (simp add: decode_legacy_def scalar_below_def surrogate_def)
next
  case False
  then have "unat b - (128 + unat (kind m)) < 128 - unat (kind m)"
    using unat_byte_less [of b] by linarith
  then obtain x where "legacy_char (table m @ rest) (unat b - (128 + unat (kind m))) = Some x" "\<not> surrogate (unat x)"
    using legacy_char_inside [OF assms(1-3)] by blast
  moreover have "scalar (unat (ucast b :: u32))"
    using unat_byte_less [of b] by (simp add: scalar_below_def surrogate_def)
  ultimately show ?thesis using False assms(4) scalar_short by (simp add: decode_legacy_def Let_def)
qed

section \<open>The switch\<close>

lemma charmap_kinds:
  "list_all (\<lambda>m. kind m \<le> 0x80 \<or> kind m \<in> {UTF_32BE, UTF_16LE, UTF_16BE, UTF_32LE, UCS2BE, UCS2LE, WCHAR_T,
     US_ASCII, UTF_8, EUC_JP, SHIFT_JIS, GB18030, GBK, GB2312, BIG5, EUC_KR}) charmap_list"
  by code_simp

lemma decode_other_sound:
  assumes "m \<in> set charmap_list" "m \<notin> {cm_cp437, cm_cp850}" "kind m \<notin> {SHIFT_JIS, GB18030, EUC_KR, UTF_8}"
    and "bs \<noteq> []"
  shows "sound (length bs) (decode_other (kind m) (table m @ rest) bs)"
proof -
  have m: "packed_map m" "wf_charmap m"
    using assms charmap_list_packed charmap_list_wf by (auto simp: list_all_iff)
  have byte: "unat (ucast (hd bs) :: u32) < 256" using unat_byte_less by simp
  consider "kind m \<le> 0x80" | "kind m \<in> {UTF_32BE, UTF_16LE, UTF_16BE, UTF_32LE, UCS2BE, UCS2LE, WCHAR_T,
     US_ASCII, EUC_JP, GBK, GB2312, BIG5}"
    using charmap_kinds assms(1,3) by (auto simp: list_all_iff)
  then show ?thesis
  proof cases
    case 1
    then have "\<not> kind m > 0x80" by simp
    then have "decode_other (kind m) (table m @ rest) bs = decode_legacy (kind m) (table m @ rest) (hd bs)"
      by (auto simp: decode_other_def Let_def type_defs)
    then show ?thesis using legacy_sound [OF m 1] assms(4) by simp
  next
    case 2
    have g: "sound (length bs) (decode_gb GBK (ucast (hd bs)) bs)" "sound (length bs) (decode_gb GB2312 (ucast (hd bs)) bs)"
      by (rule gb_sound; simp add: type_defs)+
    show ?thesis
      using 2 wchar_sound utf32_sound utf16_sound eucjp_sound g big5_sound [OF byte]
      by (auto simp: decode_other_def Let_def type_defs)
  qed
qed

text \<open>
  What safety needs of the C library: \<open>mbrtowc\<close> consumes no more than it is given, yields characters
  and returns to the initial state, and \<open>wctomb\<close> has at most four bytes for each character.
\<close>

locale libc_sane =
  fixes mbrtowc :: mbrtowc_fun and wctomb :: wctomb_fun
  assumes mbrtowc_sane: "bs \<noteq> [] \<Longrightarrow> mbrtowc bs (Some 0) = (l, wc, st) \<Longrightarrow> l \<noteq> -1 \<Longrightarrow> l \<noteq> -2 \<Longrightarrow>
      unat l \<le> length bs \<and> scalar (unat wc) \<and> st = Some 0"
    and wctomb_sane: "scalar (unat c) \<Longrightarrow> \<exists>bs. wctomb c = Some bs \<and> length bs \<le> 4"
begin

lemma utf8_sound:
  assumes "bs \<noteq> []" "decode_utf8 mbrtowc bs (Some 0) = (r, st)"
  shows "sound (length bs) r \<and> (st = Some 0 \<or> r = Ilseq \<or> r = Starved)"
proof -
  obtain l wc st' where m: "mbrtowc bs (Some 0) = (l, wc, st')" by (cases "mbrtowc bs (Some 0)") auto
  have "Suc 0 \<le> length bs" using assms(1) by (simp add: Suc_le_eq)
  moreover have "0 < unat l" if "l \<noteq> 0" using that by (simp add: unat_gt_0)
  ultimately show ?thesis using assms(2) mbrtowc_sane [OF assms(1) m]
    by (auto simp: decode_utf8_def m split: if_splits)
qed

lemma decode_sound:
  assumes "m \<in> set charmap_list" "m \<notin> {cm_cp437, cm_cp850}" "kind m \<notin> {SHIFT_JIS, GB18030, EUC_KR}"
    and "bs \<noteq> []" "decode mbrtowc (kind m) (table m @ rest) bs (Some 0) = (r, st)"
  shows "sound (length bs) r \<and> (st = Some 0 \<or> r = Ilseq \<or> r = Starved)"
proof (cases "hd bs \<ge> 128 \<or> kind m - UTF_32BE < 7")
  case True
  show ?thesis
  proof (cases "kind m = UTF_8")
    case True
    then show ?thesis using utf8_sound assms(4,5) \<open>hd bs \<ge> 128 \<or> _\<close> by (simp add: decode_def)
  next
    case False
    then have "r = decode_other (kind m) (table m @ rest) bs" "st = Some 0"
      using assms(5) True by (auto simp: decode_def)
    then show ?thesis using decode_other_sound [OF assms(1,2)] False assms(3,4) by simp
  qed
next
  case False
  then have "unat (hd bs) < 128" by (simp add: not_le word_less_nat_alt)
  moreover have "Suc 0 \<le> length bs" using assms(4) by (simp add: Suc_le_eq)
  ultimately show ?thesis using False assms(5) by (auto simp: decode_def scalar_below_def surrogate_def)
qed

end

interpretation ref_sane: libc_sane ref_mbrtowc ref_wctomb
proof
  fix bs :: "byte list" and l wc st
  assume "ref_mbrtowc bs (Some 0) = (l, wc, st)" "l \<noteq> -1"
  then obtain n k where n: "utf8_dec 0x110000 bs = Some (n, k)"
      "l = (if n = 0 then 0 else of_nat k)" "wc = of_nat n" "st = Some 0"
    by (auto simp: ref_mbrtowc_def split: option.splits)
  have "scalar n" "k \<le> length bs" "k \<le> 4" 
    using utf8_dec_inv [OF n(1)] utf8_dec_pos [OF n(1)] length_utf8_enc [of n] by auto
  moreover have "unat (of_nat n :: u32) = n" using \<open>scalar n\<close> by (intro unat_of_nat_32) (simp add: scalar_below_def)
  moreover have "unat (of_nat k :: u64) = k" using \<open>k \<le> 4\<close> by (simp add: unat_of_nat)
  ultimately show "unat l \<le> length bs \<and> scalar (unat wc) \<and> st = Some 0" using n by simp
next
  show "\<exists>bs. ref_wctomb c = Some bs \<and> length bs \<le> 4" if "scalar (unat c)" for c
    using that by (simp add: ref_wctomb_def length_utf8_enc)
qed

end
