(* ===== verification/Iconv_Transcode.thy ===== *)
theory Iconv_Transcode
  imports Iconv_Unicode Iconv_Open_Facts
begin

text \<open>
  Whole conversions between the Unicode encodings: the loop of \<open>iconv\<close> takes the text character by
  character, writes its encoding in the target, and stops at a whole character when the room ends.
\<close>

section \<open>The output buffer\<close>

lemma put_append: "put (xs @ ys) b = put ys (put xs b)"
  by (induction xs arbitrary: b) auto

lemma outb_put [simp]: "outb (put xs b) = outb b - length xs"
  by (induction xs arbitrary: b) auto

lemma outp_put [simp]: "outp (put xs b) = outp b + int (length xs)"
  by (induction xs arbitrary: b) auto

lemma mem_put: "mem (put xs b) a =
    (if outp b \<le> a \<and> a < outp b + int (length xs) then xs ! nat (a - outp b) else mem b a)"
proof (induction xs arbitrary: b)
  case (Cons x xs)
  have "nat (a - outp b) = Suc (nat (a - (outp b + 1)))" if "outp b < a" using that by simp
  then show ?case using Cons by (auto simp: nth_Cons')
qed auto

text \<open>The \<open>n\<close> bytes from an address on.\<close>

definition stored_at :: "outbuf \<Rightarrow> int \<Rightarrow> nat \<Rightarrow> byte list" where
  "stored_at b a n = map (\<lambda>i. mem b (a + int i)) [0..<n]"

lemma stored_put: "stored_at (put xs b) (outp b) (length xs) = xs"
  by (rule nth_equalityI) (auto simp: stored_at_def mem_put)

section \<open>The interfaces of the two switches\<close>

text \<open>
  A source: how the characters of a set are encoded so that the first \<open>switch\<close> reads them back.
\<close>

locale text_source =
  fixes mbrtowc :: mbrtowc_fun and type :: byte and tab :: "byte list" and senc :: "nat \<Rightarrow> byte list"
    and chars :: "nat set"
  assumes dec: "n \<in> chars \<Longrightarrow> decode mbrtowc type tab (senc n @ rest) (Some 0) = (Decoded (of_nat n) (length (senc n)), Some 0)"
    and pos: "senc n \<noteq> []"

text \<open>A target: how the second \<open>switch\<close> encodes the characters of a set.\<close>

locale text_target =
  fixes wctomb :: wctomb_fun and type :: byte and totype :: byte and tomap :: "byte list"
    and tenc :: "nat \<Rightarrow> byte list" and chars :: "nat set"
  assumes enc: "n \<in> chars \<Longrightarrow> encode wctomb type totype tomap room (of_nat n) = emit 0 (tenc n) room"

locale transcoding = text_source + text_target
begin

lemma step:
  assumes "n \<in> chars" "length (tenc n) \<le> outb b"
  shows "iconv_loop mbrtowc wctomb nested type tab totype tomap (senc n @ rest) (Some 0) x b =
    iconv_loop mbrtowc wctomb nested type tab totype tomap rest (Some 0) x (put (tenc n) b)"
  using assms pos [of n]
  by (subst iconv_loop.simps) (simp add: iterate_def convert_def dec enc emit_def)

lemma stop:
  assumes "n \<in> chars" "outb b < length (tenc n)"
  shows "iconv_loop mbrtowc wctomb nested type tab totype tomap (senc n @ rest) (Some 0) x b =
    Some \<lparr>ret = -1, err = Some E2BIG, left = senc n @ rest, outs = b\<rparr>"
  using assms pos [of n]
  by (subst iconv_loop.simps) (simp add: iterate_def convert_def dec enc emit_def)

lemma all:
  assumes "\<forall>n \<in> set ns. n \<in> chars" "length (concat (map tenc ns)) \<le> outb b"
  shows "iconv_loop mbrtowc wctomb nested type tab totype tomap (concat (map senc ns) @ rest) (Some 0) x b =
    iconv_loop mbrtowc wctomb nested type tab totype tomap rest (Some 0) x (put (concat (map tenc ns)) b)"
  using assms
proof (induction ns arbitrary: b)
  case (Cons n ns)
  then show ?case using step [of n b] Cons.IH [of "put (tenc n) b"] by (simp add: put_append)
qed simp

end

section \<open>The Unicode encodings\<close>

text \<open>The type codes and the encoding each stands for.\<close>

definition unicode_kinds :: "byte list" where
  "unicode_kinds = [UTF_8, WCHAR_T, UTF_16BE, UTF_16LE, UTF_32BE, UTF_32LE]"

definition encoder :: "byte \<Rightarrow> nat \<Rightarrow> byte list" where
  "encoder k =
     (if k = UTF_8 then utf8_enc else if k = UTF_16BE then utf16be else if k = UTF_16LE then utf16le
      else if k = UTF_32BE then utf32be else utf32le)"

lemma utf8_decode:
  assumes "utf8_libc mbrtowc wctomb" "scalar n"
  shows "decode mbrtowc UTF_8 tab (utf8_enc n @ rest) (Some 0) = (Decoded (of_nat n) (length (utf8_enc n)), Some 0)"
proof (cases "n < 0x80")
  case True
  then have e: "utf8_enc n = [byte_of n]" by (simp add: utf8_enc_def)
  have "\<not> 128 \<le> byte_of n" using True by (simp add: word_le_nat_alt)
  moreover have "ucast (byte_of n) = (of_nat n :: u32)"
    using True by (simp add: word_unat_eq_iff unat_of_nat_32)
  ultimately show ?thesis unfolding decode_def e by (simp add: type_defs)
next
  case False
  then have "128 \<le> hd (utf8_enc n @ rest)"
    using assms(2) by (auto simp: utf8_enc_def word_le_nat_alt unat_byte_of_mod scalar_below_def)
  then show ?thesis using utf8_libc.decode_utf8_enc [OF assms] False by (simp add: decode_def)
qed

lemma decode_fixed: "k - UTF_32BE < 7 \<Longrightarrow> k \<noteq> UTF_8 \<Longrightarrow> decode mbrtowc k tab bs st = (decode_other k tab bs, st)"
  by (simp add: decode_def)

lemma unicode_source:
  assumes "utf8_libc mbrtowc wctomb" "k \<in> set unicode_kinds"
  shows "text_source mbrtowc k tab (encoder k) (Collect scalar)"
proof
  fix n rest assume "n \<in> Collect scalar"
  then have n: "scalar n" by simp
  show "decode mbrtowc k tab (encoder k n @ rest) (Some 0) = (Decoded (of_nat n) (length (encoder k n)), Some 0)"
    using assms(2) n utf8_decode [OF assms(1) n] utf16be_order.decode_enc [OF n] utf16le_order.decode_enc [OF n]
      decode_utf32_enc [OF n]
    by (auto simp: unicode_kinds_def encoder_def decode_fixed decode_other_def type_defs utf16be_def utf16le_def)
next
  show "encoder k n \<noteq> []" for n
    by (auto simp: encoder_def utf16be_def utf16le_def utf32be_def utf32le_def utf16_units_def be16_def be32_def)
qed

lemma unicode_target:
  assumes "utf8_libc mbrtowc wctomb" "\<not> type - UCS2BE < 2" "k \<in> set unicode_kinds"
  shows "text_target wctomb type k tomap (encoder k) (Collect scalar)"
proof
  fix n room assume "n \<in> Collect scalar"
  then have n: "scalar n" by simp
  then have less: "n < 2 ^ 32" by (simp add: scalar_below_def)
  show "encode wctomb type k tomap room (of_nat n) = emit 0 (encoder k n) room"
    using assms(2,3) utf8_libc.encode_utf8_enc [OF assms(1) n]
      utf16be_order.encode_enc [OF n] utf16le_order.encode_enc [OF n] be32_order [OF less]
    by (auto simp: unicode_kinds_def encoder_def encode_def type_defs utf16be_def utf16le_def)
qed

lemma unicode_transcoding:
  assumes "utf8_libc mbrtowc wctomb" "kf \<in> set unicode_kinds" "kt \<in> set unicode_kinds"
  shows "transcoding mbrtowc kf tab (encoder kf) (Collect scalar) wctomb kt tomap (encoder kt)"
proof -
  have "\<not> kf - UCS2BE < 2" using assms(2) by (auto simp: unicode_kinds_def type_defs)
  then show ?thesis using unicode_source [OF assms(1,2)] unicode_target [OF assms(1) _ assms(3)]
    by (simp add: transcoding_def)
qed

interpretation utf8_to_utf16le:
  transcoding ref_mbrtowc UTF_8 "[]" "encoder UTF_8" "Collect scalar" ref_wctomb UTF_16LE "[]" "encoder UTF_16LE"
  by (rule unicode_transcoding [OF ref.utf8_libc_axioms]) (simp_all add: unicode_kinds_def)

text \<open>From the names to the loop.\<close>

lemma iconv_of_names:
  assumes "0 \<notin> set to" "0 \<notin> set from"
    and "List.find (has_alias from) charmap_list = Some mf" "List.find (has_alias to) charmap_list = Some mt"
    and "kind mt < EUC_JP"
  obtains cd rf rt where "iconv_open to from = Inr cd"
    "drop (unat (cd AND 0xffff)) charmaps = kind mt # table mt @ rt"
    "\<And>bs b. iconv mbrtowc wctomb cd (Some bs) b =
       iconv_loop mbrtowc wctomb (\<lambda>bs b. iconv_nested (Suc 0) mbrtowc wctomb (cd AND 0xffff) (Some bs) b)
         (kind mf) (table mf @ rf) (kind mt) (table mt @ rt) bs (Some 0) 0 b"
proof -
  obtain cd rt rf where cd: "iconv_open to from = Inr cd"
      "drop (unat (cd AND 0xffff)) charmaps = kind mt # table mt @ rt"
      "drop (unat (ucast (drop_bit 16 cd) :: u32)) charmaps = kind mf # table mf @ rf"
    using iconv_open_mapped [OF assms] by blast
  have tl: "drop (p + 1) charmaps = tl (drop p charmaps)" for p by (simp add: drop_Suc tl_drop)
  have "iconv mbrtowc wctomb cd (Some bs) b =
       iconv_loop mbrtowc wctomb (\<lambda>bs b. iconv_nested (Suc 0) mbrtowc wctomb (cd AND 0xffff) (Some bs) b)
         (kind mf) (table mf @ rf) (kind mt) (table mt @ rt) bs (Some 0) 0 b" for bs b
    unfolding iconv_def numeral_2_eq_2 iconv_nested.simps Let_def option.case tl cd(2,3) at.simps list.sel ..
  then show thesis using that cd(1,2) by blast
qed

text \<open>An output buffer of \<open>n\<close> bytes at address 0.\<close>

definition empty_buffer :: "nat \<Rightarrow> outbuf" where
  "empty_buffer n = \<lparr>mem = \<lambda>_. 0, outp = 0, outb = n, wrote = []\<rparr>"

lemma find_utf8: "List.find (has_alias (name_bytes ''UTF-8'')) charmap_list = Some cm_utf8"
  by (rule find_alias [where a = "''utf8''"]) ((simp add: charmap_list_def cm_utf8_def)+, code_simp)

lemma find_utf16le: "List.find (has_alias (name_bytes ''UTF-16LE'')) charmap_list = Some cm_utf16le"
  by (rule find_alias [where a = "''utf16le''"]) ((simp add: charmap_list_def cm_utf16le_def)+, code_simp)

section \<open>Properties\<close>

text \<open>
  C1: Between the Unicode encodings (UTF-8, \<open>wchar_t\<close>, UTF-16 and UTF-32 in both byte orders, by any
  spelling of their names) \<open>iconv\<close> converts any text completely and exactly: given room for the
  result, it returns 0, leaves no input, and has stored the same characters in the target
  encoding, whatever the text and its length.
\<close>

theorem iconv_transcodes:
  assumes "utf8_libc mbrtowc wctomb" "0 \<notin> set to" "0 \<notin> set from"
    and "List.find (has_alias from) charmap_list = Some mf" "List.find (has_alias to) charmap_list = Some mt"
    and "kind mf \<in> set unicode_kinds" "kind mt \<in> set unicode_kinds"
    and "\<forall>n \<in> set ns. scalar n" "length (concat (map (encoder (kind mt)) ns)) \<le> outb b"
  shows "\<exists>cd. iconv_open to from = Inr cd \<and>
    iconv mbrtowc wctomb cd (Some (concat (map (encoder (kind mf)) ns))) b =
      Some \<lparr>ret = 0, err = None, left = [], outs = put (concat (map (encoder (kind mt)) ns)) b\<rparr>"
proof -
  have "kind mt < EUC_JP" using assms(7) by (auto simp: unicode_kinds_def type_defs)
  then obtain cd rf rt nested where cd: "iconv_open to from = Inr cd"
    "\<And>bs b. iconv mbrtowc wctomb cd (Some bs) b =
       iconv_loop mbrtowc wctomb nested (kind mf) (table mf @ rf) (kind mt) (table mt @ rt) bs (Some 0) 0 b"
    using iconv_of_names [OF assms(2-5)] by metis
  show ?thesis
    using transcoding.all [OF unicode_transcoding [OF assms(1,6,7)] _ assms(9), where rest = "[]" and x = 0] assms(8)
    unfolding cd by (intro exI [of _ cd] conjI) (simp_all add: cd iconv_loop.simps)
qed

theorem iconv_transcodes_witness:
  "\<exists>cd. iconv_open (name_bytes ''UTF-16LE'') (name_bytes ''UTF-8'') = Inr cd \<and>
    iconv ref_mbrtowc ref_wctomb cd (Some [0xf0, 0x9f, 0x98, 0x80]) (empty_buffer 4) =
      Some \<lparr>ret = 0, err = None, left = [], outs = put [0x3d, 0xd8, 0x00, 0xde] (empty_buffer 4)\<rparr>"
proof -
  have k: "kind cm_utf8 = UTF_8" "kind cm_utf16le = UTF_16LE" by (simp_all add: cm_utf8_def cm_utf16le_def)
  have e: "concat (map (encoder UTF_8) [0x1f600]) = [0xf0, 0x9f, 0x98, 0x80]"
      "concat (map (encoder UTF_16LE) [0x1f600]) = [0x3d, 0xd8, 0x00, 0xde]"
    by (simp_all add: encoder_def utf8_enc_def utf16le_def utf16_units_def be16_def byte_of_def type_defs)
  have 0: "0 \<notin> set (name_bytes ''UTF-16LE'')" "0 \<notin> set (name_bytes ''UTF-8'')" by code_simp+
  show ?thesis
    using iconv_transcodes [OF ref.utf8_libc_axioms 0 find_utf8 find_utf16le, of "[0x1f600]" "empty_buffer 4"]
    unfolding k e by (simp add: unicode_kinds_def empty_buffer_def scalar_below_def surrogate_def)
qed

text \<open>
  C3: Between the Unicode encodings, UTF-8, UTF-16, UTF-32 and \<open>wchar_t\<close>: when the room ends, \<open>iconv\<close> has
  converted the longest prefix of whole characters that fits, returns -1 with \<open>E2BIG\<close>, stores no part
  of the next character, and leaves the input at its start, so that a further call goes on there.
  (From Big5 this is not so: of a pair of characters the first may be stored and the second lost.)
\<close>

theorem iconv_fills_room:
  assumes "utf8_libc mbrtowc wctomb" "0 \<notin> set to" "0 \<notin> set from"
    and "List.find (has_alias from) charmap_list = Some mf" "List.find (has_alias to) charmap_list = Some mt"
    and "kind mf \<in> set unicode_kinds" "kind mt \<in> set unicode_kinds"
    and "\<forall>n \<in> set ns. scalar n" "length (concat (map (encoder (kind mt)) ns)) \<le> outb b"
    and "scalar n" "outb b < length (concat (map (encoder (kind mt)) (ns @ [n])))"
  shows "\<exists>cd. iconv_open to from = Inr cd \<and>
    iconv mbrtowc wctomb cd (Some (concat (map (encoder (kind mf)) (ns @ n # ms)))) b =
      Some \<lparr>ret = -1, err = Some E2BIG, left = concat (map (encoder (kind mf)) (n # ms)),
        outs = put (concat (map (encoder (kind mt)) ns)) b\<rparr>"
proof -
  have "kind mt < EUC_JP" using assms(7) by (auto simp: unicode_kinds_def type_defs)
  then obtain cd rf rt nested where cd: "iconv_open to from = Inr cd"
    "\<And>bs b. iconv mbrtowc wctomb cd (Some bs) b =
       iconv_loop mbrtowc wctomb nested (kind mf) (table mf @ rf) (kind mt) (table mt @ rt) bs (Some 0) 0 b"
    using iconv_of_names [OF assms(2-5)] by metis
  note tr = unicode_transcoding [OF assms(1,6,7)]
  have "outb (put (concat (map (encoder (kind mt)) ns)) b) < length (encoder (kind mt) n)"
    using assms(9,11) by simp
  then show ?thesis
    using transcoding.all [OF tr _ assms(9)] transcoding.stop [OF tr] assms(8,10)
    by (intro exI [of _ cd] conjI) (simp_all add: cd)
qed

theorem iconv_fills_room_witness:
  "\<exists>cd. iconv_open (name_bytes ''UTF-16LE'') (name_bytes ''UTF-8'') = Inr cd \<and>
    iconv ref_mbrtowc ref_wctomb cd (Some [0x41, 0xc3, 0xa9, 0x42]) (empty_buffer 3) =
      Some \<lparr>ret = -1, err = Some E2BIG, left = [0xc3, 0xa9, 0x42], outs = put [0x41, 0x00] (empty_buffer 3)\<rparr>"
proof -
  have k: "kind cm_utf8 = UTF_8" "kind cm_utf16le = UTF_16LE" by (simp_all add: cm_utf8_def cm_utf16le_def)
  have 0: "0 \<notin> set (name_bytes ''UTF-16LE'')" "0 \<notin> set (name_bytes ''UTF-8'')" by code_simp+
  have e: "concat (map (encoder UTF_8) ([0x41] @ 0xe9 # [0x42])) = [0x41, 0xc3, 0xa9, 0x42]"
      "concat (map (encoder UTF_8) (0xe9 # [0x42])) = [0xc3, 0xa9, 0x42]"
      "concat (map (encoder UTF_16LE) [0x41]) = [0x41, 0x00]"
      "concat (map (encoder UTF_16LE) ([0x41] @ [0xe9])) = [0x41, 0x00, 0xe9, 0x00]"
    by (simp_all add: encoder_def utf8_enc_def utf16le_def utf16_units_def be16_def byte_of_def type_defs)
  show ?thesis
    using iconv_fills_room [OF ref.utf8_libc_axioms 0 find_utf8 find_utf16le, of "[0x41]" "empty_buffer 3" "0xe9" "[0x42]"]
    unfolding k e by (simp add: unicode_kinds_def empty_buffer_def scalar_below_def surrogate_def)
qed

end
