(* ===== verification/Gb18030_Order.thy ===== *)
theory Gb18030_Order
  imports Gb18030
begin

text \<open>
  No code point occurs twice in \<open>gb18030\<close>, and none is an ASCII character. The numbers are collected
  in a binary tree along their bits, lowest bit first, which reports a number it already holds.
\<close>

datatype bits_tree = Empty | Branch bool bits_tree bits_tree | Twice

fun add_num :: "num \<Rightarrow> bits_tree \<Rightarrow> bits_tree" where
  "add_num n Twice = Twice"
| "add_num num.One Empty = Branch True Empty Empty"
| "add_num num.One (Branch False l r) = Branch True l r"
| "add_num num.One (Branch True l r) = Twice"
| "add_num (num.Bit0 n) Empty = Branch False (add_num n Empty) Empty"
| "add_num (num.Bit0 n) (Branch b l r) = Branch b (add_num n l) r"
| "add_num (num.Bit1 n) Empty = Branch False Empty (add_num n Empty)"
| "add_num (num.Bit1 n) (Branch b l r) = Branch b l (add_num n r)"

fun holds :: "bits_tree \<Rightarrow> num \<Rightarrow> bool" where
  "holds Empty n \<longleftrightarrow> False"
| "holds Twice n \<longleftrightarrow> True"
| "holds (Branch b l r) num.One \<longleftrightarrow> b"
| "holds (Branch b l r) (num.Bit0 n) \<longleftrightarrow> holds l n"
| "holds (Branch b l r) (num.Bit1 n) \<longleftrightarrow> holds r n"

text \<open>A tree with no repeated number, all of whose numbers have a length that is allowed.\<close>

fun clean :: "bool list \<Rightarrow> bits_tree \<Rightarrow> bool" where
  "clean as Empty \<longleftrightarrow> True"
| "clean as Twice \<longleftrightarrow> False"
| "clean [] (Branch b l r) \<longleftrightarrow> False"
| "clean (a # as) (Branch b l r) \<longleftrightarrow> (b \<longrightarrow> a) \<and> clean as l \<and> clean as r"

fun allowed :: "bool list \<Rightarrow> num \<Rightarrow> bool" where
  "allowed [] n \<longleftrightarrow> False"
| "allowed (a # as) num.One \<longleftrightarrow> a"
| "allowed (a # as) (num.Bit0 n) \<longleftrightarrow> allowed as n"
| "allowed (a # as) (num.Bit1 n) \<longleftrightarrow> allowed as n"

lemma clean_add_num: "clean as (add_num n t) \<Longrightarrow> clean as t \<and> \<not> holds t n"
  by (induction n t arbitrary: as rule: add_num.induct; case_tac as) auto

lemma clean_holds: "clean as t \<Longrightarrow> holds t n \<Longrightarrow> allowed as n"
  by (induction t n arbitrary: as rule: holds.induct; case_tac as) auto

lemma holds_add_num: "m = n \<or> holds t m \<Longrightarrow> holds (add_num n t) m"
  by (induction n t arbitrary: m rule: add_num.induct; case_tac m) auto

lemma allowed_upper: "allowed as n \<Longrightarrow> nat_of_num n < 2 ^ length as"
proof (induction as n rule: allowed.induct)
  case (2 a as)
  then show ?case using one_less_power [of "2 :: nat" "length (a # as)"] by simp
qed simp_all

lemma allowed_lower: "allowed (replicate i False @ as) n \<Longrightarrow> 2 ^ i \<le> nat_of_num n"
proof (induction i arbitrary: n)
  case 0
  then show ?case using nat_of_num_pos [of n] by (simp add: Suc_le_eq)
next
  case (Suc i)
  then obtain m where "n = num.Bit0 m \<or> n = num.Bit1 m" "allowed (replicate i False @ as) m" by (cases n) auto
  then show ?case using Suc.IH [of m] by auto
qed

text \<open>Adding the rows of a table, one after the other.\<close>

fun add_ints :: "int list \<Rightarrow> bits_tree \<Rightarrow> bits_tree" where
  "add_ints [] t = t"
| "add_ints (x # xs) t = add_ints xs (if x \<le> 0 then Twice else add_num (num_of_nat (nat x)) t)"

lemma add_ints_numeral: "add_ints (numeral n # xs) t = add_ints xs (add_num n t)"
  by simp

lemma clean_add_ints: "clean as (add_ints xs t) \<Longrightarrow> clean as t"
proof (induction xs arbitrary: t)
  case (Cons x xs)
  then have "clean as (if x \<le> 0 then Twice else add_num (num_of_nat (nat x)) t)" by (simp del: if_split)
  then show ?case using clean_add_num by (auto split: if_splits)
qed simp

lemma add_ints_distinct:
  "clean as (add_ints xs t) \<Longrightarrow> distinct xs \<and> (\<forall>x \<in> set xs. \<exists>n. x = numeral n \<and> allowed as n \<and> \<not> holds t n)"
proof (induction xs arbitrary: t)
  case (Cons x xs)
  define n where "n = num_of_nat (nat x)"
  have x: "0 < x" and c: "clean as (add_ints xs (add_num n t))"
    using Cons.prems clean_add_ints [of as xs Twice] by (auto simp: n_def split: if_splits)
  have "int (nat_of_num n) = x" using x by (simp add: n_def num_of_nat_inverse)
  then have n: "x = numeral n" by (metis nat_of_num_numeral of_nat_numeral)
  have "\<not> holds t n" "allowed as n"
    using clean_add_num [OF clean_add_ints [OF c]] clean_holds [OF clean_add_ints [OF c], of n] holds_add_num by blast+
  moreover have "distinct xs" "\<forall>y \<in> set xs. \<exists>m. y = numeral m \<and> allowed as m \<and> \<not> holds (add_num n t) m"
    using Cons.IH [OF c] by auto
  ultimately show ?case using n holds_add_num by fastforce
qed simp

lemma holds_add_ints: "numeral n \<in> set xs \<or> holds t n \<Longrightarrow> holds (add_ints xs t) n"
proof (induction xs arbitrary: t)
  case (Cons x xs)
  let ?t = "if x \<le> 0 then Twice else add_num (num_of_nat (nat x)) t"
  have "holds ?t n" if "x = numeral n \<or> holds t n"
    using that holds_add_num by auto
  then show ?case using Cons by (auto simp del: if_split)
qed simp

text \<open>Joining the trees of two rows.\<close>

fun join :: "bits_tree \<Rightarrow> bits_tree \<Rightarrow> bits_tree" where
  "join Twice t = Twice"
| "join Empty t = t"
| "join (Branch a l r) Twice = Twice"
| "join (Branch a l r) Empty = Branch a l r"
| "join (Branch False l r) (Branch b l' r') = Branch b (join l l') (join r r')"
| "join (Branch True l r) (Branch False l' r') = Branch True (join l l') (join r r')"
| "join (Branch True l r) (Branch True l' r') = Twice"

lemma holds_join: "holds s n \<or> holds t n \<Longrightarrow> holds (join s t) n"
  by (induction s t arbitrary: n rule: join.induct; case_tac n) auto

lemma clean_join: "clean as (join s t) \<Longrightarrow> clean as s \<and> clean as t \<and> \<not> (holds s n \<and> holds t n)"
  by (induction s t arbitrary: as n rule: join.induct; case_tac as; case_tac n) auto

fun add_rows :: "int list list \<Rightarrow> bits_tree \<Rightarrow> bits_tree" where
  "add_rows [] t = t"
| "add_rows (r # rs) t = add_rows rs (join (add_ints r Empty) t)"

lemma clean_add_rows: "clean as (add_rows rs t) \<Longrightarrow> clean as t"
  by (induction rs arbitrary: t) (auto dest: clean_join)

lemma add_rows_distinct:
  "clean as (add_rows rs t) \<Longrightarrow>
    distinct (concat rs) \<and> (\<forall>x \<in> set (concat rs). \<exists>n. x = numeral n \<and> allowed as n \<and> \<not> holds t n)"
proof (induction rs arbitrary: t)
  case (Cons r rs)
  let ?r = "add_ints r Empty"
  have c: "clean as (add_rows rs (join ?r t))" using Cons.prems by simp
  note j = clean_join [OF clean_add_rows [OF c]]
  have r: "distinct r" "\<forall>x \<in> set r. \<exists>n. x = numeral n \<and> allowed as n"
    using add_ints_distinct [of as r Empty] j by blast+
  have rs: "distinct (concat rs)"
      "\<forall>x \<in> set (concat rs). \<exists>n. x = numeral n \<and> allowed as n \<and> \<not> holds (join ?r t) n"
    using Cons.IH [OF c] by blast+
  have new: "\<not> holds t n" if "numeral n \<in> set r" for n using j that holds_add_ints by blast
  have "x \<notin> set r" if "x \<in> set (concat rs)" for x
    using rs(2) that holds_add_ints holds_join by metis
  then show ?case using r rs new holds_join by (auto; metis)
qed simp

lemma shorts_distinct:
  assumes t: "t = map shorts rs" and "clean (replicate 7 False @ replicate 9 True) (add_rows rs Empty)"
  shows "distinct (concat t) \<and> (\<forall>x \<in> set (concat t). 128 \<le> unat x)"
proof -
  note c = add_rows_distinct [OF assms(2)]
  have b: "128 \<le> x \<and> x < 0x10000" if x: "x \<in> set (concat rs)" for x
  proof -
    obtain n where n: "x = numeral n" "allowed (replicate 7 False @ replicate 9 True) n"
      using bspec [OF conjunct2 [OF c] x] by (elim exE conjE)
    show ?thesis using allowed_lower [OF n(2)] allowed_upper [OF n(2)] unfolding n(1) nat_of_num_numeral by simp
  qed
  have s: "concat t = map word_of_int (concat rs)" by (simp add: t shorts_def map_concat)
  have u: "unat (word_of_int x :: u16) = nat x" if "x \<in> set (concat rs)" for x
    using b [OF that] by (intro unat_short) simp_all
  have "inj_on (word_of_int :: int \<Rightarrow> u16) (set (concat rs))"
  proof (rule inj_onI)
    fix x y assume xy: "x \<in> set (concat rs)" "y \<in> set (concat rs)" "(word_of_int x :: u16) = word_of_int y"
    then have "nat x = nat y" using u by metis
    then show "x = y" using b [OF xy(1)] b [OF xy(2)] by linarith
  qed
  then have "distinct (concat t)" unfolding s distinct_map using conjunct1 [OF c] by blast
  moreover have "128 \<le> unat w" if w: "w \<in> set (concat t)" for w
  proof -
    obtain x where x: "w = word_of_int x" "x \<in> set (concat rs)" using w unfolding s set_map by blast
    then show ?thesis using b [OF x(2)] u [OF x(2)] by auto
  qed
  ultimately show ?thesis by blast
qed

lemma shorts_rows: "[] = map shorts []" "t = map shorts rs \<Longrightarrow> shorts r # t = map shorts (r # rs)"
  by simp_all

lemmas add_simps = add_rows.simps add_ints.simps(1) add_ints_numeral add_num.simps join.simps

lemmas clean_simps = clean.simps simp_thms

lemmas gb18030_defs = gb18030_def
  gb18030_0_def gb18030_1_def gb18030_2_def gb18030_3_def gb18030_4_def gb18030_5_def gb18030_6_def
  gb18030_7_def gb18030_8_def gb18030_9_def gb18030_10_def gb18030_11_def gb18030_12_def gb18030_13_def
  gb18030_14_def gb18030_15_def gb18030_16_def gb18030_17_def gb18030_18_def gb18030_19_def gb18030_20_def
  gb18030_21_def gb18030_22_def gb18030_23_def gb18030_24_def gb18030_25_def gb18030_26_def gb18030_27_def
  gb18030_28_def gb18030_29_def gb18030_30_def gb18030_31_def gb18030_32_def gb18030_33_def gb18030_34_def
  gb18030_35_def gb18030_36_def gb18030_37_def gb18030_38_def gb18030_39_def gb18030_40_def gb18030_41_def
  gb18030_42_def gb18030_43_def gb18030_44_def gb18030_45_def gb18030_46_def gb18030_47_def gb18030_48_def
  gb18030_49_def gb18030_50_def gb18030_51_def gb18030_52_def gb18030_53_def gb18030_54_def gb18030_55_def
  gb18030_56_def gb18030_57_def gb18030_58_def gb18030_59_def gb18030_60_def gb18030_61_def gb18030_62_def
  gb18030_63_def gb18030_64_def gb18030_65_def gb18030_66_def gb18030_67_def gb18030_68_def gb18030_69_def
  gb18030_70_def gb18030_71_def gb18030_72_def gb18030_73_def gb18030_74_def gb18030_75_def gb18030_76_def
  gb18030_77_def gb18030_78_def gb18030_79_def gb18030_80_def gb18030_81_def gb18030_82_def gb18030_83_def
  gb18030_84_def gb18030_85_def gb18030_86_def gb18030_87_def gb18030_88_def gb18030_89_def gb18030_90_def
  gb18030_91_def gb18030_92_def gb18030_93_def gb18030_94_def gb18030_95_def gb18030_96_def gb18030_97_def
  gb18030_98_def gb18030_99_def gb18030_100_def gb18030_101_def gb18030_102_def gb18030_103_def gb18030_104_def
  gb18030_105_def gb18030_106_def gb18030_107_def gb18030_108_def gb18030_109_def gb18030_110_def
  gb18030_111_def gb18030_112_def gb18030_113_def gb18030_114_def gb18030_115_def gb18030_116_def
  gb18030_117_def gb18030_118_def gb18030_119_def gb18030_120_def gb18030_121_def gb18030_122_def
  gb18030_123_def gb18030_124_def gb18030_125_def

lemma allowed_lengths: "replicate 7 False @ replicate 9 True =
  [False, False, False, False, False, False, False, True, True, True, True, True, True, True, True, True]"
  by (simp add: numeral_eq_Suc)

text \<open>The currency sign is the first character of the table; the other code points from U+0080 to U+00A5 have no two-byte code.\<close>

definition gb18030_absent :: "u16 list" where
  "gb18030_absent = shorts
     [128, 129, 130, 131, 132, 133, 134, 135, 136, 137, 138, 139, 140, 141, 142, 143, 144, 145, 146, 147, 148, 149,
      150, 151, 152, 153, 154, 155, 156, 157, 158, 159, 160, 161, 162, 163, 165]"

lemma gb18030_distinct:
  "distinct (concat (gb18030_absent # gb18030)) \<and> (\<forall>x \<in> set (concat (gb18030_absent # gb18030)). 128 \<le> unat x)"
  unfolding gb18030_defs gb18030_absent_def
  by (rule shorts_distinct, (rule shorts_rows)+, simp only: add_simps, simp only: allowed_lengths clean_simps)

lemma gb18030_currency: "164 \<in> set (concat gb18030)"
proof -
  have "gb18030_32 \<in> set gb18030" by (simp add: gb18030_def)
  moreover have "164 \<in> set gb18030_32" by (simp add: gb18030_32_def shorts_def)
  ultimately show ?thesis by auto
qed

end
