(* ===== verification/Ksc_Hangul.thy ===== *)
theory Ksc_Hangul
  imports Ksc
begin

text \<open>
  The Hangul syllables of KS X 1001: the rows 15 to 39 of \<open>ksc\<close> hold nothing else, and no other row
  holds any.
\<close>

definition hangul_row :: "u16 list \<Rightarrow> bool" where
  "hangul_row r \<longleftrightarrow> (\<forall>x \<in> set r. 0xac00 \<le> unat x \<and> unat x \<le> 0xd7a3)"

definition other_row :: "u16 list \<Rightarrow> bool" where
  "other_row r \<longleftrightarrow> (\<forall>x \<in> set r. unat x < 0xac00 \<or> 0xf900 \<le> unat x)"

fun hangul_ints :: "int list \<Rightarrow> bool" where
  "hangul_ints [] \<longleftrightarrow> True"
| "hangul_ints (x # xs) \<longleftrightarrow> 0xac00 \<le> x \<and> x \<le> 0xd7a3 \<and> hangul_ints xs"

fun other_ints :: "int list \<Rightarrow> bool" where
  "other_ints [] \<longleftrightarrow> True"
| "other_ints (x # xs) \<longleftrightarrow> 0 \<le> x \<and> (if x < 0xac00 then True else 0xf900 \<le> x \<and> x < 0x10000) \<and> other_ints xs"

text \<open>Rows whose entries all lie at or below U+D5F0.\<close>

definition early_row :: "u16 list \<Rightarrow> bool" where
  "early_row r \<longleftrightarrow> (\<forall>x \<in> set r. unat x \<le> 0xd5f0)"

fun early_ints :: "int list \<Rightarrow> bool" where
  "early_ints [] \<longleftrightarrow> True"
| "early_ints (x # xs) \<longleftrightarrow> 0 \<le> x \<and> x \<le> 0xd5f0 \<and> early_ints xs"

lemma early_row_shorts: "early_ints xs \<Longrightarrow> early_row (shorts xs)"
  by (induction xs) (auto simp: early_row_def shorts_def unat_short)

lemma hangul_row_shorts: "hangul_ints xs \<Longrightarrow> hangul_row (shorts xs)"
  by (induction xs) (auto simp: hangul_row_def shorts_def unat_short)

lemma other_row_shorts: "other_ints xs \<Longrightarrow> other_row (shorts xs)"
  by (induction xs) (auto simp: other_row_def shorts_def unat_short split: if_splits)

lemma ksc_0_other: "other_row ksc_0"
  unfolding ksc_0_def by (rule other_row_shorts) code_simp

lemma ksc_1_other: "other_row ksc_1"
  unfolding ksc_1_def by (rule other_row_shorts) code_simp

lemma ksc_2_other: "other_row ksc_2"
  unfolding ksc_2_def by (rule other_row_shorts) code_simp

lemma ksc_3_other: "other_row ksc_3"
  unfolding ksc_3_def by (rule other_row_shorts) code_simp

lemma ksc_4_other: "other_row ksc_4"
  unfolding ksc_4_def by (rule other_row_shorts) code_simp

lemma ksc_5_other: "other_row ksc_5"
  unfolding ksc_5_def by (rule other_row_shorts) code_simp

lemma ksc_6_other: "other_row ksc_6"
  unfolding ksc_6_def by (rule other_row_shorts) code_simp

lemma ksc_7_other: "other_row ksc_7"
  unfolding ksc_7_def by (rule other_row_shorts) code_simp

lemma ksc_8_other: "other_row ksc_8"
  unfolding ksc_8_def by (rule other_row_shorts) code_simp

lemma ksc_9_other: "other_row ksc_9"
  unfolding ksc_9_def by (rule other_row_shorts) code_simp

lemma ksc_10_other: "other_row ksc_10"
  unfolding ksc_10_def by (rule other_row_shorts) code_simp

lemma ksc_11_other: "other_row ksc_11"
  unfolding ksc_11_def by (rule other_row_shorts) code_simp

lemma ksc_12_other: "other_row ksc_12"
  unfolding ksc_12_def by (rule other_row_shorts) code_simp

lemma ksc_13_other: "other_row ksc_13"
  unfolding ksc_13_def by (rule other_row_shorts) code_simp

lemma ksc_14_other: "other_row ksc_14"
  unfolding ksc_14_def by (rule other_row_shorts) code_simp

lemma ksc_15_hangul: "hangul_row ksc_15"
  unfolding ksc_15_def by (rule hangul_row_shorts) code_simp

lemma ksc_16_hangul: "hangul_row ksc_16"
  unfolding ksc_16_def by (rule hangul_row_shorts) code_simp

lemma ksc_17_hangul: "hangul_row ksc_17"
  unfolding ksc_17_def by (rule hangul_row_shorts) code_simp

lemma ksc_18_hangul: "hangul_row ksc_18"
  unfolding ksc_18_def by (rule hangul_row_shorts) code_simp

lemma ksc_19_hangul: "hangul_row ksc_19"
  unfolding ksc_19_def by (rule hangul_row_shorts) code_simp

lemma ksc_20_hangul: "hangul_row ksc_20"
  unfolding ksc_20_def by (rule hangul_row_shorts) code_simp

lemma ksc_21_hangul: "hangul_row ksc_21"
  unfolding ksc_21_def by (rule hangul_row_shorts) code_simp

lemma ksc_22_hangul: "hangul_row ksc_22"
  unfolding ksc_22_def by (rule hangul_row_shorts) code_simp

lemma ksc_23_hangul: "hangul_row ksc_23"
  unfolding ksc_23_def by (rule hangul_row_shorts) code_simp

lemma ksc_24_hangul: "hangul_row ksc_24"
  unfolding ksc_24_def by (rule hangul_row_shorts) code_simp

lemma ksc_25_hangul: "hangul_row ksc_25"
  unfolding ksc_25_def by (rule hangul_row_shorts) code_simp

lemma ksc_26_hangul: "hangul_row ksc_26"
  unfolding ksc_26_def by (rule hangul_row_shorts) code_simp

lemma ksc_27_hangul: "hangul_row ksc_27"
  unfolding ksc_27_def by (rule hangul_row_shorts) code_simp

lemma ksc_28_hangul: "hangul_row ksc_28"
  unfolding ksc_28_def by (rule hangul_row_shorts) code_simp

lemma ksc_29_hangul: "hangul_row ksc_29"
  unfolding ksc_29_def by (rule hangul_row_shorts) code_simp

lemma ksc_30_hangul: "hangul_row ksc_30"
  unfolding ksc_30_def by (rule hangul_row_shorts) code_simp

lemma ksc_31_hangul: "hangul_row ksc_31"
  unfolding ksc_31_def by (rule hangul_row_shorts) code_simp

lemma ksc_32_hangul: "hangul_row ksc_32"
  unfolding ksc_32_def by (rule hangul_row_shorts) code_simp

lemma ksc_33_hangul: "hangul_row ksc_33"
  unfolding ksc_33_def by (rule hangul_row_shorts) code_simp

lemma ksc_34_hangul: "hangul_row ksc_34"
  unfolding ksc_34_def by (rule hangul_row_shorts) code_simp

lemma ksc_35_hangul: "hangul_row ksc_35"
  unfolding ksc_35_def by (rule hangul_row_shorts) code_simp

lemma ksc_36_hangul: "hangul_row ksc_36"
  unfolding ksc_36_def by (rule hangul_row_shorts) code_simp

lemma ksc_37_hangul: "hangul_row ksc_37"
  unfolding ksc_37_def by (rule hangul_row_shorts) code_simp

lemma ksc_38_hangul: "hangul_row ksc_38"
  unfolding ksc_38_def by (rule hangul_row_shorts) code_simp

lemma ksc_39_hangul: "hangul_row ksc_39"
  unfolding ksc_39_def by (rule hangul_row_shorts) code_simp

lemma ksc_40_other: "other_row ksc_40"
  unfolding ksc_40_def by (rule other_row_shorts) code_simp

lemma ksc_41_other: "other_row ksc_41"
  unfolding ksc_41_def by (rule other_row_shorts) code_simp

lemma ksc_42_other: "other_row ksc_42"
  unfolding ksc_42_def by (rule other_row_shorts) code_simp

lemma ksc_43_other: "other_row ksc_43"
  unfolding ksc_43_def by (rule other_row_shorts) code_simp

lemma ksc_44_other: "other_row ksc_44"
  unfolding ksc_44_def by (rule other_row_shorts) code_simp

lemma ksc_45_other: "other_row ksc_45"
  unfolding ksc_45_def by (rule other_row_shorts) code_simp

lemma ksc_46_other: "other_row ksc_46"
  unfolding ksc_46_def by (rule other_row_shorts) code_simp

lemma ksc_47_other: "other_row ksc_47"
  unfolding ksc_47_def by (rule other_row_shorts) code_simp

lemma ksc_48_other: "other_row ksc_48"
  unfolding ksc_48_def by (rule other_row_shorts) code_simp

lemma ksc_49_other: "other_row ksc_49"
  unfolding ksc_49_def by (rule other_row_shorts) code_simp

lemma ksc_50_other: "other_row ksc_50"
  unfolding ksc_50_def by (rule other_row_shorts) code_simp

lemma ksc_51_other: "other_row ksc_51"
  unfolding ksc_51_def by (rule other_row_shorts) code_simp

lemma ksc_52_other: "other_row ksc_52"
  unfolding ksc_52_def by (rule other_row_shorts) code_simp

lemma ksc_53_other: "other_row ksc_53"
  unfolding ksc_53_def by (rule other_row_shorts) code_simp

lemma ksc_54_other: "other_row ksc_54"
  unfolding ksc_54_def by (rule other_row_shorts) code_simp

lemma ksc_55_other: "other_row ksc_55"
  unfolding ksc_55_def by (rule other_row_shorts) code_simp

lemma ksc_56_other: "other_row ksc_56"
  unfolding ksc_56_def by (rule other_row_shorts) code_simp

lemma ksc_57_other: "other_row ksc_57"
  unfolding ksc_57_def by (rule other_row_shorts) code_simp

lemma ksc_58_other: "other_row ksc_58"
  unfolding ksc_58_def by (rule other_row_shorts) code_simp

lemma ksc_59_other: "other_row ksc_59"
  unfolding ksc_59_def by (rule other_row_shorts) code_simp

lemma ksc_60_other: "other_row ksc_60"
  unfolding ksc_60_def by (rule other_row_shorts) code_simp

lemma ksc_61_other: "other_row ksc_61"
  unfolding ksc_61_def by (rule other_row_shorts) code_simp

lemma ksc_62_other: "other_row ksc_62"
  unfolding ksc_62_def by (rule other_row_shorts) code_simp

lemma ksc_63_other: "other_row ksc_63"
  unfolding ksc_63_def by (rule other_row_shorts) code_simp

lemma ksc_64_other: "other_row ksc_64"
  unfolding ksc_64_def by (rule other_row_shorts) code_simp

lemma ksc_65_other: "other_row ksc_65"
  unfolding ksc_65_def by (rule other_row_shorts) code_simp

lemma ksc_66_other: "other_row ksc_66"
  unfolding ksc_66_def by (rule other_row_shorts) code_simp

lemma ksc_67_other: "other_row ksc_67"
  unfolding ksc_67_def by (rule other_row_shorts) code_simp

lemma ksc_68_other: "other_row ksc_68"
  unfolding ksc_68_def by (rule other_row_shorts) code_simp

lemma ksc_69_other: "other_row ksc_69"
  unfolding ksc_69_def by (rule other_row_shorts) code_simp

lemma ksc_70_other: "other_row ksc_70"
  unfolding ksc_70_def by (rule other_row_shorts) code_simp

lemma ksc_71_other: "other_row ksc_71"
  unfolding ksc_71_def by (rule other_row_shorts) code_simp

lemma ksc_72_other: "other_row ksc_72"
  unfolding ksc_72_def by (rule other_row_shorts) code_simp

lemma ksc_73_other: "other_row ksc_73"
  unfolding ksc_73_def by (rule other_row_shorts) code_simp

lemma ksc_74_other: "other_row ksc_74"
  unfolding ksc_74_def by (rule other_row_shorts) code_simp

lemma ksc_75_other: "other_row ksc_75"
  unfolding ksc_75_def by (rule other_row_shorts) code_simp

lemma ksc_76_other: "other_row ksc_76"
  unfolding ksc_76_def by (rule other_row_shorts) code_simp

lemma ksc_77_other: "other_row ksc_77"
  unfolding ksc_77_def by (rule other_row_shorts) code_simp

lemma ksc_78_other: "other_row ksc_78"
  unfolding ksc_78_def by (rule other_row_shorts) code_simp

lemma ksc_79_other: "other_row ksc_79"
  unfolding ksc_79_def by (rule other_row_shorts) code_simp

lemma ksc_80_other: "other_row ksc_80"
  unfolding ksc_80_def by (rule other_row_shorts) code_simp

lemma ksc_81_other: "other_row ksc_81"
  unfolding ksc_81_def by (rule other_row_shorts) code_simp

lemma ksc_82_other: "other_row ksc_82"
  unfolding ksc_82_def by (rule other_row_shorts) code_simp

lemma ksc_83_other: "other_row ksc_83"
  unfolding ksc_83_def by (rule other_row_shorts) code_simp

lemma ksc_84_other: "other_row ksc_84"
  unfolding ksc_84_def by (rule other_row_shorts) code_simp

lemma ksc_85_other: "other_row ksc_85"
  unfolding ksc_85_def by (rule other_row_shorts) code_simp

lemma ksc_86_other: "other_row ksc_86"
  unfolding ksc_86_def by (rule other_row_shorts) code_simp

lemma ksc_87_other: "other_row ksc_87"
  unfolding ksc_87_def by (rule other_row_shorts) code_simp

lemma ksc_88_other: "other_row ksc_88"
  unfolding ksc_88_def by (rule other_row_shorts) code_simp

lemma ksc_89_other: "other_row ksc_89"
  unfolding ksc_89_def by (rule other_row_shorts) code_simp

lemma ksc_90_other: "other_row ksc_90"
  unfolding ksc_90_def by (rule other_row_shorts) code_simp

lemma ksc_91_other: "other_row ksc_91"
  unfolding ksc_91_def by (rule other_row_shorts) code_simp

lemma ksc_92_other: "other_row ksc_92"
  unfolding ksc_92_def by (rule other_row_shorts) code_simp

lemma ksc_15_early: "early_row ksc_15"
  unfolding ksc_15_def by (rule early_row_shorts) code_simp

lemma ksc_16_early: "early_row ksc_16"
  unfolding ksc_16_def by (rule early_row_shorts) code_simp

lemma ksc_17_early: "early_row ksc_17"
  unfolding ksc_17_def by (rule early_row_shorts) code_simp

lemma ksc_18_early: "early_row ksc_18"
  unfolding ksc_18_def by (rule early_row_shorts) code_simp

lemma ksc_19_early: "early_row ksc_19"
  unfolding ksc_19_def by (rule early_row_shorts) code_simp

lemma ksc_20_early: "early_row ksc_20"
  unfolding ksc_20_def by (rule early_row_shorts) code_simp

lemma ksc_21_early: "early_row ksc_21"
  unfolding ksc_21_def by (rule early_row_shorts) code_simp

lemma ksc_22_early: "early_row ksc_22"
  unfolding ksc_22_def by (rule early_row_shorts) code_simp

lemmas ksc_early_rows =
  ksc_15_early ksc_16_early ksc_17_early ksc_18_early ksc_19_early ksc_20_early ksc_21_early ksc_22_early

lemmas ksc_hangul_rows =
  ksc_15_hangul ksc_16_hangul ksc_17_hangul ksc_18_hangul ksc_19_hangul ksc_20_hangul
  ksc_21_hangul ksc_22_hangul ksc_23_hangul ksc_24_hangul ksc_25_hangul ksc_26_hangul
  ksc_27_hangul ksc_28_hangul ksc_29_hangul ksc_30_hangul ksc_31_hangul ksc_32_hangul
  ksc_33_hangul ksc_34_hangul ksc_35_hangul ksc_36_hangul ksc_37_hangul ksc_38_hangul
  ksc_39_hangul

lemmas ksc_other_rows =
  ksc_0_other ksc_1_other ksc_2_other ksc_3_other ksc_4_other ksc_5_other
  ksc_6_other ksc_7_other ksc_8_other ksc_9_other ksc_10_other ksc_11_other
  ksc_12_other ksc_13_other ksc_14_other ksc_40_other ksc_41_other ksc_42_other
  ksc_43_other ksc_44_other ksc_45_other ksc_46_other ksc_47_other ksc_48_other
  ksc_49_other ksc_50_other ksc_51_other ksc_52_other ksc_53_other ksc_54_other
  ksc_55_other ksc_56_other ksc_57_other ksc_58_other ksc_59_other ksc_60_other
  ksc_61_other ksc_62_other ksc_63_other ksc_64_other ksc_65_other ksc_66_other
  ksc_67_other ksc_68_other ksc_69_other ksc_70_other ksc_71_other ksc_72_other
  ksc_73_other ksc_74_other ksc_75_other ksc_76_other ksc_77_other ksc_78_other
  ksc_79_other ksc_80_other ksc_81_other ksc_82_other ksc_83_other ksc_84_other
  ksc_85_other ksc_86_other ksc_87_other ksc_88_other ksc_89_other ksc_90_other
  ksc_91_other ksc_92_other

lemma ksc_hangul: "list_all hangul_row (take 25 (drop 15 ksc))"
  by (simp add: ksc_def ksc_hangul_rows)

lemma ksc_early: "list_all early_row (take 8 (drop 15 ksc))"
  by (simp add: ksc_def ksc_early_rows)

lemma ksc_other: "list_all other_row (take 15 ksc)" "list_all other_row (drop 40 ksc)"
  by (simp_all add: ksc_def ksc_other_rows)

end
