(* ===== verification/Iconv_Skip.thy ===== *)
theory Iconv_Skip
  imports Iconv_Decode Gb18030_Order Ksc_Hangul
begin

text \<open>
  The loop that \<open>GB18030\<close> and \<open>EUC_KR\<close> run over a whole table: it ends, and from \<open>c\<close> on it finds the
  code point that lies behind as many others as there are table entries to skip.
\<close>

text \<open>The entries of a table from \<open>a\<close> to \<open>b\<close>.\<close>

definition between :: "u16 list list \<Rightarrow> nat \<Rightarrow> nat \<Rightarrow> nat" where
  "between t a b = length (filter (\<lambda>x. a \<le> unat x \<and> unat x \<le> b) (concat t))"

definition from_on :: "u16 list list \<Rightarrow> nat \<Rightarrow> nat" where
  "from_on t a = length (filter (\<lambda>x. a \<le> unat x) (concat t))"

lemma length_filter_split:
  "(\<And>x. x \<in> set xs \<Longrightarrow> P x \<longleftrightarrow> Q x \<or> R x) \<Longrightarrow> (\<And>x. x \<in> set xs \<Longrightarrow> \<not> (Q x \<and> R x)) \<Longrightarrow>
     length (filter P xs) = length (filter Q xs) + length (filter R xs)"
  by (induction xs) auto

lemma between_split: "a \<le> m + 1 \<Longrightarrow> m \<le> b \<Longrightarrow> between t a b = between t a m + between t (m + 1) b"
  unfolding between_def by (rule length_filter_split) auto

lemma from_on_split: "a \<le> m + 1 \<Longrightarrow> from_on t a = between t a m + from_on t (m + 1)"
  unfolding between_def from_on_def by (rule length_filter_split) auto

lemma from_on_le: "from_on t a \<le> length (concat t)"
  unfolding from_on_def by (rule length_filter_le)

lemma window_iff: "d \<le> c \<Longrightarrow> x - d \<le> c - d \<longleftrightarrow> d \<le> x \<and> x \<le> c" for x c d :: u32
proof (cases "d \<le> x")
  case True
  assume "d \<le> c"
  then show ?thesis using True by (simp add: word_le_nat_alt unat_sub) linarith
next
  case False
  assume "d \<le> c"
  then have "unat (c - d) = unat c - unat d" "unat d \<le> unat c" by (auto simp: unat_sub word_le_nat_alt)
  moreover have "unat (x - d) = 2 ^ 32 + unat x - unat d"
    using False unsigned_less [of d, where ?'a = nat] by (subst unat_sub_if') (auto simp: word_le_nat_alt)
  moreover have "unat c < 2 ^ 32" "unat d < 2 ^ 32" "unat x < 2 ^ 32"
    using unsigned_less [of c, where ?'a = nat] unsigned_less [of d, where ?'a = nat]
      unsigned_less [of x, where ?'a = nat] by simp_all
  ultimately show ?thesis using False by (simp add: word_le_nat_alt)
qed

lemma count_entries_between:
  assumes "d \<le> c" shows "count_entries t d c = between t (unat d) (unat c)"
  unfolding count_entries_def between_def window_iff [OF assms]
  unfolding word_le_nat_alt unat_ucast_short
  by (induction t) simp_all

lemma between_0_iff: "between t a b = 0 \<longleftrightarrow> (\<forall>x \<in> set (concat t). \<not> (a \<le> unat x \<and> unat x \<le> b))"
  unfolding between_def by (simp add: filter_empty_conv)

text \<open>
  The loop returns, the code point it returns is not in the table, and it lies above the one it
  started from by the number of entries that it passed.
\<close>

lemma skip_entries_returns:
  assumes "d \<le> c" "unat c + from_on t (unat d) < 2 ^ 32 - 1"
  obtains c' where "skip_entries t d c = Some c'" "unat c \<le> unat c'"
    "unat c' = unat c + between t (unat d) (unat c')" "\<forall>x \<in> set (concat t). unat x \<noteq> unat c'"
proof -
  have "\<exists>c'. skip_entries t d c = Some c' \<and> unat c \<le> unat c' \<and>
      unat c' = unat c + between t (unat d) (unat c') \<and> (\<forall>x \<in> set (concat t). unat x \<noteq> unat c')"
    using assms
  proof (induction "from_on t (unat d)" arbitrary: d c rule: less_induct)
    case less
    define k where "k = between t (unat d) (unat c)"
    have dc: "unat d \<le> unat c" using less.prems(1) by (simp add: word_le_nat_alt)
    have split: "from_on t (unat d) = k + from_on t (unat c + 1)"
      unfolding k_def using from_on_split dc by simp
    then have small: "unat c + k + from_on t (unat c + 1) < 2 ^ 32 - 1" using less.prems(2) by simp
    then have uc1: "unat (c + 1) = unat c + 1" and uck: "unat (c + of_nat k) = unat c + k"
      by (auto simp: unat_word_ariths unat_of_nat)
    have step: "skip_entries t d c = skip_entries t (c + 1) (c + of_nat k)"
      using less.prems(1) by (subst skip_entries.simps) (simp add: count_entries_between k_def)
    show ?case
    proof (cases "k = 0")
      case True
      then have "skip_entries t d c = Some c"
        unfolding step using uc1 by (subst skip_entries.simps) (simp add: word_le_nat_alt)
      moreover have "\<forall>x \<in> set (concat t). unat x \<noteq> unat c"
        using True dc unfolding k_def between_0_iff by (metis order_refl)
      ultimately show ?thesis using True k_def by auto
    next
      case False
      have "from_on t (unat (c + 1)) < from_on t (unat d)" using split False uc1 by simp
      moreover have "c + 1 \<le> c + of_nat k" using uc1 uck False by (simp add: word_le_nat_alt)
      moreover have "unat (c + of_nat k) + from_on t (unat (c + 1)) < 2 ^ 32 - 1" using small uc1 uck by simp
      ultimately obtain c' where c': "skip_entries t (c + 1) (c + of_nat k) = Some c'"
          "unat c + k \<le> unat c'" "unat c' = unat c + k + between t (unat c + 1) (unat c')"
          "\<forall>x \<in> set (concat t). unat x \<noteq> unat c'"
        using less.hyps uck uc1 by force
      moreover have "between t (unat d) (unat c') = k + between t (unat c + 1) (unat c')"
        unfolding k_def using between_split dc c'(2) by simp
      ultimately show ?thesis using step by auto
    qed
  qed
  then show thesis using that by blast
qed

lemma length_concat_rows: "\<forall>r \<in> set t. length r = n \<Longrightarrow> length (concat t) = length t * n"
  by (induction t) auto

lemma row_ok_lengths: "\<forall>r \<in> set t. row_ok n r \<Longrightarrow> \<forall>r \<in> set t. length r = n"
  by (simp add: row_ok_def)

lemma length_concat_gb18030: "length (concat gb18030) = 23940"
  using length_concat_rows [OF row_ok_lengths [OF gb18030_ok]] by (simp add: length_gb18030)

lemma length_concat_ksc: "length (concat ksc) = 8742"
  using length_concat_rows [OF row_ok_lengths [OF ksc_ok]] by (simp add: length_ksc)

section \<open>GB18030\<close>

text \<open>The number of a four-byte code, in the order of the standard.\<close>

definition gb_index :: "byte \<Rightarrow> byte \<Rightarrow> byte \<Rightarrow> byte \<Rightarrow> nat" where
  "gb_index b1 b2 b3 b4 =
     (10 * (unat b1 - 0x81) + (unat b2 - 0x30)) * 1260 + 10 * (unat b3 - 0x81) + (unat b4 - 0x30)"

definition gb_four_bytes :: "byte \<Rightarrow> byte \<Rightarrow> byte \<Rightarrow> byte \<Rightarrow> bool" where
  "gb_four_bytes b1 b2 b3 b4 \<longleftrightarrow> 0x81 \<le> unat b1 \<and> unat b1 \<le> 0xfe \<and> 0x30 \<le> unat b2 \<and> unat b2 \<le> 0x39 \<and>
     0x81 \<le> unat b3 \<and> unat b3 \<le> 0xfe \<and> 0x30 \<le> unat b4 \<and> unat b4 \<le> 0x39"

lemma unat_ucast_minus: "m \<le> unat b \<Longrightarrow> m < 256 \<Longrightarrow> unat (ucast b - of_nat m :: u32) = unat b - m" for b :: byte
  by (subst unat_sub) (simp_all add: word_le_nat_alt unat_of_nat)

lemma decode_gb_four_bytes:
  assumes "gb_four_bytes b1 b2 b3 b4"
  defines "n \<equiv> of_nat (gb_index b1 b2 b3 b4 + 128) :: u32"
  shows "decode_other GB18030 tab (b1 # b2 # b3 # b4 # rest) = skipped_char gb18030 0 n 4"
proof -
  note b = assms(1)[unfolded gb_four_bytes_def]
  define x1 x2 x3 x4 where "x1 = unat b1 - 0x81" and "x2 = unat b2 - 0x30" and "x3 = unat b3 - 0x81" and "x4 = unat b4 - 0x30"
  have x: "x1 < 126" "x2 \<le> 9" "x3 < 126" "x4 \<le> 9"
    using b by (auto simp: x1_def x2_def x3_def x4_def)
  have c: "(ucast b1 :: u32) - 0x81 = of_nat x1" "(ucast b2 :: u32) - 0x30 = of_nat x2"
    "(ucast b3 :: u32) - 0x81 = of_nat x3" "(ucast b4 :: u32) - 0x30 = of_nat x4"
    using b unat_ucast_minus [of "0x81" b1] unat_ucast_minus [of "0x30" b2]
      unat_ucast_minus [of "0x81" b3] unat_ucast_minus [of "0x30" b4]
    by (auto simp: x1_def x2_def x3_def x4_def word_unat_eq_iff unat_of_nat)
  have d: "(ucast b2 :: u32) - 0x40 \<ge> 191"
    using b by (simp add: word_le_nat_alt unat_sub_if')
  have n: "n = (10 * of_nat x1 + of_nat x2) * 1260 + 10 * of_nat x3 + of_nat x4 + 128"
    unfolding n_def gb_index_def by (simp flip: x1_def x2_def x3_def x4_def)
  have small: "unat (of_nat x1 :: u32) < 126" "unat (of_nat x2 :: u32) \<le> 9" "unat (of_nat x3 :: u32) \<le> 126" "unat (of_nat x4 :: u32) \<le> 9"
    using x by (auto simp: unat_of_nat)
  show ?thesis
    using small d c unfolding decode_other_def Let_def list.sel
    by (simp add: type_defs decode_gb_def decode_gb_four_def Let_def n word_le_nat_alt word_less_nat_alt
          add_diff_eq [symmetric])
qed

lemma gb_index_less:
  assumes "gb_four_bytes b1 b2 b3 b4" shows "gb_index b1 b2 b3 b4 < 1587600"
proof -
  have "unat b1 - 0x81 \<le> 125" "unat b2 - 0x30 \<le> 9" "unat b3 - 0x81 \<le> 125" "unat b4 - 0x30 \<le> 9"
    using assms by (auto simp: gb_four_bytes_def)
  then have "10 * (unat b1 - 0x81) + (unat b2 - 0x30) \<le> 1259" "10 * (unat b3 - 0x81) + (unat b4 - 0x30) \<le> 1259"
    by linarith+
  then have "(10 * (unat b1 - 0x81) + (unat b2 - 0x30)) * 1260 + (10 * (unat b3 - 0x81) + (unat b4 - 0x30)) \<le> 1259 * 1260 + 1259"
    by (intro add_mono mult_le_mono1)
  then show ?thesis unfolding gb_index_def by (simp add: add.assoc)
qed

lemma gb_four_char:
  assumes "gb_four_bytes b1 b2 b3 b4"
  obtains c where "decode_other GB18030 tab (b1 # b2 # b3 # b4 # rest) = Decoded c 4"
    "unat c = gb_index b1 b2 b3 b4 + 128 + between gb18030 0 (unat c)"
    "\<forall>x \<in> set (concat gb18030). unat x \<noteq> unat c"
proof -
  let ?n = "of_nat (gb_index b1 b2 b3 b4 + 128) :: u32"
  have n: "unat ?n = gb_index b1 b2 b3 b4 + 128"
    using gb_index_less [OF assms] by (intro unat_of_nat_32) simp
  have "unat ?n + from_on gb18030 (unat (0 :: u32)) < 2 ^ 32 - 1"
    using n gb_index_less [OF assms] from_on_le [of gb18030 0] by (simp add: length_concat_gb18030)
  then obtain c where "skip_entries gb18030 0 ?n = Some c" "unat ?n \<le> unat c"
      "unat c = unat ?n + between gb18030 (unat (0 :: u32)) (unat c)" "\<forall>x \<in> set (concat gb18030). unat x \<noteq> unat c"
    by (rule skip_entries_returns [OF word_zero_le])
  then show thesis using that decode_gb_four_bytes [OF assms] n by (simp add: skipped_char_def)
qed

text \<open>
  The four-byte codes as the standard defines them up to U+D7FF: they number the code points behind
  ASCII that have no two-byte code, and a number is written in the radices 10, 126, 10.
\<close>

definition two_byte :: "nat \<Rightarrow> bool" where
  "two_byte n \<longleftrightarrow> (\<exists>x \<in> set (concat gb18030). unat x = n)"

definition gb_number :: "nat \<Rightarrow> nat" where
  "gb_number c = length (filter (\<lambda>n. \<not> two_byte n) [128..<c])"

definition gb_code :: "nat \<Rightarrow> byte list" where
  "gb_code n = [of_nat (0x81 + n div 12600), of_nat (0x30 + n div 1260 mod 10),
     of_nat (0x81 + n div 10 mod 126), of_nat (0x30 + n mod 10)]"

lemma gb_code_bytes:
  assumes "n < 126 * 12600"
  obtains b1 b2 b3 b4 where "gb_code n = [b1, b2, b3, b4]" "gb_four_bytes b1 b2 b3 b4" "gb_index b1 b2 b3 b4 = n"
proof -
  define x1 x2 x3 x4 where "x1 = n div 12600" and "x2 = n div 1260 mod 10" and "x3 = n div 10 mod 126" and "x4 = n mod 10"
  have x: "x1 < 126" "x2 < 10" "x3 < 126" "x4 < 10"
    using assms by (auto simp: x1_def x2_def x3_def x4_def)
  have u: "unat (of_nat k :: byte) = k" if "k < 256" for k using that by (simp add: unat_of_nat)
  have "n = (10 * x1 + x2) * 1260 + 10 * x3 + x4"
  proof -
    have "n div 1260 = 10 * x1 + x2" by (simp add: x1_def x2_def div_mult2_eq [of n 1260 10, simplified])
    moreover have "n div 10 = 126 * (n div 1260) + x3" by (simp add: x3_def div_mult2_eq [of n 10 126, simplified])
    moreover have "n = 10 * (n div 10) + x4" by (simp add: x4_def)
    ultimately show ?thesis by (simp add: algebra_simps)
  qed
  moreover have "gb_code n = [of_nat (0x81 + x1), of_nat (0x30 + x2), of_nat (0x81 + x3), of_nat (0x30 + x4)]"
    by (simp add: gb_code_def x1_def x2_def x3_def x4_def)
  ultimately show thesis
    using that x u [of "0x81 + x1"] u [of "0x30 + x2"] u [of "0x81 + x3"] u [of "0x30 + x4"]
    by (simp add: gb_four_bytes_def gb_index_def)
qed

text \<open>The table has no code point twice, so that counting its entries counts code points.\<close>

lemma between_two_byte: "between gb18030 0 m = card {n. two_byte n \<and> n \<le> m}"
proof -
  let ?xs = "filter (\<lambda>x. 0 \<le> unat x \<and> unat x \<le> m) (concat gb18030)"
  have "distinct ?xs" using gb18030_distinct by (intro distinct_filter) simp
  then have "length ?xs = card (unat ` set ?xs)"
    by (subst card_image) (simp_all only: distinct_card inj_on_def word_unat_eq_iff, simp)
  moreover have "unat ` set ?xs = {n. two_byte n \<and> n \<le> m}" by (auto simp: two_byte_def)
  ultimately show ?thesis by (simp add: between_def)
qed

lemma two_byte_above: "two_byte n \<Longrightarrow> 128 \<le> n"
  using gb18030_distinct unfolding two_byte_def by auto

lemma gb_number_between:
  assumes "128 \<le> c" "\<not> two_byte c" shows "c = gb_number c + 128 + between gb18030 0 c"
proof -
  have "gb_number c = card {n \<in> {128..<c}. \<not> two_byte n}"
    unfolding gb_number_def by (subst distinct_card [symmetric]) (auto intro: arg_cong [where f = card])
  moreover have "{n. two_byte n \<and> n \<le> c} = {n \<in> {128..<c}. two_byte n}"
    using two_byte_above assms(2) by (auto simp: order_less_le)
  moreover have "card {n \<in> {128..<c}. \<not> two_byte n} + card {n \<in> {128..<c}. two_byte n} = card {128..<c}"
    using card_Int_Diff [of "{128..<c}" "{n. two_byte n}"] by (simp add: Int_def set_diff_eq)
  ultimately show ?thesis using assms(1) unfolding between_two_byte by simp
qed

lemma gb_position_unique:
  assumes "c = k + between gb18030 0 c" "c' = k + between gb18030 0 c'" "\<not> two_byte c'" shows "\<not> c < c'"
proof
  assume less: "c < c'"
  have "{n. two_byte n \<and> n \<le> c'} \<subseteq> {n. two_byte n \<and> n \<le> c} \<union> {c<..<c'}"
    using assms(3) by (auto simp: order_less_le)
  then have "card {n. two_byte n \<and> n \<le> c'} \<le> card ({n. two_byte n \<and> n \<le> c} \<union> {c<..<c'})"
    by (intro card_mono) auto
  also have "\<dots> \<le> card {n. two_byte n \<and> n \<le> c} + card {c<..<c'}" by (rule card_Un_le)
  finally show False using assms(1,2) less unfolding between_two_byte by simp
qed

text \<open>The yen sign, U+00A5, is the 37th character without a two-byte code.\<close>

lemma absent_not_two_byte: "x \<in> set gb18030_absent \<Longrightarrow> \<not> two_byte (unat x)"
  using gb18030_distinct by (auto simp: two_byte_def simp flip: word_unat_eq_iff)

lemma yen_absent: "\<not> two_byte 0xa5"
  using absent_not_two_byte [of "0xa5"] by (simp add: gb18030_absent_def shorts_def)

lemma yen_number: "gb_number 0xa5 = 36"
proof -
  have two: "two_byte 0xa4" using gb18030_currency by (force simp: two_byte_def)
  have "\<not> two_byte n" if "n \<in> set [128..<0xa4]" for n
  proof -
    have "(of_nat n :: u16) \<in> set gb18030_absent"
    proof -
      have "n \<in> set [128..<0xa4]" by (rule that)
      then show ?thesis by (auto simp: upt_rec gb18030_absent_def shorts_def)
    qed
    moreover have "n < 2 ^ 16" using that unfolding set_upt by auto
    then have "unat (of_nat n :: u16) = n" by (simp only: unat_of_nat) simp
    ultimately show ?thesis using absent_not_two_byte by metis
  qed
  then have "filter (\<lambda>n. \<not> two_byte n) [128..<0xa4] = [128..<0xa4]" by (rule filter_True [OF ballI])
  moreover have "[128..<0xa5 :: nat] = [128..<0xa4] @ [0xa4]" using upt_Suc_append [of 128 "0xa4"] by simp
  ultimately have "gb_number 0xa5 = length ([128..<0xa4] @ filter (\<lambda>n. \<not> two_byte n) [0xa4])"
    unfolding gb_number_def by (simp only: filter_append)
  then show ?thesis using two unfolding length_append length_upt by simp
qed

section \<open>EUC-KR\<close>

text \<open>The number of a code of the extension, and the bytes the decoder takes for one.\<close>

definition euckr_col :: "byte \<Rightarrow> nat option" where
  "euckr_col b =
     (if 65 \<le> unat b \<and> unat b \<le> 90 then Some (unat b - 65)
      else if 97 \<le> unat b \<and> unat b \<le> 122 then Some (unat b - 97 + 26)
      else if 0x81 \<le> unat b \<and> unat b \<le> 0xfe then Some (unat b - 0x81 + 52)
      else None)"

definition euckr_index :: "byte \<Rightarrow> nat \<Rightarrow> nat" where
  "euckr_index b j =
     (let r = unat b - 0x81 in if r < 0x20 then 178 * r + j else 178 * 0x20 + 84 * (r - 0x20) + j)"

definition euckr_extended :: "byte \<Rightarrow> byte \<Rightarrow> bool" where
  "euckr_extended b1 b2 \<longleftrightarrow> 0x81 \<le> unat b1 \<and> unat b1 \<le> 0xdd \<and> (unat b1 < 0xa1 \<or> unat b2 < 0xa1) \<and>
     (0xc6 \<le> unat b1 \<longrightarrow> unat b2 \<le> 0x52)"

lemma window_byte:
  "m \<le> 255 \<Longrightarrow> k \<le> 255 \<Longrightarrow> (ucast b :: u32) - of_nat m < of_nat k \<longleftrightarrow> m \<le> unat b \<and> unat b < m + k" for b :: byte
  using unat_byte_less [of b]
  by (subst word_less_nat_alt, subst unat_sub_if') (auto simp: unat_of_nat)

lemma euckr_column_col: "euckr_column (ucast b) = map_option of_nat (euckr_col b)"
proof -
  have "(ucast b - 65 :: u32) < 26 \<longleftrightarrow> 65 \<le> unat b \<and> unat b \<le> 90"
    using window_byte [of 65 26 b] by auto
  moreover have "(ucast b - 97 :: u32) < 26 \<longleftrightarrow> 97 \<le> unat b \<and> unat b \<le> 122"
    using window_byte [of 97 26 b] by auto
  moreover have "(ucast b - 0x81 :: u32) < 126 \<longleftrightarrow> 0x81 \<le> unat b \<and> unat b \<le> 0xfe"
    using window_byte [of "0x81" 126 b] by auto
  ultimately show ?thesis
    by (auto simp: euckr_column_def euckr_col_def word_unat_eq_iff unat_of_nat)
qed

lemma euckr_second_less: "euckr_col b2 = Some j \<Longrightarrow> j < 178"
  by (auto simp: euckr_col_def split: if_splits)

lemma ucast_le_numeral: "n < 256 \<Longrightarrow> (ucast b :: u32) > of_nat n \<longleftrightarrow> unat b > n" for b :: byte
  by (simp add: word_less_nat_alt unat_of_nat)

lemma decode_euckr_extended:
  assumes "euckr_extended b1 b2" "euckr_col b2 = Some j"
  shows "decode_other EUC_KR tab (b1 # b2 # rest) = skipped_char ksc 0xac00 (of_nat (0xac00 + euckr_index b1 j)) 2"
proof -
  note b = assms(1)[unfolded euckr_extended_def]
  define r where "r = unat b1 - 0x81"
  have r: "r < 93" "unat b1 = r + 0x81" using b by (auto simp: r_def)
  have c: "(ucast b1 :: u32) - 0xa1 + 0x20 = of_nat r"
    using r by (simp add: word_unat_eq_iff unat_word_ariths unat_of_nat unat_sub_if')
  have ur: "unat (of_nat r :: u32) = r" using r by (intro unat_of_nat_32) simp
  have outside: "(93 :: u32) \<le> ucast b1 - 0xa1 \<or> (94 :: u32) \<le> ucast b2 - 0xa1"
    using b window_byte [of "0xa1" 93 b1] window_byte [of "0xa1" 94 b2] by (auto simp: not_less [symmetric])
  have inside: "\<not> (93 :: u32) \<le> of_nat r" "((0x45 :: u32) \<le> of_nat r) = (0x45 \<le> r)" "((of_nat r :: u32) < 0x20) = (r < 0x20)"
    using ur r by (simp_all add: word_le_nat_alt word_less_nat_alt)
  have second: "\<not> (0x45 \<le> r \<and> (ucast b2 :: u32) > 0x52)"
    using b r ucast_le_numeral [of "0x52" b2] by auto
  have index: "(if r < 0x20 then 178 * of_nat r + of_nat j else 178 * 0x20 + 84 * (of_nat r - 0x20) + of_nat j) + 0xac00
      = (of_nat (0xac00 + euckr_index b1 j) :: u32)"
    using r by (simp add: euckr_index_def Let_def of_nat_diff flip: r_def)
  show ?thesis
    using outside inside second index euckr_column_col [of b2] assms(2)
    unfolding decode_other_def Let_def list.sel
    by (simp add: type_defs decode_euckr_def Let_def c) (auto simp: add.commute)
qed

lemma between_append: "between (s @ t) a b = between s a b + between t a b"
  by (simp add: between_def)

lemma between_all: "\<forall>x \<in> set (concat t). a \<le> unat x \<and> unat x \<le> b \<Longrightarrow> between t a b = length (concat t)"
  unfolding between_def by (subst filter_True) auto

lemma between_le: "between t a b \<le> length (concat t)"
  unfolding between_def by (rule length_filter_le)

text \<open>The parts of \<open>ksc\<close>: the Hangul syllables, and what comes before and after them.\<close>

lemma ksc_parts: "ksc = take 15 ksc @ take 25 (drop 15 ksc) @ drop 40 ksc"
proof -
  have "drop 40 ksc = drop 25 (drop 15 ksc)" by simp
  then show ?thesis by (simp only: append_take_drop_id)
qed

lemma other_between:
  assumes "list_all other_row t" "b < 0xf900" shows "between t 0xac00 b = 0"
  using assms unfolding between_0_iff by (fastforce simp: list_all_iff other_row_def)

lemma length_ksc_hangul: "length (concat (take 25 (drop 15 ksc))) = 2350"
proof -
  have "\<forall>r \<in> set (take 25 (drop 15 ksc)). length r = 94"
    using row_ok_lengths [OF ksc_ok] by (auto dest!: in_set_takeD in_set_dropD)
  then show ?thesis using length_concat_rows by (fastforce simp: length_ksc)
qed

lemma ksc_hangul_between:
  assumes "b < 0xf900"
  shows "between ksc 0xac00 b = between (take 25 (drop 15 ksc)) 0xac00 b"
  by (subst ksc_parts) (simp add: between_append other_between ksc_other assms)

lemma ksc_hangul_count: "b < 0xf900 \<Longrightarrow> between ksc 0xac00 b \<le> 2350"
  using between_le [of "take 25 (drop 15 ksc)"] by (simp add: ksc_hangul_between length_ksc_hangul)

lemma ksc_hangul_all: "0xd7a3 \<le> b \<Longrightarrow> b < 0xf900 \<Longrightarrow> between ksc 0xac00 b = 2350"
  unfolding ksc_hangul_between using ksc_hangul
  by (subst between_all) (fastforce simp: list_all_iff hangul_row_def length_ksc_hangul)+

lemma ksc_early_count:
  assumes "0xd5f0 \<le> b" "b < 0xf900" shows "752 \<le> between ksc 0xac00 b"
proof -
  let ?e = "take 8 (drop 15 ksc)"
  have sub: "set ?e \<subseteq> set (take 25 (drop 15 ksc))" by (rule set_take_subset_set_take) simp
  have "\<forall>r \<in> set ?e. length r = 94"
    using row_ok_lengths [OF ksc_ok] by (auto dest!: in_set_takeD in_set_dropD)
  then have "length (concat ?e) = 752" using length_concat_rows by (fastforce simp: length_ksc)
  moreover have "between ?e 0xac00 b = length (concat ?e)"
    using ksc_early ksc_hangul sub assms(1)
    by (intro between_all) (fastforce simp: list_all_iff hangul_row_def early_row_def)
  moreover have "take 25 (drop 15 ksc) = ?e @ drop 8 (take 25 (drop 15 ksc))"
    by (metis append_take_drop_id min.absorb1 numeral_le_iff semiring_norm(68,69,70,71,72,73) take_take)
  ultimately show ?thesis unfolding ksc_hangul_between [OF assms(2)]
    by (metis between_append le_add1)
qed

lemma euckr_index_less:
  assumes "euckr_extended b1 b2" "euckr_col b2 = Some j"
  shows "euckr_index b1 j \<le> 10753" "unat b1 \<le> 0xc6 \<Longrightarrow> euckr_index b1 j \<le> 8821"
proof -
  define r where "r = unat b1 - 0x81"
  note b = assms(1)[unfolded euckr_extended_def]
  have r: "unat b1 = r + 0x81" "r \<le> 92" using b by (auto simp: r_def)
  have "j \<le> 177" "0x20 \<le> r \<Longrightarrow> j \<le> 83" "0x45 \<le> r \<Longrightarrow> j \<le> 17"
    using b r assms(2) by (auto simp: euckr_col_def split: if_splits)
  then show "euckr_index b1 j \<le> 10753" "unat b1 \<le> 0xc6 \<Longrightarrow> euckr_index b1 j \<le> 8821"
    using r by (cases "r < 0x20"; cases "r < 0x45"; simp add: euckr_index_def Let_def flip: r_def)+
qed

lemma euckr_char:
  assumes "euckr_extended b1 b2" "euckr_col b2 = Some j"
  obtains c where "decode_other EUC_KR tab (b1 # b2 # rest) = Decoded c 2" "0xac00 + euckr_index b1 j \<le> unat c"
    "unat c = 0xac00 + euckr_index b1 j + between ksc 0xac00 (unat c)"
    "\<forall>x \<in> set (concat ksc). unat x \<noteq> unat c" "unat c < 0xf900"
proof -
  let ?n = "of_nat (0xac00 + euckr_index b1 j) :: u32"
  note less = euckr_index_less(1) [OF assms]
  have n: "unat ?n = 0xac00 + euckr_index b1 j" using less by (intro unat_of_nat_32) simp
  have d: "unat (0xac00 :: u32) = 0xac00" by simp
  have "(0xac00 :: u32) \<le> ?n" using n by (simp add: word_le_nat_alt)
  moreover have "unat ?n + from_on ksc (unat (0xac00 :: u32)) < 2 ^ 32 - 1"
    using n less from_on_le [of ksc "0xac00"] by (simp add: length_concat_ksc)
  ultimately obtain c where c: "skip_entries ksc 0xac00 ?n = Some c" "unat ?n \<le> unat c"
      "unat c = unat ?n + between ksc (unat (0xac00 :: u32)) (unat c)" "\<forall>x \<in> set (concat ksc). unat x \<noteq> unat c"
    by (rule skip_entries_returns)
  have "between ksc 0xac00 (unat c) \<le> 8742" using between_le [of ksc] by (simp add: length_concat_ksc)
  then have "unat c < 0xf900" using c(3) n less unfolding d by linarith
  then show thesis using that c decode_euckr_extended [OF assms] n unfolding d by (simp add: skipped_char_def)
qed

text \<open>The last codes of the extension, DD 41 to DD 52, are decoded to surrogates.\<close>

lemma surrogate_decoded:
  assumes "0x41 \<le> unat b2" "unat b2 \<le> 0x52"
  shows "\<exists>c. decode_other EUC_KR tab (0xdd # b2 # rest) = Decoded c 2 \<and> unat c = 0xdf1e + (unat b2 - 0x41)"
proof -
  let ?j = "unat b2 - 0x41"
  have e: "euckr_extended 0xdd b2" "euckr_col b2 = Some ?j"
    using assms by (simp_all add: euckr_extended_def euckr_col_def)
  have i: "euckr_index 0xdd ?j = 10736 + ?j" by (simp add: euckr_index_def)
  obtain c where c: "decode_other EUC_KR tab (0xdd # b2 # rest) = Decoded c 2" "0xac00 + (10736 + ?j) \<le> unat c"
      "unat c = 0xac00 + (10736 + ?j) + between ksc 0xac00 (unat c)" "unat c < 0xf900"
    using euckr_char [OF e] unfolding i by metis
  have "752 \<le> between ksc 0xac00 (unat c)" using ksc_early_count c(2,4) by simp
  then have "between ksc 0xac00 (unat c) = 2350" using ksc_hangul_all c(3,4) by simp
  then show ?thesis using c(1,3) by simp
qed

section \<open>Properties\<close>

text \<open>
  C16: Four-byte GB18030 codes up to U+D7FF are decoded as the standard assigns them. The code point
  \<open>c\<close> behind ASCII that has no two-byte code has the four-byte code whose number is the number of
  such code points below \<open>c\<close>; for this code the search through the two-byte table ends, and it ends
  at \<open>c\<close>. (From U+E000 on the decoder departs from the standard, which skips the surrogates.)
\<close>

theorem gb18030_four_bytes:
  assumes "128 \<le> c" "c < 0xd800" "\<not> two_byte c"
  shows "decode_other GB18030 tab (gb_code (gb_number c) @ rest) = Decoded (of_nat c) 4"
proof -
  have "gb_number c \<le> length [128..<c]" unfolding gb_number_def by (rule length_filter_le)
  then have "gb_number c < 126 * 12600" using assms(1,2) by simp
  then obtain b1 b2 b3 b4 where b: "gb_code (gb_number c) = [b1, b2, b3, b4]" "gb_four_bytes b1 b2 b3 b4"
      "gb_index b1 b2 b3 b4 = gb_number c" by (rule gb_code_bytes)
  obtain w where w: "decode_other GB18030 tab (b1 # b2 # b3 # b4 # rest) = Decoded w 4"
      "unat w = gb_number c + 128 + between gb18030 0 (unat w)" "\<not> two_byte (unat w)"
    using gb_four_char [OF b(2)] unfolding b(3) two_byte_def by metis
  note c = gb_number_between [OF assms(1,3)]
  have "unat w = c"
    using gb_position_unique [OF w(2) c assms(3)] gb_position_unique [OF c w(2,3)] by linarith
  then have "w = of_nat c" using assms(2) by (simp add: word_unat_eq_iff unat_of_nat)
  then show ?thesis using w(1) b(1) by simp
qed

theorem gb18030_four_bytes_witness:
  "decode_other GB18030 [] [0x81, 0x30, 0x84, 0x36] = Decoded 0xa5 4"
proof -
  have n: "gb_code (gb_number 0xa5) = [0x81, 0x30, 0x84, 0x36]"
    unfolding yen_number by (simp add: gb_code_def)
  show ?thesis using gb18030_four_bytes [of "0xa5" "[]" "[]"] yen_absent unfolding n by simp
qed

text \<open>
  C17: The two-byte codes of EUC-KR outside the KS X 1001 square, up to the lead byte C6, decode to
  Hangul syllables that KS X 1001 lacks: the search ends and stays within U+AC00 to U+D7A3.
\<close>

theorem euckr_hangul:
  assumes "euckr_extended b1 b2" "euckr_col b2 = Some j" "unat b1 \<le> 0xc6"
  shows "\<exists>c. decode_other EUC_KR tab (b1 # b2 # rest) = Decoded c 2 \<and> 0xac00 \<le> unat c \<and> unat c \<le> 0xd7a3 \<and>
    unat c = 0xac00 + euckr_index b1 j + between ksc 0xac00 (unat c) \<and>
    (\<forall>x \<in> set (concat ksc). unat x \<noteq> unat c)"
proof -
  obtain c where c: "decode_other EUC_KR tab (b1 # b2 # rest) = Decoded c 2"
    "unat c = 0xac00 + euckr_index b1 j + between ksc 0xac00 (unat c)"
    "\<forall>x \<in> set (concat ksc). unat x \<noteq> unat c" "unat c < 0xf900"
    using euckr_char [OF assms(1,2)] by metis
  then have "unat c \<le> 0xac00 + 8821 + 2350"
    using ksc_hangul_count euckr_index_less(2) [OF assms] by (metis add_mono le_refl)
  then show ?thesis using c by auto
qed

theorem euckr_hangul_witness:
  "\<exists>c. decode_other EUC_KR [] [0x81, 0x41] = Decoded c 2 \<and> 0xac00 \<le> unat c \<and> unat c \<le> 0xd7a3"
  using euckr_hangul [of "0x81" "0x41" 0 "[]" "[]"] by (auto simp: euckr_extended_def euckr_col_def)

text \<open>
  Beyond U+D7FF the decoder counts on through the surrogates. The codes that GB18030 gives to the
  supplementary planes are decoded as a continuation of the others: 90 30 81 30, which the standard maps to U+10000, becomes U+3404C, and FE 39 FE 39 a
  number beyond U+10FFFF.
\<close>

theorem gb18030_supplementary:
  "decode_other GB18030 tab (0x90 # 0x30 # 0x81 # 0x30 # rest) = Decoded 0x3404c 4 \<and>
   (\<exists>c. decode_other GB18030 tab (0xfe # 0x39 # 0xfe # 0x39 # rest) = Decoded c 4 \<and> unat c > 0x10ffff)"
proof
  have all: "between gb18030 0 n = 23940" if "0xffff \<le> n" for n
  proof -
    have "unat x \<le> n" for x :: u16 using unsigned_less [of x, where ?'a = nat] that by simp
    then show ?thesis using between_all [of gb18030 0 n] length_concat_gb18030 by simp
  qed
  have g: "gb_four_bytes 0x90 0x30 0x81 0x30" "gb_four_bytes 0xfe 0x39 0xfe 0x39" by (simp_all add: gb_four_bytes_def)
  have i: "gb_index 0x90 0x30 0x81 0x30 = 189000" "gb_index 0xfe 0x39 0xfe 0x39 = 1587599" by (simp_all add: gb_index_def)
  obtain c where c: "decode_other GB18030 tab (0x90 # 0x30 # 0x81 # 0x30 # rest) = Decoded c 4"
      "unat c = 189000 + 128 + between gb18030 0 (unat c)"
    using gb_four_char [OF g(1)] unfolding i by metis
  then have "unat c = unat (0x3404c :: u32)" using all [of "unat c"] by simp
  then have "c = 0x3404c" by (simp only: word_unat_eq_iff)
  then show "decode_other GB18030 tab (0x90 # 0x30 # 0x81 # 0x30 # rest) = Decoded 0x3404c 4" using c by simp
  obtain c where "decode_other GB18030 tab (0xfe # 0x39 # 0xfe # 0x39 # rest) = Decoded c 4"
      "unat c = 1587599 + 128 + between gb18030 0 (unat c)"
    using gb_four_char [OF g(2)] unfolding i by metis
  then show "\<exists>c. decode_other GB18030 tab (0xfe # 0x39 # 0xfe # 0x39 # rest) = Decoded c 4 \<and> unat c > 0x10ffff"
    by (intro exI [of _ c]) linarith
qed

end
