(* ===== verification/Iconv_Safety.thy ===== *)
theory Iconv_Safety
  imports Iconv_Sound Iconv_Transcode Iconv_Skip
begin

text \<open>
  Memory safety of \<open>iconv\<close>: from the encodings whose first \<open>switch\<close> is sound, every call returns,
  reads no table out of bounds and stores only inside the caller's buffer.
\<close>

section \<open>The output buffer\<close>

text \<open>
  \<open>b\<close> comes from \<open>b0\<close> by stores inside its room: the pointer has moved up, the end of the buffer is
  where it was.
\<close>

definition kept :: "outbuf \<Rightarrow> outbuf \<Rightarrow> bool" where
  "kept b0 b \<longleftrightarrow> outp b0 \<le> outp b \<and> outp b + int (outb b) = outp b0 + int (outb b0) \<and>
     set (wrote b) \<subseteq> set (wrote b0) \<union> {outp b0 ..< outp b0 + int (outb b0)}"

lemma kept_refl: "kept b b"
  by (simp add: kept_def)

lemma kept_trans:
  assumes "kept a b" "kept b c" shows "kept a c"
proof -
  have "{outp b ..< outp b + int (outb b)} \<subseteq> {outp a ..< outp a + int (outb a)}"
    using assms(1) by (simp add: kept_def)
  then show ?thesis using assms by (auto simp: kept_def)
qed

lemma kept_put: "length bs \<le> outb b \<Longrightarrow> kept b (put bs b)"
proof (induction bs arbitrary: b)
  case (Cons x xs)
  let ?b = "b\<lparr>mem := (mem b)(outp b := x), outp := outp b + 1, outb := outb b - 1, wrote := outp b # wrote b\<rparr>"
  have "kept b ?b" using Cons.prems by (auto simp: kept_def)
  moreover have "kept ?b (put xs ?b)" using Cons by simp
  ultimately show ?case using kept_trans by simp
qed (simp add: kept_refl)

section \<open>The second switch\<close>

fun storable :: "nat \<Rightarrow> encoded \<Rightarrow> bool" where
  "storable room (Emit x bs) \<longleftrightarrow> length bs \<le> room"
| "storable room Toobig \<longleftrightarrow> True"
| "storable room Step_back \<longleftrightarrow> False"
| "storable room Outside \<longleftrightarrow> False"

lemma emit_storable: "storable room (emit x bs room)"
  by (simp add: emit_def)

lemma legacy_find_inside:
  "\<forall>i < n. legacy_char tab i \<noteq> None \<Longrightarrow> legacy_find tab n d c \<noteq> Out_of_table"
proof (induction tab n d c rule: legacy_find.induct)
  case (1 tab n d c)
  show ?case
  proof (cases "c < n")
    case True
    then obtain x where "legacy_char tab c = Some x" using 1(2) by blast
    then show ?thesis using 1 True by (subst legacy_find.simps) auto
  qed (simp add: legacy_find.simps)
qed

lemma encode_storable:
  assumes "libc_sane mbrtowc wctomb" "m \<in> set charmap_list" "m \<notin> {cm_cp437, cm_cp850}" "scalar (unat c)"
  shows "storable room (encode wctomb type (kind m) (table m @ rest) room c)"
proof -
  have utf8: "storable room (encode_utf8 wctomb room c)"
    using libc_sane.wctomb_sane [OF assms(1,4)] by (auto simp: encode_utf8_def emit_storable split: option.splits)
  have "storable room (encode_legacy (kind m) (table m @ rest) room c)"
  proof -
    have "\<forall>i < 128 - unat (kind m). legacy_char (table m @ rest) i \<noteq> None"
    proof (intro allI impI)
      fix i assume that: "i < 128 - unat (kind m)"
      have "kind m \<le> 0x80" using that by (simp add: word_le_nat_alt)
      then show "legacy_char (table m @ rest) i \<noteq> None"
        using legacy_char_inside [OF charmap_list_packed, of m i rest] charmap_list_wf assms(2,3) that
        by (auto simp: list_all_iff)
    qed
    then have "legacy_find (table m @ rest) (128 - unat (kind m)) c 0 \<noteq> Out_of_table"
      by (rule legacy_find_inside)
    then show ?thesis by (auto simp: encode_legacy_def subst_def emit_storable split: found.splits)
  qed
  then show ?thesis using utf8
    by (simp add: encode_def encode_ascii_def encode_utf16_def subst_def Let_def emit_storable)
qed

section \<open>The loop\<close>

text \<open>Only Big5 has codes for two characters.\<close>

lemma pair_free:
  "nonzero_at t c d \<noteq> Hkscs_pair i" "skipped_char t d c l \<noteq> Hkscs_pair i"
  "decode_wchar bs \<noteq> Hkscs_pair i" "decode_utf32 type bs \<noteq> Hkscs_pair i" "decode_utf16 type bs \<noteq> Hkscs_pair i"
  "decode_legacy type tab b \<noteq> Hkscs_pair i"
  by (simp_all add: nonzero_at_def skipped_char_def decode_wchar_def decode_utf32_def decode_utf16_def decode_legacy_def
      check_scalar_def Let_def split: option.split)

lemma pair_free_tables:
  "decode_sjis c bs \<noteq> Hkscs_pair i" "decode_eucjp c bs \<noteq> Hkscs_pair i" "decode_gb type c bs \<noteq> Hkscs_pair i"
  "decode_euckr c bs \<noteq> Hkscs_pair i"
  by (simp_all add: decode_sjis_def decode_eucjp_def decode_gb_def decode_gb_four_def decode_euckr_def pair_free
      Let_def split: option.split)

lemma pair_only_big5:
  assumes "decode mbrtowc type tab bs st = (Hkscs_pair i, st')" shows "type = BIG5"
proof (rule ccontr)
  assume "type \<noteq> BIG5"
  then have "decode_other type tab bs \<noteq> Hkscs_pair i"
    by (simp add: decode_other_def Let_def pair_free pair_free_tables)
  then show False using assms by (auto simp: decode_def decode_utf8_def split: if_splits prod.splits)
qed

text \<open>
  What the loop relies on: for input bytes that satisfy \<open>ok\<close>, a sound first \<open>switch\<close>; for characters, a
  second \<open>switch\<close> that stores within the room; and a nested call that keeps to the buffer.
\<close>

locale safe_conversion =
  fixes mbrtowc :: mbrtowc_fun and wctomb :: wctomb_fun
    and nested :: "byte list \<Rightarrow> outbuf \<Rightarrow> iconv_result option"
    and type :: byte and tab :: "byte list" and totype :: byte and tomap :: "byte list" and ok :: "byte \<Rightarrow> bool"
  assumes decodes: "bs \<noteq> [] \<Longrightarrow> \<forall>b \<in> set bs. ok b \<Longrightarrow> decode mbrtowc type tab bs (Some 0) = (r, st) \<Longrightarrow>
      sound (length bs) r \<and> (st = Some 0 \<or> r = Ilseq \<or> r = Starved)"
    and encodes: "scalar (unat c) \<Longrightarrow> storable room (encode wctomb type totype tomap room c)"
    and nests: "bs \<noteq> [] \<Longrightarrow> \<forall>b \<in> set bs. ok b \<Longrightarrow> decode mbrtowc type tab bs (Some 0) = (Hkscs_pair i, st) \<Longrightarrow>
      \<exists>r. nested (take 4 (drop i pair_bytes)) b = Some r \<and> kept b (outs r)"
begin

lemma convert_safe:
  assumes "scalar (unat c)"
  shows "case convert wctomb type totype tomap x b c l of
      Continue l' x' er b' \<Rightarrow> l' = l \<and> er = None \<and> kept b b' | Stop e \<Rightarrow> True | Fault \<Rightarrow> False"
  using encodes [OF assms, of "outb b"] kept_put by (auto simp: convert_def split: encoded.splits)

lemma iterate_safe:
  assumes "bs \<noteq> []" "\<forall>b \<in> set bs. ok b"
    and "iterate mbrtowc wctomb nested type tab totype tomap bs (Some 0) x b = (it, st)"
  shows "case it of Continue l x' er b' \<Rightarrow>
      0 < l \<and> l \<le> length bs \<and> kept b b' \<and> st = Some 0 \<and> (type \<noteq> BIG5 \<longrightarrow> er = None)
     | Stop e \<Rightarrow> True | Fault \<Rightarrow> False"
proof -
  obtain r st' where d: "decode mbrtowc type tab bs (Some 0) = (r, st')" by (cases "decode mbrtowc type tab bs (Some 0)")
  note s = decodes [OF assms(1,2) d]
  show ?thesis
  proof (cases r)
    case (Decoded c l)
    then show ?thesis using s d assms(3) convert_safe [where c = c and x = x and b = b and l = l]
      by (auto simp: iterate_def split: iteration.splits)
  next
    case (Hkscs_pair i)
    then show ?thesis using s d assms(3) nests [OF assms(1,2), of i st' b] pair_only_big5 [of mbrtowc type tab bs]
      by (auto simp: iterate_def split: iteration.splits if_splits)
  qed (use s d assms(3) in \<open>auto simp: iterate_def\<close>)
qed

lemma loop_safe:
  "\<forall>b \<in> set bs. ok b \<Longrightarrow>
    \<exists>r. iconv_loop mbrtowc wctomb nested type tab totype tomap bs (Some 0) x b = Some r \<and>
      kept b (outs r) \<and> (\<exists>used. bs = used @ left r) \<and> (left r \<noteq> [] \<longrightarrow> ret r = -1 \<and> err r \<noteq> None) \<and>
      (type \<noteq> BIG5 \<longrightarrow> left r = [] \<longrightarrow> err r = None)"
proof (induction "length bs" arbitrary: bs x b rule: less_induct)
  case less
  show ?case
  proof (cases "bs = []")
    case True
    then show ?thesis by (simp add: iconv_loop.simps kept_refl)
  next
    case False
    obtain it st where it: "iterate mbrtowc wctomb nested type tab totype tomap bs (Some 0) x b = (it, st)" by fastforce
    note safe = iterate_safe [OF False less.prems it]
    show ?thesis
    proof (cases it)
      case (Continue l x' er b')
      have ok': "\<forall>b \<in> set (drop l bs). ok b" using less.prems by (meson in_set_dropD)
      have l: "0 < l" "l \<le> length bs" "kept b b'" "st = Some 0" "type \<noteq> BIG5 \<Longrightarrow> er = None" using safe Continue by auto
      have step: "iconv_loop mbrtowc wctomb nested type tab totype tomap bs (Some 0) x b =
          map_option (keep_errno er) (iconv_loop mbrtowc wctomb nested type tab totype tomap (drop l bs) (Some 0) x' b')"
        using False it Continue l by (subst iconv_loop.simps) simp
      have "length (drop l bs) < length bs" using l False by simp
      from less.hyps [OF this ok', of x' b']
      obtain r u where r: "iconv_loop mbrtowc wctomb nested type tab totype tomap (drop l bs) (Some 0) x' b' = Some r"
          "kept b' (outs r)" "drop l bs = u @ left r" "left r \<noteq> [] \<longrightarrow> ret r = -1 \<and> err r \<noteq> None"
          "type \<noteq> BIG5 \<longrightarrow> left r = [] \<longrightarrow> err r = None"
        by (elim exE conjE)
      moreover have "\<exists>used. bs = used @ left r"
      proof
        show "bs = (take l bs @ u) @ left r" using append_take_drop_id [of l bs] r(3) by simp
      qed
      moreover have "kept b (outs r)" using kept_trans [OF l(3) r(2)] .
      ultimately show ?thesis unfolding step using r(1,4) l(5) by (intro exI [of _ "keep_errno er r"] conjI) auto
    next
      case (Stop e)
      then show ?thesis using False it by (subst iconv_loop.simps) (simp add: kept_refl)
    qed (use safe in simp)
  qed
qed

end

section \<open>iconv\<close>

text \<open>The nested call of Big5-HKSCS: it converts bytes from 80 to F4 as Latin-1, from the offset 0.\<close>

lemma at_charmaps: "at charmaps = 0x75"
  by code_simp

lemma nested_kept:
  assumes "libc_sane mbrtowc wctomb" "m \<in> set charmap_list" "m \<notin> {cm_cp437, cm_cp850}"
    and "drop (unat (cd AND 0xffff)) charmaps = kind m # table m @ rest"
  shows "\<exists>r. iconv_nested (Suc n) mbrtowc wctomb (cd AND 0xffff) (Some (take 4 (drop i pair_bytes))) b = Some r \<and> kept b (outs r)"
proof -
  let ?nested = "\<lambda>bs b. iconv_nested n mbrtowc wctomb (cd AND 0xffff) (Some bs) b"
  have dec: "decode mbrtowc 0x75 tab bs st = (Decoded (ucast (hd bs)) 1, st)"
    if "bs \<noteq> []" "\<forall>b \<in> set bs. 0x80 \<le> unat b \<and> unat b < 0xf5" for tab bs and st :: "u32 option"
  proof -
    have "0x80 \<le> unat (hd bs)" "unat (hd bs) < 0xf5" using that by simp_all
    then show ?thesis
      by (simp add: decode_def decode_other_def decode_legacy_def Let_def type_defs word_le_nat_alt)
  qed
  have "safe_conversion mbrtowc wctomb ?nested 0x75 (drop 1 charmaps) (kind m) (table m @ rest) (\<lambda>b. 0x80 \<le> unat b \<and> unat b < 0xf5)"
  proof
    show "sound (length bs) r \<and> (st = Some 0 \<or> r = Ilseq \<or> r = Starved)"
      if "bs \<noteq> []" "\<forall>b \<in> set bs. 0x80 \<le> unat b \<and> unat b < 0xf5"
        "decode mbrtowc 0x75 (drop 1 charmaps) bs (Some 0) = (r, st)" for bs r st
    proof -
      have "unat (hd bs) < 0xf5" "0 < length bs" using that by simp_all
      then show ?thesis using that(3) dec [OF that(1,2)] by (auto simp: scalar_below_def surrogate_def Suc_le_eq)
    qed
    show "storable room (encode wctomb 0x75 (kind m) (table m @ rest) room c)" if "scalar (unat c)" for c room
      using encode_storable [OF assms(1-3) that] .
    show "\<exists>r. ?nested (take 4 (drop i pair_bytes)) b = Some r \<and> kept b (outs r)"
      if "bs \<noteq> []" "\<forall>b \<in> set bs. 0x80 \<le> unat b \<and> unat b < 0xf5"
        "decode mbrtowc 0x75 (drop 1 charmaps) bs (Some 0) = (Hkscs_pair i, st)" for bs i st b
      using that(3) dec [OF that(1,2)] by simp
  qed
  note safe = safe_conversion.loop_safe [OF this]
  have "\<forall>b \<in> set pair_bytes. 0x80 \<le> unat b \<and> unat b < 0xf5" by (simp add: pair_bytes_def)
  then have ok: "\<forall>b \<in> set (take 4 (drop i pair_bytes)). 0x80 \<le> unat b \<and> unat b < 0xf5"
    by (meson in_set_dropD in_set_takeD)
  have from0: "unat (ucast (drop_bit 16 (cd AND 0xffff)) :: u32) = 0"
  proof -
    have "cd AND 0xffff = take_bit 16 cd" by (simp add: take_bit_eq_mask mask_eq_exp_minus_1)
    then have "drop_bit 16 (cd AND 0xffff) = 0" by (simp only: drop_bit_take_bit) simp
    then show ?thesis by simp
  qed
  have to: "(cd AND 0xffff) AND 0xffff = cd AND 0xffff" by (simp add: and.assoc)
  have tl: "drop (unat (cd AND 0xffff) + 1) charmaps = table m @ rest"
    using assms(4) by (metis Suc_eq_plus1 drop_Suc list.sel(3) tl_drop)
  have "iconv_nested (Suc n) mbrtowc wctomb (cd AND 0xffff) (Some bs) b =
      iconv_loop mbrtowc wctomb ?nested 0x75 (drop 1 charmaps) (kind m) (table m @ rest) bs (Some 0) 0 b" for bs
    unfolding iconv_nested.simps Let_def option.case to from0 tl assms(4) by (simp add: at_charmaps)
  then show ?thesis using safe [OF ok, of 0 b] by auto
qed

text \<open>The call of \<open>iconv\<close> for encodings with a sound first \<open>switch\<close>.\<close>

lemma iconv_conversion:
  assumes "libc_sane mbrtowc wctomb" "mf \<in> set charmap_list" "mf \<notin> {cm_cp437, cm_cp850}"
    and "kind mf \<notin> {SHIFT_JIS, GB18030, EUC_KR}" "mt \<in> set charmap_list" "mt \<notin> {cm_cp437, cm_cp850}"
    and "drop (unat (cd AND 0xffff)) charmaps = kind mt # table mt @ rt"
  shows "safe_conversion mbrtowc wctomb (\<lambda>bs b. iconv_nested (Suc 0) mbrtowc wctomb (cd AND 0xffff) (Some bs) b)
    (kind mf) (table mf @ rf) (kind mt) (table mt @ rt) (\<lambda>_. True)"
proof
  show "sound (length bs) r \<and> (st = Some 0 \<or> r = Ilseq \<or> r = Starved)"
    if "bs \<noteq> []" "decode mbrtowc (kind mf) (table mf @ rf) bs (Some 0) = (r, st)" for bs r st
    using libc_sane.decode_sound [OF assms(1-4) that] .
  show "storable room (encode wctomb (kind mf) (kind mt) (table mt @ rt) room c)" if "scalar (unat c)" for c room
    using encode_storable [OF assms(1,5,6) that] .
  show "\<exists>r. iconv_nested (Suc 0) mbrtowc wctomb (cd AND 0xffff) (Some (take 4 (drop i pair_bytes))) b = Some r \<and> kept b (outs r)" for i b
    using nested_kept [OF assms(1,5-7)] .
qed

text \<open>From Big5 to UTF-8, whose type code is at offset 6.\<close>

lemma utf8_offset: "drop (unat (6 AND 0xffff :: u64)) charmaps = kind cm_utf8 # table cm_utf8 @ drop 7 charmaps"
  by (simp add: charmaps_def charmap_list_def charmap_bytes_def cm_utf8_def name_bytes_def bytes_def)

interpretation big5_to_utf8:
  safe_conversion ref_mbrtowc ref_wctomb
    "\<lambda>bs b. iconv_nested (Suc 0) ref_mbrtowc ref_wctomb (6 AND 0xffff) (Some bs) b"
    "kind cm_big5" "table cm_big5 @ []" "kind cm_utf8" "table cm_utf8 @ drop 7 charmaps" "\<lambda>_. True"
proof (rule iconv_conversion [OF ref_sane.libc_sane_axioms _ _ _ _ _ utf8_offset])
  show "cm_big5 \<in> set charmap_list" "cm_utf8 \<in> set charmap_list" by (simp_all add: charmap_list_def)
  show "cm_big5 \<notin> {cm_cp437, cm_cp850}" "cm_utf8 \<notin> {cm_cp437, cm_cp850}"
    by (simp_all add: cm_big5_def cm_utf8_def cm_cp437_def cm_cp850_def)
  show "kind cm_big5 \<notin> {SHIFT_JIS, GB18030, EUC_KR}" by (simp add: cm_big5_def type_defs)
qed

lemma find_in_list: "List.find P xs = Some x \<Longrightarrow> x \<in> set xs \<and> P x"
  by (induction xs) (auto split: if_splits)

section \<open>Properties\<close>

text \<open>
  C2: \<open>iconv\<close> is memory safe from every encoding but Shift_JIS, GB18030, EUC-KR, CP437 and CP850, to
  every encoding but the last two. Whatever the input bytes and the room, the call returns and no
  table is read out of bounds; it stores only between \<open>*out\<close> and \<open>*out + *outb\<close>, moves \<open>*out\<close> up and
  \<open>*outb\<close> down by the same amount and leaves a suffix of the input. When it leaves any input it
  returns -1 and sets \<open>errno\<close>; it sets \<open>errno\<close> only then, except from Big5, where a pair of characters
  whose nested conversion lacks room is consumed and leaves \<open>errno\<close> set.
\<close>

theorem iconv_safe:
  assumes "libc_sane mbrtowc wctomb" "0 \<notin> set to" "0 \<notin> set from"
    and "List.find (has_alias from) charmap_list = Some mf" "List.find (has_alias to) charmap_list = Some mt"
    and "kind mf \<notin> {SHIFT_JIS, GB18030, EUC_KR}" "mf \<notin> {cm_cp437, cm_cp850}"
    and "kind mt < EUC_JP" "mt \<notin> {cm_cp437, cm_cp850}"
  shows "\<exists>cd r. iconv_open to from = Inr cd \<and> iconv mbrtowc wctomb cd (Some bs) b = Some r \<and>
    outp b \<le> outp (outs r) \<and> outp (outs r) + int (outb (outs r)) = outp b + int (outb b) \<and>
    set (wrote (outs r)) \<subseteq> set (wrote b) \<union> {outp b ..< outp b + int (outb b)} \<and>
    (\<exists>used. bs = used @ left r) \<and> (left r \<noteq> [] \<longrightarrow> ret r = -1 \<and> err r \<noteq> None) \<and>
    (kind mf \<noteq> BIG5 \<longrightarrow> left r = [] \<longrightarrow> err r = None)"
proof -
  have m: "mf \<in> set charmap_list" "mt \<in> set charmap_list" using assms(4,5) find_in_list by metis+
  obtain cd rf rt where cd: "iconv_open to from = Inr cd"
      "drop (unat (cd AND 0xffff)) charmaps = kind mt # table mt @ rt"
    and loop: "\<And>bs b. iconv mbrtowc wctomb cd (Some bs) b =
       iconv_loop mbrtowc wctomb (\<lambda>bs b. iconv_nested (Suc 0) mbrtowc wctomb (cd AND 0xffff) (Some bs) b)
         (kind mf) (table mf @ rf) (kind mt) (table mt @ rt) bs (Some 0) 0 b"
    by (rule iconv_of_names [OF assms(2-5,8), of mbrtowc wctomb]) (rule that)
  have all: "\<forall>b \<in> set bs. True" by simp
  note conversion = iconv_conversion [OF assms(1) m(1) assms(7,6) m(2) assms(9) cd(2), of rf]
  obtain r u where "iconv mbrtowc wctomb cd (Some bs) b = Some r" "kept b (outs r)"
      "bs = u @ left r" "left r \<noteq> [] \<longrightarrow> ret r = -1 \<and> err r \<noteq> None" "kind mf \<noteq> BIG5 \<longrightarrow> left r = [] \<longrightarrow> err r = None"
    using safe_conversion.loop_safe [OF conversion all, of 0 b] unfolding loop by (elim exE conjE)
  then show ?thesis using cd(1) unfolding kept_def by (intro exI [of _ cd] exI [of _ r]) simp
qed

theorem iconv_safe_witness:
  "\<exists>cd r. iconv_open (name_bytes ''UTF-8'') (name_bytes ''BIG5'') = Inr cd \<and>
    iconv ref_mbrtowc ref_wctomb cd (Some [0xa4, 0x40, 0x88, 0x62]) (empty_buffer 6) = Some r \<and>
    set (wrote (outs r)) \<subseteq> {0 ..< 6}"
proof -
  have 0: "0 \<notin> set (name_bytes ''UTF-8'')" "0 \<notin> set (name_bytes ''BIG5'')" by code_simp+
  have f: "List.find (has_alias (name_bytes ''BIG5'')) charmap_list = Some cm_big5"
    by (rule find_alias [where a = "''big5''"]) ((simp add: charmap_list_def cm_big5_def)+, code_simp)
  show ?thesis
    using iconv_safe [OF ref_sane.libc_sane_axioms 0 f find_utf8, of "[0xa4, 0x40, 0x88, 0x62]" "empty_buffer 6"]
    by (auto simp: cm_big5_def cm_utf8_def cm_cp437_def cm_cp850_def type_defs empty_buffer_def)
qed

text \<open>
  C20: Converting EUC-KR to UTF-8 can store before the caller's buffer, whatever its address and its
  room from four bytes on, with any \<open>wctomb\<close> that refuses surrogates and encodes ASCII as itself. The
  codes DD 41 to DD 52 are decoded to surrogates; the result -1 of \<open>wctomb\<close> is added to \<open>*out\<close>, and
  the ASCII character that follows is stored one byte below the buffer. The call reports success.
\<close>

theorem iconv_underrun:
  assumes refuses: "\<And>c. 0xd800 \<le> unat c \<Longrightarrow> unat c \<le> 0xdfff \<Longrightarrow> wctomb c = None"
    and ascii: "\<And>c :: byte. c < 128 \<Longrightarrow> wctomb (ucast c) = Some [c]"
    and "0x41 \<le> unat b2" "unat b2 \<le> 0x52" "a < 128" "4 \<le> outb b"
  shows "\<exists>cd r. iconv_open (name_bytes ''UTF-8'') (name_bytes ''EUC-KR'') = Inr cd \<and>
    iconv mbrtowc wctomb cd (Some [0xdd, b2, a]) b = Some r \<and> ret r = 0 \<and> err r = None \<and> left r = [] \<and>
    outp b - 1 \<in> set (wrote (outs r)) \<and> mem (outs r) (outp b - 1) = a"
proof -
  have 0: "0 \<notin> set (name_bytes ''UTF-8'')" "0 \<notin> set (name_bytes ''EUC-KR'')" by code_simp+
  have f: "List.find (has_alias (name_bytes ''EUC-KR'')) charmap_list = Some cm_euckr"
    by (rule find_alias [where a = "''euckr''"]) ((simp add: charmap_list_def cm_euckr_def)+, code_simp)
  have k: "kind cm_euckr = EUC_KR" "kind cm_utf8 = UTF_8" by (simp_all add: cm_euckr_def cm_utf8_def)
  have "kind cm_utf8 < EUC_JP" by (simp add: k type_defs)
  then obtain cd rf rt nested where cd: "iconv_open (name_bytes ''UTF-8'') (name_bytes ''EUC-KR'') = Inr cd"
      and loop: "\<And>bs b. iconv mbrtowc wctomb cd (Some bs) b =
       iconv_loop mbrtowc wctomb nested EUC_KR (table cm_euckr @ rf) UTF_8 (table cm_utf8 @ rt) bs (Some 0) 0 b"
    using iconv_of_names [OF 0 f find_utf8] unfolding k by metis
  let ?b = "b\<lparr>outp := outp b - 1, outb := outb b + 1\<rparr>"
  have "EUC_KR \<noteq> UTF_8" by (simp add: type_defs)
  moreover obtain c where "decode_other EUC_KR (table cm_euckr @ rf) [0xdd, b2, a] = Decoded c 2"
      and c: "unat c = 0xdf1e + (unat b2 - 0x41)"
    using surrogate_decoded [OF assms(3,4), of _ "[a]"] by blast
  ultimately have d1: "decode mbrtowc EUC_KR (table cm_euckr @ rf) [0xdd, b2, a] (Some 0) = (Decoded c 2, Some 0)"
    by (simp add: decode_def)
  have "\<not> 128 \<le> a" using assms(5) by simp
  then have d2: "decode mbrtowc EUC_KR (table cm_euckr @ rf) [a] (Some 0) = (Decoded (ucast a) 1, Some 0)"
    by (simp add: decode_def type_defs)
  have "wctomb c = None" using assms(3,4) by (intro refuses) (simp_all add: c)
  then have e1: "encode wctomb EUC_KR UTF_8 (table cm_utf8 @ rt) (outb b) c = Step_back"
    using assms(6) by (simp add: encode_def encode_utf8_def type_defs)
  have e2: "encode wctomb EUC_KR UTF_8 (table cm_utf8 @ rt) (Suc (outb b)) (ucast a) = Emit 0 [a]"
    using assms(6) ascii [OF assms(5)] by (simp add: encode_def encode_utf8_def type_defs)
  have "iconv mbrtowc wctomb cd (Some [0xdd, b2, a]) b =
      Some \<lparr>ret = 0, err = None, left = [], outs = put [a] ?b\<rparr>"
    unfolding loop
    by (subst iconv_loop.simps, simp add: iterate_def convert_def d1 e1,
        subst iconv_loop.simps, simp add: iterate_def convert_def d2 e2, simp add: iconv_loop.simps)
  then show ?thesis using cd by auto
qed

theorem iconv_underrun_witness:
  "\<exists>cd r. iconv_open (name_bytes ''UTF-8'') (name_bytes ''EUC-KR'') = Inr cd \<and>
    iconv ref_mbrtowc ref_wctomb cd (Some [0xdd, 0x41, 0x2f]) (empty_buffer 8) = Some r \<and>
    -1 \<in> set (wrote (outs r)) \<and> mem (outs r) (-1) = 0x2f"
proof -
  have "ref_wctomb c = None" if "0xd800 \<le> unat c" "unat c \<le> 0xdfff" for c
    using that by (simp add: ref_wctomb_def scalar_below_def surrogate_def)
  moreover have "ref_wctomb (ucast c) = Some [c]" if "c < 128" for c :: byte
  proof -
    have "unat c < 128" using that by (simp add: word_less_nat_alt)
    then show ?thesis by (simp add: ref_wctomb_def scalar_below_def surrogate_def utf8_enc_def byte_of_def)
  qed
  ultimately show ?thesis
    using iconv_underrun [of ref_wctomb "0x41" "0x2f" "empty_buffer 8" ref_mbrtowc] by (auto simp: empty_buffer_def)
qed

end
