(* ===== verification/Iconv_Stream.thy ===== *)
theory Iconv_Stream
  imports Iconv_Safety
begin

text \<open>
  Conversion in pieces: a text may be handed to \<open>iconv\<close> in any number of parts, cut anywhere, as long
  as the bytes left over by one call are put in front of the next part.
\<close>

section \<open>The first switch looks at one character\<close>

text \<open>
  Unless it is starved, the decoder of an encoding gives the same outcome when more input follows.
\<close>

lemma nth_more: "\<not> length bs < n \<Longrightarrow> i < n \<Longrightarrow> (bs @ t) ! i = bs ! i"
  by (simp add: nth_append)

lemma and_3_less: "unat ((e AND 3) XOR k) < 4" if "k \<in> {0, 1, 2, 3}" for e k :: byte
proof -
  have k: "k AND 3 = k" using that by auto
  have "(e AND 3) XOR k = (e XOR k) AND 3" by (subst k [symmetric], rule bit_word_eqI) (auto simp: bit_simps)
  also have "\<dots> = take_bit 2 (e XOR k)" by (simp add: take_bit_eq_mask mask_eq_exp_minus_1)
  finally show ?thesis by (simp only: unat_take_bit) simp
qed

lemma and_1_less: "unat (e AND 1) < 2" for e :: byte
proof -
  have "e AND 1 = take_bit 1 e" by (simp add: take_bit_eq_mask mask_eq_exp_minus_1)
  then show ?thesis by (simp only: unat_take_bit) simp
qed

lemma get_16_more: "\<not> length bs < 2 \<Longrightarrow> get_16 (bs @ t) e = get_16 bs e"
  using and_1_less [of e] by (simp add: get_16_def Let_def nth_more)

lemma get_32_more: "\<not> length bs < 4 \<Longrightarrow> get_32 (bs @ t) e = get_32 bs e"
  using and_3_less [of 0 e] and_3_less [of 1 e] and_3_less [of 2 e] and_3_less [of 3 e]
  by (simp add: get_32_def Let_def nth_more)

lemma get_wchar_more: "\<not> length bs < 4 \<Longrightarrow> get_wchar (bs @ t) = get_wchar bs"
  by (simp add: get_wchar_def nth_more)

lemma fixed_more:
  "decode_wchar bs \<noteq> Starved \<Longrightarrow> decode_wchar (bs @ t) = decode_wchar bs"
  "decode_utf32 type bs \<noteq> Starved \<Longrightarrow> decode_utf32 type (bs @ t) = decode_utf32 type bs"
  by (auto simp: decode_wchar_def decode_utf32_def get_wchar_more get_32_more split: if_splits)

lemma utf16_more: "decode_utf16 type bs \<noteq> Starved \<Longrightarrow> decode_utf16 type (bs @ t) = decode_utf16 type bs"
proof -
  assume s: "decode_utf16 type bs \<noteq> Starved"
  then have two: "\<not> length bs < 2" by (auto simp: decode_utf16_def)
  then have "get_16 (drop 2 (bs @ t)) type = get_16 (drop 2 bs) type" if "\<not> length bs < 4"
    using that get_16_more [of "drop 2 bs"] by simp
  then show ?thesis using s two
    by (auto simp: decode_utf16_def Let_def get_16_more split: if_splits)
qed

lemma sjis_more: "decode_sjis c bs \<noteq> Starved \<Longrightarrow> decode_sjis c (bs @ t) = decode_sjis c bs"
  by (cases "c - 0xa1 \<le> 0xdf - 0xa1"; cases "length bs < 2") (simp_all add: decode_sjis_def nth_append)

lemma eucjp_more: "decode_eucjp c bs \<noteq> Starved \<Longrightarrow> decode_eucjp c (bs @ t) = decode_eucjp c bs"
  by (cases "length bs < 2") (simp_all add: decode_eucjp_def nth_append)

lemma gb_four_more: "decode_gb_four c d bs \<noteq> Starved \<Longrightarrow> decode_gb_four c d (bs @ t) = decode_gb_four c d bs"
  by (cases "length bs < 4") (simp_all only: decode_gb_four_def Let_def nth_more length_append, auto)

lemma gb_more: "decode_gb type c bs \<noteq> Starved \<Longrightarrow> decode_gb type c (bs @ t) = decode_gb type c bs"
  using gb_four_more
  by (cases "length bs < 2") (auto simp: decode_gb_def nth_append Let_def split: if_splits)

lemma big5_more: "decode_big5 c bs \<noteq> Starved \<Longrightarrow> decode_big5 c (bs @ t) = decode_big5 c bs"
  by (cases "length bs < 2") (simp_all add: decode_big5_def nth_append)

lemma euckr_more: "decode_euckr c bs \<noteq> Starved \<Longrightarrow> decode_euckr c (bs @ t) = decode_euckr c bs"
  by (cases "length bs < 2") (simp_all add: decode_euckr_def nth_append)

lemmas decode_more = fixed_more utf16_more sjis_more eucjp_more gb_more big5_more euckr_more

lemma if_more:
  "(if P then a else c) \<noteq> Starved \<Longrightarrow> (a \<noteq> Starved \<Longrightarrow> a' = a) \<Longrightarrow> (c \<noteq> Starved \<Longrightarrow> c' = c) \<Longrightarrow>
    (if P then a' else c') = (if P then a else c)"
  by (simp split: if_splits)

lemma decode_other_more:
  assumes "bs \<noteq> []" "decode_other type tab bs \<noteq> Starved"
  shows "decode_other type tab (bs @ t) = decode_other type tab bs"
  using assms(2) unfolding decode_other_def Let_def hd_append2 [OF assms(1)]
  by (elim if_more decode_more) (rule refl)+

text \<open>
  What this needs of the C library: \<open>mbrtowc\<close> decides by the bytes of the character alone, and is back
  in the initial state behind it.
\<close>

locale libc_prefix =
  fixes mbrtowc :: mbrtowc_fun
  assumes mbrtowc_more: "mbrtowc bs (Some 0) = (l, wc, st) \<Longrightarrow> l \<noteq> -1 \<Longrightarrow> l \<noteq> -2 \<Longrightarrow>
      st = Some 0 \<and> mbrtowc (bs @ t) (Some 0) = (l, wc, Some 0)"
begin

lemma decode_stable:
  assumes "bs \<noteq> []" "decode mbrtowc type tab bs (Some 0) = (r, st)" "r \<noteq> Starved" "r \<noteq> Ilseq"
  shows "st = Some 0 \<and> decode mbrtowc type tab (bs @ t) (Some 0) = (r, Some 0)"
proof (cases "(hd bs \<ge> 128 \<or> type - UTF_32BE < 7) \<and> type = UTF_8")
  case True
  obtain l wc st' where m: "mbrtowc bs (Some 0) = (l, wc, st')" by (cases "mbrtowc bs (Some 0)") auto
  have "l \<noteq> -1" "l \<noteq> -2" using assms True m by (auto simp: decode_def decode_utf8_def split: if_splits)
  from mbrtowc_more [OF m this] show ?thesis
    using assms True m by (auto simp: decode_def decode_utf8_def split: if_splits)
next
  case False
  then show ?thesis using assms decode_other_more [of bs type tab t]
    by (auto simp: decode_def split: if_splits)
qed

end

section \<open>The loop\<close>

text \<open>The number of substitutions so far only offsets the result.\<close>

definition count_from :: "u64 \<Rightarrow> iconv_result \<Rightarrow> iconv_result" where
  "count_from x r = (if left r = [] then r\<lparr>ret := x + ret r\<rparr> else r)"

lemma count_from_count_from: "count_from x (count_from y r) = count_from (x + y) r"
  by (simp add: count_from_def)

lemma count_from_keep_errno: "count_from x (keep_errno er r) = keep_errno er (count_from x r)"
  by (simp add: count_from_def keep_errno_def)

lemma keep_errno_keep_errno: "keep_errno er (keep_errno er' r) = keep_errno (if er' = None then er else er') r"
  by (simp add: keep_errno_def)

fun count_iteration :: "u64 \<Rightarrow> iteration \<Rightarrow> iteration" where
  "count_iteration x (Continue l y er b) = Continue l (x + y) er b"
| "count_iteration x (Stop e) = Stop e"
| "count_iteration x Fault = Fault"

lemma iterate_count:
  "iterate mbrtowc wctomb nested type tab totype tomap bs st x b =
     apfst (count_iteration x) (iterate mbrtowc wctomb nested type tab totype tomap bs st 0 b)"
  by (auto simp: iterate_def convert_def split: prod.splits decoded.splits encoded.splits option.splits)

lemma loop_count:
  "iconv_loop mbrtowc wctomb nested type tab totype tomap bs st x b =
     map_option (count_from x) (iconv_loop mbrtowc wctomb nested type tab totype tomap bs st 0 b)"
proof (induction "length bs" arbitrary: bs st x b rule: less_induct)
  case less
  obtain i st' where i: "iterate mbrtowc wctomb nested type tab totype tomap bs st 0 b = (i, st')" by fastforce
  show ?case
  proof (cases i)
    case (Continue l y er b')
    have "iconv_loop mbrtowc wctomb nested type tab totype tomap (drop l bs) st' (x + y) b' =
        map_option (count_from x) (iconv_loop mbrtowc wctomb nested type tab totype tomap (drop l bs) st' y b')"
      if "0 < l" "l \<le> length bs"
      using that less [of "drop l bs" st' "x + y" b'] less [of "drop l bs" st' y b']
      by (simp add: option.map_comp comp_def count_from_count_from)
    then show ?thesis
      using Continue i iterate_count [of mbrtowc wctomb nested type tab totype tomap bs st x b]
      by (simp add: iconv_loop.simps [of _ _ _ _ _ _ _ bs] option.map_comp comp_def count_from_keep_errno)
        (simp add: count_from_def)
  qed (use i iterate_count [of mbrtowc wctomb nested type tab totype tomap bs st x b] in
      \<open>simp_all add: iconv_loop.simps [of _ _ _ _ _ _ _ bs] count_from_def\<close>)
qed

text \<open>A call that leaves input has set \<open>errno\<close>, and only from Big5 does an iteration that goes on.\<close>

lemma loop_stopped:
  "iconv_loop mbrtowc wctomb nested type tab totype tomap bs st x b = Some r \<Longrightarrow> left r \<noteq> [] \<Longrightarrow> err r \<noteq> None"
proof (induction "length bs" arbitrary: bs st x b r rule: less_induct)
  case less
  show ?case
  proof (cases "bs = []")
    case False
    obtain i st' where i: "iterate mbrtowc wctomb nested type tab totype tomap bs st x b = (i, st')" by fastforce
    show ?thesis
    proof (cases i)
      case (Continue l y er b')
      then obtain r' where "0 < l" "l \<le> length bs" "r = keep_errno er r'"
          "iconv_loop mbrtowc wctomb nested type tab totype tomap (drop l bs) st' y b' = Some r'"
        using less.prems(1) False i by (auto simp: iconv_loop.simps [of _ _ _ _ _ _ _ bs] split: if_splits)
      moreover from this False have "length (drop l bs) < length bs" by simp
      ultimately show ?thesis using less.hyps [of "drop l bs" st' y b' r'] less.prems(2) by auto
    qed (use less.prems(1) False i in \<open>auto simp: iconv_loop.simps [of _ _ _ _ _ _ _ bs]\<close>)
  qed (use less.prems in \<open>auto simp: iconv_loop.simps\<close>)
qed

lemma iterate_errno:
  assumes "iterate mbrtowc wctomb nested type tab totype tomap bs st x b = (Continue l y er b', st')" "type \<noteq> BIG5"
  shows "er = None"
proof -
  have "decode mbrtowc type tab bs st \<noteq> (Hkscs_pair i, st'')" for i st'' using pair_only_big5 assms(2) by blast
  then show ?thesis using assms(1)
    by (auto simp: iterate_def convert_def split: prod.splits decoded.splits encoded.splits)
qed

context libc_prefix
begin

lemma iterate_stable:
  assumes "bs \<noteq> []" "iterate mbrtowc wctomb nested type tab totype tomap bs (Some 0) x b = (Continue l y er b', st)"
  shows "st = Some 0 \<and>
    iterate mbrtowc wctomb nested type tab totype tomap (bs @ t) (Some 0) x b = (Continue l y er b', Some 0)"
proof -
  obtain r st' where d: "decode mbrtowc type tab bs (Some 0) = (r, st')" by fastforce
  then have "r \<noteq> Starved" "r \<noteq> Ilseq" "st' = st" using assms(2) by (auto simp: iterate_def split: decoded.splits)
  then show ?thesis using decode_stable [OF assms(1) d] assms(2) d
    by (cases r) (auto simp: iterate_def)
qed

lemma loop_resumes:
  assumes "iconv_loop mbrtowc wctomb nested type tab totype tomap bs (Some 0) x b = Some r"
    and "left r = [] \<or> err r = Some EINVAL"
  shows "\<exists>y er. iconv_loop mbrtowc wctomb nested type tab totype tomap (bs @ t) (Some 0) x b =
      map_option (keep_errno er) (iconv_loop mbrtowc wctomb nested type tab totype tomap (left r @ t) (Some 0) y (outs r))
    \<and> (left r = [] \<longrightarrow> y = ret r \<and> er = err r) \<and> (type \<noteq> BIG5 \<longrightarrow> er = None)"
  using assms
proof (induction "length bs" arbitrary: bs x b r rule: less_induct)
  case less
  show ?case
  proof (cases "bs = []")
    case True
    then show ?thesis using less.prems
      by (intro exI [of _ x] exI [of _ None]) (auto simp: iconv_loop.simps [of _ _ _ _ _ _ _ "[]"])
  next
    case False
    obtain i st where i: "iterate mbrtowc wctomb nested type tab totype tomap bs (Some 0) x b = (i, st)" by fastforce
    show ?thesis
    proof (cases i)
      case (Continue l y er b')
      have s: "st = Some 0"
        "iterate mbrtowc wctomb nested type tab totype tomap (bs @ t) (Some 0) x b = (Continue l y er b', Some 0)"
        using iterate_stable [OF False i [unfolded Continue]] by auto
      obtain r' where l: "0 < l" "l \<le> length bs" and r: "r = keep_errno er r'"
        and rest: "iconv_loop mbrtowc wctomb nested type tab totype tomap (drop l bs) (Some 0) y b' = Some r'"
        using less.prems(1) False i Continue s
        by (auto simp: iconv_loop.simps [of _ _ _ _ _ _ _ bs] split: if_splits)
      have "left r' = [] \<or> err r' = Some EINVAL"
        using less.prems(2) loop_stopped [OF rest] r by (auto split: if_splits)
      moreover have "length (drop l bs) < length bs" using l False by simp
      ultimately obtain z er' where
        z: "iconv_loop mbrtowc wctomb nested type tab totype tomap (drop l bs @ t) (Some 0) y b' =
          map_option (keep_errno er') (iconv_loop mbrtowc wctomb nested type tab totype tomap (left r' @ t) (Some 0) z (outs r'))"
        "left r' = [] \<longrightarrow> z = ret r' \<and> er' = err r'" "type \<noteq> BIG5 \<longrightarrow> er' = None" using less.hyps [OF _ rest] by blast
      have "iconv_loop mbrtowc wctomb nested type tab totype tomap (bs @ t) (Some 0) x b =
          map_option (keep_errno er) (iconv_loop mbrtowc wctomb nested type tab totype tomap (drop l bs @ t) (Some 0) y b')"
        using False l s by (simp add: iconv_loop.simps [of _ _ _ _ _ _ _ "bs @ t"])
      also have "\<dots> = map_option (keep_errno (if er' = None then er else er'))
          (iconv_loop mbrtowc wctomb nested type tab totype tomap (left r @ t) (Some 0) z (outs r))"
        by (simp add: z(1) r option.map_comp comp_def keep_errno_keep_errno)
      finally show ?thesis
        using z(2,3) r iterate_errno [OF i [unfolded Continue]]
        by (intro exI [of _ z] exI [of _ "if er' = None then er else er'"]) simp
    next
      case (Stop e)
      then show ?thesis using less.prems i False
        by (intro exI [of _ x] exI [of _ None]) (auto simp: iconv_loop.simps [of _ _ _ _ _ _ _ bs])
    qed (use less.prems i False in \<open>auto simp: iconv_loop.simps [of _ _ _ _ _ _ _ bs]\<close>)
  qed
qed

lemma nested_resumes:
  assumes "iconv_nested n mbrtowc wctomb cd (Some bs) b = Some r" "left r = [] \<or> err r = Some EINVAL"
  shows "\<exists>y er. iconv_nested n mbrtowc wctomb cd (Some (bs @ t)) b =
      map_option (keep_errno er \<circ> count_from y) (iconv_nested n mbrtowc wctomb cd (Some (left r @ t)) (outs r))
    \<and> (left r = [] \<longrightarrow> y = ret r \<and> er = err r)
    \<and> (at (drop (unat (ucast (drop_bit 16 cd) :: u32)) charmaps) \<noteq> BIG5 \<longrightarrow> er = None)"
  using assms
proof (cases n)
  case (Suc k)
  from loop_resumes [OF assms(1) [unfolded Suc iconv_nested.simps Let_def option.case] assms(2), of t]
  show ?thesis unfolding Suc iconv_nested.simps Let_def option.case option.map_comp [symmetric]
    by (subst (asm) (2) loop_count)
qed simp

end

section \<open>A C library that is resumable\<close>

lemma utf8_dec_more: "utf8_dec lim bs = Some (n, l) \<Longrightarrow> 0x10000 \<le> lim \<Longrightarrow> lim \<le> 0x140000 \<Longrightarrow>
    utf8_dec lim (bs @ t) = Some (n, l)"
proof -
  assume d: "utf8_dec lim bs = Some (n, l)" "0x10000 \<le> lim" "lim \<le> 0x140000"
  from utf8_dec_inv [OF d(1,2)] have i: "scalar_below lim n" "take l bs = utf8_enc n" "l = length (utf8_enc n)" by auto
  then have "bs @ t = utf8_enc n @ drop l bs @ t" by (metis append_assoc append_take_drop_id)
  then show ?thesis using utf8_dec_enc [OF i(1) d(3), of "drop l bs @ t"] i(3) by (simp only:)
qed

interpretation ref_prefix: libc_prefix ref_mbrtowc
proof
  fix bs l wc st t
  assume "ref_mbrtowc bs (Some 0) = (l, wc, st)" "l \<noteq> -1"
  then obtain n k where n: "utf8_dec 0x110000 bs = Some (n, k)"
      "l = (if n = 0 then 0 else of_nat k)" "wc = of_nat n" "st = Some 0"
    by (auto simp: ref_mbrtowc_def split: option.splits)
  then show "st = Some 0 \<and> ref_mbrtowc (bs @ t) (Some 0) = (l, wc, Some 0)"
    using utf8_dec_more [OF n(1)] by (simp add: ref_mbrtowc_def)
qed

section \<open>Progress\<close>

lemma loop_left:
  "iconv_loop mbrtowc wctomb nested type tab totype tomap bs st x b = Some r \<Longrightarrow> length (left r) \<le> length bs"
proof (induction "length bs" arbitrary: bs st x b r rule: less_induct)
  case less
  obtain i st' where i: "iterate mbrtowc wctomb nested type tab totype tomap bs st x b = (i, st')" by fastforce
  show ?case
  proof (cases "\<exists>l y er b'. bs \<noteq> [] \<and> i = Continue l y er b'")
    case True
    then obtain l y er b' where "i = Continue l y er b'" "bs \<noteq> []" by blast
    then obtain r' where "0 < l" "l \<le> length bs" "left r = left r'"
        "iconv_loop mbrtowc wctomb nested type tab totype tomap (drop l bs) st' y b' = Some r'"
      using less.prems i by (auto simp: iconv_loop.simps [of _ _ _ _ _ _ _ bs] split: if_splits)
    moreover from this have "length (left r') \<le> length (drop l bs)" by (intro less.hyps) auto
    ultimately show ?thesis by (simp del: length_0_conv)
  qed (use less.prems i in \<open>cases i; auto simp: iconv_loop.simps [of _ _ _ _ _ _ _ bs]
      iconv_loop.simps [of _ _ _ _ _ _ _ "[]"] split: if_splits\<close>)
qed

text \<open>With room for four bytes every character fits, with room for eight every pair.\<close>

lemma lengths_put:
  "length (put_wchar c) = 4" "length (put_16 c e) = 2" "length (put_32 c e) = 4"
  unfolding put_wchar_def put_16_def put_32_def Let_def length_list_update by simp_all

lemma encode_fits: "4 \<le> room \<Longrightarrow> encode wctomb type totype tomap room c \<noteq> Toobig"
  by (simp add: encode_def encode_utf8_def encode_ascii_def encode_utf16_def encode_legacy_def subst_def emit_def
      lengths_put Let_def split: option.split found.split)

lemma pair_room_le: "pair_room totype \<le> 8"
proof (cases "(ucast totype :: u32) - 0xc0 > 8")
  case False
  define d where "d = unat ((ucast totype :: u32) - 0xc0)"
  have "d \<le> 8" using False by (simp add: d_def word_le_nat_alt not_less)
  moreover have "unat (totype - 0xc0) = d" 
  proof -
    have "0xc0 \<le> unat totype" using \<open>d \<le> 8\<close> unat_byte_less [of totype]
      by (simp add: d_def unat_sub_if' word_size split: if_splits)
    then show ?thesis by (simp add: d_def unat_sub_if' word_le_nat_alt)
  qed
  ultimately have "unat (totype - 0xc0) \<in> {0, 1, 2, 3, 4, 5, 6, 7, 8}" by auto
  then show ?thesis using False by (auto simp: pair_room_def)
qed (simp add: pair_room_def)

lemma iterate_progress:
  assumes "8 \<le> outb b" "iterate mbrtowc wctomb nested type tab totype tomap bs st x b = (Stop e, st')"
  shows "e = EILSEQ \<or> e = EINVAL"
  using assms encode_fits [of "outb b"] pair_room_le [of totype]
  by (auto simp: iterate_def convert_def not_less split: prod.splits decoded.splits encoded.splits if_splits option.splits)

lemma nested_progress:
  assumes "iconv_nested n mbrtowc wctomb cd (Some bs) b = Some r" "bs \<noteq> []" "8 \<le> outb b"
  shows "length (left r) < length bs \<or> err r = Some EILSEQ \<or> err r = Some EINVAL"
proof (cases n)
  case (Suc k)
  obtain nested type tab totype tomap
    where loop: "iconv_loop mbrtowc wctomb nested type tab totype tomap bs (Some 0) 0 b = Some r"
    using assms(1) by (simp add: Suc Let_def)
  obtain i st where i: "iterate mbrtowc wctomb nested type tab totype tomap bs (Some 0) 0 b = (i, st)" by fastforce
  show ?thesis
  proof (cases i)
    case (Continue l y er b')
    then obtain r' where "0 < l" "l \<le> length bs" "left r = left r'"
        "iconv_loop mbrtowc wctomb nested type tab totype tomap (drop l bs) st y b' = Some r'"
      using loop i assms(2) by (auto simp: iconv_loop.simps [of _ _ _ _ _ _ _ bs] split: if_splits)
    moreover from this have "length (left r') \<le> length (drop l bs)" by (intro loop_left)
    ultimately show ?thesis by simp linarith
  next
    case (Stop e)
    then show ?thesis using loop i assms(2) iterate_progress [OF assms(3) i [unfolded Stop]]
      by (auto simp: iconv_loop.simps [of _ _ _ _ _ _ _ bs])
  qed (use loop i assms(2) in \<open>simp add: iconv_loop.simps [of _ _ _ _ _ _ _ bs]\<close>)
qed (use assms(1) in simp)

text \<open>A call that ends inside a character, for the witnesses.\<close>

lemma utf16_piece:
  obtains cd where "iconv_open (name_bytes ''UTF-8'') (name_bytes ''UTF-16LE'') = Inr cd"
    "iconv ref_mbrtowc ref_wctomb cd (Some [0x41, 0x00, 0x42]) (empty_buffer 8) =
      Some \<lparr>ret = -1, err = Some EINVAL, left = [0x42], outs = put [0x41] (empty_buffer 8)\<rparr>"
proof -
  have 0: "0 \<notin> set (name_bytes ''UTF-8'')" "0 \<notin> set (name_bytes ''UTF-16LE'')" by code_simp+
  have k: "kind cm_utf8 = UTF_8" "kind cm_utf16le = UTF_16LE" by (simp_all add: cm_utf8_def cm_utf16le_def)
  have "kind cm_utf8 < EUC_JP" by (simp add: k type_defs)
  then obtain cd rf rt nested where cd: "iconv_open (name_bytes ''UTF-8'') (name_bytes ''UTF-16LE'') = Inr cd"
      and loop: "\<And>bs b. iconv ref_mbrtowc ref_wctomb cd (Some bs) b =
       iconv_loop ref_mbrtowc ref_wctomb nested UTF_16LE (table cm_utf16le @ rf) UTF_8 (table cm_utf8 @ rt) bs (Some 0) 0 b"
    using iconv_of_names [OF 0 find_utf16le find_utf8] unfolding k by metis
  have d: "decode ref_mbrtowc UTF_16LE tab [0x41, 0x00, 0x42] (Some 0) = (Decoded 0x41 2, Some 0)"
      "decode ref_mbrtowc UTF_16LE tab [0x42] (Some 0) = (Starved, Some 0)" for tab
    by (simp_all add: decode_def decode_other_def decode_utf16_def get_16_def Let_def type_defs)
  have e: "encode ref_wctomb UTF_16LE UTF_8 tab 8 0x41 = Emit 0 [0x41]" for tab
    by (simp add: encode_def encode_utf8_def ref_wctomb_def scalar_below_def surrogate_def utf8_enc_def byte_of_def type_defs)
  have "iconv ref_mbrtowc ref_wctomb cd (Some [0x41, 0x00, 0x42]) (empty_buffer 8) =
      Some \<lparr>ret = -1, err = Some EINVAL, left = [0x42], outs = put [0x41] (empty_buffer 8)\<rparr>"
    unfolding loop
    by (subst iconv_loop.simps, simp add: iterate_def convert_def d e empty_buffer_def,
        subst iconv_loop.simps, simp add: iterate_def convert_def d)
  with cd show thesis by (rule that)
qed

section \<open>Properties\<close>

text \<open>
  C4: A text can be converted in pieces, cut at any byte, from any encoding to any other. When the
  first piece ends inside a character (\<open>EINVAL\<close>) or with one, then converting what the call left
  together with the second piece, behind the output so far, ends exactly as converting the whole
  text at once: same remaining input, same error, same bytes stored; and the numbers of
  substitutions add up. What remains of the first call beside its output is an \<open>errno\<close> that a pair
  of Big5 left set, which is seen after the second call when that one sets none.
\<close>

theorem iconv_in_pieces:
  assumes "libc_prefix mbrtowc" "iconv mbrtowc wctomb cd (Some bs) b = Some r"
    and "left r = [] \<or> err r = Some EINVAL"
  shows "\<exists>y er. iconv mbrtowc wctomb cd (Some (bs @ bs2)) b =
      map_option (keep_errno er \<circ> count_from y) (iconv mbrtowc wctomb cd (Some (left r @ bs2)) (outs r))
    \<and> (left r = [] \<longrightarrow> y = ret r \<and> er = err r)
    \<and> (at (drop (unat (ucast (drop_bit 16 cd) :: u32)) charmaps) \<noteq> BIG5 \<longrightarrow> er = None)"
  using libc_prefix.nested_resumes [OF assms(1) assms(2) [unfolded iconv_def] assms(3)] unfolding iconv_def .

theorem iconv_in_pieces_witness:
  "\<exists>cd y er. iconv_open (name_bytes ''UTF-8'') (name_bytes ''UTF-16LE'') = Inr cd \<and>
    iconv ref_mbrtowc ref_wctomb cd (Some [0x41, 0x00, 0x42, 0x00]) (empty_buffer 8) =
      map_option (keep_errno er \<circ> count_from y) (iconv ref_mbrtowc ref_wctomb cd (Some [0x42, 0x00]) (put [0x41] (empty_buffer 8)))"
proof -
  obtain cd where cd: "iconv_open (name_bytes ''UTF-8'') (name_bytes ''UTF-16LE'') = Inr cd"
    "iconv ref_mbrtowc ref_wctomb cd (Some [0x41, 0x00, 0x42]) (empty_buffer 8) =
      Some \<lparr>ret = -1, err = Some EINVAL, left = [0x42], outs = put [0x41] (empty_buffer 8)\<rparr>" by (rule utf16_piece)
  from iconv_in_pieces [OF ref_prefix.libc_prefix_axioms cd(2), of "[0x00]"] show ?thesis
    using cd(1) by auto
qed

text \<open>
  C5: Progress: given eight bytes of room, a call that returns has consumed input, from any encoding to
  any other, unless the input begins with an invalid or incomplete character. \<open>E2BIG\<close> thus only
  ends a call that has converted something, and a caller that empties its buffer and calls again
  comes to the end of the text.
\<close>

theorem iconv_progress:
  assumes "iconv mbrtowc wctomb cd (Some bs) b = Some r" "bs \<noteq> []" "8 \<le> outb b"
  shows "length (left r) < length bs \<or> err r = Some EILSEQ \<or> err r = Some EINVAL"
  using assms unfolding iconv_def by (rule nested_progress)

theorem iconv_progress_witness:
  "\<exists>cd r. iconv_open (name_bytes ''UTF-8'') (name_bytes ''UTF-16LE'') = Inr cd \<and>
    iconv ref_mbrtowc ref_wctomb cd (Some [0x41, 0x00, 0x42]) (empty_buffer 8) = Some r \<and>
    (length (left r) < 3 \<or> err r = Some EILSEQ \<or> err r = Some EINVAL)"
proof -
  obtain cd where cd: "iconv_open (name_bytes ''UTF-8'') (name_bytes ''UTF-16LE'') = Inr cd"
    "iconv ref_mbrtowc ref_wctomb cd (Some [0x41, 0x00, 0x42]) (empty_buffer 8) =
      Some \<lparr>ret = -1, err = Some EINVAL, left = [0x42], outs = put [0x41] (empty_buffer 8)\<rparr>" by (rule utf16_piece)
  have "8 \<le> outb (empty_buffer 8)" by (simp add: empty_buffer_def)
  from iconv_progress [OF cd(2) _ this] show ?thesis using cd by auto
qed

end
