(* ===== verification/Iconv_Pages.thy ===== *)
theory Iconv_Pages
  imports Iconv_Safety
begin

text \<open>
  Conversions to and from the code pages: what a packed table says as a list of characters, and the
  code pages that are converted without loss in both directions.
\<close>

section \<open>A packed table as a list\<close>

text \<open>Five bytes hold four indices into \<open>legacy_chars\<close>.\<close>

fun unpack :: "byte list \<Rightarrow> nat list" where
  "unpack (a # b # c # d # e # r) =
     (unat a + unat b mod 4 * 256) # (unat b div 4 + unat c mod 16 * 64) #
     (unat c div 16 + unat d mod 64 * 16) # (unat d div 64 + unat e * 4) # unpack r"
| "unpack _ = []"

lemma nth_four:
  "(w # x # y # z # r) ! 1 = x" "(w # x # y # z # r) ! 2 = y" "(w # x # y # z # r) ! 3 = z"
  "(w # x # y # z # r) ! (j + 4) = r ! j"
  by (simp_all add: numeral_eq_Suc)

lemma unpack_index: "i < length (unpack tab) \<Longrightarrow> legacy_index (tab @ rest) i = Some (unpack tab ! i)"
proof (induction tab arbitrary: i rule: unpack.induct)
  case (1 a b c d e r)
  consider "i = 0" | "i = 1" | "i = 2" | "i = 3" | j where "i = j + 4"
    by (cases "i < 4") (auto simp: less_Suc_eq numeral_eq_Suc intro: that(5) [of "i - 4"])
  then show ?case
  proof cases
    case (5 j)
    then have "j < length (unpack r)" using 1(2) by simp
    then show ?thesis 
      unfolding 5 unpack.simps nth_four append_Cons legacy_index_shift by (rule 1(1))
  qed (simp_all only: append_Cons legacy_index_first nth_four unpack.simps nth_Cons_0)
qed simp_all

text \<open>The characters of the bytes from 80 on.\<close>

definition page :: "byte list \<Rightarrow> nat list" where
  "page tab = map (\<lambda>k. unat (legacy_chars ! k)) (unpack tab)"

text \<open>The same as a computation on the initialisers.\<close>

fun unpack_ints :: "int list \<Rightarrow> int list" where
  "unpack_ints (a # b # c # d # e # r) =
     (a + b mod 4 * 256) # (b div 4 + c mod 16 * 64) #
     (c div 16 + d mod 64 * 16) # (d div 64 + e * 4) # unpack_ints r"
| "unpack_ints _ = []"

text \<open>
  \<open>rising i lo ks xs\<close>: \<open>ks\<close> lists ascending positions of \<open>xs\<close>, counted from \<open>i\<close>, whose elements ascend
  from \<open>lo\<close>.
\<close>

fun rising :: "int \<Rightarrow> int \<Rightarrow> int list \<Rightarrow> int list \<Rightarrow> bool" where
  "rising i lo [] xs \<longleftrightarrow> True"
| "rising i lo (k # ks) [] \<longleftrightarrow> False"
| "rising i lo (k # ks) (x # xs) \<longleftrightarrow>
     (if k = i then lo < x \<and> rising (i + 1) x ks xs else i < k \<and> rising (i + 1) lo (k # ks) xs)"

lemma rising_position:
  "rising i lo ks xs \<Longrightarrow> k \<in> set ks \<Longrightarrow> i \<le> k \<and> k < i + int (length xs) \<and> lo < xs ! nat (k - i)"
proof (induction i lo ks xs rule: rising.induct)
  case (3 i lo k' ks x xs)
  have "nat (k - i) = Suc (nat (k - (i + 1)))" if "i + 1 \<le> k" using that by simp
  then show ?case using 3 by (cases "k' = i") (auto split: if_splits)
qed auto

lemma rising_distinct:
  "rising i lo ks xs \<Longrightarrow> distinct (map (\<lambda>k. xs ! nat (k - i)) ks)"
proof (induction i lo ks xs rule: rising.induct)
  case (3 i lo k ks x xs)
  have shift: "map (\<lambda>k. (x # xs) ! nat (k - i)) ls = map (\<lambda>k. xs ! nat (k - (i + 1))) ls"
    if "\<forall>k \<in> set ls. i + 1 \<le> k" for ls
  proof (intro map_cong refl)
    fix k assume "k \<in> set ls"
    then have "nat (k - i) = Suc (nat (k - (i + 1)))" using that by force
    then show "(x # xs) ! nat (k - i) = xs ! nat (k - (i + 1))" by simp
  qed
  show ?case
  proof (cases "k = i")
    case True
    then have "rising (i + 1) x ks xs" using 3(3) by simp
    then have "distinct (map (\<lambda>k. xs ! nat (k - (i + 1))) ks)"
        "\<forall>k \<in> set ks. i + 1 \<le> k \<and> x < xs ! nat (k - (i + 1))"
      using True 3(1) rising_position [of "i + 1" x ks xs] by auto
    moreover from this have eq: "map (\<lambda>k. (x # xs) ! nat (k - i)) ks = map (\<lambda>k. xs ! nat (k - (i + 1))) ks"
      by (intro shift) simp
    ultimately show ?thesis unfolding True list.map eq by auto
  next
    case False
    then have "rising (i + 1) lo (k # ks) xs" using 3(3) by simp
    then have "distinct (map (\<lambda>k. xs ! nat (k - (i + 1))) (k # ks))" "\<forall>k \<in> set (k # ks). i + 1 \<le> k"
      using False 3(2) rising_position [of "i + 1" lo "k # ks" xs] by blast+
    then show ?thesis by (simp only: shift)
  qed
qed auto

lemma unpack_bytes:
  "packed_ints_ok ts \<Longrightarrow> unpack (bytes ts) = map nat (unpack_ints ts) \<and> (\<forall>k \<in> set (unpack_ints ts). 0 \<le> k \<and> k < 657)"
proof (induction ts rule: packed_ints_ok.induct)
  case (2 a b c d e r)
  let ?u = "\<lambda>x. unat (word_of_int x :: byte)"
  have u: "int (?u a) = a" "int (?u b) = b" "int (?u c) = c" "int (?u d) = d" "int (?u e) = e"
    by (rule unat_byte_int; use 2(2) in simp)+
  have n: "j = nat k \<and> 0 \<le> k" if "int j = k" for j k using that by auto
  have "?u a + ?u b mod 4 * 256 = nat (a + b mod 4 * 256) \<and> 0 \<le> a + b mod 4 * 256"
      "?u b div 4 + ?u c mod 16 * 64 = nat (b div 4 + c mod 16 * 64) \<and> 0 \<le> b div 4 + c mod 16 * 64"
      "?u c div 16 + ?u d mod 64 * 16 = nat (c div 16 + d mod 64 * 16) \<and> 0 \<le> c div 16 + d mod 64 * 16"
      "?u d div 64 + ?u e * 4 = nat (d div 64 + e * 4) \<and> 0 \<le> d div 64 + e * 4"
    by (rule n; unfold of_nat_add of_nat_mult of_nat_mod of_nat_div of_nat_numeral u; rule refl)+
  then show ?case using 2 by (simp add: bytes_def)
qed (simp_all add: bytes_def)

text \<open>
  A code page whose upper half stands for 128 different characters, none of them below 80: every
  byte string is a text in it, and every text in its characters is one byte string.
\<close>

definition exact_page :: "charmap \<Rightarrow> bool" where
  "exact_page m \<longleftrightarrow> kind m = 0 \<and> (\<forall>k \<in> set (unpack (table m)). k < 657) \<and> length (page (table m)) = 128 \<and> distinct (page (table m)) \<and>
     (\<forall>n \<in> set (page (table m)). 128 \<le> n \<and> n < 0x10000 \<and> scalar n)"

lemma page_ints:
  assumes chars: "legacy_chars = shorts cs" "ints_ok (\<lambda>_. False) 657 cs" and packed: "packed_ints_ok ts"
  shows "page (bytes ts) = map nat (map (\<lambda>k. cs ! nat k) (unpack_ints ts))"
    and "k \<in> set (unpack_ints ts) \<Longrightarrow> 0 \<le> cs ! nat k \<and> cs ! nat k < 0x10000"
proof -
  have len: "length cs = 657" using ints_ok_length [OF chars(2)] by simp
  have inside: "0 \<le> k \<and> k < 657" if "k \<in> set (unpack_ints ts)" for k using unpack_bytes [OF packed] that by blast
  have range: "0 \<le> cs ! nat k \<and> cs ! nat k < 0x10000" if "k \<in> set (unpack_ints ts)" for k
    using ints_ok_set [OF chars(2), of "cs ! nat k"] inside [OF that] len by (auto intro: nth_mem)
  have "map (\<lambda>k. unat (legacy_chars ! nat k)) (unpack_ints ts) = map (\<lambda>k. nat (cs ! nat k)) (unpack_ints ts)"
  proof (intro map_cong refl)
    fix k assume k: "k \<in> set (unpack_ints ts)"
    then have "nat k < length cs" using inside [OF k] len by (simp add: nat_less_iff)
    then show "unat (legacy_chars ! nat k) = nat (cs ! nat k)"
      using range [OF k] by (simp add: chars(1) shorts_def unat_short)
  qed
  then show "page (bytes ts) = map nat (map (\<lambda>k. cs ! nat k) (unpack_ints ts))"
    using unpack_bytes [OF packed] by (simp add: page_def comp_def)
  show "k \<in> set (unpack_ints ts) \<Longrightarrow> 0 \<le> cs ! nat k \<and> cs ! nat k < 0x10000" by (rule range)
qed

lemma page_rising:
  assumes chars: "legacy_chars = shorts cs" "ints_ok (\<lambda>_. False) 657 cs"
    and packed: "packed_ints_ok ts" and rising: "rising 0 127 (sort (unpack_ints ts)) cs"
  shows "distinct (page (bytes ts)) \<and> (\<forall>n \<in> set (page (bytes ts)). 128 \<le> n \<and> n < 0x10000 \<and> scalar n)"
proof -
  note page = page_ints(1) [OF chars packed] and range = page_ints(2) [OF chars packed]
  have "distinct (map (\<lambda>k. cs ! nat k) (unpack_ints ts))"
    using rising_distinct [OF rising] by (simp add: distinct_map)
  moreover have "inj_on nat (set (map (\<lambda>k. cs ! nat k) (unpack_ints ts)))"
    using range by (intro inj_onI) (auto simp: eq_nat_nat_iff)
  ultimately have "distinct (page (bytes ts))" unfolding page by (simp only: distinct_map [of nat])
  moreover have "128 \<le> n \<and> n < 0x10000" if "n \<in> set (page (bytes ts))" for n
    using that rising_position [OF rising] range unfolding page by fastforce
  moreover have "scalar n" if n: "n \<in> set (page (bytes ts))" for n
  proof -
    obtain k where "k \<in> set (unpack_ints ts)" "n = unat (legacy_chars ! nat k)"
      using n conjunct1 [OF unpack_bytes [OF packed]] by (auto simp: page_def)
    moreover from this have "nat k < 657" using unpack_bytes [OF packed] by (auto simp: nat_less_iff)
    ultimately have "legacy_chars ! nat k \<in> set legacy_chars" using legacy_chars_ok by (auto simp: row_ok_def)
    then show ?thesis using legacy_chars_ok \<open>n = _\<close> by (auto simp: row_ok_def intro: scalar_short)
  qed
  ultimately show ?thesis by blast
qed

lemma exact_page_bytes:
  assumes "legacy_chars = shorts cs" "ints_ok (\<lambda>_. False) 657 cs" "packed_ints_ok ts"
    "rising 0 127 (sort (unpack_ints ts)) cs" "length (unpack_ints ts) = 128"
  shows "exact_page \<lparr>aliases = as, kind = 0, table = bytes ts\<rparr>"
  using page_rising [OF assms(1-4)] unpack_bytes [OF assms(3)] assms(5)
  by (simp add: exact_page_def page_def nat_less_iff)

lemma koi8r_exact: "exact_page cm_koi8r"
  unfolding cm_koi8r_def by (rule exact_page_bytes [OF legacy_chars_def]) code_simp+

lemma koi8u_exact: "exact_page cm_koi8u"
  unfolding cm_koi8u_def by (rule exact_page_bytes [OF legacy_chars_def]) code_simp+

section \<open>The code page as an encoding\<close>

definition page_char :: "charmap \<Rightarrow> byte \<Rightarrow> nat" where
  "page_char m b = (if unat b < 128 then unat b else page (table m) ! (unat b - 128))"

definition position :: "'a list \<Rightarrow> 'a \<Rightarrow> nat" where
  "position xs x = length (takeWhile (\<lambda>y. y \<noteq> x) xs)"

definition page_enc :: "charmap \<Rightarrow> nat \<Rightarrow> byte list" where
  "page_enc m n = [byte_of (if n < 128 then n else 128 + position (page (table m)) n)]"

definition page_set :: "charmap \<Rightarrow> nat set" where
  "page_set m = {..<128} \<union> set (page (table m))"

lemma position_nth: "x \<in> set xs \<Longrightarrow> position xs x < length xs \<and> xs ! position xs x = x"
  by (induction xs) (auto simp: position_def)

lemma nth_position: "distinct xs \<Longrightarrow> i < length xs \<Longrightarrow> position xs (xs ! i) = i"
  using position_nth [of "xs ! i" xs] by (auto simp: nth_eq_iff_index_eq)

lemma before_position: "j < position xs x \<Longrightarrow> xs ! j \<noteq> x"
proof (induction xs arbitrary: j)
  case (Cons y xs)
  then show ?case by (cases j) (auto simp: position_def split: if_splits)
qed (simp add: position_def)

lemma legacy_char_page:
  assumes "i < length (unpack tab)" "unpack tab ! i < 657"
  shows "\<exists>x. legacy_char (tab @ rest) i = Some x \<and> unat x = page tab ! i"
proof -
  have "length legacy_chars = 657" using legacy_chars_ok by (simp add: row_ok_def)
  then show ?thesis using assms unpack_index [OF assms(1), of rest]
    by (simp add: legacy_char_def rd_inside page_def)
qed

text \<open>The search finds the first place of a character, or nothing.\<close>

lemma legacy_find_page:
  assumes "\<forall>i < k. \<exists>x. legacy_char tab i = Some x \<and> unat x = cs ! i" "length cs = k" "unat d < 0x10000"
  shows "legacy_find tab k d 0 = (if unat d \<in> set cs then Found (position cs (unat d)) else Missing)"
proof -
  have "legacy_find tab k d j = (if unat d \<in> set cs then Found (position cs (unat d)) else Missing)"
    if "j \<le> k" "\<forall>i < j. cs ! i \<noteq> unat d" for j
    using that
  proof (induction "k - j" arbitrary: j)
    case 0
    then have "unat d \<notin> set cs" using assms(2) by (auto simp: in_set_conv_nth)
    then show ?case using 0 by (simp add: legacy_find.simps)
  next
    case (Suc l)
    then have j: "j < k" by simp
    then obtain x where x: "legacy_char tab j = Some x" "unat x = cs ! j" using assms(1) by blast
    have eq: "d = ucast x \<longleftrightarrow> unat d = cs ! j" using x(2) by (auto simp: word_unat_eq_iff)
    show ?case
    proof (cases "d = ucast x")
      case True
      then have "unat d \<in> set cs" using eq j assms(2) by (metis nth_mem)
      moreover from this have "position cs (unat d) = j"
        using position_nth [of "unat d" cs] before_position [of j cs "unat d"] Suc.prems(2) True eq
        by (metis nat_neq_iff)
      ultimately show ?thesis using x j True by (simp add: legacy_find.simps [of _ _ _ j])
    next
      case False
      moreover have "\<forall>i < Suc j. cs ! i \<noteq> unat d" using Suc.prems(2) False eq by (auto simp: less_Suc_eq)
      ultimately show ?thesis using x j Suc.hyps(1) [of "Suc j"] Suc.hyps(2)
        by (simp add: legacy_find.simps [of _ _ _ j])
    qed
  qed
  from this [of 0] show ?thesis by simp
qed

lemma exact_char:
  assumes "exact_page m" "i < 128"
  shows "\<exists>x. legacy_char (table m @ rest) i = Some x \<and> unat x = page (table m) ! i"
  using assms legacy_char_page [of i "table m" rest] nth_mem [of i "unpack (table m)"]
  by (simp add: exact_page_def page_def)

lemma page_enc_char: "exact_page m \<Longrightarrow> page_enc m (page_char m b) = [b] \<and> page_char m b \<in> page_set m"
proof -
  assume e: "exact_page m"
  show ?thesis
  proof (cases "unat b < 128")
    case False
    define i where "i = unat b - 128"
    have i: "unat b = 128 + i" "i < 128" using False unat_byte_less [of b] by (auto simp: i_def)
    then have "page (table m) ! i \<in> set (page (table m))" using e by (auto simp: exact_page_def)
    moreover from this have "\<not> page (table m) ! i < 128" using e by (auto simp: exact_page_def not_less)
    moreover have "position (page (table m)) (page (table m) ! i) = i"
      using e i by (intro nth_position) (auto simp: exact_page_def)
    moreover have "byte_of (128 + i) = b" using i(1) byte_of_unat [of b] by simp
    ultimately show ?thesis using e i by (auto simp: page_enc_def page_char_def page_set_def exact_page_def)
  qed (simp add: page_enc_def page_char_def page_set_def)
qed

lemma page_text: "exact_page m \<Longrightarrow> concat (map (page_enc m) (map (page_char m) bs)) = bs"
  by (induction bs) (auto simp: page_enc_char)

lemma page_set_scalar: "exact_page m \<Longrightarrow> page_set m \<subseteq> Collect scalar"
  by (auto simp: page_set_def exact_page_def scalar_below_def surrogate_def)

lemma page_set_cases:
  assumes "exact_page m" "n \<in> page_set m"
  obtains "n < 128" "page_enc m n = [byte_of n]"
  | i where "i < 128" "n = page (table m) ! i" "128 \<le> n" "n < 0x10000" "n \<in> set (page (table m))"
      "page_enc m n = [byte_of (128 + i)]" "position (page (table m)) n = i"
proof (cases "n < 128")
  case True
  then show thesis using that(1) by (simp add: page_enc_def)
next
  case False
  then have n: "n \<in> set (page (table m))" using assms(2) by (simp add: page_set_def)
  show thesis using that(2) [of "position (page (table m)) n"] position_nth [OF n] assms(1) n False
    by (auto simp: page_enc_def exact_page_def)
qed

lemma page_source:
  assumes "exact_page m"
  shows "text_source mbrtowc (kind m) (table m @ rest) (page_enc m) (page_set m)"
proof
  fix n r assume "n \<in> page_set m"
  with assms show "decode mbrtowc (kind m) (table m @ rest) (page_enc m n @ r) (Some 0) =
      (Decoded (of_nat n) (length (page_enc m n)), Some 0)"
  proof (cases rule: page_set_cases)
    case 1
    then have "\<not> 128 \<le> byte_of n" "ucast (byte_of n) = (of_nat n :: u32)"
      by (simp_all add: word_le_nat_alt word_unat_eq_iff unat_of_nat_32)
    then show ?thesis using 1 assms by (simp add: decode_def exact_page_def type_defs)
  next
    case (2 i)
    obtain x where x: "legacy_char (table m @ rest) i = Some x" "unat x = n"
      using exact_char [OF assms 2(1)] 2(2) by blast
    have "unat (byte_of (128 + i)) = 128 + i" using 2(1) by simp
    moreover have "x \<noteq> 0" "ucast x \<noteq> (1 :: u32)" "ucast x = (of_nat n :: u32)"
      using x(2) 2(3,4) by (auto simp: word_unat_eq_iff unat_of_nat_32)
    ultimately show ?thesis using 2(6) x assms
      by (simp add: decode_def decode_other_def decode_legacy_def exact_page_def type_defs word_le_nat_alt)
  qed
qed (simp add: page_enc_def)

lemma page_target:
  assumes "exact_page m"
  shows "text_target wctomb type (kind m) (table m @ rest) (page_enc m) (page_set m)"
proof
  fix n room assume "n \<in> page_set m"
  have k: "encode wctomb type (kind m) (table m @ rest) room c = encode_legacy 0 (table m @ rest) room c" for c
    using assms by (simp add: encode_def exact_page_def type_defs)
  from assms \<open>n \<in> page_set m\<close>
  show "encode wctomb type (kind m) (table m @ rest) room (of_nat n) = emit 0 (page_enc m n) room"
  proof (cases rule: page_set_cases)
    case 1
    then have "ucast (of_nat n :: u32) = byte_of n" "unat (of_nat n :: u32) = n"
      by (simp_all add: ucast_byte_0 unat_of_nat_32)
    then show ?thesis using 1 by (simp add: k encode_legacy_def emit_def Suc_le_eq)
  next
    case (2 i)
    have u: "unat (of_nat n :: u32) = n" using 2(4) by (simp add: unat_of_nat_32)
    have "legacy_find (table m @ rest) 128 (of_nat n) 0 = Found i"
      using legacy_find_page [of 128 "table m @ rest" "page (table m)" "of_nat n"] exact_char [OF assms] 2(4,5,7) assms
      unfolding u by (simp add: exact_page_def)
    then show ?thesis using 2(3,6) u by (simp add: k encode_legacy_def emit_def byte_of_def)
  qed
qed

lemma text_target_subset:
  "text_target wctomb type totype tomap tenc chars \<Longrightarrow> chars' \<subseteq> chars \<Longrightarrow>
    text_target wctomb type totype tomap tenc chars'"
  by (auto simp: text_target_def)

lemma text_source_subset:
  "text_source mbrtowc type tab senc chars \<Longrightarrow> chars' \<subseteq> chars \<Longrightarrow> text_source mbrtowc type tab senc chars'"
  by (auto simp: text_source_def)

lemma page_transcoding:
  assumes "utf8_libc mbrtowc wctomb" "exact_page m" "k \<in> set unicode_kinds"
  shows "transcoding mbrtowc (kind m) (table m @ rest) (page_enc m) (page_set m) wctomb k tomap (encoder k)"
    and "transcoding mbrtowc k tab (encoder k) (page_set m) wctomb (kind m) (table m @ rest) (page_enc m)"
proof -
  have "\<not> kind m - UCS2BE < 2" using assms(2) by (simp add: exact_page_def type_defs)
  then show "transcoding mbrtowc (kind m) (table m @ rest) (page_enc m) (page_set m) wctomb k tomap (encoder k)"
    using page_source [OF assms(2)] text_target_subset [OF unicode_target [OF assms(1) _ assms(3)] page_set_scalar [OF assms(2)]]
    by (simp add: transcoding_def)
  show "transcoding mbrtowc k tab (encoder k) (page_set m) wctomb (kind m) (table m @ rest) (page_enc m)"
    using page_target [OF assms(2)] text_source_subset [OF unicode_source [OF assms(1,3)] page_set_scalar [OF assms(2)]]
    by (simp add: transcoding_def)
qed

interpretation koi8r_to_utf8:
  transcoding ref_mbrtowc "kind cm_koi8r" "table cm_koi8r @ []" "page_enc cm_koi8r" "page_set cm_koi8r"
    ref_wctomb UTF_8 "[]" "encoder UTF_8"
  by (rule page_transcoding [OF ref.utf8_libc_axioms koi8r_exact]) (simp add: unicode_kinds_def)

section \<open>Properties\<close>

text \<open>
  C6: Russian and Ukrainian text goes from KOI8 to Unicode and back without loss: every byte string is
  converted from KOI8-R or KOI8-U to any Unicode encoding completely, and converting the result
  back gives the same bytes, given room; no character is substituted.
\<close>

theorem iconv_koi8_roundtrip:
  assumes "utf8_libc mbrtowc wctomb" "0 \<notin> set pg" "0 \<notin> set uni"
    and "List.find (has_alias pg) charmap_list = Some m" "m = cm_koi8r \<or> m = cm_koi8u"
    and "List.find (has_alias uni) charmap_list = Some u" "kind u \<in> set unicode_kinds"
    and "us = concat (map (encoder (kind u)) (map (page_char m) bs))"
    and "length us \<le> outb b" "length bs \<le> outb b'"
  shows "\<exists>there home. iconv_open uni pg = Inr there \<and> iconv_open pg uni = Inr home \<and>
    iconv mbrtowc wctomb there (Some bs) b = Some \<lparr>ret = 0, err = None, left = [], outs = put us b\<rparr> \<and>
    iconv mbrtowc wctomb home (Some us) b' = Some \<lparr>ret = 0, err = None, left = [], outs = put bs b'\<rparr>"
proof -
  have m: "exact_page m" using assms(5) koi8r_exact koi8u_exact by blast
  have k: "kind m < EUC_JP" "kind u < EUC_JP"
    using m assms(7) by (auto simp: exact_page_def unicode_kinds_def type_defs)
  have in_page: "\<forall>n \<in> set (map (page_char m) bs). n \<in> page_set m" using page_enc_char [OF m] by auto
  obtain there rf rt nested where there: "iconv_open uni pg = Inr there"
    "\<And>bs b. iconv mbrtowc wctomb there (Some bs) b =
       iconv_loop mbrtowc wctomb nested (kind m) (table m @ rf) (kind u) (table u @ rt) bs (Some 0) 0 b"
    using iconv_of_names [OF assms(3,2,4,6) k(2)] by metis
  obtain home rf' rt' nested' where home: "iconv_open pg uni = Inr home"
    "\<And>bs b. iconv mbrtowc wctomb home (Some bs) b =
       iconv_loop mbrtowc wctomb nested' (kind u) (table u @ rf') (kind m) (table m @ rt') bs (Some 0) 0 b"
    using iconv_of_names [OF assms(2,3,6,4) k(1)] by metis
  have "iconv mbrtowc wctomb there (Some bs) b = Some \<lparr>ret = 0, err = None, left = [], outs = put us b\<rparr>"
    using transcoding.all [OF page_transcoding(1) [OF assms(1) m assms(7)] in_page, where rest = "[]"] assms(9)
    unfolding assms(8) there page_text [OF m] by (simp add: iconv_loop.simps)
  moreover have "iconv mbrtowc wctomb home (Some us) b' = Some \<lparr>ret = 0, err = None, left = [], outs = put bs b'\<rparr>"
    using transcoding.all [OF page_transcoding(2) [OF assms(1) m assms(7)] in_page, where rest = "[]"] assms(10)
    unfolding assms(8) home page_text [OF m] by (simp add: iconv_loop.simps)
  ultimately show ?thesis using there(1) home(1) by blast
qed

theorem iconv_koi8_roundtrip_witness:
  "\<exists>there home. iconv_open (name_bytes ''UTF-8'') (name_bytes ''KOI8-R'') = Inr there \<and>
    iconv_open (name_bytes ''KOI8-R'') (name_bytes ''UTF-8'') = Inr home \<and>
    (let us = concat (map utf8_enc (map (page_char cm_koi8r) [0xc4, 0xc1])) in
     iconv ref_mbrtowc ref_wctomb there (Some [0xc4, 0xc1]) (empty_buffer (length us)) =
       Some \<lparr>ret = 0, err = None, left = [], outs = put us (empty_buffer (length us))\<rparr> \<and>
     iconv ref_mbrtowc ref_wctomb home (Some us) (empty_buffer 2) =
       Some \<lparr>ret = 0, err = None, left = [], outs = put [0xc4, 0xc1] (empty_buffer 2)\<rparr>)"
proof -
  have 0: "0 \<notin> set (name_bytes ''KOI8-R'')" "0 \<notin> set (name_bytes ''UTF-8'')" by code_simp+
  have f: "List.find (has_alias (name_bytes ''KOI8-R'')) charmap_list = Some cm_koi8r"
    by (rule find_alias [where a = "''koi8r''"]) ((simp add: charmap_list_def cm_koi8r_def)+, code_simp)
  have k: "kind cm_utf8 = UTF_8" by (simp add: cm_utf8_def)
  have e: "encoder UTF_8 = utf8_enc" by (simp add: encoder_def)
  have b: "outb (empty_buffer n) = n" for n by (simp add: empty_buffer_def)
  show ?thesis
    using iconv_koi8_roundtrip [OF ref.utf8_libc_axioms 0 f _ find_utf8 _ refl,
        of "[0xc4, 0xc1]" "empty_buffer _" "empty_buffer 2"]
    unfolding k e b Let_def by (simp add: unicode_kinds_def)
qed

end
