(* ===== verification/Iconv_Findings.thy ===== *)
theory Iconv_Findings
  imports Iconv_Pages
begin

text \<open>
  Where \<open>iconv\<close> departs from the encodings it names: reads outside a table, sequences that are not
  rejected, and conversions that are not inverse to each other.
\<close>

section \<open>Reads outside a table\<close>

text \<open>
  The decoder of Shift_JIS does not keep its reads inside \<open>jis0208\<close>: from the lead byte EB on the
  row lies outside the 84 rows of the table, and a second byte above FC gives a column outside the
  94 columns. A second byte below 40 is not rejected either.
\<close>

theorem sjis_outside:
  "decode_other SHIFT_JIS tab (0xeb # 0x40 # rest) = Undef \<and>
   decode_other SHIFT_JIS tab (0x81 # 0xfd # rest) = Undef \<and>
   decode_other SHIFT_JIS tab (0x81 # 0x20 # rest) = nonzero_at jis0208 0 0x20"
proof -
  have "length (jis0208 ! 0) = 94" using jis0208_ok by (auto simp: row_ok_def length_jis0208)
  then have "rd2 jis0208 84 0 = None" "rd2 jis0208 0 253 = None" by (simp_all add: rd2_def rd_def length_jis0208)
  then show ?thesis by (simp add: decode_other_def decode_sjis_def Let_def type_defs nonzero_at_def)
qed

text \<open>
  The packed tables of CP437 and CP850 hold the index 657, one past the end of \<open>legacy_chars\<close>: the
  byte A0 of either code page is read outside the table, and so is the table when a character is
  converted to one of them.
\<close>

theorem code_page_outside:
  "decode_other (kind cm_cp437) (table cm_cp437 @ rest) [0xa0] = Undef \<and>
   decode_other (kind cm_cp850) (table cm_cp850 @ rest) [0xa0] = Undef"
proof -
  have "length legacy_chars = 657" using legacy_chars_ok by (simp add: row_ok_def)
  moreover have "legacy_index (table cm_cp437 @ rest) 32 = Some 657" "legacy_index (table cm_cp850 @ rest) 32 = Some 657"
    by (simp_all add: legacy_index_def cm_cp437_def cm_cp850_def bytes_def rd_def)
  ultimately show ?thesis
    by (simp add: decode_other_def decode_legacy_def legacy_char_def rd_def Let_def type_defs cm_cp437_def cm_cp850_def)
qed

section \<open>Conversions that are not inverse\<close>

text \<open>
  The conversion to a code page whose table leaves out its first entries stores the wrong byte:
  A1 of ISO 8859-2 is decoded to U+0104, but U+0104 is encoded as 81, because the number of elided
  entries is not added.
\<close>

theorem latin2_not_inverse:
  "decode_other (kind cm_iso88592) (table cm_iso88592 @ rest) [0xa1] = Decoded 0x104 1 \<and>
   encode wctomb type (kind cm_iso88592) (table cm_iso88592 @ rest) 1 0x104 = Emit 0 [0x81]"
proof -
  have i: "legacy_index (table cm_iso88592 @ rest) 0 = Some 0" "legacy_index (table cm_iso88592 @ rest) 1 = Some 54"
    by (simp_all add: legacy_index_def cm_iso88592_def bytes_def rd_def)
  have c: "legacy_char (table cm_iso88592 @ rest) 0 = Some 0" "legacy_char (table cm_iso88592 @ rest) 1 = Some 0x104"
    unfolding legacy_char_def i by (simp_all add: rd_def legacy_chars_def shorts_def)
  have k: "kind cm_iso88592 = 0x20" by (simp add: cm_iso88592_def)
  have f: "legacy_find (table cm_iso88592 @ rest) 96 0x104 0 = Found 1"
    using c by (simp add: legacy_find.simps [of _ _ _ 0] legacy_find.simps [of _ _ _ "Suc 0"])
  show ?thesis
    using c f by (simp add: k decode_other_def decode_legacy_def encode_def encode_legacy_def Let_def type_defs)
qed

text \<open>
  An entry 0 of a packed table stands for the character with the value of the byte, but the search
  for a character compares with 0 instead: the accented letters of Windows-1252, A0 to FF, are
  decoded and never encoded.
\<close>

lemma page_upper:
  assumes chars: "legacy_chars = shorts (0 # 1 # cs)" "ints_ok (\<lambda>_. False) 657 (0 # 1 # cs)"
    and packed: "packed_ints_ok ts" and rising: "rising 0 255 (sort (filter (\<lambda>k. 2 \<le> k) (unpack_ints ts))) (0 # 1 # cs)"
  shows "\<forall>n \<in> set (page (bytes ts)). n < 2 \<or> 255 < n"
proof
  fix n assume "n \<in> set (page (bytes ts))"
  then obtain k where k: "k \<in> set (unpack_ints ts)" "n = nat ((0 # 1 # cs) ! nat k)"
    unfolding page_ints(1) [OF chars packed] by auto
  have "0 \<le> k" using k(1) unpack_bytes [OF packed] by blast
  then consider "k = 0" | "k = 1" | "2 \<le> k" by linarith
  then show "n < 2 \<or> 255 < n"
  proof cases
    case 3
    then have "255 < (0 # 1 # cs) ! nat k" using k(1) rising_position [OF rising, of k] by simp
    then show ?thesis unfolding k(2) by linarith
  qed (use k in simp_all)
qed

text \<open>A code page whose entries from A0 on are 0 and whose other entries lie beyond FF.\<close>

definition sparse_page :: "charmap \<Rightarrow> bool" where
  "sparse_page m \<longleftrightarrow> kind m = 0 \<and> length (page (table m)) = 128 \<and> (\<forall>k \<in> set (unpack (table m)). k < 657) \<and>
     (\<forall>n \<in> set (page (table m)). n < 2 \<or> 255 < n) \<and> (\<forall>i < 128. 32 \<le> i \<longrightarrow> page (table m) ! i = 0)"

lemma sparse_page_bytes:
  assumes chars: "legacy_chars = shorts (0 # 1 # cs)" "ints_ok (\<lambda>_. False) 657 (0 # 1 # cs)"
    and packed: "packed_ints_ok ts" and rising: "rising 0 255 (sort (filter (\<lambda>k. 2 \<le> k) (unpack_ints ts))) (0 # 1 # cs)"
    and len: "length (unpack_ints ts) = 128" and zero: "list_all (\<lambda>k. k = 0) (drop 32 (unpack_ints ts))"
  shows "sparse_page \<lparr>aliases = as, kind = 0, table = bytes ts\<rparr>"
proof -
  have u: "unpack (bytes ts) = map nat (unpack_ints ts)" "\<forall>k \<in> set (unpack_ints ts). 0 \<le> k \<and> k < 657"
    using unpack_bytes [OF packed] by auto
  have "page (bytes ts) ! i = 0" if i: "i < 128" "32 \<le> i" for i
  proof -
    obtain j where j: "i = 32 + j" "j < 96" using i by (auto simp: le_iff_add)
    then have "unpack_ints ts ! i = 0" using len zero by (simp add: list_all_length)
    then have "unpack (bytes ts) ! i = 0" using i len u by simp
    moreover have "legacy_chars ! 0 = 0" by (simp add: chars(1) shorts_def)
    ultimately show ?thesis using i len u(1) by (simp add: page_def)
  qed
  then show ?thesis using page_upper [OF assms(1-4)] u len by (simp add: sparse_page_def page_def nat_less_iff)
qed

lemma cp1252_sparse: "sparse_page cm_cp1252"
  unfolding cm_cp1252_def by (rule sparse_page_bytes [OF legacy_chars_def]) code_simp+

theorem cp1252_not_inverse:
  assumes "0xa0 \<le> b"
  shows "decode_other (kind cm_cp1252) (table cm_cp1252 @ rest) [b] = Decoded (ucast b) 1 \<and>
    encode wctomb type (kind cm_cp1252) (table cm_cp1252 @ rest) 1 (ucast b) = Emit 1 [0x2a]"
proof -
  define i where "i = unat b - 128"
  have b: "unat b = 128 + i" "32 \<le> i" "i < 128"
    using assms unat_byte_less [of b] by (auto simp: i_def word_le_nat_alt)
  let ?m = cm_cp1252
  have k: "kind ?m = 0" and len: "length (page (table ?m)) = 128" and inside: "\<forall>k \<in> set (unpack (table ?m)). k < 657"
    and upper: "\<forall>n \<in> set (page (table ?m)). n < 2 \<or> 255 < n" and zero: "page (table ?m) ! i = 0"
    using cp1252_sparse b by (auto simp: sparse_page_def)
  have chars: "\<forall>i < 128. \<exists>x. legacy_char (table ?m @ rest) i = Some x \<and> unat x = page (table ?m) ! i"
    using len inside by (intro allI impI legacy_char_page) (simp_all add: page_def)
  then have "legacy_char (table ?m @ rest) i = Some 0" using zero b(3) by (metis unat_eq_zero)
  moreover have "unat b \<notin> set (page (table ?m))" using upper b by force
  then have "legacy_find (table ?m @ rest) 128 (ucast b) 0 = Missing"
    using legacy_find_page [OF chars len, of "ucast b"] unat_byte_less [of b] by simp
  ultimately show ?thesis
    using b by (simp add: k decode_other_def decode_legacy_def encode_def encode_legacy_def subst_def emit_def Let_def type_defs
      word_unat_eq_iff)
qed

text \<open>
  UCS-2 output is not limited to 16-bit units: the test that should replace a character beyond
  U+FFFF looks at the source encoding, so that converting to UCS-2 stores a surrogate pair, which
  converting from UCS-2 rejects.
\<close>

theorem ucs2_not_inverse:
  "encode wctomb UTF_8 UCS2BE tomap 4 0x10000 = Emit 0 [0xd8, 0x00, 0xdc, 0x00] \<and>
   decode_other UCS2BE tab [0xd8, 0x00, 0xdc, 0x00] = Ilseq"
  by (simp add: encode_def encode_utf16_def put_16_def emit_def decode_other_def decode_utf16_def get_16_def
      Let_def type_defs)

end
