(* ===== verification/Intl.thy ===== *)
theory Intl
  imports Iconv_Open
begin

text \<open>
  \<open>intl.c\<close>: the message functions of a C library without translations. A message is returned as the
  pointer that was passed in; a string argument is \<open>None\<close> for a null pointer, or its bytes.
\<close>

definition gettext :: "'p \<Rightarrow> 'p" where
  "gettext msgid = msgid"

definition dgettext :: "byte list option \<Rightarrow> 'p \<Rightarrow> 'p" where
  "dgettext domainname msgid = msgid"

definition dcgettext :: "byte list option \<Rightarrow> 'p \<Rightarrow> int \<Rightarrow> 'p" where
  "dcgettext domainname msgid category = msgid"

definition ngettext :: "'p \<Rightarrow> 'p \<Rightarrow> u64 \<Rightarrow> 'p" where
  "ngettext msgid1 msgid2 n = (if n = 1 then msgid1 else msgid2)"

definition dngettext :: "byte list option \<Rightarrow> 'p \<Rightarrow> 'p \<Rightarrow> u64 \<Rightarrow> 'p" where
  "dngettext domainname msgid1 msgid2 n = (if n = 1 then msgid1 else msgid2)"

definition dcngettext :: "byte list option \<Rightarrow> 'p \<Rightarrow> 'p \<Rightarrow> u64 \<Rightarrow> int \<Rightarrow> 'p" where
  "dcngettext domainname msgid1 msgid2 n category = (if n = 1 then msgid1 else msgid2)"

text \<open>\<open>textdomain\<close> and \<open>bindtextdomain\<close>: the string returned, or \<open>EINVAL\<close> and a null pointer.\<close>

definition default_str :: "byte list" where
  "default_str = name_bytes ''messages''"

definition textdomain :: "byte list option \<Rightarrow> errno + byte list" where
  "textdomain domainname =
     (case domainname of
        None \<Rightarrow> Inr default_str
      | Some d \<Rightarrow> if at d \<noteq> 0 \<and> d \<noteq> default_str then Inl EINVAL else Inr default_str)"

definition dir :: "byte list" where
  "dir = name_bytes ''/''"

definition bindtextdomain :: "byte list option \<Rightarrow> byte list option \<Rightarrow> errno + byte list" where
  "bindtextdomain domainname dirname =
     (if domainname = None \<or> at (the domainname) = 0 \<or>
         (dirname \<noteq> None \<and> (at (the dirname) \<noteq> 0x2f \<or> at (tl (the dirname)) \<noteq> 0))
      then Inl EINVAL else Inr dir)"

text \<open>\<open>strcasecmp\<close> of the C library, as a test for a difference; \<open>bind_textdomain_codeset\<close> always
  returns a null pointer, the result here is the value it gives to \<open>errno\<close>, if any.\<close>

definition lower :: "byte \<Rightarrow> byte" where
  "lower b = (if 0x41 \<le> b \<and> b \<le> 0x5a then b + 0x20 else b)"

definition strcasecmp :: "byte list \<Rightarrow> byte list \<Rightarrow> bool" where
  "strcasecmp s t \<longleftrightarrow> map lower s \<noteq> map lower t"

definition bind_textdomain_codeset :: "byte list option \<Rightarrow> byte list option \<Rightarrow> errno option" where
  "bind_textdomain_codeset domainname codeset =
     (if domainname = None \<or> at (the domainname) = 0 \<or>
         (codeset \<noteq> None \<and> strcasecmp (the codeset) (name_bytes ''UTF-8''))
      then Some EINVAL else None)"

text \<open>
  The message functions agree with each other and with the interface of a library that has one
  domain and the identity translation: \<open>textdomain\<close> sets the domain it reports, the plural functions
  choose by the same rule whatever the domain and category, and a domain can be bound to the
  directory that \<open>bindtextdomain\<close> reports.
\<close>

theorem intl_consistent:
  "textdomain (Some default_str) = textdomain None \<and> textdomain None = Inr default_str \<and>
   (\<forall>d r. textdomain d = Inr r \<longrightarrow> textdomain (Some r) = Inr r) \<and>
   bindtextdomain (Some default_str) (Some dir) = bindtextdomain (Some default_str) None \<and>
   (\<forall>d e r. bindtextdomain d e = Inr r \<longrightarrow> bindtextdomain d (Some r) = Inr r) \<and>
   dcngettext d m1 m2 n c = ngettext m1 m2 n \<and> dngettext d m1 m2 n = ngettext m1 m2 n \<and>
   dcngettext d m m n c = dcgettext d m c \<and> dcgettext d m c = gettext m"
  by (auto simp: textdomain_def bindtextdomain_def default_str_def dir_def name_bytes_def dcngettext_def
      dngettext_def ngettext_def dcgettext_def gettext_def split: option.splits if_splits)

end
