(* ===== verification/Langinfo.thy ===== *)
theory Langinfo
  imports Prelude
begin

text \<open>
  \<open>langinfo.h\<close>: \<open>nl_langinfo\<close> as the toolchain's header defines it. The strings of a category lie one
  behind the other, each ended by a NUL, and an item is found by skipping strings.
\<close>

section \<open>Items\<close>

definition CODESET :: int where "CODESET = 1"
definition D_T_FMT :: int where "D_T_FMT = 2"
definition D_FMT :: int where "D_FMT = 3"
definition T_FMT :: int where "T_FMT = 4"
definition T_FMT_AMPM :: int where "T_FMT_AMPM = 5"
definition AM_STR :: int where "AM_STR = 6"
definition PM_STR :: int where "PM_STR = 7"
definition DAY_1 :: int where "DAY_1 = 8"
definition DAY_2 :: int where "DAY_2 = 9"
definition DAY_3 :: int where "DAY_3 = 10"
definition DAY_4 :: int where "DAY_4 = 11"
definition DAY_5 :: int where "DAY_5 = 12"
definition DAY_6 :: int where "DAY_6 = 13"
definition DAY_7 :: int where "DAY_7 = 14"
definition ABDAY_1 :: int where "ABDAY_1 = 15"
definition ABDAY_2 :: int where "ABDAY_2 = 16"
definition ABDAY_3 :: int where "ABDAY_3 = 17"
definition ABDAY_4 :: int where "ABDAY_4 = 18"
definition ABDAY_5 :: int where "ABDAY_5 = 19"
definition ABDAY_6 :: int where "ABDAY_6 = 20"
definition ABDAY_7 :: int where "ABDAY_7 = 21"
definition MON_1 :: int where "MON_1 = 22"
definition MON_2 :: int where "MON_2 = 23"
definition MON_3 :: int where "MON_3 = 24"
definition MON_4 :: int where "MON_4 = 25"
definition MON_5 :: int where "MON_5 = 26"
definition MON_6 :: int where "MON_6 = 27"
definition MON_7 :: int where "MON_7 = 28"
definition MON_8 :: int where "MON_8 = 29"
definition MON_9 :: int where "MON_9 = 30"
definition MON_10 :: int where "MON_10 = 31"
definition MON_11 :: int where "MON_11 = 32"
definition MON_12 :: int where "MON_12 = 33"
definition ABMON_1 :: int where "ABMON_1 = 34"
definition ABMON_2 :: int where "ABMON_2 = 35"
definition ABMON_3 :: int where "ABMON_3 = 36"
definition ABMON_4 :: int where "ABMON_4 = 37"
definition ABMON_5 :: int where "ABMON_5 = 38"
definition ABMON_6 :: int where "ABMON_6 = 39"
definition ABMON_7 :: int where "ABMON_7 = 40"
definition ABMON_8 :: int where "ABMON_8 = 41"
definition ABMON_9 :: int where "ABMON_9 = 42"
definition ABMON_10 :: int where "ABMON_10 = 43"
definition ABMON_11 :: int where "ABMON_11 = 44"
definition ABMON_12 :: int where "ABMON_12 = 45"
definition ERA :: int where "ERA = 46"
definition ERA_D_FMT :: int where "ERA_D_FMT = 47"
definition ERA_D_T_FMT :: int where "ERA_D_T_FMT = 48"
definition ERA_T_FMT :: int where "ERA_T_FMT = 49"
definition ALT_DIGITS :: int where "ALT_DIGITS = 50"
definition RADIXCHAR :: int where "RADIXCHAR = 51"
definition THOUSEP :: int where "THOUSEP = 52"
definition YESEXPR :: int where "YESEXPR = 53"
definition NOEXPR :: int where "NOEXPR = 54"
definition CRNCYSTR :: int where "CRNCYSTR = 55"
definition INT_CURRENCY_SYMBOL :: int where "INT_CURRENCY_SYMBOL = 55"

lemmas item_defs =
  CODESET_def D_T_FMT_def D_FMT_def T_FMT_def T_FMT_AMPM_def AM_STR_def
  PM_STR_def DAY_1_def DAY_2_def DAY_3_def DAY_4_def DAY_5_def
  DAY_6_def DAY_7_def ABDAY_1_def ABDAY_2_def ABDAY_3_def ABDAY_4_def
  ABDAY_5_def ABDAY_6_def ABDAY_7_def MON_1_def MON_2_def MON_3_def
  MON_4_def MON_5_def MON_6_def MON_7_def MON_8_def MON_9_def
  MON_10_def MON_11_def MON_12_def ABMON_1_def ABMON_2_def ABMON_3_def
  ABMON_4_def ABMON_5_def ABMON_6_def ABMON_7_def ABMON_8_def ABMON_9_def
  ABMON_10_def ABMON_11_def ABMON_12_def ERA_def ERA_D_FMT_def ERA_D_T_FMT_def
  ERA_T_FMT_def ALT_DIGITS_def RADIXCHAR_def THOUSEP_def YESEXPR_def NOEXPR_def
  CRNCYSTR_def INT_CURRENCY_SYMBOL_def

section \<open>Strings\<close>

text \<open>
  A string literal is given by its pieces; \<open>lit\<close> puts them together and adds the NUL that ends the
  literal, \<open>z\<close> is a piece that ends in \<open>\0\<close>.
\<close>

definition z :: "string \<Rightarrow> string" where
  "z s = s @ [CHR 0x00]"

definition lit :: "string list \<Rightarrow> string" where
  "lit ps = concat ps @ [CHR 0x00]"

definition c_time :: string where
  "c_time = lit
     [z ''Sun'', z ''Mon'', z ''Tue'', z ''Wed'', z ''Thu'', z ''Fri'',
      z ''Sat'', z ''Sunday'', z ''Monday'', z ''Tuesday'', z ''Wednesday'', z ''Thursday'',
      z ''Friday'', z ''Saturday'', z ''Jan'', z ''Feb'', z ''Mar'', z ''Apr'',
      z ''May'', z ''Jun'', z ''Jul'', z ''Aug'', z ''Sep'', z ''Oct'',
      z ''Nov'', z ''Dec'', z ''January'', z ''February'', z ''March'', z ''April'',
      z ''May'', z ''June'', z ''July'', z ''August'', z ''September'', z ''October'',
      z ''November'', z ''December'', z ''AM'', z ''PM'', z ''%a %b %e %T %Y'', z ''%m/%d/%y'',
      z ''%H:%M:%S'', z ''%I:%M:%S %p'', z '''', z ''%m/%d/%y'', ''0123456789'', z ''%a %b %e %T %Y'',
      ''%H:%M:%S'']"

definition c_messages :: string where
  "c_messages = lit
     [z ''^[yY]'', ''^[nN]'']"

definition c_numeric :: string where
  "c_numeric = lit
     [z ''.'', '''']"

definition c_zero :: string where
  "c_zero = lit
     [z ''UTF-8'', z ''UTF-8'', z ''%F %T %z'', z ''%F'', z ''%T'', z ''%I:%M:%S %p'',
      z ''AM'', z ''PM'', z ''Sunday'', z ''Monday'', z ''Tuesday'', z ''Wednesday'',
      z ''Thursday'', z ''Friday'', z ''Saturday'', z ''Sun'', z ''Mon'', z ''Tue'',
      z ''Wed'', z ''Thu'', z ''Fri'', z ''Sat'', z ''January'', z ''February'',
      z ''March'', z ''April'', z ''May'', z ''June'', z ''July'', z ''August'',
      z ''September'', z ''October'', z ''November'', z ''December'', z ''Jan'', z ''Feb'',
      z ''Mar'', z ''Apr'', z ''May'', z ''Jun'', z ''Jul'', z ''Aug'',
      z ''Sep'', z ''Oct'', z ''Nov'', z ''Dec'', z '''', z '''',
      z '''', z '''', z '''', z ''.'', z '''', z ''^[yY]'',
      z ''^[nN]'', z '''']"

section \<open>nl_langinfo\<close>

text \<open>
  The values of the locale categories come from the C library's \<open>locale.h\<close>.
\<close>

record lc_values =
  LC_NUMERIC :: int
  LC_TIME :: int
  LC_MONETARY :: int
  LC_MESSAGES :: int

text \<open>
  The loop that skips strings; \<open>None\<close> is a read past the end of the array. The pointer may be left one
  behind the array, where there is nothing to read.
\<close>

fun skip_strings :: "nat \<Rightarrow> string \<Rightarrow> string option" where
  "skip_strings 0 str = Some str"
| "skip_strings (Suc idx) str =
     (case dropWhile (\<lambda>c. c \<noteq> CHR 0x00) str of [] \<Rightarrow> None | _ # str \<Rightarrow> skip_strings idx str)"

text \<open>
  What the caller gets: a null pointer, a string, or a pointer that is no string inside the array.
\<close>

datatype langinfo = Null | Str string | Outside

definition string_at :: "string option \<Rightarrow> langinfo" where
  "string_at p =
     (case p of None \<Rightarrow> Outside
      | Some str \<Rightarrow> if CHR 0x00 \<in> set str then Str (takeWhile (\<lambda>c. c \<noteq> CHR 0x00) str) else Outside)"

definition nl_langinfo_l :: "lc_values \<Rightarrow> int \<Rightarrow> langinfo" where
  "nl_langinfo_l lc item =
     (let cat = item div 65536; idx = nat (item mod 65536) in
      if item = CODESET then Str ''UTF-8''
      else if cat = 0 then if idx > 55 then Null else string_at (skip_strings idx c_zero)
      else if cat = LC_NUMERIC lc then if idx > 1 then Null else string_at (skip_strings idx c_numeric)
      else if cat = LC_TIME lc then if idx > 0x31 then Null else string_at (skip_strings idx c_time)
      else if cat = LC_MONETARY lc then if idx > 0 then Null else string_at (skip_strings idx (lit []))
      else if cat = LC_MESSAGES lc then if idx > 1 then Null else string_at (skip_strings idx c_messages)
      else Null)"

definition nl_langinfo :: "lc_values \<Rightarrow> int \<Rightarrow> langinfo" where
  "nl_langinfo lc item = nl_langinfo_l lc item"

section \<open>Lists of strings\<close>

definition no_nul :: "string list \<Rightarrow> bool" where
  "no_nul ss \<longleftrightarrow> (\<forall>s \<in> set ss. CHR 0x00 \<notin> set s)"

lemma dropWhile_z: "CHR 0x00 \<notin> set s \<Longrightarrow> dropWhile (\<lambda>c. c \<noteq> CHR 0x00) (z s @ r) = CHR 0x00 # r"
  by (induction s) (auto simp: z_def)

lemma takeWhile_z: "CHR 0x00 \<notin> set s \<Longrightarrow> takeWhile (\<lambda>c. c \<noteq> CHR 0x00) (z s @ r) = s"
  by (induction s) (auto simp: z_def)

lemma skip_strings_nth:
  "no_nul ss \<Longrightarrow> n < length ss \<Longrightarrow> string_at (skip_strings n (concat (map z ss))) = Str (ss ! n)"
proof (induction n arbitrary: ss)
  case 0
  then show ?case by (cases ss) (simp_all add: no_nul_def string_at_def takeWhile_z, simp add: z_def)
next
  case (Suc n)
  then show ?case by (cases ss) (simp_all add: no_nul_def dropWhile_z)
qed

lemma skip_strings_end: "no_nul ss \<Longrightarrow> length ss \<le> n \<Longrightarrow> string_at (skip_strings n (concat (map z ss))) = Outside"
proof (induction n arbitrary: ss)
  case (Suc n)
  then show ?case by (cases ss) (simp_all add: no_nul_def dropWhile_z string_at_def)
qed (simp add: string_at_def)

definition zero_strings :: "string list" where
  "zero_strings =
     [''UTF-8'', ''UTF-8'', ''%F %T %z'', ''%F'', ''%T'', ''%I:%M:%S %p'',
      ''AM'', ''PM'', ''Sunday'', ''Monday'', ''Tuesday'', ''Wednesday'',
      ''Thursday'', ''Friday'', ''Saturday'', ''Sun'', ''Mon'', ''Tue'',
      ''Wed'', ''Thu'', ''Fri'', ''Sat'', ''January'', ''February'',
      ''March'', ''April'', ''May'', ''June'', ''July'', ''August'',
      ''September'', ''October'', ''November'', ''December'', ''Jan'', ''Feb'',
      ''Mar'', ''Apr'', ''May'', ''Jun'', ''Jul'', ''Aug'',
      ''Sep'', ''Oct'', ''Nov'', ''Dec'', '''', '''',
      '''', '''', '''', ''.'', '''', ''^[yY]'',
      ''^[nN]'', '''', '''']"

definition time_strings :: "string list" where
  "time_strings =
     [''Sun'', ''Mon'', ''Tue'', ''Wed'', ''Thu'', ''Fri'',
      ''Sat'', ''Sunday'', ''Monday'', ''Tuesday'', ''Wednesday'', ''Thursday'',
      ''Friday'', ''Saturday'', ''Jan'', ''Feb'', ''Mar'', ''Apr'',
      ''May'', ''Jun'', ''Jul'', ''Aug'', ''Sep'', ''Oct'',
      ''Nov'', ''Dec'', ''January'', ''February'', ''March'', ''April'',
      ''May'', ''June'', ''July'', ''August'', ''September'', ''October'',
      ''November'', ''December'', ''AM'', ''PM'', ''%a %b %e %T %Y'', ''%m/%d/%y'',
      ''%H:%M:%S'', ''%I:%M:%S %p'', '''', ''%m/%d/%y'', ''0123456789%a %b %e %T %Y'', ''%H:%M:%S'']"

lemma c_zero_strings: "c_zero = concat (map z zero_strings)" "no_nul zero_strings" "length zero_strings = 57"
  by (simp_all add: c_zero_def zero_strings_def lit_def z_def no_nul_def)

lemma c_time_strings: "c_time = concat (map z time_strings)" "no_nul time_strings" "length time_strings = 48"
  by (simp_all add: c_time_def time_strings_def lit_def z_def no_nul_def)

lemma zero_item: "0 \<le> i \<Longrightarrow> i \<le> 55 \<Longrightarrow> i \<noteq> CODESET \<Longrightarrow> nl_langinfo lc i = Str (zero_strings ! nat i)"
  using skip_strings_nth [OF c_zero_strings(2), of "nat i"] c_zero_strings(1,3)
  by (auto simp: nl_langinfo_def nl_langinfo_l_def Let_def)

lemma time_item:
  assumes "LC_TIME lc \<noteq> 0" "LC_TIME lc \<noteq> LC_NUMERIC lc" "0 \<le> i" "i \<le> 0x31"
  shows "nl_langinfo lc (LC_TIME lc * 65536 + i) =
    (if i < 48 then Str (time_strings ! nat i) else Outside)"
proof -
  have cat: "(LC_TIME lc * 65536 + i) div 65536 = LC_TIME lc" "(LC_TIME lc * 65536 + i) mod 65536 = i"
    using assms by simp_all
  then have "LC_TIME lc * 65536 + i \<noteq> CODESET" using assms(1) by (auto simp: CODESET_def)
  then show ?thesis
    using assms cat skip_strings_nth [OF c_time_strings(2), of "nat i"] skip_strings_end [OF c_time_strings(2), of "nat i"]
      c_time_strings(1,3)
    by (auto simp: nl_langinfo_def nl_langinfo_l_def Let_def)
qed

definition day_names :: "string list" where
  "day_names = [''Sunday'', ''Monday'', ''Tuesday'', ''Wednesday'', ''Thursday'', ''Friday'', ''Saturday'']"

definition month_names :: "string list" where
  "month_names = [''January'', ''February'', ''March'', ''April'', ''May'', ''June'', ''July'', ''August'',
     ''September'', ''October'', ''November'', ''December'']"

section \<open>Properties\<close>

text \<open>
  C40: Every item the header defines has a string, and the right one: UTF-8 as the codeset, the formats of
  date and time, the marks of the half days, the names of the days and months in order, for the
  abbreviated ones their first three letters, nothing for the eras, the alternative digits, the
  thousands separator and the currency, a point as the radix, and the two expressions for answers.
\<close>

theorem langinfo_names:
  "map (\<lambda>k. nl_langinfo lc (DAY_1 + k)) [0..6] = map Str day_names \<and>
   map (\<lambda>k. nl_langinfo lc (ABDAY_1 + k)) [0..6] = map Str (map (take 3) day_names) \<and>
   map (\<lambda>k. nl_langinfo lc (MON_1 + k)) [0..11] = map Str month_names \<and>
   map (\<lambda>k. nl_langinfo lc (ABMON_1 + k)) [0..11] = map Str (map (take 3) month_names) \<and>
   nl_langinfo lc CODESET = Str ''UTF-8'' \<and>
   nl_langinfo lc D_T_FMT = Str ''%F %T %z'' \<and> nl_langinfo lc D_FMT = Str ''%F'' \<and> nl_langinfo lc T_FMT = Str ''%T'' \<and>
   nl_langinfo lc T_FMT_AMPM = Str ''%I:%M:%S %p'' \<and> nl_langinfo lc AM_STR = Str ''AM'' \<and> nl_langinfo lc PM_STR = Str ''PM'' \<and>
   map (nl_langinfo lc) [ERA, ERA_D_FMT, ERA_D_T_FMT, ERA_T_FMT, ALT_DIGITS, THOUSEP, CRNCYSTR, INT_CURRENCY_SYMBOL]
     = replicate 8 (Str '''') \<and>
   nl_langinfo lc RADIXCHAR = Str ''.'' \<and> nl_langinfo lc YESEXPR = Str ''^[yY]'' \<and> nl_langinfo lc NOEXPR = Str ''^[nN]''"
proof (intro conjI)
  show "nl_langinfo lc CODESET = Str ''UTF-8''" by (simp add: nl_langinfo_def nl_langinfo_l_def)
qed (simp_all add: item_defs zero_item upto_rec1 zero_strings_def day_names_def month_names_def numeral_eq_Suc)

text \<open>
  The strings of the category \<open>LC_TIME\<close> run out before the items do: a NUL is missing after the
  digits of \<open>ALT_DIGITS\<close>, which therefore has the date format behind them, and the items 30 and 31
  (hexadecimal) are accepted but lie past the end of the array.
\<close>

theorem langinfo_time_outside:
  assumes "LC_TIME lc \<noteq> 0" "LC_TIME lc \<noteq> LC_NUMERIC lc"
  shows "nl_langinfo lc (LC_TIME lc * 65536 + 0x2e) = Str ''0123456789%a %b %e %T %Y'' \<and>
    nl_langinfo lc (LC_TIME lc * 65536 + 0x30) = Outside \<and>
    nl_langinfo lc (LC_TIME lc * 65536 + 0x31) = Outside"
  using time_item [OF assms] by (simp add: time_strings_def)

theorem langinfo_time_outside_witness:
  "nl_langinfo \<lparr>LC_NUMERIC = 1, LC_TIME = 2, LC_MONETARY = 4, LC_MESSAGES = 5\<rparr> 0x20030 = Outside"
  using langinfo_time_outside [of "\<lparr>LC_NUMERIC = 1, LC_TIME = 2, LC_MONETARY = 4, LC_MESSAGES = 5\<rparr>"] by simp

end
