(* ===== verification/Spec2Isabelle.thy ===== *)
theory Spec2Isabelle
  imports Wcwidth Mbsnrtowcs Ctype_Case Cpu_Features_Facts Iconv_Stream Iconv_Findings Intl Langinfo
begin

text \<open>
  A verification development for the native support libraries of the repository: the C code that is
  linked into the packages of the Android shell environment because the platform's C library lacks
  it. Paths below are relative to \<open>src/native-packages\<close>; \<open>LS\<close> is
  \<open>packages/libandroid-support/sources/src\<close>.

  \<^bold>\<open>The program.\<close> Four independent parts, which meet in the applications that link them:

  \<^item> \<open>LS/musl-ctype\<close>: character classes, case mapping and terminal column width of wide characters;
  \<^item> \<open>LS/musl-multibyte\<close>: conversion of UTF-8 strings to wide strings;
  \<^item> \<open>LS/musl-locale\<close>: \<open>iconv\<close>, the conversion between some fifty encodings, and the message functions;
    with \<open>scripts/toolchain/ndk-headers/langinfo.h\<close>, which defines \<open>nl_langinfo\<close>;
  \<^item> \<open>packages/libandroid-cpufeatures/sources\<close>: detection of the CPU family, its features and the number
    of CPUs from \<open>/proc\<close>, \<open>/sys\<close> and the auxiliary vector.

  \<^bold>\<open>Conventions.\<close> \<open>Prelude\<close> names the C integer types as words (\<open>byte\<close>, \<open>u16\<close>, \<open>u32\<close>, \<open>u64\<close>) and the read
  of an array, \<open>rd\<close>, whose result \<open>None\<close> is a read outside it; every table access of the code goes through
  such a read, so that undefined behaviour is a value and its absence is a theorem; an \<open>int\<close> that leaves
  its range is such a value too, where a long input can make it (\<open>wcswidth\<close>, the file sizes, the CPU
  lists). \<open>size_t\<close> is 64 bits wide, \<open>wchar_t\<close> 32 bits, least significant byte first; whether it is signed
  differs between the architectures and is an argument of the width functions. Loops are total functions with a measure,
  except \<open>skip_entries\<close> (\<open>partial_function\<close>: \<open>None\<close> is a loop that does not end), for which termination is
  a theorem. No fuel is used but the nesting depth of \<open>iconv\<close>: \<open>iconv = iconv_nested 2\<close>, because the
  nested call decodes from offset 0 of \<open>charmaps\<close>, which is no Big5 entry and makes no further call.

  \<^bold>\<open>Column width.\<close> \<open>Width_Tables\<close> holds the tables \<open>ZERO_WIDTH\<close> and \<open>WIDE_EASTASIAN\<close> of \<open>wcwidth.c\<close>;
  \<open>Wcwidth\<close> the binary search \<open>intable\<close>, \<open>wcwidth\<close> and \<open>wcswidth\<close>. The locale \<open>interval_table\<close> (sorted,
  disjoint intervals) proves the search equivalent to membership and free of bad reads; it is
  interpreted on both tables, from which the widths follow; the sum of a string is exact as long as it fits an \<open>int\<close>.

  \<^bold>\<open>Multibyte strings.\<close> \<open>Utf8\<close> is the reference: encoder, decoder and whole-string run of UTF-8 over
  natural numbers. \<open>Multibyte\<close> translates \<open>internal.h\<close>, \<open>internal.c\<close> (the state table \<open>bittab\<close>),
  \<open>mbsrtowcs.c\<close> with its labels and both word-at-a-time loops, \<open>mbsnrtowcs.c\<close> and \<open>mblen.c\<close>.
  \<open>Multibyte_Ascii\<close> shows that the word loops advance over plain ASCII inside aligned words;
  \<open>Mbsrtowcs\<close> that conversion and counting refine the reference run on every string without the
  sequences F4 90 to F4 9F, which the table accepts beyond U+10FFFF, the round trip with the encoder,
  the bound on the stores, and resumption behind a pending lead byte; \<open>Mbsnrtowcs\<close> the bound on the
  stores and where the bound on the reads fails.

  \<^bold>\<open>Character classes.\<close> \<open>Ctype_Tables\<close> holds \<open>alpha.h\<close> and \<open>punct.h\<close>; \<open>Ctype\<close> every \<open>isw\<close> function,
  \<open>wctype\<close>, \<open>iswctype\<close>, the case tables and \<open>towcase\<close>, \<open>towupper\<close>, \<open>towlower\<close>, \<open>wctrans\<close>, \<open>towctrans\<close>.
  The locale \<open>bitmap_table\<close> of \<open>Ctype_Bitmaps\<close> describes the two-level bitmaps and is interpreted on
  both. \<open>Ctype_Facts\<close>: no function leaves its table for any 32-bit argument; letters and punctuation are
  disjoint; printable and control characters partition Unicode; the ASCII behaviour of ISO C; the
  dispatch by name. \<open>Ctype_Case\<close> reads the case tables as rules on integers and shows that the results of
  the rules meet no rule: case mapping is idempotent on every 32-bit value.

  \<^bold>\<open>iconv: data.\<close> \<open>Iconv_Rows\<close> describes rows of \<open>unsigned short\<close>; \<open>Jis0208\<close>, \<open>Gb18030\<close>, \<open>Big5\<close>, \<open>Hkscs\<close>
  and \<open>Ksc\<close> hold the tables of the headers of those names, row by row, with the facts that each row has
  its length and no surrogate; \<open>Ksc_Hangul\<close> locates the Hangul syllables, \<open>Gb18030_Order\<close>
  shows that no code point occurs twice in \<open>gb18030\<close>. \<open>Charmaps\<close> holds the names,
  type codes and packed code pages of \<open>charmaps\<close> (\<open>codepages.h\<close>) as a list of records and as the string
  they make up, and \<open>legacy_chars\<close> (\<open>legacychars.h\<close>).

  \<^bold>\<open>iconv: code.\<close> \<open>Iconv_Open\<close>: \<open>fuzzycmp\<close>, \<open>find_charmap\<close>, \<open>iconv_open\<close>, \<open>iconv_close\<close>. \<open>Iconv_Decode\<close>: the first
  \<open>switch\<close> of \<open>iconv\<close>, one definition for each source encoding. \<open>Iconv\<close>: the second \<open>switch\<close>, the body of
  the loop, the loop, and \<open>iconv\<close> with its nested call. The output is a memory indexed by addresses
  with \<open>*out\<close>, \<open>*outb\<close> and the list of the addresses stored to, so that a store outside the caller's
  buffer is visible.

  \<^bold>\<open>iconv: theorems.\<close>

  \<^item> \<open>Iconv_Open_Facts\<close>: an encoding is found by any spelling of its aliases, the first match in the order
    of the table; which pairs of names \<open>iconv_open\<close> accepts.
  \<^item> \<open>Iconv_Unicode\<close>, \<open>Iconv_Transcode\<close>: the locales \<open>utf16_order\<close> (a byte order), \<open>utf8_libc\<close> (what is
    relied on of the C library), \<open>text_source\<close>, \<open>text_target\<close> (the two switches as encodings of a set of
    characters) and \<open>transcoding\<close>. Between Unicode encodings any text is converted exactly, and when the
    room ends the longest prefix of whole characters is.
  \<^item> \<open>Iconv_Pages\<close>: the packed tables as lists of characters; KOI8-R and KOI8-U as further instances
    of \<open>text_source\<close> and \<open>text_target\<close>, and the round trip of every byte string through Unicode.
  \<^item> \<open>Iconv_Skip\<close>: the loop over a table for GB18030 and EUC-KR ends and skips as many code points as the
    table holds below; GB18030's four-byte codes are the standard's up to U+D7FF.
  \<^item> \<open>Iconv_Sound\<close>, \<open>Iconv_Safety\<close>: the decoders yield scalar values and read inside their tables; the
    locale \<open>safe_conversion\<close> carries this through the loop. Memory safety for every pair of encodings
    but the named exceptions, what is left in \<open>errno\<close> (the nested call's included), and an underrun of the
    buffer from EUC-KR.
  \<^item> \<open>Iconv_Stream\<close>: the locale \<open>libc_prefix\<close>; conversion in pieces equals conversion at once, and eight
    bytes of room always make progress.
  \<^item> \<open>Iconv_Findings\<close>: reads outside tables and conversions that are not inverse.

  \<^bold>\<open>Message functions and locale information.\<close> \<open>Intl\<close>: \<open>intl.c\<close>. \<open>Langinfo\<close>: \<open>nl_langinfo\<close> with its strings.

  \<^bold>\<open>CPU features.\<close> \<open>Cpu_Text\<close>: \<open>get_file_size\<close>, \<open>read_file\<close>, \<open>extract_cpuinfo_field\<close>, \<open>has_list_item\<close> and the
  parsers of numbers, over files whose reads may be short or interrupted. \<open>Cpu_List\<close>: CPU masks.
  \<open>Cpu_Features\<close>: capabilities, \<open>android_cpuInit\<close> for every architecture, the public functions over the
  record of the static variables. \<open>Cpu_Text_Facts\<close> and \<open>Cpu_List_Facts\<close>: complete reads, round trips of
  the text formats, bounds. \<open>Cpu_Features_Facts\<close>: consistent feature sets, the exact features of
  AArch64, that the initialisation returns whatever the texts hold but for a final colon and overlong
  numbers, and the public functions as
  a step relation: whatever the order of the calls, the first one decides.

  \<^bold>\<open>Parameters.\<close> \<open>mbrtowc\<close>, \<open>mbtowc\<close> and \<open>wctomb\<close> belong to the platform's C library and are arguments of the
  definitions that call them. What is relied on is stated as locales (\<open>utf8_libc\<close>, \<open>libc_sane\<close>,
  \<open>libc_prefix\<close>), each interpreted on the reference of \<open>Utf8\<close>. The files, the auxiliary vector, the
  result of \<open>cpuid\<close> and the architecture are arguments of the CPU detection.

  \<^bold>\<open>Not modelled.\<close> The terminal application (Java), the build scripts and package patches; the
  declarations of \<open>iconv.h\<close>, and \<open>libintl.h\<close>, which repeats \<open>intl.c\<close> inline; \<open>nonspacing.h\<close>, which no file
  includes; the debug output of \<open>cpu-features.c\<close>; what the C library's functions themselves do to \<open>errno\<close>;
  concurrent first calls of the CPU functions, which \<open>pthread_once\<close> serialises.
\<close>

end
